(* ===== verification/Py_Prelude.thy ===== *)
theory Py_Prelude
  imports Main "HOL-Library.List_Lexorder" "HOL-Library.Char_ord"
begin

text \<open>
  Shared vocabulary of the development: text, bytes and the string operations of the Python
  standard library that the modelled modules call.

  A Python \<open>str\<close> is a \<^typ>\<open>string\<close>, one \<^typ>\<open>char\<close> per code point (code points below 256),
  and a Python \<open>bytes\<close> object is a \<^typ>\<open>string\<close> too, one \<^typ>\<open>char\<close> per byte. The character
  classes are those of Python on that range (\<open>str.isalnum\<close>, \<open>str.strip\<close>, \<open>str.lower\<close>,
  \<open>str.upper\<close>); base64, hexadecimal and decimal conversions are written out.
\<close>

named_theorems py_defs "definitions of the text and value operations"
named_theorems io_defs "definitions of the effectful operations"
named_theorems hoare_rule "composition rules for triples over effectful operations"
named_theorems spec_rule "triples of the operations of the components"

type_synonym bytes = string

abbreviation ord :: "char \<Rightarrow> nat" where
  "ord c \<equiv> of_char c"

abbreviation chr :: "nat \<Rightarrow> char" where
  "chr n \<equiv> char_of n"

section \<open>Fallible values\<close>

definition sum_bind :: "'e + 'a \<Rightarrow> ('a \<Rightarrow> 'e + 'b) \<Rightarrow> 'e + 'b" where
  "sum_bind r f = (case r of Inl e \<Rightarrow> Inl e | Inr a \<Rightarrow> f a)"

lemma sum_bind_Inr: "sum_bind r f = Inr b \<longleftrightarrow> (\<exists>a. r = Inr a \<and> f a = Inr b)"
  by (cases r) (auto simp: sum_bind_def)

lemma sum_bind_Inl: "sum_bind r f = Inl e \<longleftrightarrow> r = Inl e \<or> (\<exists>a. r = Inr a \<and> f a = Inl e)"
  by (cases r) (auto simp: sum_bind_def)

lemma sum_bind_simps [simp]: "sum_bind (Inl e) f = Inl e" "sum_bind (Inr a) f = f a"
  by (simp_all add: sum_bind_def)

definition sum_map :: "('a \<Rightarrow> 'b) \<Rightarrow> 'e + 'a \<Rightarrow> 'e + 'b" where
  "sum_map f r = sum_bind r (\<lambda>a. Inr (f a))"

lemma sum_map_simps [simp]: "sum_map f (Inl e) = Inl e" "sum_map f (Inr a) = Inr (f a)"
  by (simp_all add: sum_map_def)

definition or_error :: "'e \<Rightarrow> 'a option \<Rightarrow> 'e + 'a" where
  "or_error e r = (case r of None \<Rightarrow> Inl e | Some a \<Rightarrow> Inr a)"

lemma or_error_simps [simp]: "or_error e None = Inl e" "or_error e (Some a) = Inr a"
  by (simp_all add: or_error_def)

section \<open>Character classes\<close>

definition is_digit :: "char \<Rightarrow> bool" where
  "is_digit c \<longleftrightarrow> 48 \<le> ord c \<and> ord c \<le> 57"

definition is_lower_az :: "char \<Rightarrow> bool" where
  "is_lower_az c \<longleftrightarrow> 97 \<le> ord c \<and> ord c \<le> 122"

definition is_upper_az :: "char \<Rightarrow> bool" where
  "is_upper_az c \<longleftrightarrow> 65 \<le> ord c \<and> ord c \<le> 90"

definition is_lower_hex :: "char \<Rightarrow> bool" where
  "is_lower_hex c \<longleftrightarrow> is_digit c \<or> 97 \<le> ord c \<and> ord c \<le> 102"

definition is_hex :: "char \<Rightarrow> bool" where
  "is_hex c \<longleftrightarrow> is_lower_hex c \<or> 65 \<le> ord c \<and> ord c \<le> 70"

text \<open>\<open>str.isspace\<close>, the characters that \<open>str.strip\<close> removes.\<close>

definition is_space :: "char \<Rightarrow> bool" where
  "is_space c \<longleftrightarrow> 9 \<le> ord c \<and> ord c \<le> 13 \<or> 28 \<le> ord c \<and> ord c \<le> 32
     \<or> ord c = 133 \<or> ord c = 160"

text \<open>\<open>str.isalnum\<close>.\<close>

definition is_alnum :: "char \<Rightarrow> bool" where
  "is_alnum c \<longleftrightarrow> is_digit c \<or> is_lower_az c \<or> is_upper_az c
     \<or> ord c \<in> {170, 178, 179, 181, 185, 186, 188, 189, 190}
     \<or> 192 \<le> ord c \<and> ord c \<noteq> 215 \<and> ord c \<noteq> 247"

text \<open>A character in the ASCII range; the visible ones are those between \<open>!\<close> and \<open>~\<close>.\<close>

definition is_ascii :: "char \<Rightarrow> bool" where
  "is_ascii c \<longleftrightarrow> ord c < 128"

definition is_visible :: "char \<Rightarrow> bool" where
  "is_visible c \<longleftrightarrow> 33 \<le> ord c \<and> ord c \<le> 126"

lemmas char_class_defs [py_defs] =
  is_digit_def is_lower_az_def is_upper_az_def is_lower_hex_def is_hex_def is_space_def
  is_alnum_def is_ascii_def is_visible_def

section \<open>Case conversion, stripping, splitting\<close>

definition lower_char :: "char \<Rightarrow> char" where
  "lower_char c = (if is_upper_az c \<or> 192 \<le> ord c \<and> ord c \<le> 222 \<and> ord c \<noteq> 215
     then chr (ord c + 32) else c)"

definition py_lower :: "string \<Rightarrow> string" where
  "py_lower s = map lower_char s"

definition upper_char :: "char \<Rightarrow> string" where
  "upper_char c = (if is_lower_az c \<or> 224 \<le> ord c \<and> ord c \<le> 254 \<and> ord c \<noteq> 247
     then [chr (ord c - 32)]
     else if ord c = 223 then ''SS'' else [c])"

definition py_upper :: "string \<Rightarrow> string" where
  "py_upper s = concat (map upper_char s)"

definition py_lstrip_by :: "(char \<Rightarrow> bool) \<Rightarrow> string \<Rightarrow> string" where
  "py_lstrip_by p s = dropWhile p s"

definition py_rstrip_by :: "(char \<Rightarrow> bool) \<Rightarrow> string \<Rightarrow> string" where
  "py_rstrip_by p s = rev (dropWhile p (rev s))"

definition py_strip :: "string \<Rightarrow> string" where
  "py_strip s = py_rstrip_by is_space (py_lstrip_by is_space s)"

definition py_rstrip_char :: "char \<Rightarrow> string \<Rightarrow> string" where
  "py_rstrip_char c s = py_rstrip_by (\<lambda>x. x = c) s"

definition py_strip_char :: "char \<Rightarrow> string \<Rightarrow> string" where
  "py_strip_char c s = py_rstrip_char c (py_lstrip_by (\<lambda>x. x = c) s)"

text \<open>\<open>s.split(sep)\<close> for a one-character separator: never the empty list.\<close>

fun py_split :: "char \<Rightarrow> string \<Rightarrow> string list" where
  "py_split c [] = [[]]"
| "py_split c (x # xs) =
     (if x = c then [] # py_split c xs
      else case py_split c xs of [] \<Rightarrow> [[x]] | s # ss \<Rightarrow> (x # s) # ss)"

fun py_join :: "string \<Rightarrow> string list \<Rightarrow> string" where
  "py_join sep [] = []"
| "py_join sep [s] = s"
| "py_join sep (s # t # ss) = s @ sep @ py_join sep (t # ss)"

definition starts_with :: "string \<Rightarrow> string \<Rightarrow> bool" where
  "starts_with p s \<longleftrightarrow> take (length p) s = p"

definition ends_with :: "string \<Rightarrow> string \<Rightarrow> bool" where
  "ends_with p s \<longleftrightarrow> length p \<le> length s \<and> drop (length s - length p) s = p"

definition remove_prefix :: "string \<Rightarrow> string \<Rightarrow> string" where
  "remove_prefix p s = (if starts_with p s then drop (length p) s else s)"

text \<open>\<open>str.zfill\<close>: zeros are inserted after a leading sign.\<close>

definition py_zfill :: "nat \<Rightarrow> string \<Rightarrow> string" where
  "py_zfill n s =
     (let pad = replicate (n - length s) (CHR ''0'')
      in case s of [] \<Rightarrow> pad
         | c # cs \<Rightarrow> if c = CHR ''+'' \<or> c = CHR ''-'' then c # pad @ cs else pad @ s)"

text \<open>\<open>str.encode("utf-8")\<close> on the modelled code points.\<close>

definition utf8_char :: "char \<Rightarrow> bytes" where
  "utf8_char c = (if ord c < 128 then [c]
     else [chr (192 + ord c div 64), chr (128 + ord c mod 64)])"

definition utf8 :: "string \<Rightarrow> bytes" where
  "utf8 s = concat (map utf8_char s)"

text \<open>\<open>bytes.decode()\<close>; \<open>None\<close> is \<open>UnicodeDecodeError\<close>, or a code point that is not modelled.\<close>

fun utf8_decode :: "bytes \<Rightarrow> string option" where
  "utf8_decode [] = Some []"
| "utf8_decode (b # bs) =
     (if ord b < 128 then map_option ((#) b) (utf8_decode bs)
      else if ord b = 194 \<or> ord b = 195 then
        (case bs of
           [] \<Rightarrow> None
         | c # cs \<Rightarrow>
             if 128 \<le> ord c \<and> ord c < 192
             then map_option ((#) (chr ((ord b - 192) * 64 + (ord c - 128)))) (utf8_decode cs)
             else None)
      else None)"

lemmas string_op_defs [py_defs] =
  lower_char_def py_lower_def upper_char_def py_upper_def py_lstrip_by_def py_rstrip_by_def
  py_strip_def py_rstrip_char_def py_strip_char_def starts_with_def ends_with_def
  remove_prefix_def py_zfill_def utf8_char_def utf8_def

section \<open>Decimal numbers\<close>

definition digit_val :: "char \<Rightarrow> nat" where
  "digit_val c = ord c - 48"

definition digit_chr :: "nat \<Rightarrow> char" where
  "digit_chr n = chr (48 + n)"

fun dec_of_nat :: "nat \<Rightarrow> string" where
  "dec_of_nat n = (if n < 10 then [digit_chr n] else dec_of_nat (n div 10) @ [digit_chr (n mod 10)])"

declare dec_of_nat.simps [simp del]

definition dec_of_int :: "int \<Rightarrow> string" where
  "dec_of_int i = (if i < 0 then CHR ''-'' # dec_of_nat (nat (- i)) else dec_of_nat (nat i))"

definition nat_of_dec :: "string \<Rightarrow> nat" where
  "nat_of_dec s = foldl (\<lambda>n c. 10 * n + digit_val c) 0 s"

text \<open>
  \<open>int(text)\<close>: surrounding white space, an optional sign and decimal digits with single
  underscores between them; \<open>None\<close> is \<open>ValueError\<close>. More than 4300 digits is an error too.
\<close>

fun dec_groups :: "bool \<Rightarrow> string \<Rightarrow> string option" where
  "dec_groups prev [] = (if prev then Some [] else None)"
| "dec_groups prev (c # cs) =
     (if is_digit c then map_option ((#) c) (dec_groups True cs)
      else if c = CHR ''_'' \<and> prev then
        (case cs of [] \<Rightarrow> None | d # ds \<Rightarrow> if is_digit d then dec_groups False cs else None)
      else None)"

definition py_int_of_str :: "string \<Rightarrow> int option" where
  "py_int_of_str s =
     (let t = py_strip s;
          neg = (t \<noteq> [] \<and> hd t = CHR ''-'');
          body = (if t \<noteq> [] \<and> (hd t = CHR ''-'' \<or> hd t = CHR ''+'') then tl t else t)
      in case dec_groups False body of None \<Rightarrow> None
         | Some ds \<Rightarrow> if length ds > 4300 then None
             else Some (if neg then - int (nat_of_dec ds) else int (nat_of_dec ds)))"

section \<open>Hexadecimal\<close>

definition hex_val :: "char \<Rightarrow> nat" where
  "hex_val c = (if is_digit c then ord c - 48 else if ord c \<ge> 97 then ord c - 87 else ord c - 55)"

definition hex_chr :: "nat \<Rightarrow> char" where
  "hex_chr n = (if n < 10 then chr (48 + n) else chr (87 + n))"

text \<open>\<open>bytes.hex()\<close>.\<close>

definition bytes_hex :: "bytes \<Rightarrow> string" where
  "bytes_hex bs = concat (map (\<lambda>b. [hex_chr (ord b div 16), hex_chr (ord b mod 16)]) bs)"

text \<open>\<open>bytes.fromhex(text)\<close>: ASCII white space may stand between two bytes.\<close>

definition is_ascii_space :: "char \<Rightarrow> bool" where
  "is_ascii_space c \<longleftrightarrow> 9 \<le> ord c \<and> ord c \<le> 13 \<or> ord c = 32"

fun from_hex :: "string \<Rightarrow> bytes option" where
  "from_hex [] = Some []"
| "from_hex [c] = (if is_ascii_space c then Some [] else None)"
| "from_hex (c # d # cs) =
     (if is_ascii_space c then from_hex (d # cs)
      else if is_hex c \<and> is_hex d
        then map_option ((#) (chr (16 * hex_val c + hex_val d))) (from_hex cs)
      else None)"

text \<open>\<open>n.to_bytes(k, "big")\<close> for \<open>n < 256 ^ k\<close>.\<close>

fun to_bytes_big :: "nat \<Rightarrow> nat \<Rightarrow> bytes" where
  "to_bytes_big 0 n = []"
| "to_bytes_big (Suc k) n = to_bytes_big k (n div 256) @ [chr (n mod 256)]"

lemmas number_defs [py_defs] =
  digit_val_def digit_chr_def dec_of_int_def nat_of_dec_def py_int_of_str_def hex_val_def
  hex_chr_def bytes_hex_def is_ascii_space_def

section \<open>Base64\<close>

definition b64_chr :: "nat \<Rightarrow> char" where
  "b64_chr n = (if n < 26 then chr (65 + n) else if n < 52 then chr (71 + n)
     else if n < 62 then chr (n - 4) else if n = 62 then CHR ''+'' else CHR ''/'')"

definition b64_val :: "char \<Rightarrow> nat option" where
  "b64_val c = (if is_upper_az c then Some (ord c - 65) else if is_lower_az c then Some (ord c - 71)
     else if is_digit c then Some (ord c + 4) else if c = CHR ''+'' then Some 62
     else if c = CHR ''/'' then Some 63 else None)"

fun b64encode :: "bytes \<Rightarrow> string" where
  "b64encode [] = []"
| "b64encode [a] = [b64_chr (ord a div 4), b64_chr (ord a mod 4 * 16), CHR ''='', CHR ''='']"
| "b64encode [a, b] =
     [b64_chr (ord a div 4), b64_chr (ord a mod 4 * 16 + ord b div 16),
      b64_chr (ord b mod 16 * 4), CHR ''='']"
| "b64encode (a # b # c # xs) =
     b64_chr (ord a div 4) # b64_chr (ord a mod 4 * 16 + ord b div 16)
     # b64_chr (ord b mod 16 * 4 + ord c div 64) # b64_chr (ord c mod 64) # b64encode xs"

text \<open>
  \<open>base64.b64decode(s, validate=True)\<close>: only the alphabet, padding at the end only, a multiple
  of four characters; \<open>None\<close> is \<open>binascii.Error\<close> (a \<open>ValueError\<close>). Surplus bits of a padded
  last group are dropped, so several texts decode to the same bytes.
\<close>

fun b64decode :: "string \<Rightarrow> bytes option" where
  "b64decode [] = Some []"
| "b64decode (w # x # y # z # cs) =
     (case (b64_val w, b64_val x) of
        (Some a, Some b) \<Rightarrow>
          (if y = CHR ''='' then
             (if z = CHR ''='' \<and> cs = [] then Some [chr (a * 4 + b div 16)] else None)
           else case b64_val y of None \<Rightarrow> None
             | Some c \<Rightarrow>
                 (if z = CHR ''='' then
                    (if cs = [] then Some [chr (a * 4 + b div 16), chr (b mod 16 * 16 + c div 4)]
                     else None)
                  else case b64_val z of None \<Rightarrow> None
                    | Some d \<Rightarrow>
                        map_option (\<lambda>bs. chr (a * 4 + b div 16) # chr (b mod 16 * 16 + c div 4)
                          # chr (c mod 4 * 64 + d) # bs) (b64decode cs)))
      | _ \<Rightarrow> None)"
| "b64decode _ = None"

section \<open>Laws of the conversions\<close>
lemma b64_val_chr [simp]: "n < 64 \<Longrightarrow> b64_val (b64_chr n) = Some n"
  by (auto simp: b64_val_def b64_chr_def is_upper_az_def is_lower_az_def is_digit_def)

lemma b64_val_pad [simp]: "b64_val CHR ''='' = None"
  by (simp add: b64_val_def is_upper_az_def is_lower_az_def is_digit_def)

lemma b64_chr_pad [simp]: "n < 64 \<Longrightarrow> b64_chr n \<noteq> CHR ''=''"
  using b64_val_chr[of n] by force

lemma ord_div [simp]: "ord a div 4 < 64" "ord b div 16 < 16" "ord c div 64 < 4"
  by (rule less_mult_imp_div_less, simp)+

lemma six_bits:
  "ord a mod 4 * 16 < 64" "ord a mod 4 * 16 + ord b div 16 < 64"
  "ord b mod 16 * 4 < 64" "ord b mod 16 * 4 + ord c div 64 < 64" "ord c mod 64 < 64"
proof -
  have m: "ord a mod 4 < 4" "ord b mod 16 < 16" "ord c mod 64 < 64" by auto
  with ord_div(2)[of b] ord_div(3)[of c]
  show "ord a mod 4 * 16 < 64" "ord a mod 4 * 16 + ord b div 16 < 64"
    "ord b mod 16 * 4 < 64" "ord b mod 16 * 4 + ord c div 64 < 64" "ord c mod 64 < 64"
    by linarith+
qed

lemma regroup [simp]:
  "ord b div 16 div 16 = 0" "ord c div 64 div 4 = 0"
  "ord b div 16 mod 16 = ord b div 16" "ord c div 64 mod 4 = ord c div 64"
  "ord b div 16 * 16 + ord b mod 16 = ord b" "ord c div 64 * 64 + ord c mod 64 = ord c"
  by (simp_all add: div_less mod_less)

lemma b64_roundtrip [simp]: "b64decode (b64encode bs) = Some bs"
  by (induction bs rule: b64encode.induct) (simp_all add: six_bits regroup)

lemma is_lower_hex_hex_chr: "n < 16 \<Longrightarrow> is_lower_hex (hex_chr n)"
  by (auto simp: is_lower_hex_def hex_chr_def is_digit_def)

lemma length_bytes_hex [simp]: "length (bytes_hex bs) = 2 * length bs"
  by (induction bs) (auto simp: bytes_hex_def)

lemma bytes_hex_lower: "list_all is_lower_hex (bytes_hex bs)"
  by (induction bs) (simp_all add: bytes_hex_def is_lower_hex_hex_chr)

lemma hex_val_chr: "n < 16 \<Longrightarrow> hex_val (hex_chr n) = n \<and> is_hex (hex_chr n) \<and> \<not> is_ascii_space (hex_chr n)"
  by (auto simp: hex_val_def hex_chr_def is_hex_def is_lower_hex_def is_digit_def is_ascii_space_def)

lemma from_hex_bytes_hex [simp]: "from_hex (bytes_hex bs) = Some bs"
  by (induction bs) (simp_all add: bytes_hex_def hex_val_chr)

lemma lower_hex_fixed: "is_lower_hex c \<Longrightarrow> lower_char c = c"
  by (auto simp: py_defs)

lemma lower_char_idem [simp]: "lower_char (lower_char c) = lower_char c"
  using nat_of_char_less_256[of c] by (auto simp: lower_char_def is_upper_az_def)

lemma py_lower_idem [simp]: "py_lower (py_lower s) = py_lower s"
  by (simp add: py_lower_def)

lemma length_py_lower [simp]: "length (py_lower s) = length s" by (simp add: py_lower_def)

lemma digit_chr_props: "n < 10 \<Longrightarrow> is_digit (digit_chr n) \<and> digit_val (digit_chr n) = n"
  by (auto simp: digit_chr_def digit_val_def is_digit_def)

lemma nat_of_dec_snoc: "nat_of_dec (s @ [c]) = 10 * nat_of_dec s + digit_val c"
  by (simp add: nat_of_dec_def)

lemma nat_of_dec_of_nat [simp]: "nat_of_dec (dec_of_nat n) = n"
proof (induction n rule: dec_of_nat.induct)
  case (1 n)
  show ?case
  proof (cases "n < 10")
    case True
    then show ?thesis using digit_chr_props[of n] by (simp add: dec_of_nat.simps nat_of_dec_def)
  next
    case False
    with 1 show ?thesis using digit_chr_props[of "n mod 10"]
      by (simp add: dec_of_nat.simps[of n] nat_of_dec_snoc)
  qed
qed

lemma length_to_bytes_big [simp]: "length (to_bytes_big k n) = k" by (induction k arbitrary: n) auto

lemma length_utf8: "length s \<le> length (utf8 s)"
  by (induction s) (auto simp: utf8_def utf8_char_def)

lemma utf8_ascii: "list_all is_ascii s \<Longrightarrow> utf8 s = s"
  by (induction s) (auto simp: utf8_def utf8_char_def is_ascii_def)

lemma visible_ascii: "is_visible c \<Longrightarrow> is_ascii c"
  by (simp add: is_visible_def is_ascii_def)

text \<open>Decimal text and back.\<close>

lemma dec_of_nat_digits: "list_all is_digit (dec_of_nat n) \<and> dec_of_nat n \<noteq> []"
proof (induction n rule: dec_of_nat.induct)
  case (1 n)
  then show ?case
    using digit_chr_props[of n] digit_chr_props[of "n mod 10"]
    by (auto simp: dec_of_nat.simps[of n])
qed

lemma length_dec_mono: "m \<le> n \<Longrightarrow> length (dec_of_nat m) \<le> length (dec_of_nat n)"
proof (induction n arbitrary: m rule: dec_of_nat.induct)
  case (1 n)
  show ?case
  proof (cases "m < 10")
    case True
    then show ?thesis using dec_of_nat_digits[of n]
      by (simp add: dec_of_nat.simps[of m] Suc_le_eq)
  next
    case False
    with 1 have "length (dec_of_nat (m div 10)) \<le> length (dec_of_nat (n div 10))"
      by (simp add: div_le_mono)
    with False 1(2) show ?thesis by (simp add: dec_of_nat.simps[of m] dec_of_nat.simps[of n])
  qed
qed

lemma length_dec_of_nat: "n < 10 ^ Suc k \<Longrightarrow> length (dec_of_nat n) \<le> Suc k"
proof (induction k arbitrary: n)
  case 0
  then show ?case by (simp add: dec_of_nat.simps[of n])
next
  case (Suc k)
  from Suc.prems have "n div 10 < 10 ^ Suc k" by (auto simp: less_mult_imp_div_less mult.commute)
  from Suc.IH[OF this] show ?case by (simp add: dec_of_nat.simps[of n])
qed

lemma hd_dec_of_nat: "0 < n \<Longrightarrow> hd (dec_of_nat n) \<noteq> CHR ''0''"
proof (induction n rule: dec_of_nat.induct)
  case (1 n)
  show ?case
  proof (cases "n < 10")
    case True
    with 1 show ?thesis
      using digit_chr_props[of n] digit_val_def[of "CHR ''0''"] by (auto simp: dec_of_nat.simps[of n])
  next
    case False
    with 1 show ?thesis using dec_of_nat_digits[of "n div 10"]
      by (simp add: dec_of_nat.simps[of n])
  qed
qed

lemma dec_groups_digits: "list_all is_digit ds \<Longrightarrow> b \<or> ds \<noteq> [] \<Longrightarrow> dec_groups b ds = Some ds"
  by (induction b ds rule: dec_groups.induct) auto

lemma digit_not_space: "is_digit c \<Longrightarrow> \<not> is_space c"
  by (auto simp: is_digit_def is_space_def)

lemma py_strip_digits: "list_all is_digit s \<Longrightarrow> py_strip s = s"
proof -
  assume s: "list_all is_digit s"
  have "dropWhile is_space t = t" if "list_all is_digit t" for t
    using that by (cases t) (auto simp: digit_not_space)
  then show ?thesis using s by (simp add: py_strip_def py_lstrip_by_def py_rstrip_by_def)
qed

lemma py_int_of_dec:
  assumes "0 \<le> i" "length (dec_of_int i) \<le> 4300"
  shows "py_int_of_str (dec_of_int i) = Some i"
proof -
  let ?d = "dec_of_nat (nat i)"
  have d: "list_all is_digit ?d" "?d \<noteq> []" using dec_of_nat_digits by auto
  then have "is_digit (hd ?d)" by (cases ?d) auto
  then have "hd ?d \<noteq> CHR ''-''" "hd ?d \<noteq> CHR ''+''" by (auto simp: is_digit_def)
  with assms d show ?thesis
    by (simp add: py_int_of_str_def dec_of_int_def py_strip_digits dec_groups_digits)
qed

lemma py_strip_none: "list_all (\<lambda>c. \<not> is_space c) s \<Longrightarrow> py_strip s = s"
proof -
  assume s: "list_all (\<lambda>c. \<not> is_space c) s"
  have "dropWhile is_space t = t" if "list_all (\<lambda>c. \<not> is_space c) t" for t
    using that by (cases t) auto
  then show ?thesis using s by (simp add: py_strip_def py_lstrip_by_def py_rstrip_by_def)
qed

lemma upper_char_idem: "d \<in> set (upper_char c) \<Longrightarrow> upper_char d = [d]"
proof (cases "is_lower_az c \<or> 224 \<le> ord c \<and> ord c \<le> 254 \<and> ord c \<noteq> 247")
  case True
  assume "d \<in> set (upper_char c)"
  with True have d: "d = chr (ord c - 32)" by (auto simp: upper_char_def)
  from True have n: "65 \<le> ord c - 32" "ord c - 32 \<le> 222" "ord c - 32 \<le> 90 \<or> 192 \<le> ord c - 32"
    by (auto simp: is_lower_az_def)
  then have "ord d = ord c - 32" unfolding d by (simp add: of_char_of)
  with n show ?thesis by (auto simp: upper_char_def is_lower_az_def)
next
  case False
  assume "d \<in> set (upper_char c)"
  with False have "d = CHR ''S'' \<or> d = c \<and> ord c \<noteq> 223"
    by (auto simp: upper_char_def split: if_splits)
  then show ?thesis using False by (auto simp: upper_char_def is_lower_az_def)
qed

lemma py_upper_idem [simp]: "py_upper (py_upper s) = py_upper s"
proof -
  have "concat (map upper_char t) = t" if "\<forall>d\<in>set t. upper_char d = [d]" for t
    using that by (induction t) auto
  moreover have "\<forall>d\<in>set (py_upper s). upper_char d = [d]"
    by (auto simp: py_upper_def intro: upper_char_idem)
  ultimately have "concat (map upper_char (py_upper s)) = py_upper s" by blast
  then show ?thesis unfolding py_upper_def[of "py_upper s"] .
qed

text \<open>Decimal text without leading zeros is determined by its value.\<close>

lemma digit_chr_val: "is_digit c \<Longrightarrow> digit_chr (digit_val c) = c \<and> digit_val c < 10"
  by (auto simp: is_digit_def digit_chr_def digit_val_def)

lemma nat_of_dec_pos: "list_all is_digit s \<Longrightarrow> s \<noteq> [] \<Longrightarrow> hd s \<noteq> CHR ''0'' \<Longrightarrow> 0 < nat_of_dec s"
proof (induction s rule: rev_induct)
  case (snoc c s)
  show ?case
  proof (cases "s = []")
    case True
    moreover have "digit_chr 0 = CHR ''0''" by code_simp
    ultimately show ?thesis
      using snoc.prems digit_chr_val[of c] by (auto simp: nat_of_dec_def intro!: gr0I)
  qed (use snoc in \<open>auto simp: nat_of_dec_snoc\<close>)
qed simp

lemma dec_of_nat_of_dec:
  "list_all is_digit s \<Longrightarrow> s \<noteq> [] \<Longrightarrow> hd s \<noteq> CHR ''0'' \<Longrightarrow> dec_of_nat (nat_of_dec s) = s"
proof (induction s rule: rev_induct)
  case (snoc c s)
  then have c: "digit_chr (digit_val c) = c" "digit_val c < 10" using digit_chr_val by auto
  show ?case
  proof (cases "s = []")
    case True
    then show ?thesis using c by (simp add: nat_of_dec_def dec_of_nat.simps)
  next
    case False
    with snoc have IH: "dec_of_nat (nat_of_dec s) = s" "0 < nat_of_dec s"
      using nat_of_dec_pos[of s] by auto
    with c show ?thesis
      by (simp add: nat_of_dec_snoc dec_of_nat.simps[of "10 * nat_of_dec s + digit_val c"])
  qed
qed simp

end
