(* ===== verification/Py_Json.thy ===== *)
theory Py_Json
  imports Py_Prelude
begin

text \<open>
  JSON values and dictionaries as the Python code handles them. A \<open>dict\<close> keeps its insertion
  order, so it is an association list; \<open>d.get(k)\<close> is \<open>dict_get\<close>, \<open>{**d, k: v}\<close> is
  \<open>dict_update\<close>. A finite float is its integer ratio together with the text \<open>repr\<close> prints for
  it. Equality (\<open>py_eq\<close>) is Python's: booleans and floats compare as numbers, dictionaries
  ignore the order of their keys.
\<close>

section \<open>Values\<close>

datatype pyfloat = Finite int nat string | NaN | Infinity bool

datatype json =
    JNull
  | JBool bool
  | JInt int
  | JFloat pyfloat
  | JStr string
  | JList "json list"
  | JDict "(string \<times> json) list"

type_synonym dict = "(string \<times> json) list"

lemma size_list_elem [termination_simp]: "x \<in> set xs \<Longrightarrow> size x < Suc (size_list size xs)"
  by (induction xs) auto

lemma size_dict_elem [termination_simp]:
  "(k, v) \<in> set kvs \<Longrightarrow> size v < Suc (size_list (size_prod (size_list (\<lambda>_. 0)) size) kvs)"
  by (induction kvs) auto

section \<open>Dictionaries\<close>

definition dict_get :: "dict \<Rightarrow> string \<Rightarrow> json" where
  "dict_get d k = (case map_of d k of None \<Rightarrow> JNull | Some v \<Rightarrow> v)"

definition dict_get_or :: "dict \<Rightarrow> string \<Rightarrow> json \<Rightarrow> json" where
  "dict_get_or d k dflt = (case map_of d k of None \<Rightarrow> dflt | Some v \<Rightarrow> v)"

definition dict_has :: "dict \<Rightarrow> string \<Rightarrow> bool" where
  "dict_has d k \<longleftrightarrow> map_of d k \<noteq> None"

fun dict_put :: "dict \<Rightarrow> string \<Rightarrow> json \<Rightarrow> dict" where
  "dict_put [] k v = [(k, v)]"
| "dict_put ((k', v') # d) k v = (if k' = k then (k', v) # d else (k', v') # dict_put d k v)"

definition dict_update :: "dict \<Rightarrow> dict \<Rightarrow> dict" where
  "dict_update d kvs = foldl (\<lambda>d kv. dict_put d (fst kv) (snd kv)) d kvs"

definition dict_pop :: "dict \<Rightarrow> string \<Rightarrow> dict" where
  "dict_pop d k = filter (\<lambda>kv. fst kv \<noteq> k) d"

text \<open>\<open>set(d) == {...}\<close>: the keys are exactly the given ones.\<close>

definition keys_are :: "dict \<Rightarrow> string list \<Rightarrow> bool" where
  "keys_are d ks \<longleftrightarrow> set (map fst d) = set ks"

section \<open>Dynamic typing\<close>

definition truthy_float :: "pyfloat \<Rightarrow> bool" where
  "truthy_float f = (case f of Finite n d r \<Rightarrow> n \<noteq> 0 | _ \<Rightarrow> True)"

fun truthy :: "json \<Rightarrow> bool" where
  "truthy JNull = False"
| "truthy (JBool b) = b"
| "truthy (JInt i) = (i \<noteq> 0)"
| "truthy (JFloat f) = truthy_float f"
| "truthy (JStr s) = (s \<noteq> [])"
| "truthy (JList xs) = (xs \<noteq> [])"
| "truthy (JDict d) = (d \<noteq> [])"

definition py_or :: "json \<Rightarrow> json \<Rightarrow> json" where
  "py_or a b = (if truthy a then a else b)"

fun is_str :: "json \<Rightarrow> bool" where
  "is_str (JStr s) = True"
| "is_str _ = False"

fun is_dict :: "json \<Rightarrow> bool" where
  "is_dict (JDict d) = True"
| "is_dict _ = False"

fun is_list :: "json \<Rightarrow> bool" where
  "is_list (JList xs) = True"
| "is_list _ = False"

text \<open>\<open>isinstance(v, int)\<close> also holds of booleans; \<open>type(v) is int\<close> does not.\<close>

fun int_instance :: "json \<Rightarrow> int option" where
  "int_instance (JInt i) = Some i"
| "int_instance (JBool b) = Some (if b then 1 else 0)"
| "int_instance _ = None"

fun exact_int :: "json \<Rightarrow> int option" where
  "exact_int (JInt i) = Some i"
| "exact_int _ = None"

fun as_str :: "json \<Rightarrow> string option" where
  "as_str (JStr s) = Some s"
| "as_str _ = None"

fun as_dict :: "json \<Rightarrow> dict option" where
  "as_dict (JDict d) = Some d"
| "as_dict _ = None"

section \<open>Equality\<close>

fun num_ratio :: "json \<Rightarrow> (int \<times> nat) option" where
  "num_ratio (JInt i) = Some (i, 1)"
| "num_ratio (JBool b) = Some (if b then 1 else 0, 1)"
| "num_ratio (JFloat (Finite n d r)) = Some (n, d)"
| "num_ratio _ = None"

definition num_eq :: "json \<Rightarrow> json \<Rightarrow> bool" where
  "num_eq a b = (case (num_ratio a, num_ratio b) of
     (Some (n, d), Some (m, e)) \<Rightarrow> n * int e = m * int d
   | (None, None) \<Rightarrow> (case (a, b) of (JFloat (Infinity p), JFloat (Infinity q)) \<Rightarrow> p = q | _ \<Rightarrow> False)
   | _ \<Rightarrow> False)"

function (sequential) py_eq :: "json \<Rightarrow> json \<Rightarrow> bool" where
  "py_eq JNull JNull = True"
| "py_eq (JStr s) (JStr t) = (s = t)"
| "py_eq (JList xs) (JList ys) =
     (length xs = length ys \<and> list_all (\<lambda>(x, y). py_eq x y) (zip xs ys))"
| "py_eq (JDict d) (JDict e) =
     (length d = length e \<and>
      list_all (\<lambda>(k, v). case map_of e k of None \<Rightarrow> False | Some w \<Rightarrow> py_eq v w) d)"
| "py_eq a b = num_eq a b"
  by pat_completeness auto
termination
  by (relation "measure (\<lambda>(a, b). size a)")
     (auto simp: termination_simp dest: set_zip_leftD)

section \<open>Text of a value\<close>

definition hex_digits :: "nat \<Rightarrow> nat \<Rightarrow> string" where
  "hex_digits k n = map (\<lambda>i. hex_chr (n div 16 ^ i mod 16)) (rev [0..<k])"

definition repr_char :: "char \<Rightarrow> char \<Rightarrow> string" where
  "repr_char q c =
     (if c = q \<or> ord c = 92 then [chr 92, c]
      else if ord c = 10 then [chr 92, CHR ''n''] else if ord c = 13 then [chr 92, CHR ''r'']
      else if ord c = 9 then [chr 92, CHR ''t'']
      else if ord c < 32 \<or> 127 \<le> ord c \<and> ord c \<le> 160 \<or> ord c = 173
        then [chr 92, CHR ''x''] @ hex_digits 2 (ord c)
      else [c])"

definition repr_str :: "string \<Rightarrow> string" where
  "repr_str s = (let q = (if chr 39 \<in> set s \<and> chr 34 \<notin> set s then chr 34 else chr 39)
     in [q] @ concat (map (repr_char q) s) @ [q])"

definition float_repr :: "pyfloat \<Rightarrow> string" where
  "float_repr f = (case f of Finite n d r \<Rightarrow> r | NaN \<Rightarrow> ''nan''
     | Infinity pos \<Rightarrow> if pos then ''inf'' else ''-inf'')"

fun py_repr :: "json \<Rightarrow> string" where
  "py_repr JNull = ''None''"
| "py_repr (JBool b) = (if b then ''True'' else ''False'')"
| "py_repr (JInt i) = dec_of_int i"
| "py_repr (JFloat f) = float_repr f"
| "py_repr (JStr s) = repr_str s"
| "py_repr (JList xs) = ''['' @ py_join '', '' (map py_repr xs) @ '']''"
| "py_repr (JDict d) =
     ''{'' @ py_join '', '' (map (\<lambda>(k, v). repr_str k @ '': '' @ py_repr v) d) @ ''}''"

text \<open>\<open>str(v)\<close>.\<close>

definition py_str :: "json \<Rightarrow> string" where
  "py_str v = (case v of JStr s \<Rightarrow> s | _ \<Rightarrow> py_repr v)"

datatype conversion_error = TypeErr | ValueErr | OverflowErr

text \<open>\<open>int(v)\<close>: a finite float is truncated towards zero.\<close>

definition py_int :: "json \<Rightarrow> conversion_error + int" where
  "py_int v = (case v of
     JInt i \<Rightarrow> Inr i
   | JBool b \<Rightarrow> Inr (if b then 1 else 0)
   | JFloat (Finite n d r) \<Rightarrow> Inr (sgn n * (\<bar>n\<bar> div int d))
   | JFloat NaN \<Rightarrow> Inl ValueErr
   | JFloat (Infinity p) \<Rightarrow> Inl OverflowErr
   | JStr s \<Rightarrow> (case py_int_of_str s of None \<Rightarrow> Inl ValueErr | Some i \<Rightarrow> Inr i)
   | _ \<Rightarrow> Inl TypeErr)"

section \<open>\<open>json.dumps\<close>\<close>

text \<open>With \<open>ensure_ascii\<close> everything outside the printable ASCII range is escaped.\<close>

definition json_char :: "bool \<Rightarrow> char \<Rightarrow> string" where
  "json_char ensure_ascii c =
     (if ord c = 34 \<or> ord c = 92 then [chr 92, c]
      else if ord c = 10 then [chr 92, CHR ''n''] else if ord c = 13 then [chr 92, CHR ''r'']
      else if ord c = 9 then [chr 92, CHR ''t''] else if ord c = 12 then [chr 92, CHR ''f'']
      else if ord c = 8 then [chr 92, CHR ''b'']
      else if ord c < 32 \<or> ensure_ascii \<and> 127 \<le> ord c
        then [chr 92, CHR ''u''] @ hex_digits 4 (ord c)
      else [c])"

definition json_string :: "bool \<Rightarrow> string \<Rightarrow> string" where
  "json_string ensure_ascii s = [chr 34] @ concat (map (json_char ensure_ascii) s) @ [chr 34]"

definition json_float :: "pyfloat \<Rightarrow> string" where
  "json_float f = (case f of Finite n d r \<Rightarrow> r | NaN \<Rightarrow> ''NaN''
     | Infinity pos \<Rightarrow> if pos then ''Infinity'' else ''-Infinity'')"

record dumps_options =
  ensure_ascii :: bool
  item_separator :: string
  key_separator :: string
  sort_keys :: bool

function (sequential) json_dumps :: "dumps_options \<Rightarrow> json \<Rightarrow> string" where
  "json_dumps opt JNull = ''null''"
| "json_dumps opt (JBool b) = (if b then ''true'' else ''false'')"
| "json_dumps opt (JInt i) = dec_of_int i"
| "json_dumps opt (JFloat f) = json_float f"
| "json_dumps opt (JStr s) = json_string (ensure_ascii opt) s"
| "json_dumps opt (JList xs) =
     ''['' @ py_join (item_separator opt) (map (json_dumps opt) xs) @ '']''"
| "json_dumps opt (JDict d) =
     ''{'' @ py_join (item_separator opt)
       (map (\<lambda>(k, v). json_string (ensure_ascii opt) k @ key_separator opt @ json_dumps opt v)
         (if sort_keys opt then sort_key fst d else d)) @ ''}''"
  by pat_completeness auto
termination
  by (relation "measure (\<lambda>(opt, v). size v)")
     (auto simp: termination_simp split: if_splits)

text \<open>\<open>allow_nan=False\<close> raises \<open>ValueError\<close> unless every number is finite.\<close>

fun finite_json :: "json \<Rightarrow> bool" where
  "finite_json (JFloat f) = (case f of Finite n d r \<Rightarrow> True | _ \<Rightarrow> False)"
| "finite_json (JList xs) = list_all finite_json xs"
| "finite_json (JDict d) = list_all (\<lambda>(k, v). finite_json v) d"
| "finite_json _ = True"

text \<open>\<open>json.dumps(v, sort_keys=True, separators=(",", ":"))\<close>, and the same without sorting.\<close>

definition compact_sorted :: dumps_options where
  "compact_sorted = \<lparr>ensure_ascii = True, item_separator = '','', key_separator = '':'',
     sort_keys = True\<rparr>"

definition compact :: dumps_options where
  "compact = \<lparr>ensure_ascii = True, item_separator = '','', key_separator = '':'',
     sort_keys = False\<rparr>"

section \<open>\<open>json.loads\<close>\<close>

text \<open>
  The decoder with its two hooks, where \<open>None\<close> is the \<open>ValueError\<close> a hook raises: \<open>parse_float\<close>
  converts a number with a fraction or an exponent, \<open>parse_constant\<close> the non-finite constants;
  with \<open>unique_keys\<close> a repeated key of an object is an error (an \<open>object_pairs_hook\<close> that rejects it). A
  repeated key keeps its first position and its last value. The fuel is the length of the text:
  every call consumes a character.
\<close>

text \<open>
  \<open>JsonSyntax\<close> is a \<open>JSONDecodeError\<close>; \<open>JsonNumber\<close> is the plain \<open>ValueError\<close> of a hook or of an
  integer beyond the digit limit.
\<close>

datatype json_error = JsonSyntax | JsonNumber

record json_hooks =
  parse_float :: "string \<Rightarrow> pyfloat option"
  parse_constant :: "string \<Rightarrow> pyfloat option"
  unique_keys :: bool

definition json_constant :: "string \<Rightarrow> pyfloat option" where
  "json_constant t = (if t = ''NaN'' then Some NaN else if t = ''Infinity'' then Some (Infinity True)
     else if t = ''-Infinity'' then Some (Infinity False) else None)"

text \<open>The hooks of a plain \<open>json.loads\<close>, where \<open>flt\<close> is the conversion \<open>float(text)\<close>.\<close>

definition default_hooks :: "(string \<Rightarrow> pyfloat) \<Rightarrow> json_hooks" where
  "default_hooks flt = \<lparr>parse_float = (\<lambda>t. Some (flt t)), parse_constant = json_constant,
     unique_keys = False\<rparr>"

definition json_space :: "char \<Rightarrow> bool" where
  "json_space c \<longleftrightarrow> ord c = 32 \<or> ord c = 9 \<or> ord c = 10 \<or> ord c = 13"

definition skip_space :: "string \<Rightarrow> string" where
  "skip_space s = dropWhile json_space s"

definition json_escape :: "char \<Rightarrow> char option" where
  "json_escape c =
     (if ord c = 34 \<or> ord c = 92 \<or> ord c = 47 then Some c
      else if c = CHR ''b'' then Some (chr 8) else if c = CHR ''f'' then Some (chr 12)
      else if c = CHR ''n'' then Some (chr 10) else if c = CHR ''r'' then Some (chr 13)
      else if c = CHR ''t'' then Some (chr 9) else None)"

definition hex4 :: "char \<Rightarrow> char \<Rightarrow> char \<Rightarrow> char \<Rightarrow> nat option" where
  "hex4 a b c d = (if is_hex a \<and> is_hex b \<and> is_hex c \<and> is_hex d
     then Some (((hex_val a * 16 + hex_val b) * 16 + hex_val c) * 16 + hex_val d) else None)"

text \<open>The characters up to the closing quote.\<close>

fun json_chars :: "string \<Rightarrow> (string \<times> string) option" where
  "json_chars [] = None"
| "json_chars (c # cs) =
     (if ord c = 34 then Some ([], cs)
      else if ord c = 92 then
        (case cs of
           [] \<Rightarrow> None
         | e # ds \<Rightarrow>
             (case json_escape e of
                Some x \<Rightarrow> map_option (\<lambda>(s, r). (x # s, r)) (json_chars ds)
              | None \<Rightarrow>
                  (case ds of
                     h1 # h2 # h3 # h4 # rest \<Rightarrow>
                       (case (if e = CHR ''u'' then hex4 h1 h2 h3 h4 else None) of
                          Some n \<Rightarrow> (if n < 256
                            then map_option (\<lambda>(s, r). (chr n # s, r)) (json_chars rest) else None)
                        | None \<Rightarrow> None)
                   | _ \<Rightarrow> None)))
      else if ord c < 32 then None
      else map_option (\<lambda>(s, r). (c # s, r)) (json_chars cs))"

text \<open>A number: its integer part, then the fraction and the exponent.\<close>

definition json_int_part :: "string \<Rightarrow> string \<times> string" where
  "json_int_part s = (case s of
     c # cs \<Rightarrow> if c = CHR ''0'' then ([c], cs) else (takeWhile is_digit s, dropWhile is_digit s)
   | [] \<Rightarrow> ([], []))"

definition json_fraction :: "string \<Rightarrow> string \<times> string" where
  "json_fraction s = (case s of
     c # d # cs \<Rightarrow> if c = CHR ''.'' \<and> is_digit d
       then (c # takeWhile is_digit (d # cs), dropWhile is_digit (d # cs)) else ([], s)
   | _ \<Rightarrow> ([], s))"

definition json_exponent :: "string \<Rightarrow> string \<times> string" where
  "json_exponent s = (case s of
     c # cs \<Rightarrow>
       if c = CHR ''e'' \<or> c = CHR ''E'' then
         (let sign = takeWhile (\<lambda>x. x = CHR ''+'' \<or> x = CHR ''-'') (take 1 cs);
              digits = takeWhile is_digit (drop (length sign) cs)
          in if digits = [] then ([], s)
             else (c # sign @ digits, drop (length sign + length digits) cs))
       else ([], s)
   | [] \<Rightarrow> ([], s))"

definition json_number :: "json_hooks \<Rightarrow> string \<Rightarrow> json_error + json \<times> string" where
  "json_number h s =
     (let neg = (s \<noteq> [] \<and> hd s = CHR ''-'');
          (ip, r1) = json_int_part (if neg then tl s else s);
          (fp, r2) = json_fraction r1;
          (ep, r3) = json_exponent r2;
          sign = (if neg then ''-'' else [])
      in if ip = [] then Inl JsonSyntax
         else if fp = [] \<and> ep = [] then
           (if length ip > 4300 then Inl JsonNumber
            else Inr (JInt (if neg then - int (nat_of_dec ip) else int (nat_of_dec ip)), r3))
         else sum_map (\<lambda>f. (JFloat f, r3)) (or_error JsonNumber (parse_float h (sign @ ip @ fp @ ep))))"

fun json_value :: "json_hooks \<Rightarrow> nat \<Rightarrow> string \<Rightarrow> json_error + json \<times> string"
  and json_items :: "json_hooks \<Rightarrow> nat \<Rightarrow> string \<Rightarrow> json_error + json list \<times> string"
  and json_members :: "json_hooks \<Rightarrow> nat \<Rightarrow> dict \<Rightarrow> string \<Rightarrow> json_error + dict \<times> string" where
  "json_value h 0 s = Inl JsonSyntax"
| "json_value h (Suc n) s =
     (case s of
        [] \<Rightarrow> Inl JsonSyntax
      | c # cs \<Rightarrow>
          if ord c = 34 then sum_map (\<lambda>(t, r). (JStr t, r)) (or_error JsonSyntax (json_chars cs))
          else if c = CHR ''['' then
            (case skip_space cs of
               d # ds \<Rightarrow> if d = CHR '']'' then Inr (JList [], ds)
                 else sum_map (\<lambda>(xs, r). (JList xs, r)) (json_items h n (d # ds))
             | [] \<Rightarrow> Inl JsonSyntax)
          else if c = CHR ''{'' then
            (case skip_space cs of
               d # ds \<Rightarrow> if d = CHR ''}'' then Inr (JDict [], ds)
                 else sum_map (\<lambda>(d, r). (JDict d, r)) (json_members h n [] (d # ds))
             | [] \<Rightarrow> Inl JsonSyntax)
          else if starts_with ''null'' s then Inr (JNull, drop 4 s)
          else if starts_with ''true'' s then Inr (JBool True, drop 4 s)
          else if starts_with ''false'' s then Inr (JBool False, drop 5 s)
          else if starts_with ''NaN'' s then
            sum_map (\<lambda>f. (JFloat f, drop 3 s)) (or_error JsonNumber (parse_constant h ''NaN''))
          else if starts_with ''Infinity'' s then
            sum_map (\<lambda>f. (JFloat f, drop 8 s)) (or_error JsonNumber (parse_constant h ''Infinity''))
          else if starts_with ''-Infinity'' s then
            sum_map (\<lambda>f. (JFloat f, drop 9 s)) (or_error JsonNumber (parse_constant h ''-Infinity''))
          else json_number h s)"
| "json_items h 0 s = Inl JsonSyntax"
| "json_items h (Suc n) s =
     (case json_value h n s of
        Inl e \<Rightarrow> Inl e
      | Inr (v, r) \<Rightarrow>
          (case skip_space r of
             [] \<Rightarrow> Inl JsonSyntax
           | c # cs \<Rightarrow>
               if c = CHR '']'' then Inr ([v], cs)
               else if c = CHR '','' then
                 sum_map (\<lambda>(vs, r'). (v # vs, r')) (json_items h n (skip_space cs))
               else Inl JsonSyntax))"
| "json_members h 0 d s = Inl JsonSyntax"
| "json_members h (Suc n) d s =
     (case s of
        [] \<Rightarrow> Inl JsonSyntax
      | c # cs \<Rightarrow>
          if ord c \<noteq> 34 then Inl JsonSyntax
          else case json_chars cs of
            None \<Rightarrow> Inl JsonSyntax
          | Some (k, r) \<Rightarrow>
              (case skip_space r of
                 [] \<Rightarrow> Inl JsonSyntax
               | colon # r1 \<Rightarrow>
                   if colon \<noteq> CHR '':'' then Inl JsonSyntax
                   else case json_value h n (skip_space r1) of
                     Inl e \<Rightarrow> Inl e
                   | Inr (v, r2) \<Rightarrow>
                       (if unique_keys h \<and> dict_has d k then Inl JsonNumber
                        else case skip_space r2 of
                          [] \<Rightarrow> Inl JsonSyntax
                        | e # r3 \<Rightarrow>
                            if e = CHR ''}'' then Inr (dict_put d k v, r3)
                            else if e = CHR '','' then
                              json_members h n (dict_put d k v) (skip_space r3)
                            else Inl JsonSyntax)))"

definition json_decode :: "json_hooks \<Rightarrow> string \<Rightarrow> json_error + json" where
  "json_decode h s =
     sum_bind (json_value h (Suc (length s)) (skip_space s)) (\<lambda>(v, r).
       if skip_space r = [] then Inr v else Inl JsonSyntax)"

definition json_parse :: "json_hooks \<Rightarrow> string \<Rightarrow> json option" where
  "json_parse h s = (case json_decode h s of Inl e \<Rightarrow> None | Inr v \<Rightarrow> Some v)"

lemmas json_op_defs [py_defs] =
  dict_get_def dict_get_or_def dict_has_def dict_update_def dict_pop_def keys_are_def
  truthy_float_def py_or_def num_eq_def hex_digits_def repr_char_def repr_str_def float_repr_def
  py_str_def py_int_def json_char_def json_string_def json_float_def compact_sorted_def compact_def

section \<open>Laws of dictionaries and equality\<close>

lemma dict_get_Nil [simp]: "dict_get [] k = JNull"
  by (simp add: dict_get_def)

lemma dict_get_Cons [simp]: "dict_get ((k', v) # d) k = (if k' = k then v else dict_get d k)"
  by (simp add: dict_get_def)

lemma dict_has_Nil [simp]: "\<not> dict_has [] k"
  by (simp add: dict_has_def)

lemma dict_has_Cons [simp]: "dict_has ((k', v) # d) k \<longleftrightarrow> k' = k \<or> dict_has d k"
  by (simp add: dict_has_def)

lemma dict_get_put [simp]:
  "dict_get (dict_put d k v) k' = (if k = k' then v else dict_get d k')"
  by (induction d k v rule: dict_put.induct) auto

lemma dict_has_put [simp]: "dict_has (dict_put d k v) k' \<longleftrightarrow> k = k' \<or> dict_has d k'"
  by (induction d k v rule: dict_put.induct) auto

lemma dict_update_Nil [simp]: "dict_update d [] = d"
  by (simp add: dict_update_def)

lemma dict_update_Cons [simp]:
  "dict_update d ((k, v) # kvs) = dict_update (dict_put d k v) kvs"
  by (simp add: dict_update_def)

lemma dict_get_pop [simp]:
  "dict_get (dict_pop d k) k' = (if k = k' then JNull else dict_get d k')"
  by (induction d) (auto simp: dict_pop_def)

lemma dict_has_pop [simp]: "dict_has (dict_pop d k) k' \<longleftrightarrow> k \<noteq> k' \<and> dict_has d k'"
  by (induction d) (auto simp: dict_pop_def)

lemma keys_dict_put: "fst ` set (dict_put d k v) = insert k (fst ` set d)"
  by (induction d k v rule: dict_put.induct) auto

lemma distinct_dict_put:
  "distinct (map fst d) \<Longrightarrow> distinct (map fst (dict_put d k v))"
  by (induction d k v rule: dict_put.induct) (auto simp: keys_dict_put)

lemma dict_get_not_has: "\<not> dict_has d k \<Longrightarrow> dict_get d k = JNull"
  by (simp add: dict_has_def dict_get_def)

lemma num_eq_not_container [simp]:
  "\<not> num_eq (JStr s) v" "\<not> num_eq v (JStr s)" "\<not> num_eq JNull v" "\<not> num_eq v JNull"
  "\<not> num_eq (JDict d) v" "\<not> num_eq v (JDict d)" "\<not> num_eq (JList xs) v" "\<not> num_eq v (JList xs)"
  by (auto simp: num_eq_def split: option.splits json.splits pyfloat.splits)

text \<open>A comparison with a string, with \<open>None\<close> or of two integers is exact.\<close>

lemma py_eq_JStr [simp]: "py_eq v (JStr s) \<longleftrightarrow> v = JStr s" "py_eq (JStr s) v \<longleftrightarrow> v = JStr s"
  by (cases v; auto)+

lemma py_eq_JNull [simp]: "py_eq v JNull \<longleftrightarrow> v = JNull" "py_eq JNull v \<longleftrightarrow> v = JNull"
  by (cases v; auto)+

lemma py_eq_JInt [simp]: "py_eq (JInt i) (JInt j) \<longleftrightarrow> i = j"
  by (simp add: num_eq_def)

lemma py_eq_dict_dict: "py_eq (JDict d) v \<Longrightarrow> \<exists>e. v = JDict e \<and> length d = length e"
  by (cases v) auto

lemma as_str_Some [simp]: "as_str v = Some s \<longleftrightarrow> v = JStr s"
  by (cases v) auto

lemma as_dict_Some [simp]: "as_dict v = Some d \<longleftrightarrow> v = JDict d"
  by (cases v) auto

lemma exact_int_Some [simp]: "exact_int v = Some i \<longleftrightarrow> v = JInt i"
  by (cases v) auto

lemma py_str_JStr [simp]: "py_str (JStr s) = s"
  by (simp add: py_str_def)

lemma py_int_JInt [simp]: "py_int (JInt i) = Inr i"
  by (simp add: py_int_def)

text \<open>
  Values as the JSON decoder and the code build them: no NaN, and the keys of a dictionary are
  distinct. On them \<open>py_eq\<close> is reflexive.
\<close>

fun plain_json :: "json \<Rightarrow> bool" where
  "plain_json (JFloat f) = (case f of NaN \<Rightarrow> False | _ \<Rightarrow> True)"
| "plain_json (JList xs) = list_all plain_json xs"
| "plain_json (JDict d) = (distinct (map fst d) \<and> list_all (\<lambda>(k, v). plain_json v) d)"
| "plain_json _ = True"

lemma py_eq_refl: "plain_json v \<Longrightarrow> py_eq v v"
proof (induction v)
  case (JFloat f)
  then show ?case by (cases f) (auto simp: num_eq_def)
next
  case (JList xs)
  then show ?case by (auto simp: list_all_iff set_zip)
next
  case (JDict d)
  have "map_of d k = Some v \<and> py_eq v v" if "(k, v) \<in> set d" for k v
    using JDict that by (force simp: list_all_iff intro: map_of_is_SomeI)
  then show ?case by (fastforce simp: list_all_iff)
qed (auto simp: num_eq_def)

end
