(* ===== verification/X402_Tokens.thy ===== *)
theory X402_Tokens
  imports Py_Json
begin

text \<open>
  The payment token registry (\<open>x402_tokens.py\<close>) and the settlement outcome
  (\<open>x402_settlement.py\<close>).
\<close>

section \<open>Registry\<close>

record payment_token =
  symbol :: string
  address :: string
  decimals :: nat
  domain_name :: string
  domain_version :: string
  transfer_method :: string

definition token_amount :: "payment_token \<Rightarrow> nat" where
  "token_amount t = 10 ^ decimals t"

definition token_domain :: "payment_token \<Rightarrow> string \<times> string" where
  "token_domain t = (domain_name t, domain_version t)"

definition U_TOKEN :: payment_token where
  "U_TOKEN = \<lparr>symbol = ''U'', address = ''0xcE24439F2D9C6a2289F741120FE202248B666666'',
     decimals = 18, domain_name = ''United Stables'', domain_version = ''1'',
     transfer_method = ''eip3009''\<rparr>"

definition USD1_TOKEN :: payment_token where
  "USD1_TOKEN = \<lparr>symbol = ''USD1'', address = ''0x8d0D000Ee44948FC98c9B98A4FA4921476f08B0d'',
     decimals = 18, domain_name = ''World Liberty Financial USD'', domain_version = ''1'',
     transfer_method = ''eip3009''\<rparr>"

definition USDC_TOKEN :: payment_token where
  "USDC_TOKEN = \<lparr>symbol = ''USDC'', address = ''0x8AC76a51cc950d9822D68b83fE1Ad97B32Cd580d'',
     decimals = 18, domain_name = ''USD Coin'', domain_version = ''1'',
     transfer_method = ''permit2-exact''\<rparr>"

definition USDT_TOKEN :: payment_token where
  "USDT_TOKEN = \<lparr>symbol = ''USDT'', address = ''0x55d398326f99059fF775485246999027B3197955'',
     decimals = 18, domain_name = ''Tether USD'', domain_version = ''1'',
     transfer_method = ''permit2-exact''\<rparr>"

definition TOKENS :: "payment_token list" where
  "TOKENS = [U_TOKEN, USD1_TOKEN, USDC_TOKEN, USDT_TOKEN]"

definition BY_ASSET :: "(string \<times> payment_token) list" where
  "BY_ASSET = map (\<lambda>t. (py_lower (address t), t)) TOKENS"

definition supported_assets :: "dict list" where
  "supported_assets = map (\<lambda>t. [(''symbol'', JStr (symbol t)), (''asset'', JStr (address t)),
     (''decimals'', JInt (int (decimals t))), (''transferMethod'', JStr (transfer_method t))]) TOKENS"

definition token_by_asset :: "json \<Rightarrow> payment_token option" where
  "token_by_asset asset =
     (case asset of JStr s \<Rightarrow> map_of BY_ASSET (py_lower s) | _ \<Rightarrow> None)"

lemmas token_defs = U_TOKEN_def USD1_TOKEN_def USDC_TOKEN_def USDT_TOKEN_def TOKENS_def

text \<open>The four canonical lower-case addresses, as the registry's index holds them.\<close>

lemma lower_addresses:
  "py_lower ''0xcE24439F2D9C6a2289F741120FE202248B666666'' = ''0xce24439f2d9c6a2289f741120fe202248b666666''"
  "py_lower ''0x8d0D000Ee44948FC98c9B98A4FA4921476f08B0d'' = ''0x8d0d000ee44948fc98c9b98a4fa4921476f08b0d''"
  "py_lower ''0x8AC76a51cc950d9822D68b83fE1Ad97B32Cd580d'' = ''0x8ac76a51cc950d9822d68b83fe1ad97b32cd580d''"
  "py_lower ''0x55d398326f99059fF775485246999027B3197955'' = ''0x55d398326f99059ff775485246999027b3197955''"
  by code_simp+

lemma token_by_asset_Some:
  "token_by_asset v = Some t \<Longrightarrow>
     \<exists>s. v = JStr s \<and> t \<in> set TOKENS \<and> py_lower s = py_lower (address t)"
  by (auto simp: token_by_asset_def BY_ASSET_def split: json.splits dest!: map_of_SomeD)

lemma token_transfer_method:
  "t \<in> set TOKENS \<Longrightarrow> transfer_method t = ''eip3009'' \<or> transfer_method t = ''permit2-exact''"
  by (auto simp: token_defs)

section \<open>Settlement outcome\<close>

datatype settlement_status = Settled | Pending | Rejected

record settlement_outcome =
  status :: settlement_status
  transaction :: "string option"
  reason :: "string option"

definition valid_reference :: "string \<Rightarrow> bool" where
  "valid_reference s \<longleftrightarrow> 1 \<le> length s \<and> length s \<le> 4096 \<and> list_all is_visible s"

definition valid_settlement_reference :: "json \<Rightarrow> bool" where
  "valid_settlement_reference v = (case v of JStr s \<Rightarrow> valid_reference s | _ \<Rightarrow> False)"

definition opt_str :: "string option \<Rightarrow> json" where
  "opt_str x = (case x of None \<Rightarrow> JNull | Some s \<Rightarrow> JStr s)"

text \<open>
  The constructor with its \<open>__post_init__\<close> check; \<open>None\<close> is the \<open>ValueError\<close> it raises.
\<close>

definition mk_outcome ::
  "settlement_status \<Rightarrow> string option \<Rightarrow> string option \<Rightarrow> settlement_outcome option" where
  "mk_outcome st tx rs =
     (if st = Settled \<and> \<not> valid_settlement_reference (opt_str tx) then None
      else if st = Pending \<and> \<not> valid_settlement_reference (opt_str tx) then None
      else if st = Rejected \<and> tx \<noteq> None then None
      else Some \<lparr>status = st, transaction = tx, reason = rs\<rparr>)"

definition outcome_ok :: "settlement_outcome \<Rightarrow> bool" where
  "outcome_ok r = (case status r of
     Rejected \<Rightarrow> transaction r = None
   | _ \<Rightarrow> (\<exists>s. transaction r = Some s \<and> valid_reference s))"

lemma mk_outcome_ok: "mk_outcome st tx rs = Some r \<Longrightarrow> outcome_ok r"
  by (cases st; cases tx)
     (auto simp: mk_outcome_def outcome_ok_def valid_settlement_reference_def opt_str_def
        split: if_splits)

lemma valid_settlement_reference_JStr [simp]:
  "valid_settlement_reference (JStr s) \<longleftrightarrow> valid_reference s"
  by (simp add: valid_settlement_reference_def)

end
