(* ===== verification/X402_Effects.thy ===== *)
theory X402_Effects
  imports X402_Tokens
begin

text \<open>
  How the asynchronous, exception-raising methods of the service are modelled.

  A method is a function from the system state to a result and the new state. The result is a
  sum: \<^const>\<open>Inl\<close> an exception, \<^const>\<open>Inr\<close> the returned value. The state holds the world of
  the external services (S3, the clock, the facilitator), which the code cannot see into, and the
  trace of what the code did: every durable write and every external call that matters leaves an
  event. The external services themselves are a record of functions, an argument of every
  definition that uses them.
\<close>

section \<open>Exceptions\<close>

text \<open>
  \<open>asyncio.CancelledError\<close> is not an \<open>Exception\<close>: \<open>except Exception\<close> does not catch it.
  \<open>JobIdentityCollision\<close> and \<open>SettlementIndeterminate\<close> are subclasses of \<open>X402JobError\<close>.
\<close>

datatype job_error_class = PlainJobError | IdentityCollision | Indeterminate

record job_error =
  err_class :: job_error_class
  err_code :: string
  err_retryable :: bool
  err_retry_after :: "int option"
  err_payment_response :: "dict option"

datatype exn =
    Cancelled
  | X402JobError job_error
  | X402JobStoreError
  | JobConflict
  | ClientError string "int option"
  | WalletRateLimitExceeded int
  | WalletRateLimitUnavailable
  | MissingReport
  | EmptyAnalysisResponse
  | TimeoutError
  | ValueError
  | TypeError
  | OverflowError
  | B402Rejected string
  | B402Indeterminate
  | OtherException

definition job_error_exn :: "string \<Rightarrow> exn" where
  "job_error_exn code = X402JobError \<lparr>err_class = PlainJobError, err_code = code,
     err_retryable = False, err_retry_after = None, err_payment_response = None\<rparr>"

definition retryable_error_exn :: "string \<Rightarrow> exn" where
  "retryable_error_exn code = X402JobError \<lparr>err_class = PlainJobError, err_code = code,
     err_retryable = True, err_retry_after = None, err_payment_response = None\<rparr>"

definition SettlementIndeterminate :: exn where
  "SettlementIndeterminate = X402JobError \<lparr>err_class = Indeterminate,
     err_code = ''settlement_pending'', err_retryable = True, err_retry_after = None,
     err_payment_response = None\<rparr>"

definition JobIdentityCollision :: exn where
  "JobIdentityCollision = X402JobError \<lparr>err_class = IdentityCollision,
     err_code = ''job_identity_collision'', err_retryable = False, err_retry_after = None,
     err_payment_response = None\<rparr>"

definition conversion_exn :: "conversion_error \<Rightarrow> exn" where
  "conversion_exn e = (case e of TypeErr \<Rightarrow> TypeError | ValueErr \<Rightarrow> ValueError
     | OverflowErr \<Rightarrow> OverflowError)"

lemmas exn_defs = job_error_exn_def retryable_error_exn_def SettlementIndeterminate_def
  JobIdentityCollision_def

section \<open>External services\<close>

record put_request =
  put_bucket :: string
  put_key :: string
  put_body :: bytes
  put_content_type :: string
  put_cache_control :: string
  put_if_none_match :: bool
  put_if_match :: "string option"

record 'w services =
  put_object :: "put_request \<Rightarrow> 'w \<Rightarrow> (exn + string) \<times> 'w"
  get_object :: "string \<Rightarrow> string \<Rightarrow> 'w \<Rightarrow> (exn + (bytes \<times> string)) \<times> 'w"
  presign_url :: "string \<Rightarrow> string \<Rightarrow> nat \<Rightarrow> 'w \<Rightarrow> (exn + string) \<times> 'w"
  clock :: "'w \<Rightarrow> int \<times> 'w"
  conflict_delay :: "nat \<Rightarrow> 'w \<Rightarrow> (exn + json) \<times> 'w"
  sleep :: "'w \<Rightarrow> (exn + unit) \<times> 'w"
  token_hex :: "'w \<Rightarrow> string \<times> 'w"
  float_of :: "string \<Rightarrow> pyfloat"
  sha256 :: "bytes \<Rightarrow> bytes"
  hmac_sha256 :: "bytes \<Rightarrow> bytes \<Rightarrow> bytes"

text \<open>\<open>json.loads(body.decode())\<close>: both errors are \<open>ValueError\<close>s.\<close>

definition json_loads :: "('w, 's) services_scheme \<Rightarrow> bytes \<Rightarrow> exn + json" where
  "json_loads E body = (case utf8_decode body of
     None \<Rightarrow> Inl ValueError
   | Some text \<Rightarrow>
       (case json_parse (default_hooks (float_of E)) text of None \<Rightarrow> Inl ValueError | Some v \<Rightarrow> Inr v))"

section \<open>Events and state\<close>

text \<open>
  A conditional write leaves two events: one when the request is sent and one when the service
  acknowledges it. A write whose acknowledgement is lost may have been applied all the same, so
  what every write guarantees is stated of the first and what must be durable of the second.
\<close>

datatype event =
    JobCreateSent dict
  | JobCreated dict
  | JobReplaceSent dict dict
  | JobReplaced dict dict
  | WalletCreateSent string dict
  | WalletCreated string dict
  | WalletReplaceSent string dict dict
  | WalletReplaced string dict dict
  | MarkerCreated string dict
  | ReportStored string "string option" string
  | SettleCalled dict string string
  | SettleReturned settlement_outcome
  | CompetitionReported string string int
  | JobSpawned string
  | AccountingSpawned string
  | UsageSucceeded string string int

record 'w sys =
  world :: 'w
  events :: "event list"

type_synonym ('w, 'z, 'a) io = "('w, 'z) sys_scheme \<Rightarrow> (exn + 'a) \<times> ('w, 'z) sys_scheme"

section \<open>Composition\<close>

definition io_return :: "'a \<Rightarrow> ('w, 'z, 'a) io" where
  "io_return a s = (Inr a, s)"

definition io_raise :: "exn \<Rightarrow> ('w, 'z, 'a) io" where
  "io_raise e s = (Inl e, s)"

definition io_bind :: "('w, 'z, 'a) io \<Rightarrow> ('a \<Rightarrow> ('w, 'z, 'b) io) \<Rightarrow> ('w, 'z, 'b) io" where
  "io_bind m f s = (case m s of (Inl e, s') \<Rightarrow> (Inl e, s') | (Inr a, s') \<Rightarrow> f a s')"

text \<open>\<open>try: m except: h\<close>, where \<open>h\<close> sees every exception and re-raises what it does not handle.\<close>

definition io_catch :: "('w, 'z, 'a) io \<Rightarrow> (exn \<Rightarrow> ('w, 'z, 'a) io) \<Rightarrow> ('w, 'z, 'a) io" where
  "io_catch m h s = (case m s of (Inl e, s') \<Rightarrow> h e s' | (Inr a, s') \<Rightarrow> (Inr a, s'))"

text \<open>
  \<open>try: a = m except: h else: continue with f\<close>: the handler replaces the rest.
\<close>

definition io_try_bind ::
  "('w, 'z, 'a) io \<Rightarrow> (exn \<Rightarrow> ('w, 'z, 'b) io) \<Rightarrow> ('a \<Rightarrow> ('w, 'z, 'b) io) \<Rightarrow> ('w, 'z, 'b) io" where
  "io_try_bind m h f s = (case m s of (Inl e, s') \<Rightarrow> h e s' | (Inr a, s') \<Rightarrow> f a s')"

definition io_emit :: "event \<Rightarrow> ('w, 'z, unit) io" where
  "io_emit ev s = (Inr (), s\<lparr>events := events s @ [ev]\<rparr>)"

text \<open>A call of an external service that may raise, and one that may not.\<close>

definition io_call :: "('w \<Rightarrow> (exn + 'a) \<times> 'w) \<Rightarrow> ('w, 'z, 'a) io" where
  "io_call f s = (case f (world s) of (r, w) \<Rightarrow> (r, s\<lparr>world := w\<rparr>))"

definition io_read :: "('w \<Rightarrow> 'a \<times> 'w) \<Rightarrow> ('w, 'z, 'a) io" where
  "io_read f s = (case f (world s) of (r, w) \<Rightarrow> (Inr r, s\<lparr>world := w\<rparr>))"

definition io_of_sum :: "exn + 'a \<Rightarrow> ('w, 'z, 'a) io" where
  "io_of_sum r = (case r of Inl e \<Rightarrow> io_raise e | Inr a \<Rightarrow> io_return a)"

definition io_int :: "json \<Rightarrow> ('w, 'z, int) io" where
  "io_int v = (case py_int v of Inl e \<Rightarrow> io_raise (conversion_exn e) | Inr i \<Rightarrow> io_return i)"

text \<open>\<open>d[k]\<close>, which raises \<open>KeyError\<close>; the outcome of \<open>m\<close> as a value.\<close>

definition io_item :: "dict \<Rightarrow> string \<Rightarrow> ('w, 'z, json) io" where
  "io_item d k = (if dict_has d k then io_return (dict_get d k) else io_raise OtherException)"

definition io_attempt :: "('w, 'z, 'a) io \<Rightarrow> ('w, 'z, exn + 'a) io" where
  "io_attempt m = io_try_bind m (\<lambda>e. io_return (Inl e)) (\<lambda>a. io_return (Inr a))"

text \<open>\<open>hmac.compare_digest\<close> on strings: both must be ASCII.\<close>

definition compare_digest :: "string \<Rightarrow> string \<Rightarrow> exn + bool" where
  "compare_digest a b =
     (if \<not> list_all is_ascii a \<or> \<not> list_all is_ascii b then Inl TypeError else Inr (a = b))"

lemmas io_op_defs [io_defs] =
  io_return_def io_raise_def io_bind_def io_catch_def io_try_bind_def io_emit_def io_call_def
  io_read_def io_of_sum_def io_int_def io_item_def io_attempt_def

lemma io_bind_return [simp]: "io_bind (io_return a) f = f a"
  by (simp add: fun_eq_iff io_defs)

lemma io_bind_raise [simp]: "io_bind (io_raise e) f = io_raise e"
  by (simp add: fun_eq_iff io_defs)

lemma io_bind_assoc: "io_bind (io_bind m f) g = io_bind m (\<lambda>a. io_bind (f a) g)"
  by (auto simp: fun_eq_iff io_defs split: prod.splits sum.splits)

lemma io_int_JInt [simp]: "io_int (JInt i) = io_return i"
  by (simp add: io_int_def)

section \<open>What an operation may emit and return\<close>

text \<open>
  \<open>obeys P m Q R\<close>: whatever the state, \<open>m\<close> only adds events that satisfy \<open>P\<close>, a value it
  returns satisfies \<open>Q\<close> and an exception it raises satisfies \<open>R\<close>.
\<close>

definition obeys ::
  "(event \<Rightarrow> bool) \<Rightarrow> ('w, 'z, 'a) io \<Rightarrow> ('a \<Rightarrow> bool) \<Rightarrow> (exn \<Rightarrow> bool) \<Rightarrow> bool" where
  "obeys P m Q R \<longleftrightarrow> (\<forall>s. (\<exists>es. events (snd (m s)) = events s @ es \<and> list_all P es) \<and>
     (case fst (m s) of Inl e \<Rightarrow> R e | Inr a \<Rightarrow> Q a))"

text \<open>
  The rules are in weakest-precondition form: the conclusion's \<open>Q\<close> and \<open>R\<close> are arbitrary, and
  what is to be shown of the rest of a sequence becomes the \<open>Q\<close> of its first part.
\<close>

lemma obeys_return [hoare_rule]: "Q a \<Longrightarrow> obeys P (io_return a) Q R"
  by (auto simp: obeys_def io_defs)

lemma obeys_raise [hoare_rule]: "R e \<Longrightarrow> obeys P (io_raise e) Q R"
  by (auto simp: obeys_def io_defs)

lemma obeys_emit [hoare_rule]: "P ev \<Longrightarrow> Q () \<Longrightarrow> obeys P (io_emit ev) Q R"
  by (auto simp: obeys_def io_defs)

lemma obeys_call [hoare_rule]:
  "(\<And>w a w'. f w = (Inr a, w') \<Longrightarrow> Q a) \<Longrightarrow> (\<And>w e w'. f w = (Inl e, w') \<Longrightarrow> R e)
   \<Longrightarrow> obeys P (io_call f) Q R"
  unfolding obeys_def io_call_def by (auto split: prod.splits sum.splits)

lemma obeys_read [hoare_rule]:
  "(\<And>w a w'. f w = (a, w') \<Longrightarrow> Q a) \<Longrightarrow> obeys P (io_read f) Q R"
  unfolding obeys_def io_read_def by (auto split: prod.splits)

lemma obeys_of_sum [hoare_rule]:
  "(\<And>a. r = Inr a \<Longrightarrow> Q a) \<Longrightarrow> (\<And>e. r = Inl e \<Longrightarrow> R e) \<Longrightarrow> obeys P (io_of_sum r) Q R"
  by (cases r) (auto simp: io_of_sum_def intro: obeys_return obeys_raise)

lemma obeys_int [hoare_rule]:
  "(\<And>i. py_int v = Inr i \<Longrightarrow> Q i) \<Longrightarrow> (\<And>e. py_int v = Inl e \<Longrightarrow> R (conversion_exn e))
   \<Longrightarrow> obeys P (io_int v) Q R"
  by (auto simp: io_int_def split: sum.splits intro: obeys_return obeys_raise)

lemma obeys_compose:
  assumes m: "obeys P m Q R" and h: "\<And>e. R e \<Longrightarrow> obeys P (h e) Q' R'"
    and f: "\<And>a. Q a \<Longrightarrow> obeys P (f a) Q' R'"
  shows "obeys P (io_try_bind m h f) Q' R'"
  unfolding obeys_def
proof
  fix s
  obtain r s' where r: "m s = (r, s')" by (cases "m s")
  from m r obtain es where es: "events s' = events s @ es" "list_all P es"
    by (auto simp: obeys_def dest!: spec[of _ s])
  show "(\<exists>es. events (snd (io_try_bind m h f s)) = events s @ es \<and> list_all P es) \<and>
     (case fst (io_try_bind m h f s) of Inl e \<Rightarrow> R' e | Inr a \<Rightarrow> Q' a)"
  proof (cases r)
    case (Inl e)
    with m r have "R e" by (auto simp: obeys_def dest!: spec[of _ s])
    from h[OF this] obtain es' where "events (snd (h e s')) = events s' @ es'" "list_all P es'"
      "case fst (h e s') of Inl e \<Rightarrow> R' e | Inr a \<Rightarrow> Q' a"
      unfolding obeys_def by blast
    with es r Inl show ?thesis by (auto simp: io_try_bind_def)
  next
    case (Inr a)
    with m r have "Q a" by (auto simp: obeys_def dest!: spec[of _ s])
    from f[OF this] obtain es' where "events (snd (f a s')) = events s' @ es'" "list_all P es'"
      "case fst (f a s') of Inl e \<Rightarrow> R' e | Inr a \<Rightarrow> Q' a"
      unfolding obeys_def by blast
    with es r Inr show ?thesis by (auto simp: io_try_bind_def)
  qed
qed

lemma io_bind_try: "io_bind m f = io_try_bind m io_raise f"
  by (auto simp: fun_eq_iff io_defs split: prod.splits sum.splits)

lemma io_catch_try: "io_catch m h = io_try_bind m h io_return"
  by (auto simp: fun_eq_iff io_defs split: prod.splits sum.splits)

lemma obeys_try_bind [hoare_rule]:
  "obeys P m (\<lambda>a. obeys P (f a) Q R) (\<lambda>e. obeys P (h e) Q R) \<Longrightarrow> obeys P (io_try_bind m h f) Q R"
  by (rule obeys_compose)

lemma obeys_bind [hoare_rule]:
  "obeys P m (\<lambda>a. obeys P (f a) Q R) R \<Longrightarrow> obeys P (io_bind m f) Q R"
  unfolding io_bind_try by (erule obeys_compose) (auto intro: obeys_raise)

lemma obeys_catch [hoare_rule]:
  "obeys P m Q (\<lambda>e. obeys P (h e) Q R) \<Longrightarrow> obeys P (io_catch m h) Q R"
  unfolding io_catch_try by (erule obeys_compose) (auto intro: obeys_return)

lemma obeys_weaken:
  assumes "obeys P m Q R" and P: "\<And>ev. P ev \<Longrightarrow> P' ev" and Q: "\<And>a. Q a \<Longrightarrow> Q' a"
    and R: "\<And>e. R e \<Longrightarrow> R' e"
  shows "obeys P' m Q' R'"
  unfolding obeys_def
proof
  fix s
  from assms(1) obtain es where "events (snd (m s)) = events s @ es" "list_all P es"
    "case fst (m s) of Inl e \<Rightarrow> R e | Inr a \<Rightarrow> Q a"
    unfolding obeys_def by blast
  with P Q R show "(\<exists>es. events (snd (m s)) = events s @ es \<and> list_all P' es) \<and>
      (case fst (m s) of Inl e \<Rightarrow> R' e | Inr a \<Rightarrow> Q' a)"
    by (auto simp: list_all_iff split: sum.splits)
qed

lemma obeys_item [hoare_rule]:
  "(dict_has d k \<Longrightarrow> Q (dict_get d k)) \<Longrightarrow> R OtherException \<Longrightarrow> obeys P (io_item d k) Q R"
  by (auto simp: io_item_def intro: obeys_return obeys_raise)

lemma obeys_attempt [hoare_rule]:
  "obeys P m (\<lambda>a. Q (Inr a)) (\<lambda>e. Q (Inl e)) \<Longrightarrow> obeys P (io_attempt m) Q R"
  unfolding io_attempt_def by (erule obeys_compose) (auto intro: obeys_return)

lemma obeys_if [hoare_rule]:
  "(b \<Longrightarrow> obeys P m Q R) \<Longrightarrow> (\<not> b \<Longrightarrow> obeys P n Q R) \<Longrightarrow> obeys P (if b then m else n) Q R"
  by simp

lemma obeys_option [hoare_rule]:
  "(x = None \<Longrightarrow> obeys P m Q R) \<Longrightarrow> (\<And>a. x = Some a \<Longrightarrow> obeys P (n a) Q R)
   \<Longrightarrow> obeys P (case x of None \<Rightarrow> m | Some a \<Rightarrow> n a) Q R"
  by (cases x) auto

lemma obeys_sum [hoare_rule]:
  "(\<And>e. x = Inl e \<Longrightarrow> obeys P (m e) Q R) \<Longrightarrow> (\<And>a. x = Inr a \<Longrightarrow> obeys P (n a) Q R)
   \<Longrightarrow> obeys P (case x of Inl e \<Rightarrow> m e | Inr a \<Rightarrow> n a) Q R"
  by (cases x) auto

lemma obeys_prod [hoare_rule]:
  "(\<And>a b. x = (a, b) \<Longrightarrow> obeys P (m a b) Q R) \<Longrightarrow> obeys P (case x of (a, b) \<Rightarrow> m a b) Q R"
  by (cases x) auto

lemma obeys_let [hoare_rule]:
  "(\<And>v. v = x \<Longrightarrow> obeys P (m v) Q R) \<Longrightarrow> obeys P (let v = x in m v) Q R"
  by simp

lemma obeys_json [hoare_rule]:
  assumes "v = JNull \<Longrightarrow> obeys P a Q R" "\<And>x. v = JBool x \<Longrightarrow> obeys P (b x) Q R"
    "\<And>x. v = JInt x \<Longrightarrow> obeys P (c x) Q R" "\<And>x. v = JFloat x \<Longrightarrow> obeys P (d x) Q R"
    "\<And>x. v = JStr x \<Longrightarrow> obeys P (e x) Q R" "\<And>x. v = JList x \<Longrightarrow> obeys P (f x) Q R"
    "\<And>x. v = JDict x \<Longrightarrow> obeys P (g x) Q R"
  shows "obeys P (case v of JNull \<Rightarrow> a | JBool x \<Rightarrow> b x | JInt x \<Rightarrow> c x | JFloat x \<Rightarrow> d x
     | JStr x \<Rightarrow> e x | JList x \<Rightarrow> f x | JDict x \<Rightarrow> g x) Q R"
  using assms by (cases v) auto

text \<open>Operations about whose value nothing need be known.\<close>

abbreviation emits :: "(event \<Rightarrow> bool) \<Rightarrow> ('w, 'z, 'a) io \<Rightarrow> bool" where
  "emits P m \<equiv> obeys P m (\<lambda>_. True) (\<lambda>_. True)"

lemma obeys_emits: "emits P m \<Longrightarrow> (\<And>a. Q a) \<Longrightarrow> (\<And>e. R e) \<Longrightarrow> obeys P m Q R"
  by (erule obeys_weaken)

lemma obeys_events:
  "obeys P m Q R \<Longrightarrow> m s = (r, s') \<Longrightarrow> \<exists>es. events s' = events s @ es \<and> list_all P es"
  by (auto simp: obeys_def dest!: spec[of _ s])

lemma obeys_result: "obeys P m Q R \<Longrightarrow> m s = (Inr a, s') \<Longrightarrow> Q a"
  by (auto simp: obeys_def dest!: spec[of _ s])

lemma obeys_exn: "obeys P m Q R \<Longrightarrow> m s = (Inl e, s') \<Longrightarrow> R e"
  by (auto simp: obeys_def dest!: spec[of _ s])

section \<open>Bounded retry loops\<close>

text \<open>
  \<open>for attempt in range(n): ...\<close> with \<open>return\<close> and \<open>continue\<close> in its body and a \<open>raise\<close> after it. The
  body gives \<open>Some\<close> value to return it and \<open>None\<close> to continue; its argument is the number of
  attempts that remain after it.
\<close>

locale attempt_loop =
  fixes loop :: "nat \<Rightarrow> ('w, 'z, 'a) io"
    and body :: "nat \<Rightarrow> ('w, 'z, 'a option) io"
    and exhausted :: "('w, 'z, 'a) io"
  assumes loop_none: "loop 0 = exhausted"
    and loop_again: "loop (Suc n) = io_bind (body n)
      (\<lambda>res. case res of Some r \<Rightarrow> io_return r | None \<Rightarrow> loop n)"
begin

lemma obeys_loop:
  assumes body: "\<And>n Q'. (\<And>r. Q r \<Longrightarrow> Q' (Some r)) \<Longrightarrow> Q' None \<Longrightarrow> obeys P (body n) Q' R"
    and "obeys P exhausted Q R"
  shows "obeys P (loop n) Q R"
proof (induction n)
  case 0
  with assms show ?case by (simp add: loop_none)
next
  case (Suc n)
  then show ?case unfolding loop_again by (auto intro!: obeys_bind body obeys_return)
qed

text \<open>The loop ends: it runs its body at most \<open>n\<close> times, and stops at the first that returns.\<close>

lemma loop_first: "fst (body n s) = Inr (Some r) \<Longrightarrow> fst (loop (Suc n) s) = Inr r"
  by (auto simp: loop_again io_defs split: prod.splits)

end

end
