(* ===== verification/Job_Store.thy ===== *)
theory Job_Store
  imports X402_Effects
begin

text \<open>
  The durable store (\<open>x402_job_store.py\<close>): job records, wallet rate-limit records, accounting
  markers and reports as S3 objects, written with conditional puts. The S3 client is the
  argument \<open>E\<close>; \<open>json_loads E\<close> stands for decoding a body and parsing it.
\<close>

section \<open>Names and configuration\<close>

definition MAX_JOB_BYTES :: nat where "MAX_JOB_BYTES = 256 * 1024"
definition MAX_REPORT_BYTES :: nat where "MAX_REPORT_BYTES = 2 * 1024 * 1024"
definition MAX_ACCOUNTING_MARKER_BYTES :: nat where "MAX_ACCOUNTING_MARKER_BYTES = 1024"
definition MAX_ACCOUNTING_EVENT_ID_LENGTH :: nat where "MAX_ACCOUNTING_EVENT_ID_LENGTH = 512"
definition MAX_WALLET_RATE_LIMIT_BYTES :: nat where "MAX_WALLET_RATE_LIMIT_BYTES = 16 * 1024"
definition MAX_WALLET_RATE_LIMIT_ENTRIES :: nat where "MAX_WALLET_RATE_LIMIT_ENTRIES = 30"
definition MAX_TIMESTAMP_MILLISECONDS :: int where "MAX_TIMESTAMP_MILLISECONDS = 9999999999999"

text \<open>The regular expressions of the module, as predicates on the whole text.\<close>

definition job_id_re :: "string \<Rightarrow> bool" where
  "job_id_re s \<longleftrightarrow> take 5 s = ''x402_'' \<and> length s = 37 \<and> list_all is_lower_hex (drop 5 s)"

definition report_id_re :: "string \<Rightarrow> bool" where
  "report_id_re s \<longleftrightarrow> length s = 32 \<and> list_all is_lower_hex s"

definition wallet_digest_re :: "string \<Rightarrow> bool" where
  "wallet_digest_re s \<longleftrightarrow> length s = 64 \<and> list_all is_lower_hex s"

definition bucket_edge :: "char \<Rightarrow> bool" where
  "bucket_edge c \<longleftrightarrow> is_lower_az c \<or> is_digit c"

definition bucket_re :: "string \<Rightarrow> bool" where
  "bucket_re s \<longleftrightarrow> 3 \<le> length s \<and> length s \<le> 63 \<and> bucket_edge (hd s) \<and> bucket_edge (last s)
     \<and> list_all (\<lambda>c. bucket_edge c \<or> c = CHR ''.'' \<or> c = CHR ''-'') s"

definition segment_start :: "char \<Rightarrow> bool" where
  "segment_start c \<longleftrightarrow> is_lower_az c \<or> is_upper_az c \<or> is_digit c"

definition prefix_segment_re :: "string \<Rightarrow> bool" where
  "prefix_segment_re s \<longleftrightarrow> 1 \<le> length s \<and> length s \<le> 200 \<and> segment_start (hd s)
     \<and> list_all (\<lambda>c. segment_start c \<or> c = CHR ''.'' \<or> c = CHR ''_'' \<or> c = CHR ''-'') s"

record store_config =
  bucket :: string
  key_prefix :: string

definition store_config_from_env :: "(string \<Rightarrow> string option) \<Rightarrow> exn + store_config" where
  "store_config_from_env env =
     (let b = py_strip (case env ''X402_JOB_S3_BUCKET'' of None \<Rightarrow> '''' | Some v \<Rightarrow> v);
          p = py_strip_char (CHR ''/'') (py_strip
                (case env ''X402_JOB_S3_PREFIX'' of None \<Rightarrow> ''x402-jobs'' | Some v \<Rightarrow> v))
      in if b = [] \<or> \<not> bucket_re b then Inl X402JobStoreError
         else if p = [] \<or> \<not> list_all prefix_segment_re (py_split (CHR ''/'') p)
           then Inl X402JobStoreError
         else Inr \<lparr>bucket = b, key_prefix = p\<rparr>)"

definition job_key :: "store_config \<Rightarrow> string \<Rightarrow> exn + string" where
  "job_key cfg job_id =
     (if job_id_re job_id then Inr (key_prefix cfg @ ''/'' @ job_id @ ''/job.json'')
      else Inl X402JobStoreError)"

definition report_key :: "store_config \<Rightarrow> string \<Rightarrow> string option \<Rightarrow> exn + string" where
  "report_key cfg job_id report_id =
     (case job_key cfg job_id of Inl e \<Rightarrow> Inl e
      | Inr _ \<Rightarrow>
          (case report_id of
             Some rid \<Rightarrow>
               (if report_id_re rid
                then Inr (key_prefix cfg @ ''/'' @ job_id @ ''/reports/'' @ rid @ ''.md'')
                else Inl X402JobStoreError)
           | None \<Rightarrow> Inr (key_prefix cfg @ ''/'' @ job_id @ ''/report.md'')))"

definition accounting_marker_key :: "store_config \<Rightarrow> string \<Rightarrow> exn + string" where
  "accounting_marker_key cfg job_id =
     (case job_key cfg job_id of Inl e \<Rightarrow> Inl e
      | Inr _ \<Rightarrow> Inr (key_prefix cfg @ ''/'' @ job_id @ ''/competition-reported.json''))"

definition wallet_rate_limit_key :: "store_config \<Rightarrow> string \<Rightarrow> exn + string" where
  "wallet_rate_limit_key cfg digest =
     (if wallet_digest_re digest
      then Inr (key_prefix cfg @ ''/rate-limits/v1/'' @ digest @ ''.json'')
      else Inl X402JobStoreError)"

section \<open>Encoding\<close>

definition encode_job :: "dict \<Rightarrow> exn + bytes" where
  "encode_job record =
     (if \<not> finite_json (JDict record) then Inl X402JobStoreError
      else let body = utf8 (json_dumps compact_sorted (JDict record))
           in if length body > MAX_JOB_BYTES then Inl X402JobStoreError else Inr body)"

text \<open>
  One entry of a wallet record: \<open>None\<close> when it is acceptable and its reservation id is not among
  the ones before it, the exception otherwise. A \<open>state\<close> that cannot be hashed makes the
  set membership test itself raise.
\<close>

definition check_entry :: "string list \<Rightarrow> json \<Rightarrow> exn option" where
  "check_entry seen e =
     (case e of
        JDict d \<Rightarrow>
          (if \<not> keys_are d [''reservationId'', ''reservedAt'', ''state''] then Some X402JobStoreError
           else case as_str (dict_get d ''reservationId'') of
             None \<Rightarrow> Some X402JobStoreError
           | Some rid \<Rightarrow>
               (if \<not> job_id_re rid \<or> rid \<in> set seen then Some X402JobStoreError
                else case exact_int (dict_get d ''reservedAt'') of
                  None \<Rightarrow> Some X402JobStoreError
                | Some t \<Rightarrow>
                    (if \<not> (1 \<le> t \<and> t \<le> MAX_TIMESTAMP_MILLISECONDS) then Some X402JobStoreError
                     else if is_list (dict_get d ''state'') \<or> is_dict (dict_get d ''state'')
                       then Some TypeError
                     else if dict_get d ''state'' \<noteq> JStr ''reserved''
                          \<and> dict_get d ''state'' \<noteq> JStr ''committed'' then Some X402JobStoreError
                     else None)))
      | _ \<Rightarrow> Some X402JobStoreError)"

definition entry_id :: "json \<Rightarrow> string" where
  "entry_id e = (case e of JDict d \<Rightarrow> py_str (dict_get d ''reservationId'') | _ \<Rightarrow> [])"

fun check_entries :: "string list \<Rightarrow> json list \<Rightarrow> exn option" where
  "check_entries seen [] = None"
| "check_entries seen (e # es) =
     (case check_entry seen e of
        Some x \<Rightarrow> Some x
      | None \<Rightarrow> check_entries (entry_id e # seen) es)"

definition encode_wallet_rate_limit :: "json \<Rightarrow> exn + bytes" where
  "encode_wallet_rate_limit v =
     (case v of
        JDict record \<Rightarrow>
          (if \<not> keys_are record [''version'', ''entries'']
              \<or> exact_int (dict_get record ''version'') \<noteq> Some 1 then Inl X402JobStoreError
           else case dict_get record ''entries'' of
             JList entries \<Rightarrow>
               (if length entries > MAX_WALLET_RATE_LIMIT_ENTRIES then Inl X402JobStoreError
                else case check_entries [] entries of
                  Some x \<Rightarrow> Inl x
                | None \<Rightarrow>
                    (if \<not> finite_json v then Inl X402JobStoreError
                     else let body = utf8 (json_dumps compact_sorted v)
                          in if length body > MAX_WALLET_RATE_LIMIT_BYTES then Inl X402JobStoreError
                             else Inr body))
           | _ \<Rightarrow> Inl X402JobStoreError)
      | _ \<Rightarrow> Inl X402JobStoreError)"

definition copy_wallet_rate_limit_record :: "dict \<Rightarrow> dict" where
  "copy_wallet_rate_limit_record record =
     [(''version'', JInt 1), (''entries'', dict_get record ''entries'')]"

definition encode_accounting_marker :: "json \<Rightarrow> exn + bytes" where
  "encode_accounting_marker v =
     (case v of
        JDict marker \<Rightarrow>
          (if \<not> keys_are marker [''version'', ''eventId'', ''settledAt''] then Inl X402JobStoreError
           else if \<not> py_eq (dict_get marker ''version'') (JInt 1) then Inl X402JobStoreError
           else case (as_str (dict_get marker ''eventId''), exact_int (dict_get marker ''settledAt'')) of
             (Some event_id, Some settled_at) \<Rightarrow>
               (if \<not> (1 \<le> length event_id \<and> length event_id \<le> MAX_ACCOUNTING_EVENT_ID_LENGTH)
                   \<or> settled_at \<le> 0 then Inl X402JobStoreError
                else let body = utf8 (json_dumps compact_sorted v)
                     in if length body > MAX_ACCOUNTING_MARKER_BYTES then Inl X402JobStoreError
                        else Inr body)
           | _ \<Rightarrow> Inl X402JobStoreError)
      | _ \<Rightarrow> Inl X402JobStoreError)"

section \<open>Conditional puts\<close>

record stored_job =
  job_record :: dict
  job_etag :: string

record stored_wallet =
  wallet_record :: dict
  wallet_etag :: string

definition put_conflict :: "exn \<Rightarrow> bool" where
  "put_conflict e = (case e of
     ClientError code http \<Rightarrow>
       code \<in> {''409'', ''ConditionalRequestConflict''} \<or> http = Some 409
   | _ \<Rightarrow> False)"

definition precondition_failed :: "exn \<Rightarrow> bool" where
  "precondition_failed e = (case e of
     ClientError code http \<Rightarrow> code \<in> {''412'', ''PreconditionFailed''}
   | _ \<Rightarrow> False)"

definition no_such_key :: "exn \<Rightarrow> bool" where
  "no_such_key e = (case e of ClientError code http \<Rightarrow> code \<in> {''404'', ''NoSuchKey''} | _ \<Rightarrow> False)"

fun put_attempts ::
  "('w, 's) services_scheme \<Rightarrow> nat \<Rightarrow> put_request \<Rightarrow> ('w, 'z, string) io" where
  "put_attempts E 0 req = io_raise OtherException"
| "put_attempts E (Suc remaining) req =
     io_try_bind (io_call (put_object E req))
       (\<lambda>e. if put_conflict e
            then (if remaining = 0 then io_raise JobConflict else put_attempts E remaining req)
            else io_raise e)
       io_return"

definition conditional_put ::
  "('w, 's) services_scheme \<Rightarrow> put_request \<Rightarrow> ('w, 'z, string) io" where
  "conditional_put E req = put_attempts E 2 req"

text \<open>The put of one object; \<open>None\<close> for the etag means \<open>IfNoneMatch="*"\<close>.\<close>

definition conditional_request ::
  "store_config \<Rightarrow> string \<Rightarrow> bytes \<Rightarrow> string \<Rightarrow> string option \<Rightarrow> put_request" where
  "conditional_request cfg key body cache if_match =
     \<lparr>put_bucket = bucket cfg, put_key = key, put_body = body,
      put_content_type = ''application/json'', put_cache_control = cache,
      put_if_none_match = (if_match = None), put_if_match = if_match\<rparr>"

section \<open>Job records\<close>

definition record_job_id :: "dict \<Rightarrow> string" where
  "record_job_id record = py_str (dict_get_or record ''jobId'' (JStr []))"

definition store_create ::
  "('w, 's) services_scheme \<Rightarrow> store_config \<Rightarrow> dict \<Rightarrow> ('w, 'z, stored_job option) io" where
  "store_create E cfg record =
     io_bind (io_of_sum (encode_job record)) (\<lambda>body.
     io_bind (io_of_sum (job_key cfg (record_job_id record))) (\<lambda>key.
     io_bind (io_emit (JobCreateSent record)) (\<lambda>_.
     io_try_bind (conditional_put E (conditional_request cfg key body ''no-store'' None))
       (\<lambda>e. if precondition_failed e then io_return None else io_raise e)
       (\<lambda>tag. io_bind (io_emit (JobCreated record)) (\<lambda>_.
          io_return (Some \<lparr>job_record = record, job_etag = tag\<rparr>))))))"

definition store_read ::
  "('w, 's) services_scheme \<Rightarrow> store_config \<Rightarrow> string \<Rightarrow> ('w, 'z, stored_job option) io" where
  "store_read E cfg job_id =
     io_bind (io_of_sum (job_key cfg job_id)) (\<lambda>key.
     io_try_bind (io_call (get_object E (bucket cfg) key))
       (\<lambda>e. if no_such_key e then io_return None else io_raise e)
       (\<lambda>(full, tag).
          let body = take (MAX_JOB_BYTES + 1) full
          in if length body > MAX_JOB_BYTES then io_raise X402JobStoreError
             else io_bind (io_of_sum (json_loads E body)) (\<lambda>value.
               case value of
                 JDict d \<Rightarrow> io_return (Some \<lparr>job_record = d, job_etag = tag\<rparr>)
               | _ \<Rightarrow> io_raise X402JobStoreError)))"

definition store_replace ::
  "('w, 's) services_scheme \<Rightarrow> store_config \<Rightarrow> stored_job \<Rightarrow> dict \<Rightarrow> ('w, 'z, stored_job) io" where
  "store_replace E cfg stored record =
     io_bind (io_of_sum (encode_job record)) (\<lambda>body.
     io_bind (io_of_sum (job_key cfg (record_job_id record))) (\<lambda>key.
     io_bind (io_emit (JobReplaceSent (job_record stored) record)) (\<lambda>_.
     io_try_bind
       (conditional_put E (conditional_request cfg key body ''no-store'' (Some (job_etag stored))))
       (\<lambda>e. if precondition_failed e then io_raise JobConflict else io_raise e)
       (\<lambda>tag. io_bind (io_emit (JobReplaced (job_record stored) record)) (\<lambda>_.
          io_return \<lparr>job_record = record, job_etag = tag\<rparr>)))))"

section \<open>Wallet rate-limit records\<close>

definition create_wallet_rate_limit ::
  "('w, 's) services_scheme \<Rightarrow> store_config \<Rightarrow> string \<Rightarrow> dict
     \<Rightarrow> ('w, 'z, stored_wallet option) io" where
  "create_wallet_rate_limit E cfg digest record =
     io_bind (io_of_sum (encode_wallet_rate_limit (JDict record))) (\<lambda>body.
     io_bind (io_of_sum (wallet_rate_limit_key cfg digest)) (\<lambda>key.
     io_bind (io_emit (WalletCreateSent digest record)) (\<lambda>_.
     io_try_bind (conditional_put E (conditional_request cfg key body ''private,no-store'' None))
       (\<lambda>e. if precondition_failed e then io_return None else io_raise e)
       (\<lambda>tag. io_bind (io_emit (WalletCreated digest record)) (\<lambda>_.
          io_return (Some \<lparr>wallet_record = copy_wallet_rate_limit_record record,
            wallet_etag = tag\<rparr>))))))"

definition read_wallet_rate_limit ::
  "('w, 's) services_scheme \<Rightarrow> store_config \<Rightarrow> string \<Rightarrow> ('w, 'z, stored_wallet option) io" where
  "read_wallet_rate_limit E cfg digest =
     io_bind (io_of_sum (wallet_rate_limit_key cfg digest)) (\<lambda>key.
     io_try_bind (io_call (get_object E (bucket cfg) key))
       (\<lambda>e. if no_such_key e then io_return None else io_raise e)
       (\<lambda>(full, tag).
          let body = take (MAX_WALLET_RATE_LIMIT_BYTES + 1) full
          in if length body > MAX_WALLET_RATE_LIMIT_BYTES then io_raise X402JobStoreError
             else case json_loads E body of
               Inl e \<Rightarrow> io_raise X402JobStoreError
             | Inr record \<Rightarrow>
                 io_bind (io_of_sum (encode_wallet_rate_limit record)) (\<lambda>_.
                   case record of
                     JDict d \<Rightarrow> io_return (Some \<lparr>wallet_record = copy_wallet_rate_limit_record d,
                       wallet_etag = tag\<rparr>)
                   | _ \<Rightarrow> io_raise X402JobStoreError)))"

definition replace_wallet_rate_limit ::
  "('w, 's) services_scheme \<Rightarrow> store_config \<Rightarrow> string \<Rightarrow> stored_wallet \<Rightarrow> dict
     \<Rightarrow> ('w, 'z, stored_wallet) io" where
  "replace_wallet_rate_limit E cfg digest stored record =
     io_bind (io_of_sum (encode_wallet_rate_limit (JDict record))) (\<lambda>body.
     io_bind (io_of_sum (wallet_rate_limit_key cfg digest)) (\<lambda>key.
     io_bind (io_emit (WalletReplaceSent digest (wallet_record stored) record)) (\<lambda>_.
     io_try_bind
       (conditional_put E
         (conditional_request cfg key body ''private,no-store'' (Some (wallet_etag stored))))
       (\<lambda>e. if precondition_failed e then io_raise JobConflict else io_raise e)
       (\<lambda>tag. io_bind (io_emit (WalletReplaced digest (wallet_record stored) record)) (\<lambda>_.
          io_return \<lparr>wallet_record = copy_wallet_rate_limit_record record,
            wallet_etag = tag\<rparr>)))))"

section \<open>Accounting markers and reports\<close>

definition read_accounting_marker ::
  "('w, 's) services_scheme \<Rightarrow> store_config \<Rightarrow> string \<Rightarrow> ('w, 'z, dict option) io" where
  "read_accounting_marker E cfg job_id =
     io_bind (io_of_sum (accounting_marker_key cfg job_id)) (\<lambda>key.
     io_try_bind (io_call (get_object E (bucket cfg) key))
       (\<lambda>e. if no_such_key e then io_return None else io_raise e)
       (\<lambda>(full, tag).
          let body = take (MAX_ACCOUNTING_MARKER_BYTES + 1) full
          in if length body > MAX_ACCOUNTING_MARKER_BYTES then io_raise X402JobStoreError
             else case json_loads E body of
               Inl e \<Rightarrow> io_raise X402JobStoreError
             | Inr marker \<Rightarrow>
                 io_bind (io_of_sum (encode_accounting_marker marker)) (\<lambda>_.
                   case marker of
                     JDict d \<Rightarrow> io_return (Some d)
                   | _ \<Rightarrow> io_raise X402JobStoreError)))"

definition create_accounting_marker ::
  "('w, 's) services_scheme \<Rightarrow> store_config \<Rightarrow> string \<Rightarrow> dict \<Rightarrow> ('w, 'z, bool) io" where
  "create_accounting_marker E cfg job_id marker =
     io_bind (io_of_sum (encode_accounting_marker (JDict marker))) (\<lambda>body.
     io_bind (io_of_sum (accounting_marker_key cfg job_id)) (\<lambda>key.
     io_try_bind (conditional_put E (conditional_request cfg key body ''private,no-store'' None))
       (\<lambda>e. if precondition_failed e then io_return False else io_raise e)
       (\<lambda>tag. io_bind (io_emit (MarkerCreated job_id marker)) (\<lambda>_. io_return True))))"

definition put_report ::
  "('w, 's) services_scheme \<Rightarrow> store_config \<Rightarrow> string \<Rightarrow> string \<Rightarrow> string option
     \<Rightarrow> ('w, 'z, unit) io" where
  "put_report E cfg job_id markdown report_id =
     (let body = utf8 markdown
      in if length body > MAX_REPORT_BYTES then io_raise X402JobStoreError
         else io_bind (io_of_sum (report_key cfg job_id report_id)) (\<lambda>key.
           io_bind (io_call (put_object E
             \<lparr>put_bucket = bucket cfg, put_key = key, put_body = body,
              put_content_type = ''text/markdown; charset=utf-8'',
              put_cache_control = ''private,no-store'', put_if_none_match = False,
              put_if_match = None\<rparr>)) (\<lambda>_.
           io_emit (ReportStored job_id report_id markdown))))"

definition presign_report ::
  "('w, 's) services_scheme \<Rightarrow> store_config \<Rightarrow> string \<Rightarrow> string option
     \<Rightarrow> ('w, 'z, string) io" where
  "presign_report E cfg job_id report_id =
     io_bind (io_of_sum (report_key cfg job_id report_id)) (\<lambda>key.
       io_call (presign_url E (bucket cfg) key 1800))"

section \<open>What the encoders accept\<close>

definition entry_time :: "json \<Rightarrow> int" where
  "entry_time e = (case e of
     JDict d \<Rightarrow> (case dict_get d ''reservedAt'' of JInt t \<Rightarrow> t | _ \<Rightarrow> 0)
   | _ \<Rightarrow> 0)"

definition entry_state :: "json \<Rightarrow> json" where
  "entry_state e = (case e of JDict d \<Rightarrow> dict_get d ''state'' | _ \<Rightarrow> JNull)"

definition entry_ok :: "json \<Rightarrow> bool" where
  "entry_ok e \<longleftrightarrow> (\<exists>d rid t st. e = JDict d
     \<and> keys_are d [''reservationId'', ''reservedAt'', ''state'']
     \<and> dict_get d ''reservationId'' = JStr rid \<and> job_id_re rid
     \<and> dict_get d ''reservedAt'' = JInt t \<and> 1 \<le> t \<and> t \<le> MAX_TIMESTAMP_MILLISECONDS
     \<and> dict_get d ''state'' = JStr st \<and> (st = ''reserved'' \<or> st = ''committed''))"

definition wallet_entries :: "dict \<Rightarrow> json list" where
  "wallet_entries record = (case dict_get record ''entries'' of JList es \<Rightarrow> es | _ \<Rightarrow> [])"

definition entries_ok :: "json list \<Rightarrow> bool" where
  "entries_ok es \<longleftrightarrow> length es \<le> MAX_WALLET_RATE_LIMIT_ENTRIES \<and> list_all entry_ok es
     \<and> distinct (map entry_id es)"

lemma check_entry_None:
  "check_entry seen e = None \<longleftrightarrow> entry_ok e \<and> entry_id e \<notin> set seen"
  by (cases e)
     (auto simp: check_entry_def entry_ok_def entry_id_def split: option.splits if_splits)

lemma check_entries_None:
  "check_entries seen es = None \<longleftrightarrow>
     list_all entry_ok es \<and> distinct (map entry_id es) \<and> entry_id ` set es \<inter> set seen = {}"
proof (induction es arbitrary: seen)
  case (Cons e es)
  then show ?case
    using check_entry_None[of seen e] by (cases "check_entry seen e") auto
qed simp

lemma encode_wallet_entries:
  "encode_wallet_rate_limit (JDict record) = Inr body
   \<Longrightarrow> entries_ok (wallet_entries record) \<and> length body \<le> MAX_WALLET_RATE_LIMIT_BYTES"
  by (auto simp: encode_wallet_rate_limit_def entries_ok_def wallet_entries_def check_entries_None
        Let_def split: if_splits json.splits option.splits)

lemma encode_wallet_dict: "encode_wallet_rate_limit v = Inr body \<Longrightarrow> \<exists>d. v = JDict d"
  by (auto simp: encode_wallet_rate_limit_def split: json.splits)

lemma wallet_entries_copy [simp]:
  "wallet_entries (copy_wallet_rate_limit_record record) = wallet_entries record"
  by (simp add: wallet_entries_def copy_wallet_rate_limit_record_def)

lemma encode_job_bounded: "encode_job record = Inr body \<Longrightarrow> length body \<le> MAX_JOB_BYTES"
  by (auto simp: encode_job_def Let_def split: if_splits)

section \<open>Specifications of the operations\<close>

lemma obeys_put_attempts: "(\<And>a. Q a) \<Longrightarrow> (\<And>e. R e) \<Longrightarrow> obeys P (put_attempts E n req) Q R"
  by (induction n) (auto intro!: hoare_rule)

lemma obeys_conditional_put [spec_rule]:
  "(\<And>a. Q a) \<Longrightarrow> (\<And>e. R e) \<Longrightarrow> obeys P (conditional_put E req) Q R"
  by (simp add: conditional_put_def obeys_put_attempts)

lemma obeys_store_create [spec_rule]:
  assumes "P (JobCreateSent record)" "P (JobCreated record)"
    and "\<And>st. job_record st = record \<Longrightarrow> Q (Some st)" "Q None" "\<And>e. R e"
  shows "obeys P (store_create E cfg record) Q R"
  unfolding store_create_def by (intro hoare_rule spec_rule) (simp_all add: assms)

lemma obeys_store_read [spec_rule]:
  assumes "\<And>st. Q (Some st)" "Q None" "\<And>e. R e"
  shows "obeys P (store_read E cfg job_id) Q R"
  unfolding store_read_def by (intro hoare_rule spec_rule) (simp_all add: assms)

lemma obeys_store_replace [spec_rule]:
  assumes "P (JobReplaceSent (job_record stored) record)" "P (JobReplaced (job_record stored) record)"
    and "\<And>st. job_record st = record \<Longrightarrow> Q st" "\<And>e. R e"
  shows "obeys P (store_replace E cfg stored record) Q R"
  unfolding store_replace_def by (intro hoare_rule spec_rule) (simp_all add: assms)

lemma obeys_create_wallet [spec_rule]:
  assumes "entries_ok (wallet_entries record) \<Longrightarrow> P (WalletCreateSent digest record)"
    and "entries_ok (wallet_entries record) \<Longrightarrow> P (WalletCreated digest record)"
    and "\<And>st. wallet_entries (wallet_record st) = wallet_entries record \<Longrightarrow> Q (Some st)"
    and "Q None" "\<And>e. R e"
  shows "obeys P (create_wallet_rate_limit E cfg digest record) Q R"
  unfolding create_wallet_rate_limit_def
  by (intro hoare_rule spec_rule) (auto simp: assms dest: encode_wallet_entries)

lemma obeys_read_wallet [spec_rule]:
  assumes "\<And>st. entries_ok (wallet_entries (wallet_record st)) \<Longrightarrow> Q (Some st)" "Q None" "\<And>e. R e"
  shows "obeys P (read_wallet_rate_limit E cfg digest) Q R"
  unfolding read_wallet_rate_limit_def
  by (intro hoare_rule spec_rule)
     (auto simp: assms dest: encode_wallet_entries)

lemma obeys_replace_wallet [spec_rule]:
  assumes "entries_ok (wallet_entries record)
      \<Longrightarrow> P (WalletReplaceSent digest (wallet_record stored) record)"
    and "entries_ok (wallet_entries record)
      \<Longrightarrow> P (WalletReplaced digest (wallet_record stored) record)"
    and "\<And>st. wallet_entries (wallet_record st) = wallet_entries record \<Longrightarrow> Q st" "\<And>e. R e"
  shows "obeys P (replace_wallet_rate_limit E cfg digest stored record) Q R"
  unfolding replace_wallet_rate_limit_def
  by (intro hoare_rule spec_rule) (auto simp: assms dest: encode_wallet_entries)

lemma obeys_read_marker [spec_rule]:
  assumes "\<And>r. Q r" "\<And>e. R e"
  shows "obeys P (read_accounting_marker E cfg job_id) Q R"
  unfolding read_accounting_marker_def by (intro hoare_rule spec_rule) (simp_all add: assms)

lemma obeys_create_marker [spec_rule]:
  assumes "P (MarkerCreated job_id marker)" "\<And>r. Q r" "\<And>e. R e"
  shows "obeys P (create_accounting_marker E cfg job_id marker) Q R"
  unfolding create_accounting_marker_def by (intro hoare_rule spec_rule) (simp_all add: assms)

lemma report_key_id: "report_key cfg job_id (Some rid) = Inr key \<Longrightarrow> report_id_re rid"
  by (auto simp: report_key_def split: sum.splits if_splits)

lemma obeys_put_report [spec_rule]:
  assumes "P (ReportStored job_id report_id markdown)"
    and "(\<And>rid. report_id = Some rid \<Longrightarrow> report_id_re rid) \<Longrightarrow> Q ()" "\<And>e. R e"
  shows "obeys P (put_report E cfg job_id markdown report_id) Q R"
  unfolding put_report_def
  by (intro hoare_rule spec_rule) (auto intro!: assms dest: report_key_id)

lemma obeys_presign_report [spec_rule]:
  assumes "\<And>r. Q r" "\<And>e. R e"
  shows "obeys P (presign_report E cfg job_id report_id) Q R"
  unfolding presign_report_def by (intro hoare_rule spec_rule) (simp_all add: assms)

end
