(* ===== verification/Versioned_Object.thy ===== *)
theory Versioned_Object
  imports Py_Prelude
begin

text \<open>
  Objects that the store keeps as a sequence of versions: each version is written with a
  precondition on the one it was computed from, so consecutive versions are related by one write.
  The laws here lift what one write keeps to every version an object ever has.
\<close>

section \<open>Histories of a versioned object\<close>

definition history :: "('a \<Rightarrow> bool) \<Rightarrow> ('a \<Rightarrow> 'a \<Rightarrow> bool) \<Rightarrow> 'a list \<Rightarrow> bool" where
  "history init step vs \<longleftrightarrow> vs \<noteq> [] \<and> init (hd vs) \<and> successively step vs"

locale guarded_object =
  fixes init :: "'a \<Rightarrow> bool" and step :: "'a \<Rightarrow> 'a \<Rightarrow> bool" and inv :: "'a \<Rightarrow> bool"
  assumes init_inv: "init v \<Longrightarrow> inv v"
    and step_inv: "inv v \<Longrightarrow> step v v' \<Longrightarrow> inv v'"
begin

lemma successively_inv:
  "successively step (v # vs) \<Longrightarrow> inv v \<Longrightarrow> w \<in> set (v # vs) \<Longrightarrow> inv w"
proof (induction vs arbitrary: v)
  case (Cons u vs)
  then show ?case using step_inv[of v u] by auto
qed auto

lemma history_inv: "history init step vs \<Longrightarrow> v \<in> set vs \<Longrightarrow> inv v"
  using init_inv successively_inv by (cases vs) (auto simp: history_def)

end

text \<open>With a relation that every step respects, it relates any earlier version to any later one.\<close>

locale monotone_object = guarded_object +
  fixes rel :: "'a \<Rightarrow> 'a \<Rightarrow> bool"
  assumes rel_refl: "rel v v"
    and rel_trans: "rel u v \<Longrightarrow> rel v w \<Longrightarrow> rel u w"
    and step_rel: "inv v \<Longrightarrow> step v v' \<Longrightarrow> rel v v'"
begin

lemma successively_rel:
  "successively step (v # vs) \<Longrightarrow> inv v \<Longrightarrow> j < length (v # vs) \<Longrightarrow> rel v ((v # vs) ! j)"
proof (induction vs arbitrary: v j)
  case (Cons u vs)
  show ?case
  proof (cases j)
    case (Suc k)
    from Cons.prems have "step v u" "inv u" using step_inv[of v u] by auto
    with Cons.IH[of u k] Cons.prems Suc step_rel[of v u] show ?thesis
      by (auto intro: rel_trans)
  qed (simp add: rel_refl)
qed (simp add: rel_refl)

lemma history_rel:
  assumes "history init step vs" "i \<le> j" "j < length vs"
  shows "rel (vs ! i) (vs ! j)"
proof -
  have "successively step (drop i vs)"
    using assms(1) by (auto simp: history_def successively_conv_nth)
  moreover have "drop i vs = vs ! i # drop (Suc i) vs"
    using assms by (simp add: Cons_nth_drop_Suc)
  moreover have "inv (vs ! i)" using history_inv[OF assms(1)] assms(2,3) by simp
  ultimately have "rel (vs ! i) (drop i vs ! (j - i))"
    using successively_rel[of "vs ! i" "drop (Suc i) vs" "j - i"] assms(2,3) by simp
  with assms(2,3) show ?thesis by simp
qed

end

end
