(* ===== verification/Wallet_Rate_Limit.thy ===== *)
theory Wallet_Rate_Limit
  imports Job_Store Versioned_Object
begin

text \<open>
  The per-wallet rolling-hour limiter (\<open>x402_wallet_rate_limit.py\<close>). Its state is one durable
  record per wallet, changed by compare-and-swap; a loop over the attempts is recursion on the
  number that remain. The body of an attempt returns \<open>None\<close> for \<open>continue\<close>.
\<close>

section \<open>Parameters\<close>

definition CAPACITY :: nat where "CAPACITY = 30"
definition WINDOW_MILLISECONDS :: int where "WINDOW_MILLISECONDS = 3600000"
definition DOMAIN :: bytes where "DOMAIN = ''x402-wallet-rate-limit:v1:''"
definition DEFAULT_MAX_ATTEMPTS :: nat where "DEFAULT_MAX_ATTEMPTS = 64"

record wallet_rate_reservation =
  wallet_digest :: string
  reservation_id :: string
  reserved_at :: int
  reservation_state :: string
  created_by_caller :: bool

record wallet_rate_limiter =
  limiter_store :: store_config
  limiter_secret :: bytes
  max_attempts :: nat

definition mk_wallet_rate_limiter :: "store_config \<Rightarrow> bytes \<Rightarrow> int \<Rightarrow> exn + wallet_rate_limiter" where
  "mk_wallet_rate_limiter cfg token_secret attempts =
     (if length token_secret < 32 then Inl ValueError
      else if \<not> (1 \<le> attempts \<and> attempts \<le> 64) then Inl ValueError
      else Inr \<lparr>limiter_store = cfg, limiter_secret = token_secret, max_attempts = nat attempts\<rparr>)"

definition wallet_digest_of ::
  "('w, 's) services_scheme \<Rightarrow> wallet_rate_limiter \<Rightarrow> string \<Rightarrow> exn + string" where
  "wallet_digest_of E L wallet =
     (if \<not> (1 \<le> length wallet \<and> length wallet \<le> 256) then Inl ValueError
      else Inr (bytes_hex (hmac_sha256 E (limiter_secret L) (DOMAIN @ utf8 (py_lower wallet)))))"

definition limiter_now :: "('w, 's) services_scheme \<Rightarrow> ('w, 'z, int) io" where
  "limiter_now E = io_bind (io_read (clock E)) (\<lambda>now.
     if \<not> (1 \<le> now \<and> now \<le> MAX_TIMESTAMP_MILLISECONDS) then io_raise WalletRateLimitUnavailable
     else io_return now)"

section \<open>Entries\<close>

definition active_entries :: "json list \<Rightarrow> int \<Rightarrow> json list" where
  "active_entries entries now = filter (\<lambda>e. entry_time e > now - WINDOW_MILLISECONDS) entries"

definition reservation_of :: "string \<Rightarrow> json \<Rightarrow> bool \<Rightarrow> exn + wallet_rate_reservation" where
  "reservation_of digest entry created =
     (case entry_state entry of
        JStr st \<Rightarrow>
          (if st \<noteq> ''reserved'' \<and> st \<noteq> ''committed'' then Inl WalletRateLimitUnavailable
           else Inr \<lparr>wallet_digest = digest, reservation_id = entry_id entry,
             reserved_at = entry_time entry, reservation_state = st, created_by_caller = created\<rparr>)
      | JList _ \<Rightarrow> Inl TypeError
      | JDict _ \<Rightarrow> Inl TypeError
      | _ \<Rightarrow> Inl WalletRateLimitUnavailable)"

definition new_entry :: "string \<Rightarrow> int \<Rightarrow> json" where
  "new_entry rid now = JDict [(''reservationId'', JStr rid), (''reservedAt'', JInt now),
     (''state'', JStr ''reserved'')]"

definition wallet_dict :: "json list \<Rightarrow> dict" where
  "wallet_dict entries = [(''version'', JInt 1), (''entries'', JList entries)]"

definition commit_entry :: "json \<Rightarrow> json" where
  "commit_entry e = (case e of JDict d \<Rightarrow> JDict (dict_put d ''state'' (JStr ''committed'')) | _ \<Rightarrow> e)"

definition retry_after :: "json list \<Rightarrow> int \<Rightarrow> int" where
  "retry_after entries now =
     (let oldest = min_list (map entry_time entries);
          remaining = oldest + WINDOW_MILLISECONDS - now
      in max 1 ((remaining + 999) div 1000))"

fun find_index :: "('a \<Rightarrow> bool) \<Rightarrow> 'a list \<Rightarrow> nat option" where
  "find_index p [] = None"
| "find_index p (x # xs) = (if p x then Some 0 else map_option Suc (find_index p xs))"

definition entry_matches :: "wallet_rate_reservation \<Rightarrow> json \<Rightarrow> bool" where
  "entry_matches r e \<longleftrightarrow> entry_id e = reservation_id r \<and> entry_time e = reserved_at r"

definition reservation_is_active :: "wallet_rate_reservation \<Rightarrow> int \<Rightarrow> bool" where
  "reservation_is_active r now \<longleftrightarrow> reserved_at r > now - WINDOW_MILLISECONDS"

section \<open>Back-off\<close>

text \<open>The bound 0.1 is the double nearest to it.\<close>

definition delay_ok :: "json \<Rightarrow> bool" where
  "delay_ok v = (case v of
     JInt i \<Rightarrow> i = 0
   | JFloat (Finite n d r) \<Rightarrow>
       0 \<le> n \<and> n * 36028797018963968 \<le> 3602879701896397 * int d
   | _ \<Rightarrow> False)"

definition backoff :: "('w, 's) services_scheme \<Rightarrow> nat \<Rightarrow> ('w, 'z, unit) io" where
  "backoff E attempt =
     io_try_bind (io_call (conflict_delay E attempt))
       (\<lambda>e. if e = Cancelled then io_raise e else io_raise WalletRateLimitUnavailable)
       (\<lambda>delay. if \<not> delay_ok delay then io_raise WalletRateLimitUnavailable
          else io_call (sleep E))"

definition backoff_before_next ::
  "('w, 's) services_scheme \<Rightarrow> wallet_rate_limiter \<Rightarrow> nat \<Rightarrow> ('w, 'z, unit) io" where
  "backoff_before_next E L attempt =
     (if attempt + 1 < max_attempts L then backoff E (attempt + 1) else io_return ())"

section \<open>Reserve\<close>

definition reserve_body ::
  "('w, 's) services_scheme \<Rightarrow> wallet_rate_limiter \<Rightarrow> string \<Rightarrow> string \<Rightarrow> nat \<Rightarrow> int
     \<Rightarrow> ('w, 'z, wallet_rate_reservation option) io" where
  "reserve_body E L digest rid attempt now =
     io_bind (read_wallet_rate_limit E (limiter_store L) digest) (\<lambda>found.
       case found of
         None \<Rightarrow>
           let entry = new_entry rid now
           in io_bind (create_wallet_rate_limit E (limiter_store L) digest (wallet_dict [entry]))
               (\<lambda>created. case created of
                  None \<Rightarrow> io_bind (backoff_before_next E L attempt) (\<lambda>_. io_return None)
                | Some _ \<Rightarrow> io_bind (io_of_sum (reservation_of digest entry True))
                    (\<lambda>r. io_return (Some r)))
       | Some stored \<Rightarrow>
           let entries = active_entries (wallet_entries (wallet_record stored)) now
           in case find (\<lambda>e. entry_id e = rid) entries of
                Some matching \<Rightarrow>
                  io_bind
                    (if length entries \<noteq> length (wallet_entries (wallet_record stored))
                     then io_bind (replace_wallet_rate_limit E (limiter_store L) digest stored
                            (wallet_dict entries)) (\<lambda>_. io_return ())
                     else io_return ()) (\<lambda>_.
                  io_bind (io_of_sum (reservation_of digest matching False)) (\<lambda>r.
                    io_return (Some r)))
              | None \<Rightarrow>
                  if length entries \<ge> CAPACITY
                  then io_raise (WalletRateLimitExceeded (retry_after entries now))
                  else let entry = new_entry rid now
                       in io_bind (replace_wallet_rate_limit E (limiter_store L) digest stored
                            (wallet_dict (entries @ [entry]))) (\<lambda>_.
                          io_bind (io_of_sum (reservation_of digest entry True)) (\<lambda>r.
                            io_return (Some r))))"

definition reserve_handler ::
  "('w, 's) services_scheme \<Rightarrow> wallet_rate_limiter \<Rightarrow> nat \<Rightarrow> exn
     \<Rightarrow> ('w, 'z, 'a option) io" where
  "reserve_handler E L attempt e =
     (case e of
        Cancelled \<Rightarrow> io_raise e
      | WalletRateLimitExceeded _ \<Rightarrow> io_raise e
      | JobConflict \<Rightarrow> io_bind (backoff_before_next E L attempt) (\<lambda>_. io_return None)
      | WalletRateLimitUnavailable \<Rightarrow> io_raise e
      | _ \<Rightarrow> io_raise WalletRateLimitUnavailable)"

fun reserve_loop ::
  "('w, 's) services_scheme \<Rightarrow> wallet_rate_limiter \<Rightarrow> string \<Rightarrow> string \<Rightarrow> nat
     \<Rightarrow> ('w, 'z, wallet_rate_reservation) io" where
  "reserve_loop E L digest rid 0 = io_raise WalletRateLimitUnavailable"
| "reserve_loop E L digest rid (Suc remaining) =
     (let attempt = max_attempts L - Suc remaining
      in io_bind (limiter_now E) (\<lambda>now.
         io_bind (io_catch (reserve_body E L digest rid attempt now) (reserve_handler E L attempt))
           (\<lambda>res. case res of
              Some r \<Rightarrow> io_return r
            | None \<Rightarrow> reserve_loop E L digest rid remaining)))"

definition reserve ::
  "('w, 's) services_scheme \<Rightarrow> wallet_rate_limiter \<Rightarrow> string \<Rightarrow> string
     \<Rightarrow> ('w, 'z, wallet_rate_reservation) io" where
  "reserve E L wallet rid =
     io_bind (io_of_sum (wallet_digest_of E L wallet)) (\<lambda>digest.
       if \<not> job_id_re rid then io_raise ValueError
       else reserve_loop E L digest rid (max_attempts L))"

section \<open>Reading back\<close>

definition read_commit_state ::
  "('w, 's) services_scheme \<Rightarrow> wallet_rate_limiter \<Rightarrow> wallet_rate_reservation
     \<Rightarrow> ('w, 'z, string) io" where
  "read_commit_state E L r =
     io_bind (limiter_now E) (\<lambda>now.
       if \<not> reservation_is_active r now then io_return ''expired''
       else io_try_bind (read_wallet_rate_limit E (limiter_store L) (wallet_digest r))
         (\<lambda>e. if e = Cancelled then io_raise e else io_raise WalletRateLimitUnavailable)
         (\<lambda>found. case found of
            None \<Rightarrow> io_raise WalletRateLimitUnavailable
          | Some stored \<Rightarrow>
              (case find (entry_matches r)
                  (active_entries (wallet_entries (wallet_record stored)) now) of
                 None \<Rightarrow> io_raise WalletRateLimitUnavailable
               | Some matching \<Rightarrow>
                   (case entry_state matching of
                      JStr st \<Rightarrow> (if st = ''reserved'' \<or> st = ''committed'' then io_return st
                                  else io_raise WalletRateLimitUnavailable)
                    | JList _ \<Rightarrow> io_raise TypeError
                    | JDict _ \<Rightarrow> io_raise TypeError
                    | _ \<Rightarrow> io_raise WalletRateLimitUnavailable))))"

definition confirm ::
  "('w, 's) services_scheme \<Rightarrow> wallet_rate_limiter \<Rightarrow> wallet_rate_reservation
     \<Rightarrow> ('w, 'z, string) io" where
  "confirm E L r =
     io_bind (limiter_now E) (\<lambda>now.
       if \<not> reservation_is_active r now then io_return ''expired''
       else io_bind (read_commit_state E L r) (\<lambda>st.
         if st \<noteq> ''reserved'' then io_raise WalletRateLimitUnavailable
         else io_return ''active''))"

section \<open>Commit and release\<close>

text \<open>
  The entries a commit or a release writes: \<open>Inl\<close> when it raises, \<open>Inr None\<close> when it returns
  without writing.
\<close>

definition mutated_entries ::
  "wallet_rate_reservation \<Rightarrow> bool \<Rightarrow> json list \<Rightarrow> int \<Rightarrow> exn + json list option" where
  "mutated_entries r commit old now =
     (let entries = active_entries old now
      in case find_index (entry_matches r) entries of
           None \<Rightarrow>
             (if commit \<and> reservation_is_active r now then Inl WalletRateLimitUnavailable
              else if commit then Inr None
              else Inr (Some entries))
         | Some i \<Rightarrow>
             (if commit then Inr (Some (entries[i := commit_entry (entries ! i)]))
              else Inr (Some (take i entries @ drop (Suc i) entries))))"

definition mutate_body ::
  "('w, 's) services_scheme \<Rightarrow> wallet_rate_limiter \<Rightarrow> wallet_rate_reservation \<Rightarrow> bool \<Rightarrow> nat \<Rightarrow> int
     \<Rightarrow> ('w, 'z, unit option) io" where
  "mutate_body E L r commit attempt now =
     io_bind (read_wallet_rate_limit E (limiter_store L) (wallet_digest r)) (\<lambda>found.
       case found of
         None \<Rightarrow>
           (if commit \<and> reservation_is_active r now then io_raise WalletRateLimitUnavailable
            else io_return (Some ()))
       | Some stored \<Rightarrow>
           io_bind (io_of_sum
             (mutated_entries r commit (wallet_entries (wallet_record stored)) now)) (\<lambda>change.
           case change of
             None \<Rightarrow> io_return (Some ())
           | Some entries \<Rightarrow>
               if py_eq (JList entries) (JList (wallet_entries (wallet_record stored)))
               then io_return (Some ())
               else io_try_bind
                 (replace_wallet_rate_limit E (limiter_store L) (wallet_digest r) stored
                   (wallet_dict entries))
                 (\<lambda>e. if e = JobConflict
                    then io_bind (backoff_before_next E L attempt) (\<lambda>_. io_return None)
                    else if e = Cancelled then io_raise e
                    else if \<not> commit then io_raise e
                    else io_bind (read_commit_state E L r) (\<lambda>confirmation.
                      if confirmation = ''committed'' \<or> confirmation = ''expired''
                      then io_return (Some ()) else io_return None))
                 (\<lambda>_. io_return (Some ()))))"

definition mutate_handler ::
  "('w, 's) services_scheme \<Rightarrow> wallet_rate_limiter \<Rightarrow> nat \<Rightarrow> exn
     \<Rightarrow> ('w, 'z, unit option) io" where
  "mutate_handler E L attempt e =
     (case e of
        Cancelled \<Rightarrow> io_raise e
      | JobConflict \<Rightarrow> io_bind (backoff_before_next E L attempt) (\<lambda>_. io_return None)
      | _ \<Rightarrow> io_raise WalletRateLimitUnavailable)"

fun mutate_loop ::
  "('w, 's) services_scheme \<Rightarrow> wallet_rate_limiter \<Rightarrow> wallet_rate_reservation \<Rightarrow> bool \<Rightarrow> nat
     \<Rightarrow> ('w, 'z, unit) io" where
  "mutate_loop E L r commit 0 = io_raise WalletRateLimitUnavailable"
| "mutate_loop E L r commit (Suc remaining) =
     (let attempt = max_attempts L - Suc remaining
      in io_bind (limiter_now E) (\<lambda>now.
         io_bind (io_catch (mutate_body E L r commit attempt now) (mutate_handler E L attempt))
           (\<lambda>res. case res of
              Some _ \<Rightarrow> io_return ()
            | None \<Rightarrow> mutate_loop E L r commit remaining)))"

definition commit ::
  "('w, 's) services_scheme \<Rightarrow> wallet_rate_limiter \<Rightarrow> wallet_rate_reservation \<Rightarrow> ('w, 'z, unit) io" where
  "commit E L r = mutate_loop E L r True (max_attempts L)"

definition release ::
  "('w, 's) services_scheme \<Rightarrow> wallet_rate_limiter \<Rightarrow> wallet_rate_reservation \<Rightarrow> ('w, 'z, unit) io" where
  "release E L r = mutate_loop E L r False (max_attempts L)"

section \<open>What a write may change\<close>

text \<open>
  The specification of the limiter on a wallet's entries: at clock reading \<open>now\<close> the entries that
  have left the window are dropped, and then at most one thing happens.
\<close>

datatype wallet_change = Prune | Admit string | CommitAt nat | ReleaseAt nat

fun apply_change :: "int \<Rightarrow> wallet_change \<Rightarrow> json list \<Rightarrow> json list option" where
  "apply_change now Prune es = Some (active_entries es now)"
| "apply_change now (Admit rid) es =
     (let act = active_entries es now
      in if length act < CAPACITY \<and> rid \<notin> set (map entry_id act)
         then Some (act @ [new_entry rid now]) else None)"
| "apply_change now (CommitAt i) es =
     (let act = active_entries es now
      in if i < length act then Some (act[i := commit_entry (act ! i)]) else None)"
| "apply_change now (ReleaseAt i) es =
     (let act = active_entries es now
      in if i < length act then Some (take i act @ drop (Suc i) act) else None)"

definition wallet_write :: "json list \<Rightarrow> json list \<Rightarrow> bool" where
  "wallet_write old new \<longleftrightarrow> (\<exists>now ch. 1 \<le> now \<and> now \<le> MAX_TIMESTAMP_MILLISECONDS
     \<and> apply_change now ch old = Some new)"

text \<open>What every durable write of the limiter satisfies; it leaves no other events.\<close>

definition wallet_guarantee :: "event \<Rightarrow> bool" where
  "wallet_guarantee ev = (case ev of
     WalletCreateSent digest new \<Rightarrow>
       wallet_write [] (wallet_entries new) \<and> entries_ok (wallet_entries new)
   | WalletReplaceSent digest old new \<Rightarrow>
       wallet_write (wallet_entries old) (wallet_entries new) \<and> entries_ok (wallet_entries new)
   | WalletCreated digest new \<Rightarrow> True
   | WalletReplaced digest old new \<Rightarrow> True
   | _ \<Rightarrow> False)"

lemma wallet_guarantee_simps [simp]:
  "wallet_guarantee (WalletCreateSent digest new)
     \<longleftrightarrow> wallet_write [] (wallet_entries new) \<and> entries_ok (wallet_entries new)"
  "wallet_guarantee (WalletReplaceSent digest old new)
     \<longleftrightarrow> wallet_write (wallet_entries old) (wallet_entries new) \<and> entries_ok (wallet_entries new)"
  "wallet_guarantee (WalletCreated digest new)"
  "wallet_guarantee (WalletReplaced digest old new)"
  by (simp_all add: wallet_guarantee_def)

lemma wallet_entries_dict [simp]: "wallet_entries (wallet_dict es) = es"
  by (simp add: wallet_entries_def wallet_dict_def)

lemma active_entries_Nil [simp]: "active_entries [] now = []"
  by (simp add: active_entries_def)

lemma new_entry_simps [simp]:
  "entry_id (new_entry rid now) = rid" "entry_time (new_entry rid now) = now"
  "entry_state (new_entry rid now) = JStr ''reserved''"
  by (simp_all add: new_entry_def entry_id_def entry_time_def entry_state_def)

lemma commit_entry_simps [simp]:
  "entry_id (commit_entry e) = entry_id e" "entry_time (commit_entry e) = entry_time e"
  by (cases e; simp add: commit_entry_def entry_id_def entry_time_def)+


lemma commit_entry_state: "entry_ok e \<Longrightarrow> entry_state (commit_entry e) = JStr ''committed''"
  by (auto simp: entry_ok_def commit_entry_def entry_state_def)

lemma find_index_Some:
  "find_index p xs = Some i \<longleftrightarrow> i < length xs \<and> p (xs ! i) \<and> (\<forall>j<i. \<not> p (xs ! j))"
proof (induction xs arbitrary: i)
  case (Cons x xs)
  show ?case
  proof (cases i)
    case (Suc j)
    have "(\<forall>k<Suc j. \<not> p ((x # xs) ! k)) \<longleftrightarrow> \<not> p x \<and> (\<forall>k<j. \<not> p (xs ! k))"
      by (auto simp: less_Suc_eq_0_disj)
    with Suc Cons.IH[of j] show ?thesis by (auto split: if_splits)
  qed (use Cons.IH in auto)
qed simp

lemma find_index_None: "find_index p xs = None \<longleftrightarrow> list_all (\<lambda>x. \<not> p x) xs"
  by (induction xs) auto

lemma wallet_writeI:
  "apply_change now ch old = Some new \<Longrightarrow> 1 \<le> now \<Longrightarrow> now \<le> MAX_TIMESTAMP_MILLISECONDS
   \<Longrightarrow> wallet_write old new"
  by (auto simp: wallet_write_def)

lemma mutated_entries_change:
  assumes "mutated_entries r c old now = Inr (Some new)"
  shows "\<exists>ch. apply_change now ch old = Some new"
proof (cases "find_index (entry_matches r) (active_entries old now)")
  case None
  with assms have "apply_change now Prune old = Some new"
    by (auto simp: mutated_entries_def Let_def split: if_splits)
  then show ?thesis ..
next
  case (Some i)
  with assms have "apply_change now (if c then CommitAt i else ReleaseAt i) old = Some new"
    by (auto simp: mutated_entries_def Let_def find_index_Some split: if_splits)
  then show ?thesis ..
qed

section \<open>Every operation writes within the specification\<close>

text \<open>
  \<open>asyncio.sleep\<close> returns or is cancelled; nothing else. The two classes of exceptions that the
  limiter lets out follow from this.
\<close>

definition sleeps :: "('w, 's) services_scheme \<Rightarrow> bool" where
  "sleeps E \<longleftrightarrow> (\<forall>w. fst (sleep E w) = Inr () \<or> fst (sleep E w) = Inl Cancelled)"

definition limiter_exn :: "exn \<Rightarrow> bool" where
  "limiter_exn e \<longleftrightarrow> e = Cancelled \<or> e = WalletRateLimitUnavailable"

lemma sleeps_exn: "sleeps E \<Longrightarrow> sleep E w = (Inl e, w') \<Longrightarrow> e = Cancelled"
  unfolding sleeps_def by (metis fst_conv sum.distinct(1) sum.inject(1))

lemma obeys_now [spec_rule]:
  assumes "\<And>now. 1 \<le> now \<Longrightarrow> now \<le> MAX_TIMESTAMP_MILLISECONDS \<Longrightarrow> Q now"
    and "R WalletRateLimitUnavailable"
  shows "obeys P (limiter_now E) Q R"
  unfolding limiter_now_def by (intro hoare_rule) (use assms in auto)

lemma obeys_backoff_next [spec_rule]:
  assumes "Q ()" "\<And>e. (sleeps E \<Longrightarrow> limiter_exn e) \<Longrightarrow> R e"
  shows "obeys P (backoff_before_next E L attempt) Q R"
  unfolding backoff_before_next_def backoff_def
  by (intro hoare_rule) (auto intro!: assms simp: limiter_exn_def dest: sleeps_exn)

lemma entry_ok_state:
  "entry_ok e \<Longrightarrow> entry_state e = JStr ''reserved'' \<or> entry_state e = JStr ''committed''"
  by (auto simp: entry_ok_def entry_state_def)

lemma entry_ok_found:
  "entries_ok es \<Longrightarrow> find p (active_entries es now) = Some e \<Longrightarrow> entry_ok e \<and> p e"
  by (auto simp: entries_ok_def active_entries_def find_Some_iff list_all_iff)
     (metis filter_is_subset nth_mem subsetD)

lemma obeys_read_commit_state [spec_rule]:
  assumes "\<And>st. Q st" "\<And>e. limiter_exn e \<Longrightarrow> R e"
  shows "obeys P (read_commit_state E L r) Q R"
  unfolding read_commit_state_def
  by (intro hoare_rule spec_rule)
     (auto simp: assms limiter_exn_def dest!: entry_ok_found entry_ok_state)

lemma obeys_confirm [spec_rule]:
  assumes "Q ''active''" "Q ''expired''" "\<And>e. limiter_exn e \<Longrightarrow> R e"
  shows "obeys P (confirm E L r) Q R"
  unfolding confirm_def by (intro hoare_rule spec_rule) (auto simp: assms limiter_exn_def)

lemma reservation_of_ok:
  "entry_ok e \<Longrightarrow> \<exists>r. reservation_of digest e created = Inr r \<and> wallet_digest r = digest
     \<and> reservation_id r = entry_id e \<and> reserved_at r = entry_time e
     \<and> entry_state e = JStr (reservation_state r) \<and> created_by_caller r = created"
  using entry_ok_state[of e] by (auto simp: reservation_of_def)

lemma reservation_of_new:
  "reservation_of digest (new_entry rid now) created =
     Inr \<lparr>wallet_digest = digest, reservation_id = rid, reserved_at = now,
       reservation_state = ''reserved'', created_by_caller = created\<rparr>"
  by (simp add: reservation_of_def)

text \<open>What a reservation returned by \<open>reserve\<close> says.\<close>

definition reservation_for :: "string \<Rightarrow> string \<Rightarrow> wallet_rate_reservation \<Rightarrow> bool" where
  "reservation_for digest rid r \<longleftrightarrow> wallet_digest r = digest \<and> reservation_id r = rid
     \<and> (reservation_state r = ''reserved'' \<or> \<not> created_by_caller r \<and> reservation_state r = ''committed'')"

definition reserve_exn :: "exn \<Rightarrow> bool" where
  "reserve_exn e \<longleftrightarrow> limiter_exn e \<or> (\<exists>n. e = WalletRateLimitExceeded n)"

lemma find_None_ids: "find (\<lambda>e. entry_id e = rid) es = None \<Longrightarrow> rid \<notin> set (map entry_id es)"
  by (auto simp: find_None_iff)

lemma retry_after_positive: "1 \<le> retry_after es now"
  by (simp add: retry_after_def Let_def)

lemma admit_change:
  "find (\<lambda>e. entry_id e = rid) (active_entries es now) = None \<Longrightarrow>
   \<not> CAPACITY \<le> length (active_entries es now) \<Longrightarrow>
   apply_change now (Admit rid) es = Some (active_entries es now @ [new_entry rid now])"
  using find_None_ids[of rid "active_entries es now"] by simp

lemma reserve_first_change: "apply_change now (Admit rid) [] = Some [new_entry rid now]"
  by (simp add: CAPACITY_def)

lemma obeys_reserve_body:
  assumes "\<And>r. reservation_for digest rid r \<Longrightarrow> Q (Some r)" "Q None" "\<And>e. R e"
    and now: "1 \<le> now" "now \<le> MAX_TIMESTAMP_MILLISECONDS"
  shows "obeys wallet_guarantee (reserve_body E L digest rid attempt now) Q R"
proof -
  have found: "\<exists>r. reservation_of digest e False = Inr r \<and> reservation_for digest rid r"
    if "entries_ok es" "find (\<lambda>e. entry_id e = rid) (active_entries es now) = Some e" for es e
    using entry_ok_found[OF that] reservation_of_ok[of e digest False] entry_ok_state[of e]
    by (auto simp: reservation_for_def)
  note w = wallet_writeI[OF _ now]
  show ?thesis
    unfolding reserve_body_def
    by (intro hoare_rule spec_rule)
       (auto simp: assms reservation_of_new reservation_for_def
         intro: w[OF reserve_first_change] w[OF admit_change] w[of Prune] assms(1) dest!: found)
qed

interpretation reserving: attempt_loop "reserve_loop E L digest rid"
  "\<lambda>n. io_bind (limiter_now E) (\<lambda>now. io_catch
     (reserve_body E L digest rid (max_attempts L - Suc n) now)
     (reserve_handler E L (max_attempts L - Suc n)))"
  "io_raise WalletRateLimitUnavailable" for E L digest rid
  by unfold_locales (simp_all add: io_bind_assoc Let_def)

lemma obeys_reserve_handler:
  assumes "Q None" "\<And>e. (sleeps E \<Longrightarrow> reserve_exn e) \<Longrightarrow> R e"
  shows "obeys P (reserve_handler E L attempt e) Q R"
  unfolding reserve_handler_def
  by (cases e) (auto intro!: hoare_rule spec_rule assms simp: reserve_exn_def limiter_exn_def)

lemma obeys_reserve_loop:
  assumes "\<And>r. reservation_for digest rid r \<Longrightarrow> Q r"
    and "\<And>e. (sleeps E \<Longrightarrow> reserve_exn e) \<Longrightarrow> R e"
  shows "obeys wallet_guarantee (reserve_loop E L digest rid n) Q R"
  by (rule reserving.obeys_loop)
     (auto intro!: hoare_rule obeys_now obeys_reserve_body obeys_reserve_handler assms
       simp: reserve_exn_def limiter_exn_def)

lemma obeys_reserve:
  assumes "\<And>digest r. wallet_digest_of E L wallet = Inr digest \<Longrightarrow> job_id_re rid
      \<Longrightarrow> reservation_for digest rid r \<Longrightarrow> Q r"
    and "\<And>e. (sleeps E \<Longrightarrow> reserve_exn e \<or> e = ValueError) \<Longrightarrow> R e"
  shows "obeys wallet_guarantee (reserve E L wallet rid) Q R"
  unfolding reserve_def
  by (intro hoare_rule obeys_reserve_loop)
     (auto intro!: assms simp: wallet_digest_of_def split: if_splits)

lemma obeys_mutate_body:
  assumes "Q (Some ())" "Q None" "\<And>e. R e" and now: "1 \<le> now" "now \<le> MAX_TIMESTAMP_MILLISECONDS"
  shows "obeys wallet_guarantee (mutate_body E L r c attempt now) Q R"
  unfolding mutate_body_def
  by (intro hoare_rule spec_rule)
     (auto simp: assms dest!: mutated_entries_change intro: wallet_writeI[OF _ now])

interpretation mutating: attempt_loop "mutate_loop E L r c"
  "\<lambda>n. io_bind (limiter_now E) (\<lambda>now. io_catch
     (mutate_body E L r c (max_attempts L - Suc n) now)
     (mutate_handler E L (max_attempts L - Suc n)))"
  "io_raise WalletRateLimitUnavailable" for E L r c
  by unfold_locales (simp_all add: io_bind_assoc Let_def)

lemma obeys_mutate_handler:
  assumes "Q None" "\<And>e. (sleeps E \<Longrightarrow> limiter_exn e) \<Longrightarrow> R e"
  shows "obeys P (mutate_handler E L attempt e) Q R"
  unfolding mutate_handler_def
  by (cases e) (auto intro!: hoare_rule spec_rule assms simp: limiter_exn_def)

lemma obeys_mutate_loop:
  assumes "Q ()" "\<And>e. (sleeps E \<Longrightarrow> limiter_exn e) \<Longrightarrow> R e"
  shows "obeys wallet_guarantee (mutate_loop E L r c n) Q R"
  by (rule mutating.obeys_loop)
     (auto intro!: hoare_rule obeys_now obeys_mutate_body obeys_mutate_handler assms
       simp: limiter_exn_def)

lemma obeys_commit [spec_rule]:
  assumes "Q ()" "\<And>e. (sleeps E \<Longrightarrow> limiter_exn e) \<Longrightarrow> R e"
  shows "obeys wallet_guarantee (commit E L r) Q R"
  unfolding commit_def by (rule obeys_mutate_loop) (rule assms | assumption)+

lemma obeys_release [spec_rule]:
  assumes "Q ()" "\<And>e. (sleeps E \<Longrightarrow> limiter_exn e) \<Longrightarrow> R e"
  shows "obeys wallet_guarantee (release E L r) Q R"
  unfolding release_def by (rule obeys_mutate_loop) (rule assms | assumption)+

section \<open>The rolling window\<close>

text \<open>
  The history of one wallet: the writes of all replicas in the order the store applied them, each
  a change at a clock reading not before the previous one. The log keeps the admissions that have
  not been released, oldest first, for ever.
\<close>

definition entry_key :: "json \<Rightarrow> string \<times> int" where
  "entry_key e = (entry_id e, entry_time e)"

fun log_change :: "int \<Rightarrow> wallet_change \<Rightarrow> json list \<Rightarrow> (string \<times> int) list \<Rightarrow> (string \<times> int) list" where
  "log_change now (Admit rid) es log = log @ [(rid, now)]"
| "log_change now (ReleaseAt i) es log = remove1 (entry_key (active_entries es now ! i)) log"
| "log_change now ch es log = log"

inductive wallet_run :: "int \<Rightarrow> (string \<times> int) list \<Rightarrow> json list \<Rightarrow> bool" where
  wallet_start: "wallet_run t [] []"
| wallet_step: "wallet_run t log es \<Longrightarrow> t \<le> now \<Longrightarrow> apply_change now ch es = Some es'
    \<Longrightarrow> wallet_run now (log_change now ch es log) es'"

definition in_window :: "int \<Rightarrow> string \<times> int \<Rightarrow> bool" where
  "in_window t a \<longleftrightarrow> t - WINDOW_MILLISECONDS < snd a \<and> snd a \<le> t"

definition after_cutoff :: "int \<Rightarrow> string \<times> int \<Rightarrow> bool" where
  "after_cutoff t a \<longleftrightarrow> t - WINDOW_MILLISECONDS < snd a"

lemma map_active: "map entry_key (active_entries es now) = filter (after_cutoff now) (map entry_key es)"
  by (simp add: active_entries_def filter_map comp_def after_cutoff_def entry_key_def)

lemma distinct_active:
  "distinct (map entry_id es) \<Longrightarrow> distinct (map entry_id (active_entries es now))"
  by (simp add: active_entries_def distinct_map_filter)

lemma map_update_same: "i < length xs \<Longrightarrow> f y = f (xs ! i) \<Longrightarrow> map f (xs[i := y]) = map f xs"
  by (metis list_update_id map_update nth_map length_map)

lemma map_remove_nth:
  assumes "distinct (map f xs)" "i < length xs"
  shows "map f (take i xs @ drop (Suc i) xs) = remove1 (f (xs ! i)) (map f xs)"
proof -
  have "xs = take i xs @ xs ! i # drop (Suc i) xs" using assms(2) by (rule id_take_nth_drop)
  then have m: "map f xs = map f (take i xs) @ f (xs ! i) # map f (drop (Suc i) xs)"
    by (metis list.simps(9) map_append)
  with assms(1) have "f (xs ! i) \<notin> set (map f (take i xs))" by auto
  with m show ?thesis by (simp add: remove1_append)
qed

lemma distinct_entry_key: "distinct (map entry_id es) \<Longrightarrow> distinct (map entry_key es)"
  by (auto simp: distinct_map entry_key_def inj_on_def)

text \<open>A change keeps the ids distinct and carries the keys of the active entries along.\<close>

lemma apply_change_ids:
  assumes "apply_change now ch es = Some es'" "distinct (map entry_id es)"
  shows "distinct (map entry_id es')"
proof (cases ch)
  case (CommitAt i)
  with assms distinct_active[OF assms(2), of now] show ?thesis
    by (auto simp: Let_def map_update_same split: if_splits)
next
  case (ReleaseAt i)
  with assms(1) have i: "i < length (active_entries es now)"
    and es': "es' = take i (active_entries es now) @ drop (Suc i) (active_entries es now)"
    by (auto simp: Let_def split: if_splits)
  show ?thesis
    unfolding es' map_remove_nth[OF distinct_active[OF assms(2)] i]
    by (rule distinct_remove1[OF distinct_active[OF assms(2)]])
qed (use assms distinct_active[OF assms(2), of now] in \<open>auto simp: Let_def split: if_splits\<close>)

lemma apply_change_keys:
  assumes "apply_change now ch es = Some es'" "distinct (map entry_id es)"
    and "filter (after_cutoff now) log = map entry_key (active_entries es now)"
  shows "filter (after_cutoff now) (log_change now ch es log) = map entry_key es'"
proof (cases ch)
  case (Admit rid)
  with assms show ?thesis
    by (auto simp: Let_def after_cutoff_def WINDOW_MILLISECONDS_def entry_key_def split: if_splits)
next
  case (CommitAt i)
  with assms show ?thesis
    by (auto simp: Let_def map_update_same entry_key_def split: if_splits)
next
  case (ReleaseAt i)
  with assms(1) have i: "i < length (active_entries es now)"
    and es': "es' = take i (active_entries es now) @ drop (Suc i) (active_entries es now)"
    by (auto simp: Let_def split: if_splits)
  show ?thesis
    unfolding es' map_remove_nth[OF distinct_entry_key[OF distinct_active[OF assms(2)]] i]
    using ReleaseAt assms(3) by (simp add: filter_remove1)
qed (use assms in auto)

lemma apply_change_length:
  assumes "apply_change now ch es = Some es'" "length es \<le> CAPACITY"
  shows "length es' \<le> CAPACITY"
proof -
  have "length (active_entries es now) \<le> CAPACITY"
    using assms(2) length_filter_le order_trans unfolding active_entries_def by blast
  with assms(1) show ?thesis by (cases ch) (auto simp: Let_def split: if_splits)
qed

text \<open>Every version of a wallet record, whoever wrote it, names each reservation once and is within
  the capacity.\<close>

definition wallet_inv :: "json list \<Rightarrow> bool" where
  "wallet_inv es \<longleftrightarrow> distinct (map entry_id es) \<and> length es \<le> CAPACITY"

interpretation wallet_versions: guarded_object "\<lambda>es. es = []" wallet_write wallet_inv
  by unfold_locales
    (auto simp: wallet_inv_def wallet_write_def dest: apply_change_ids apply_change_length)

lemma log_change_set: "set (log_change now ch es log) \<subseteq> set log \<union> {a. snd a = now}"
  by (cases ch) (auto dest: set_remove1_subset[THEN subsetD])

lemma after_cutoff_mono: "t \<le> now \<Longrightarrow> after_cutoff now a \<Longrightarrow> after_cutoff t a"
  by (simp add: after_cutoff_def)

text \<open>The record holds exactly the admissions of the last hour, and no window ever held too many.\<close>

lemma wallet_run_inv:
  assumes "wallet_run t log es"
  shows "distinct (map entry_id es) \<and> length es \<le> CAPACITY
    \<and> filter (after_cutoff t) log = map entry_key (active_entries es t)
    \<and> (\<forall>a\<in>set log. snd a \<le> t)"
  using assms
proof (induction rule: wallet_run.induct)
  case (wallet_step t log es now ch es')
  have "filter (after_cutoff now) log = filter (after_cutoff now) (filter (after_cutoff t) log)"
    using after_cutoff_mono[OF wallet_step.hyps(2)] by (auto intro!: filter_cong)
  also have "\<dots> = filter (after_cutoff now) (filter (after_cutoff t) (map entry_key es))"
    using wallet_step.IH by (simp add: map_active)
  also have "\<dots> = map entry_key (active_entries es now)"
    using after_cutoff_mono[OF wallet_step.hyps(2)] by (auto simp: map_active intro!: filter_cong)
  finally have keys: "filter (after_cutoff now) (log_change now ch es log) = map entry_key es'"
    using apply_change_keys wallet_step by blast
  then have "map entry_key (active_entries es' now) = map entry_key es'"
    unfolding map_active keys[symmetric] by simp
  moreover have "\<forall>a\<in>set (log_change now ch es log). snd a \<le> now"
    using wallet_step.IH wallet_step.hyps(2) log_change_set[of now ch es log] by fastforce
  ultimately show ?case
    using keys apply_change_ids[OF wallet_step.hyps(3)] apply_change_length[OF wallet_step.hyps(3)]
      wallet_step.IH by auto
qed (simp add: CAPACITY_def)


lemma window_after_cutoff: "in_window t a \<Longrightarrow> now \<le> t \<Longrightarrow> after_cutoff now a"
  by (simp add: in_window_def after_cutoff_def)

lemma wallet_window_bound:
  assumes "wallet_run t log es"
  shows "length (filter (in_window u) log) \<le> CAPACITY"
  using assms
proof (induction rule: wallet_run.induct)
  case (wallet_step t log es now ch es')
  note inv = wallet_run_inv[OF wallet_run.wallet_step[OF wallet_step.hyps]]
  show ?case
  proof (cases "now \<le> u")
    case True
    have "filter (in_window u) (log_change now ch es log)
        = filter (in_window u) (filter (after_cutoff now) (log_change now ch es log))"
      using window_after_cutoff[OF _ True] by (auto intro!: filter_cong)
    also have "length \<dots> \<le> length (active_entries es' now)"
      using inv by (metis length_filter_le length_map)
    also have "\<dots> \<le> CAPACITY"
      using inv length_filter_le order_trans unfolding active_entries_def by blast
    finally show ?thesis .
  next
    case False
    then have "length (filter (in_window u) (log_change now ch es log))
        \<le> length (filter (in_window u) log)"
      by (cases ch) (auto simp: in_window_def filter_remove1 length_remove1)
    with wallet_step.IH show ?thesis by linarith
  qed
qed (simp add: CAPACITY_def)

lemma ceil_thousand: "(x::int) \<le> 1000 * ((x + 999) div 1000)" "1000 * ((x + 999) div 1000 - 1) < x"
proof -
  define q r where "q = (x + 999) div 1000" and "r = (x + 999) mod 1000"
  have "q * 1000 + r = x + 999" unfolding q_def r_def by (rule div_mult_mod_eq)
  moreover have "0 \<le> r" "r < 1000" by (simp_all add: r_def)
  ultimately have "x \<le> 1000 * q \<and> 1000 * (q - 1) < x" by auto
  then show "x \<le> 1000 * ((x + 999) div 1000)" "1000 * ((x + 999) div 1000 - 1) < x"
    by (simp_all add: q_def)
qed

lemma retry_after_oldest:
  assumes "es \<noteq> []" "list_all (\<lambda>e. entry_time e > now - WINDOW_MILLISECONDS) es"
  shows "\<exists>e\<in>set es. entry_time e \<le> now + 1000 * retry_after es now - WINDOW_MILLISECONDS
    \<and> now + 1000 * (retry_after es now - 1) < entry_time e + WINDOW_MILLISECONDS
    \<and> (\<forall>f\<in>set es. entry_time e \<le> entry_time f)"
proof -
  let ?m = "min_list (map entry_time es)"
  have min: "?m = Min (entry_time ` set es)" using assms(1) by (simp add: min_list_Min)
  then have "?m \<in> entry_time ` set es" using assms(1) by simp
  then obtain e where e: "e \<in> set es" "entry_time e = ?m" by auto
  have le: "\<forall>f\<in>set es. entry_time e \<le> entry_time f" using e(2) min by simp
  have pos: "0 < entry_time e + WINDOW_MILLISECONDS - now"
    using assms(2) e(1) by (force simp: list_all_iff)
  then have r: "retry_after es now = (entry_time e + WINDOW_MILLISECONDS - now + 999) div 1000"
    unfolding retry_after_def Let_def e(2)[symmetric] by linarith
  have "entry_time e \<le> now + 1000 * retry_after es now - WINDOW_MILLISECONDS
      \<and> now + 1000 * (retry_after es now - 1) < entry_time e + WINDOW_MILLISECONDS"
    unfolding r using ceil_thousand[of "entry_time e + WINDOW_MILLISECONDS - now"] by linarith
  with e(1) le show ?thesis by blast
qed

end
