(* ===== verification/Payment_Proof.thy ===== *)
theory Payment_Proof
  imports X402_Effects
begin

text \<open>
  The payment proof of an x402 request (\<open>x402_verify.py\<close>): decoding the \<open>Payment-Signature\<close>
  header, the payment requirement, the configuration and the EIP-712 digest of an EIP-3009
  authorization. The Ethereum libraries are the record \<open>eth\<close>: their errors carry the text the
  library puts in its exception.
\<close>

section \<open>Parameters and configuration\<close>

definition MAX_PAYMENT_SIGNATURE_CHARACTERS :: nat where
  "MAX_PAYMENT_SIGNATURE_CHARACTERS = 32 * 1024"
definition MAX_PAYMENT_PROOF_BYTES :: nat where "MAX_PAYMENT_PROOF_BYTES = 24 * 1024"
definition MAX_PAYMENT_PROOF_NESTING :: nat where "MAX_PAYMENT_PROOF_NESTING = 64"
definition PRICE_WEI :: int where "PRICE_WEI = 100000000000000000"
definition CHAIN_ID :: int where "CHAIN_ID = 56"

definition PAYMENT_SIGNATURE_REJECTION :: string where
  "PAYMENT_SIGNATURE_REJECTION = ''Payment-Signature is not valid base64 JSON''"
definition X402_VERSION_REJECTION :: string where
  "X402_VERSION_REJECTION = ''unsupported x402Version (expected 2)''"

definition evm_address_re :: "string \<Rightarrow> bool" where
  "evm_address_re s \<longleftrightarrow> take 2 s = ''0x'' \<and> length s = 42 \<and> list_all is_hex (drop 2 s)"

datatype abi_value = AbiBytes32 bytes | AbiAddress string | AbiUint256 int

record eth =
  keccak :: "bytes \<Rightarrow> bytes"
  abi_encode :: "abi_value list \<Rightarrow> string + bytes"
  to_checksum_address :: "string \<Rightarrow> string + string"
  recover_hash :: "bytes \<Rightarrow> string \<Rightarrow> string + string"

record verifier =
  pay_to_address :: string
  unix_time :: int
  eth_lib :: eth
  verify_float :: "string \<Rightarrow> pyfloat"

text \<open>
  \<open>_resolve_b402_pay_to_address\<close>; the loader is \<open>None\<close> when it raises.
\<close>

definition resolve_b402_pay_to_address ::
  "(string \<Rightarrow> string option) \<Rightarrow> json option \<Rightarrow> string option" where
  "resolve_b402_pay_to_address env studio =
     (let configured = (\<lambda>k. py_strip (case env k of None \<Rightarrow> [] | Some v \<Rightarrow> v));
          from_studio = (case studio of
             None \<Rightarrow> None
           | Some v \<Rightarrow>
               (case py_or v (JDict []) of
                  JDict d \<Rightarrow>
                    (case py_or (dict_get d ''wallet'') (JDict []) of
                       JDict w \<Rightarrow> Some (py_strip (py_str (py_or (dict_get w ''address'') (JStr []))))
                     | _ \<Rightarrow> None)
                | _ \<Rightarrow> None));
          raw = (if configured ''B402_PAY_TO_ADDRESS'' \<noteq> [] then Some (configured ''B402_PAY_TO_ADDRESS'')
                 else if configured ''X402_SELLER_WALLET'' \<noteq> [] then Some (configured ''X402_SELLER_WALLET'')
                 else from_studio)
      in case raw of None \<Rightarrow> None | Some r \<Rightarrow> if evm_address_re r then Some r else None)"

definition resolve_x402_chain_id :: "(string \<Rightarrow> string option) \<Rightarrow> int option" where
  "resolve_x402_chain_id env = (case env ''X402_CHAIN_ID'' of
     None \<Rightarrow> Some 56
   | Some v \<Rightarrow> if v \<noteq> ''56'' then None else Some 56)"

definition resolve_x402_token_address :: "(string \<Rightarrow> string option) \<Rightarrow> string option" where
  "resolve_x402_token_address env = (case env ''X402_TOKEN_ADDRESS'' of
     None \<Rightarrow> Some ''0x330949Aed7d00FCe0558C64ED6FeC9792616cC39''
   | Some v \<Rightarrow> (let raw = py_strip v in if evm_address_re raw then Some raw else None))"

section \<open>Decoding the header\<close>

definition finite_json_float :: "verifier \<Rightarrow> string \<Rightarrow> pyfloat option" where
  "finite_json_float V text = (case verify_float V text of
     Finite n d r \<Rightarrow> Some (Finite n d r)
   | _ \<Rightarrow> None)"

definition reject_json_constant :: "string \<Rightarrow> pyfloat option" where
  "reject_json_constant value = None"

text \<open>The work list: its head is the end of the Python list, where \<open>pop\<close> takes.\<close>

fun json_children :: "json \<Rightarrow> json list" where
  "json_children (JDict d) = map snd d"
| "json_children (JList xs) = xs"
| "json_children _ = []"

fun json_nodes :: "json \<Rightarrow> nat" where
  "json_nodes (JDict d) = Suc (sum_list (map (\<lambda>(k, v). json_nodes v) d))"
| "json_nodes (JList xs) = Suc (sum_list (map json_nodes xs))"
| "json_nodes _ = 1"

lemma json_nodes_children: "json_nodes v = Suc (sum_list (map json_nodes (json_children v)))"
  by (cases v) (auto simp: comp_def split_def)

function bounded_nesting :: "(json \<times> nat) list \<Rightarrow> bool" where
  "bounded_nesting [] = True"
| "bounded_nesting ((current, depth) # pending) =
     (if depth > MAX_PAYMENT_PROOF_NESTING then False
      else bounded_nesting (rev (map (\<lambda>c. (c, depth + 1)) (json_children current)) @ pending))"
  by pat_completeness auto
termination
  by (relation "measure (\<lambda>p. sum_list (map (json_nodes \<circ> fst) p))")
     (auto simp: rev_map[symmetric] comp_def sum_list_rev, metis json_nodes_children lessI)

definition has_bounded_json_nesting :: "json \<Rightarrow> bool" where
  "has_bounded_json_nesting v = bounded_nesting [(v, 1)]"

definition decode_payment_signature :: "verifier \<Rightarrow> string \<Rightarrow> dict option" where
  "decode_payment_signature V value =
     (if value = [] \<or> length value > MAX_PAYMENT_SIGNATURE_CHARACTERS then None
      else if \<not> list_all is_ascii value then None
      else case b64decode value of
        None \<Rightarrow> None
      | Some raw \<Rightarrow>
          (if length raw > MAX_PAYMENT_PROOF_BYTES \<or> b64encode raw \<noteq> value then None
           else case utf8_decode raw of
             None \<Rightarrow> None
           | Some decoded \<Rightarrow>
               (case json_parse \<lparr>parse_float = finite_json_float V,
                   parse_constant = reject_json_constant, unique_keys = False\<rparr> decoded of
                  None \<Rightarrow> None
                | Some proof \<Rightarrow>
                    (if \<not> has_bounded_json_nesting proof then None else as_dict proof))))"

definition payment_payload_objects :: "dict \<Rightarrow> (dict \<times> dict) option" where
  "payment_payload_objects proof =
     (case dict_get proof ''payload'' of
        JDict payload \<Rightarrow>
          (case dict_get payload ''authorization'' of
             JDict authorization \<Rightarrow> Some (payload, authorization)
           | _ \<Rightarrow> None)
      | _ \<Rightarrow> None)"

section \<open>Verified payments and requirements\<close>

record verified_payment =
  vp_proof :: dict
  from_address :: string
  to_address :: string
  pay_value :: int
  valid_after :: int
  valid_before :: int
  nonce :: string
  nonce_bytes :: bytes
  asset :: string
  token_symbol :: string
  vp_transfer_method :: string

definition build_payment_requirement :: "verifier \<Rightarrow> payment_token \<Rightarrow> dict \<Rightarrow> int \<Rightarrow> dict" where
  "build_payment_requirement V token extra amount =
     [(''scheme'', JStr ''exact''),
      (''network'', JStr (''eip155:'' @ dec_of_int CHAIN_ID)),
      (''amount'', JStr (dec_of_int amount)),
      (''asset'', JStr (address token)),
      (''payTo'', JStr (py_lower (pay_to_address V))),
      (''maxTimeoutSeconds'', JInt 600),
      (''extra'', JDict extra)]"

text \<open>
  The requirements are a mapping (then they are the metadata of the U token) or a list of
  requirements.
\<close>

definition build_payment_challenge ::
  "verifier \<Rightarrow> string list \<Rightarrow> string \<Rightarrow> dict + json list \<Rightarrow> dict" where
  "build_payment_challenge V symbols resource_url requirements =
     (let accepts = (case requirements of
            Inl extra \<Rightarrow> [JDict (build_payment_requirement V U_TOKEN extra PRICE_WEI)]
          | Inr rs \<Rightarrow> rs);
          description = (if symbols \<noteq> []
            then ''Stock analysis for '' @ py_join '', '' (map py_upper symbols)
            else ''Stock analysis report'')
      in [(''x402Version'', JInt 2), (''accepts'', JList accepts),
          (''error'', JStr ''Payment Required''),
          (''resource'', JDict [(''url'', JStr resource_url), (''description'', JStr description),
             (''mimeType'', JStr ''application/json'')])])"

section \<open>EIP-712 digest of a transfer authorization\<close>

definition DOMAIN_TYPE :: string where
  "DOMAIN_TYPE = ''EIP712Domain(string name,string version,uint256 chainId,address verifyingContract)''"

definition TRANSFER_TYPE :: string where
  "TRANSFER_TYPE = ''TransferWithAuthorization(address from,address to,uint256 value,''
     @ ''uint256 validAfter,uint256 validBefore,bytes32 nonce)''"

definition domain_separator :: "eth \<Rightarrow> payment_token \<Rightarrow> string + bytes" where
  "domain_separator lib token =
     sum_bind (to_checksum_address lib (address token)) (\<lambda>contract.
     sum_bind (abi_encode lib
       [AbiBytes32 (keccak lib (utf8 DOMAIN_TYPE)),
        AbiBytes32 (keccak lib (utf8 (domain_name token))),
        AbiBytes32 (keccak lib (utf8 (domain_version token))),
        AbiUint256 CHAIN_ID, AbiAddress contract]) (\<lambda>enc.
     Inr (keccak lib enc)))"

definition eip712_digest ::
  "eth \<Rightarrow> string \<Rightarrow> string \<Rightarrow> int \<Rightarrow> int \<Rightarrow> int \<Rightarrow> bytes \<Rightarrow> payment_token \<Rightarrow> string + bytes" where
  "eip712_digest lib from to v va vb non token =
     sum_bind (to_checksum_address lib from) (\<lambda>from_sum.
     sum_bind (to_checksum_address lib to) (\<lambda>to_sum.
     sum_bind (abi_encode lib
       [AbiBytes32 (keccak lib (utf8 TRANSFER_TYPE)), AbiAddress from_sum, AbiAddress to_sum,
        AbiUint256 v, AbiUint256 va, AbiUint256 vb, AbiBytes32 non]) (\<lambda>enc.
     sum_bind (domain_separator lib token) (\<lambda>separator.
       Inr (keccak lib ([chr 25, chr 1] @ separator @ keccak lib enc))))))"

section \<open>Laws\<close>

fun json_depth :: "json \<Rightarrow> nat" where
  "json_depth (JDict d) = Suc (fold max (map (\<lambda>(k, v). json_depth v) d) 0)"
| "json_depth (JList xs) = Suc (fold max (map json_depth xs) 0)"
| "json_depth _ = 1"

lemma fold_max_le: "fold max xs a \<le> (n::nat) \<longleftrightarrow> a \<le> n \<and> (\<forall>x\<in>set xs. x \<le> n)"
  by (induction xs arbitrary: a) auto

lemma json_depth_le:
  "json_depth v \<le> Suc n \<longleftrightarrow> (\<forall>c\<in>set (json_children v). json_depth c \<le> n)"
  by (cases v) (auto simp: fold_max_le)

lemma json_depth_pos: "1 \<le> json_depth v"
  by (cases v) auto

text \<open>
  The work list accepts exactly when every pending value fits below the limit, whatever the order
  in which its values are visited.
\<close>

lemma bounded_nesting_depth:
  "bounded_nesting pending \<longleftrightarrow>
     (\<forall>(v, depth)\<in>set pending. depth + json_depth v \<le> Suc MAX_PAYMENT_PROOF_NESTING)"
proof (induction pending rule: bounded_nesting.induct)
  case (2 current depth pending)
  show ?case
  proof (cases "depth > MAX_PAYMENT_PROOF_NESTING")
    case True
    then show ?thesis using json_depth_pos[of current] by auto
  next
    case False
    then obtain m where m: "MAX_PAYMENT_PROOF_NESTING = depth + m"
      using le_Suc_ex linorder_not_less by blast
    have "depth + json_depth current \<le> Suc (depth + m)
        \<longleftrightarrow> (\<forall>c\<in>set (json_children current). depth + 1 + json_depth c \<le> Suc (depth + m))"
      using json_depth_le[of current m] by auto
    moreover have "bounded_nesting ((current, depth) # pending) \<longleftrightarrow>
        (\<forall>c\<in>set (json_children current). depth + 1 + json_depth c \<le> Suc MAX_PAYMENT_PROOF_NESTING)
        \<and> (\<forall>(v, d)\<in>set pending. d + json_depth v \<le> Suc MAX_PAYMENT_PROOF_NESTING)"
      using 2[OF False] False by (simp add: ball_Un)
    ultimately show ?thesis unfolding m by simp
  qed
qed simp

lemma has_bounded_nesting_depth:
  "has_bounded_json_nesting v \<longleftrightarrow> json_depth v \<le> MAX_PAYMENT_PROOF_NESTING"
  by (simp add: has_bounded_json_nesting_def bounded_nesting_depth)

end
