(* ===== verification/Permit2.thy ===== *)
theory Permit2
  imports Payment_Proof
begin

text \<open>Permit2 exact proofs (\<open>x402_permit2.py\<close>): the fixed EIP-712 domain and the strict wire format.\<close>

section \<open>Fixed domain\<close>

definition PERMIT2_ADDRESS :: string where
  "PERMIT2_ADDRESS = ''0x000000000022D473030F116dDEE9F6B43aC78BA3''"
definition UINT256_MAX :: int where "UINT256_MAX = 2 ^ 256 - 1"
definition UINT256_DECIMAL_DIGITS :: nat where
  "UINT256_DECIMAL_DIGITS = length (dec_of_int UINT256_MAX)"
definition PERMIT2_DOMAIN_TYPE :: string where
  "PERMIT2_DOMAIN_TYPE = ''EIP712Domain(string name,uint256 chainId,address verifyingContract)''"
definition TOKEN_PERMISSIONS_TYPE :: string where
  "TOKEN_PERMISSIONS_TYPE = ''TokenPermissions(address token,uint256 amount)''"
definition WITNESS_TYPE :: string where
  "WITNESS_TYPE = ''Witness(address to,uint256 validAfter)''"
definition PERMIT_WITNESS_TYPE :: string where
  "PERMIT_WITNESS_TYPE = ''PermitWitnessTransferFrom(TokenPermissions permitted,address spender,''
     @ ''uint256 nonce,uint256 deadline,Witness witness)'' @ TOKEN_PERMISSIONS_TYPE @ WITNESS_TYPE"
definition PROOF_REJECTION :: string where
  "PROOF_REJECTION = ''Permit2 payment proof is invalid''"
definition REQUIREMENT_REJECTION :: string where
  "REQUIREMENT_REJECTION = ''payment requirement mismatch''"

definition signature_re :: "string \<Rightarrow> bool" where
  "signature_re s \<longleftrightarrow> take 2 s = ''0x'' \<and> length s = 132 \<and> list_all is_hex (drop 2 s)"

section \<open>Wire values\<close>

definition canonical_uint256 :: "json \<Rightarrow> int option" where
  "canonical_uint256 v =
     (let parsed = (case v of
            JInt i \<Rightarrow> Some i
          | JStr s \<Rightarrow>
              (if s = ''0'' \<or> (s \<noteq> [] \<and> length s \<le> UINT256_DECIMAL_DIGITS
                  \<and> is_digit (hd s) \<and> hd s \<noteq> CHR ''0'' \<and> list_all is_digit s)
               then Some (int (nat_of_dec s)) else None)
          | _ \<Rightarrow> None)
      in case parsed of
           None \<Rightarrow> None
         | Some n \<Rightarrow> if 0 \<le> n \<and> n \<le> UINT256_MAX then Some n else None)"

definition exact_object :: "json \<Rightarrow> string list \<Rightarrow> dict option" where
  "exact_object v ks = (case v of JDict d \<Rightarrow> if keys_are d ks then Some d else None | _ \<Rightarrow> None)"

definition wire_address :: "json \<Rightarrow> string option" where
  "wire_address v = (case v of
     JStr s \<Rightarrow> if evm_address_re s then Some (py_lower s) else None
   | _ \<Rightarrow> None)"

definition wire_uint256 :: "json \<Rightarrow> int option" where
  "wire_uint256 v = (case v of JStr s \<Rightarrow> canonical_uint256 v | _ \<Rightarrow> None)"

definition valid_extra :: "json \<Rightarrow> payment_token \<Rightarrow> bool" where
  "valid_extra extra token = (case extra of
     JDict d \<Rightarrow>
       list_all (dict_has d) [''name'', ''version'', ''assetTransferMethod'', ''signerAddress'',
         ''spenderAddress'']
       \<and> dict_get d ''name'' = JStr (domain_name token)
       \<and> dict_get d ''version'' = JStr (domain_version token)
       \<and> dict_get d ''assetTransferMethod'' = JStr (transfer_method token)
       \<and> wire_address (dict_get d ''signerAddress'') \<noteq> None
       \<and> wire_address (dict_get d ''spenderAddress'') \<noteq> None
   | _ \<Rightarrow> False)"

section \<open>Digest\<close>

definition permit2_domain_separator :: "eth \<Rightarrow> string + bytes" where
  "permit2_domain_separator lib =
     sum_bind (to_checksum_address lib PERMIT2_ADDRESS) (\<lambda>contract.
     sum_bind (abi_encode lib
       [AbiBytes32 (keccak lib (utf8 PERMIT2_DOMAIN_TYPE)), AbiBytes32 (keccak lib (utf8 ''Permit2'')),
        AbiUint256 56, AbiAddress contract]) (\<lambda>enc. Inr (keccak lib enc)))"

definition permit2_digest ::
  "eth \<Rightarrow> string \<Rightarrow> int \<Rightarrow> string \<Rightarrow> int \<Rightarrow> int \<Rightarrow> string \<Rightarrow> int \<Rightarrow> string + bytes" where
  "permit2_digest lib token amount spender non deadline to va =
     sum_bind (to_checksum_address lib token) (\<lambda>token_sum.
     sum_bind (abi_encode lib
       [AbiBytes32 (keccak lib (utf8 TOKEN_PERMISSIONS_TYPE)), AbiAddress token_sum,
        AbiUint256 amount]) (\<lambda>permissions.
     sum_bind (to_checksum_address lib to) (\<lambda>to_sum.
     sum_bind (abi_encode lib
       [AbiBytes32 (keccak lib (utf8 WITNESS_TYPE)), AbiAddress to_sum, AbiUint256 va]) (\<lambda>witness.
     sum_bind (to_checksum_address lib spender) (\<lambda>spender_sum.
     sum_bind (abi_encode lib
       [AbiBytes32 (keccak lib (utf8 PERMIT_WITNESS_TYPE)), AbiBytes32 (keccak lib permissions),
        AbiAddress spender_sum, AbiUint256 non, AbiUint256 deadline,
        AbiBytes32 (keccak lib witness)]) (\<lambda>permit.
     sum_bind (permit2_domain_separator lib) (\<lambda>separator.
       Inr (keccak lib ([chr 25, chr 1] @ separator @ keccak lib permit)))))))))"

section \<open>Verification\<close>

type_synonym verdict = "verified_payment option \<times> string"

text \<open>The fields of the authorization once every one of them has its wire format.\<close>

record permit2_fields =
  pf_signature :: string
  pf_payer :: string
  pf_spender :: string
  pf_token :: string
  pf_recipient :: string
  pf_amount :: int
  pf_nonce :: int
  pf_deadline :: int
  pf_valid_after :: int

definition permit2_fields_of :: "dict \<Rightarrow> permit2_fields option" where
  "permit2_fields_of proof =
     (case exact_object (dict_get proof ''payload'') [''signature'', ''permit2Authorization''] of
        None \<Rightarrow> None
      | Some payload \<Rightarrow>
     (case exact_object (dict_get payload ''permit2Authorization'')
         [''permitted'', ''from'', ''spender'', ''nonce'', ''deadline'', ''witness''] of
        None \<Rightarrow> None
      | Some authorization \<Rightarrow>
     (case (exact_object (dict_get authorization ''permitted'') [''token'', ''amount''],
            exact_object (dict_get authorization ''witness'') [''to'', ''validAfter'']) of
        (Some permitted, Some witness) \<Rightarrow>
          (case (as_str (dict_get payload ''signature''),
                 wire_address (dict_get authorization ''from''),
                 wire_address (dict_get authorization ''spender''),
                 wire_address (dict_get permitted ''token''),
                 wire_address (dict_get witness ''to''),
                 wire_uint256 (dict_get permitted ''amount''),
                 wire_uint256 (dict_get authorization ''nonce''),
                 wire_uint256 (dict_get authorization ''deadline''),
                 wire_uint256 (dict_get witness ''validAfter'')) of
             (Some sig, Some payer, Some spender, Some tok, Some recipient, Some amount, Some non,
              Some deadline, Some va) \<Rightarrow>
               (if \<not> signature_re sig then None
                else Some \<lparr>pf_signature = sig, pf_payer = payer, pf_spender = spender,
                  pf_token = tok, pf_recipient = recipient, pf_amount = amount, pf_nonce = non,
                  pf_deadline = deadline, pf_valid_after = va\<rparr>)
           | _ \<Rightarrow> None)
      | _ \<Rightarrow> None)))"

definition verify_permit2_exact ::
  "verifier \<Rightarrow> dict \<Rightarrow> payment_token \<Rightarrow> dict option \<Rightarrow> int \<Rightarrow> bool \<Rightarrow> verdict" where
  "verify_permit2_exact V proof token expected now allow_expired =
     (case dict_get proof ''accepted'' of
        JDict accepted \<Rightarrow>
          (let accepted_extra = dict_get accepted ''extra'';
               expected_extra = (case expected of None \<Rightarrow> accepted_extra | Some d \<Rightarrow> dict_get d ''extra'')
           in case (accepted_extra, expected_extra) of
             (JDict extra, JDict canonical_extra) \<Rightarrow>
               (if \<not> valid_extra accepted_extra token then (None, REQUIREMENT_REJECTION)
                else if \<not> valid_extra expected_extra token then (None, REQUIREMENT_REJECTION)
                else let canonical = build_payment_requirement V token canonical_extra PRICE_WEI
                in if (case expected of None \<Rightarrow> False | Some d \<Rightarrow> \<not> py_eq (JDict d) (JDict canonical))
                  then (None, REQUIREMENT_REJECTION)
                else if \<not> py_eq (JDict accepted) (JDict canonical) then (None, REQUIREMENT_REJECTION)
                else case permit2_fields_of proof of
                  None \<Rightarrow> (None, PROOF_REJECTION)
                | Some f \<Rightarrow>
                    (if pf_token f \<noteq> py_lower (address token)
                        \<or> pf_amount f \<noteq> PRICE_WEI
                        \<or> Some (pf_amount f) \<noteq> canonical_uint256 (dict_get accepted ''amount'')
                        \<or> pf_spender f \<noteq> py_lower (py_str (dict_get extra ''spenderAddress''))
                        \<or> pf_recipient f \<noteq> py_lower (py_str (dict_get accepted ''payTo''))
                        \<or> pf_valid_after f \<ge> pf_deadline f
                     then (None, PROOF_REJECTION)
                     else if now < pf_valid_after f then (None, ''authorization not yet valid'')
                     else if now \<ge> pf_deadline f \<and> \<not> allow_expired
                       then (None, ''authorization expired'')
                     else if pf_deadline f - now > 3600
                       then (None, ''authorization valid for more than 1 hour from now'')
                     else case sum_bind
                         (permit2_digest (eth_lib V) (pf_token f) (pf_amount f) (pf_spender f)
                           (pf_nonce f) (pf_deadline f) (pf_recipient f) (pf_valid_after f))
                         (\<lambda>digest. recover_hash (eth_lib V) digest (pf_signature f)) of
                       Inl e \<Rightarrow> (None, PROOF_REJECTION)
                     | Inr recovered \<Rightarrow>
                         (if py_lower recovered \<noteq> pf_payer f then (None, PROOF_REJECTION)
                          else (Some \<lparr>vp_proof = proof, from_address = pf_payer f,
                            to_address = pf_recipient f, pay_value = pf_amount f,
                            valid_after = pf_valid_after f, valid_before = pf_deadline f,
                            nonce = dec_of_int (pf_nonce f),
                            nonce_bytes = to_bytes_big 32 (nat (pf_nonce f)),
                            asset = py_lower (address token), token_symbol = symbol token,
                            vp_transfer_method = transfer_method token\<rparr>, []))))
           | _ \<Rightarrow> (None, REQUIREMENT_REJECTION))
      | _ \<Rightarrow> (None, REQUIREMENT_REJECTION))"

end
