(* ===== verification/Payment_Verify.thy ===== *)
theory Payment_Verify
  imports Permit2
begin

text \<open>
  \<open>validate_payment_proof\<close> of \<open>x402_verify.py\<close>: every check in the order of the code, with the
  reason it gives. The sum's \<open>Inl\<close> is an exception that would leave the function.
\<close>

definition reject :: "string \<Rightarrow> exn + verdict" where
  "reject why = Inr (None, why)"

definition eip3009_extra_ok :: "dict \<Rightarrow> payment_token \<Rightarrow> bool" where
  "eip3009_extra_ok extra token \<longleftrightarrow>
     dict_get extra ''name'' = JStr (domain_name token)
     \<and> dict_get extra ''version'' = JStr (domain_version token)
     \<and> dict_get extra ''assetTransferMethod'' = JStr (transfer_method token)"

definition signer_ok :: "dict \<Rightarrow> bool" where
  "signer_ok extra \<longleftrightarrow> evm_address_re (py_str (py_or (dict_get extra ''signerAddress'') (JStr [])))"

text \<open>The requirement part: \<open>Some\<close> reason when it is rejected.\<close>

definition check_requirement ::
  "verifier \<Rightarrow> dict \<Rightarrow> payment_token \<Rightarrow> dict option \<Rightarrow> string option" where
  "check_requirement V accepted token expected =
     (case dict_get accepted ''extra'' of
        JDict extra \<Rightarrow>
          (if \<not> eip3009_extra_ok extra token then Some ''payment requirement is missing or invalid''
           else if \<not> signer_ok extra then Some ''payment requirement is missing or invalid''
           else case (case expected of None \<Rightarrow> JDict extra | Some d \<Rightarrow> dict_get d ''extra'') of
             JDict canonical_extra \<Rightarrow>
               (if \<not> eip3009_extra_ok canonical_extra token then Some ''payment requirement mismatch''
                else if \<not> signer_ok canonical_extra then Some ''payment requirement mismatch''
                else let canonical = build_payment_requirement V token canonical_extra PRICE_WEI
                in if (case expected of None \<Rightarrow> False | Some d \<Rightarrow> \<not> py_eq (JDict d) (JDict canonical))
                     then Some ''payment requirement mismatch''
                   else if \<not> py_eq (JDict accepted) (JDict canonical)
                     then Some ''payment requirement mismatch''
                   else None)
           | _ \<Rightarrow> Some ''payment requirement mismatch'')
      | _ \<Rightarrow> Some ''payment requirement is missing or invalid'')"

text \<open>The numeric fields and the nonce; \<open>None\<close> when any conversion raises.\<close>

definition auth_numbers :: "dict \<Rightarrow> (int \<times> int \<times> int \<times> bytes) option" where
  "auth_numbers auth =
     (case (py_int_of_str (py_str (dict_get_or auth ''value'' (JStr ''0''))),
            py_int (dict_get_or auth ''validAfter'' (JInt 0)),
            py_int (dict_get_or auth ''validBefore'' (JInt 0)),
            from_hex (py_zfill 64 (remove_prefix ''0x''
              (py_str (dict_get_or auth ''nonce'' (JStr [])))))) of
        (Some v, Inr va, Inr vb, Some nb) \<Rightarrow> Some (v, va, vb, nb)
      | _ \<Rightarrow> None)"

definition validate_eip3009 ::
  "verifier \<Rightarrow> dict \<Rightarrow> dict \<Rightarrow> payment_token \<Rightarrow> dict option \<Rightarrow> int \<Rightarrow> bool \<Rightarrow> exn + verdict" where
  "validate_eip3009 V proof accepted token expected now allow_expired =
     (case check_requirement V accepted token expected of
        Some why \<Rightarrow> reject why
      | None \<Rightarrow>
     (case payment_payload_objects proof of
        None \<Rightarrow> reject PAYMENT_SIGNATURE_REJECTION
      | Some (payload, auth) \<Rightarrow>
     (let sig = py_str (py_or (dict_get payload ''signature'') (JStr []));
          from = py_lower (py_str (dict_get_or auth ''from'' (JStr [])));
          to = py_lower (py_str (dict_get_or auth ''to'' (JStr [])))
      in case auth_numbers auth of
        None \<Rightarrow> reject ''authorization contains invalid numeric or nonce fields''
      | Some (v, va, vb, nb) \<Rightarrow>
          (if \<not> starts_with ''0x'' from \<or> length from \<noteq> 42
             then reject (''invalid from address: '' @ repr_str from)
           else if to \<noteq> py_lower (pay_to_address V) then reject (''wrong recipient: '' @ repr_str to)
           else if to \<noteq> py_lower (py_str (dict_get accepted ''payTo''))
             then reject (''wrong recipient: '' @ repr_str to)
           else case py_int (dict_get accepted ''amount'') of
             Inl e \<Rightarrow> Inl (conversion_exn e)
           | Inr amount \<Rightarrow>
          (if v \<noteq> amount then reject ''authorization value does not match payment requirement''
           else if length nb \<noteq> 32 then reject ''nonce must be bytes32''
           else if now < va then reject ''authorization not yet valid''
           else if now \<ge> vb \<and> \<not> allow_expired then reject ''authorization expired''
           else if vb - now > 3600
             then reject ''authorization valid for more than 1 hour from now''
           else if \<not> starts_with ''0x'' sig
             then reject ''signature must be a 0x-prefixed hex string''
           else case sum_bind (eip712_digest (eth_lib V) from to v va vb nb token)
               (\<lambda>digest. recover_hash (eth_lib V) digest sig) of
             Inl e \<Rightarrow> reject (''EIP-712 verification error: '' @ e)
           | Inr recovered \<Rightarrow>
               (if py_lower recovered \<noteq> from then reject ''signature mismatch''
                else Inr (Some \<lparr>vp_proof = proof, from_address = from, to_address = to,
                  pay_value = v, valid_after = va, valid_before = vb,
                  nonce = ''0x'' @ bytes_hex nb, nonce_bytes = nb,
                  asset = py_lower (address token), token_symbol = symbol token,
                  vp_transfer_method = transfer_method token\<rparr>, [])))))))"

definition validate_proof_object ::
  "verifier \<Rightarrow> dict \<Rightarrow> dict option \<Rightarrow> int \<Rightarrow> bool \<Rightarrow> exn + verdict" where
  "validate_proof_object V proof expected now allow_expired =
     (if \<not> py_eq (dict_get proof ''x402Version'') (JInt 2) then reject X402_VERSION_REJECTION
      else if \<not> (case dict_get proof ''resource'' of
          JDict resource \<Rightarrow>
            (case dict_get resource ''url'' of JStr u \<Rightarrow> u \<noteq> [] | _ \<Rightarrow> False)
        | _ \<Rightarrow> False) then reject ''payment resource is missing or invalid''
      else case dict_get proof ''accepted'' of
        JDict accepted \<Rightarrow>
          (case token_by_asset (dict_get accepted ''asset'') of
             None \<Rightarrow> reject (if expected \<noteq> None then ''payment requirement mismatch''
               else ''payment requirement is missing or invalid'')
           | Some token \<Rightarrow>
               (if transfer_method token = ''permit2-exact''
                then Inr (verify_permit2_exact V proof token expected now allow_expired)
                else validate_eip3009 V proof accepted token expected now allow_expired))
      | _ \<Rightarrow> reject ''payment requirement is missing or invalid'')"

definition validate_payment_proof ::
  "verifier \<Rightarrow> string \<Rightarrow> dict option \<Rightarrow> int option \<Rightarrow> bool \<Rightarrow> exn + verdict" where
  "validate_payment_proof V proof_header expected now allow_expired =
     (case decode_payment_signature V proof_header of
        None \<Rightarrow> reject PAYMENT_SIGNATURE_REJECTION
      | Some proof \<Rightarrow> validate_proof_object V proof expected
          (case now of None \<Rightarrow> unix_time V | Some t \<Rightarrow> t) allow_expired)"

section \<open>What an accepted payment satisfies\<close>

definition signed_transfer :: "verifier \<Rightarrow> payment_token \<Rightarrow> verified_payment \<Rightarrow> bool" where
  "signed_transfer V token p \<longleftrightarrow> (\<exists>sig digest recovered.
     eip712_digest (eth_lib V) (from_address p) (to_address p) (pay_value p) (valid_after p)
       (valid_before p) (nonce_bytes p) token = Inr digest
     \<and> recover_hash (eth_lib V) digest sig = Inr recovered \<and> py_lower recovered = from_address p)"

definition signed_permit :: "verifier \<Rightarrow> payment_token \<Rightarrow> verified_payment \<Rightarrow> bool" where
  "signed_permit V token p \<longleftrightarrow> (\<exists>spender non sig digest recovered.
     0 \<le> non \<and> non \<le> UINT256_MAX \<and> nonce_bytes p = to_bytes_big 32 (nat non)
     \<and> permit2_digest (eth_lib V) (py_lower (address token)) (pay_value p) spender non
       (valid_before p) (to_address p) (valid_after p) = Inr digest
     \<and> recover_hash (eth_lib V) digest sig = Inr recovered \<and> py_lower recovered = from_address p)"

definition payment_ok :: "verifier \<Rightarrow> int \<Rightarrow> bool \<Rightarrow> verified_payment \<Rightarrow> bool" where
  "payment_ok V now allow_expired p \<longleftrightarrow> (\<exists>token\<in>set TOKENS.
     asset p = py_lower (address token) \<and> token_symbol p = symbol token
     \<and> vp_transfer_method p = transfer_method token
     \<and> (if transfer_method token = ''permit2-exact'' then signed_permit V token p
        else signed_transfer V token p))
   \<and> pay_value p = PRICE_WEI \<and> to_address p = py_lower (pay_to_address V)
   \<and> length (nonce_bytes p) = 32 \<and> length (from_address p) = 42
   \<and> valid_after p \<le> now \<and> (now < valid_before p \<or> allow_expired)
   \<and> valid_before p \<le> now + 3600"

lemma py_eq_requirement:
  assumes "py_eq (JDict accepted) (JDict (build_payment_requirement V token extra amount))"
  shows "dict_get accepted ''amount'' \<in> {JNull, JStr (dec_of_int amount)}"
    and "dict_get accepted ''payTo'' \<in> {JNull, JStr (py_lower (pay_to_address V))}"
proof -
  have "dict_get accepted k \<in> {JNull, JStr s}"
    if "map_of (build_payment_requirement V token extra amount) k = Some (JStr s)" for k s
  proof (cases "map_of accepted k")
    case (Some v)
    then have "(k, v) \<in> set accepted" by (rule map_of_SomeD)
    with assms that have "py_eq v (JStr s)" by (auto simp: list_all_iff split: option.splits)
    with Some show ?thesis by (simp add: dict_get_def)
  qed (simp add: dict_get_def)
  then show "dict_get accepted ''amount'' \<in> {JNull, JStr (dec_of_int amount)}"
    and "dict_get accepted ''payTo'' \<in> {JNull, JStr (py_lower (pay_to_address V))}"
    by (simp_all add: build_payment_requirement_def)
qed

lemma canonical_uint256_dec:
  assumes "0 < n" "n \<le> UINT256_MAX"
  shows "canonical_uint256 (JStr (dec_of_int n)) = Some n"
proof -
  let ?d = "dec_of_nat (nat n)"
  have d: "list_all is_digit ?d" "?d \<noteq> []" using dec_of_nat_digits by auto
  moreover have "is_digit (hd ?d)" using d by (cases ?d) auto
  moreover have "length ?d \<le> length (dec_of_nat (nat UINT256_MAX))"
    using assms by (intro length_dec_mono) simp
  ultimately show ?thesis
    using assms hd_dec_of_nat[of "nat n"]
    by (simp add: canonical_uint256_def Let_def dec_of_int_def UINT256_DECIMAL_DIGITS_def)
qed

lemma price_text: "py_int_of_str (dec_of_int PRICE_WEI) = Some PRICE_WEI"
  using length_dec_of_nat[of "nat PRICE_WEI" 17]
  by (intro py_int_of_dec) (simp_all add: PRICE_WEI_def dec_of_int_def)

lemma wire_address_length: "wire_address v = Some a \<Longrightarrow> length a = 42"
  by (auto simp: wire_address_def evm_address_re_def split: json.splits if_splits)

lemma wire_uint256_range: "wire_uint256 v = Some n \<Longrightarrow> 0 \<le> n \<and> n \<le> UINT256_MAX"
  by (auto simp: wire_uint256_def canonical_uint256_def Let_def
      split: json.splits if_splits option.splits)

lemma permit2_fields_ok:
  "permit2_fields_of proof = Some f \<Longrightarrow> length (pf_payer f) = 42 \<and> length (pf_recipient f) = 42
     \<and> 0 \<le> pf_nonce f \<and> pf_nonce f \<le> UINT256_MAX"
  by (auto simp: permit2_fields_of_def dest: wire_address_length wire_uint256_range
      split: option.splits if_splits)

lemma permit2_sound:
  assumes "verify_permit2_exact V proof token expected now allow_expired = (Some p, why)"
    and token: "token \<in> set TOKENS" "transfer_method token = ''permit2-exact''"
  shows "payment_ok V now allow_expired p"
proof -
  from assms(1) obtain accepted extra f recovered where
    acc: "py_eq (JDict accepted) (JDict (build_payment_requirement V token extra PRICE_WEI))"
    and f: "permit2_fields_of proof = Some f"
    and eqs: "pf_token f = py_lower (address token)" "pf_amount f = PRICE_WEI"
      "pf_recipient f = py_lower (py_str (dict_get accepted ''payTo''))"
    and times: "pf_valid_after f \<le> now" "now < pf_deadline f \<or> allow_expired"
      "pf_deadline f \<le> now + 3600"
    and rec: "sum_bind (permit2_digest (eth_lib V) (pf_token f) (pf_amount f) (pf_spender f)
        (pf_nonce f) (pf_deadline f) (pf_recipient f) (pf_valid_after f))
        (\<lambda>digest. recover_hash (eth_lib V) digest (pf_signature f)) = Inr recovered"
      "py_lower recovered = pf_payer f"
    and p: "p = \<lparr>vp_proof = proof, from_address = pf_payer f, to_address = pf_recipient f,
      pay_value = pf_amount f, valid_after = pf_valid_after f, valid_before = pf_deadline f,
      nonce = dec_of_int (pf_nonce f), nonce_bytes = to_bytes_big 32 (nat (pf_nonce f)),
      asset = py_lower (address token), token_symbol = symbol token,
      vp_transfer_method = transfer_method token\<rparr>"
    by (auto simp: verify_permit2_exact_def Let_def
        split: json.splits if_splits option.splits sum.splits)
  note fok = permit2_fields_ok[OF f]
  have "py_str (dict_get accepted ''payTo'') = py_lower (pay_to_address V)"
    using py_eq_requirement(2)[OF acc] fok eqs(3) by (auto simp: py_str_def)
  then have to: "pf_recipient f = py_lower (pay_to_address V)" using eqs(3) by simp
  from rec(1) eqs(1) obtain digest where
    "permit2_digest (eth_lib V) (py_lower (address token)) (pf_amount f) (pf_spender f)
      (pf_nonce f) (pf_deadline f) (pf_recipient f) (pf_valid_after f) = Inr digest"
    "recover_hash (eth_lib V) digest (pf_signature f) = Inr recovered"
    by (auto simp: sum_bind_Inr)
  with rec(2) fok have "signed_permit V token p"
    unfolding signed_permit_def p verified_payment.simps by blast
  with p token to times fok eqs(2) show ?thesis
    by (auto simp: payment_ok_def)
qed

lemma check_requirement_None:
  "check_requirement V accepted token expected = None
   \<Longrightarrow> \<exists>extra. py_eq (JDict accepted) (JDict (build_payment_requirement V token extra PRICE_WEI))"
  by (auto simp: check_requirement_def Let_def split: json.splits if_splits option.splits)

lemma eip3009_sound:
  assumes "validate_eip3009 V proof accepted token expected now allow_expired = Inr (Some p, why)"
    and token: "token \<in> set TOKENS" "transfer_method token \<noteq> ''permit2-exact''"
  shows "payment_ok V now allow_expired p"
proof -
  from assms(1) have
    req: "check_requirement V accepted token expected = None"
    and checks: "length (from_address p) = 42" "to_address p = py_lower (pay_to_address V)"
      "py_int (dict_get accepted ''amount'') = Inr (pay_value p)" "length (nonce_bytes p) = 32"
      "valid_after p \<le> now" "now < valid_before p \<or> allow_expired" "valid_before p \<le> now + 3600"
      "asset p = py_lower (address token)" "token_symbol p = symbol token"
      "vp_transfer_method p = transfer_method token"
    and signed: "signed_transfer V token p"
    by (auto simp: validate_eip3009_def signed_transfer_def sum_bind_Inr Let_def reject_def
        split: if_splits option.splits sum.splits) blast+
  from check_requirement_None[OF req] obtain extra where
    acc: "py_eq (JDict accepted) (JDict (build_payment_requirement V token extra PRICE_WEI))" ..
  have "pay_value p = PRICE_WEI"
    using py_eq_requirement(1)[OF acc] checks(3) price_text by (auto simp: py_int_def)
  with token checks signed show ?thesis by (auto simp: payment_ok_def)
qed

lemma proof_object_sound:
  assumes "validate_proof_object V proof expected now allow_expired = Inr (Some p, why)"
  shows "payment_ok V now allow_expired p"
proof -
  from assms obtain accepted token where
    tok: "token_by_asset (dict_get accepted ''asset'') = Some token"
    and v: "if transfer_method token = ''permit2-exact''
      then verify_permit2_exact V proof token expected now allow_expired = (Some p, why)
      else validate_eip3009 V proof accepted token expected now allow_expired = Inr (Some p, why)"
    by (auto simp: validate_proof_object_def reject_def split: if_splits json.splits option.splits)
  from token_by_asset_Some[OF tok] have "token \<in> set TOKENS" by auto
  with v permit2_sound eip3009_sound show ?thesis by (auto split: if_splits)
qed

section \<open>The recovery mode bypasses only the expiry check\<close>

lemma permit2_allow_expired:
  "verify_permit2_exact V proof token expected now True = (Some p, why) \<Longrightarrow>
     verify_permit2_exact V proof token expected now False =
       (if now < valid_before p then (Some p, why) else (None, ''authorization expired''))"
  unfolding verify_permit2_exact_def Let_def
  by (simp split: json.split_asm if_split_asm option.split_asm sum.split_asm del: py_eq.simps)
     auto

lemma eip3009_allow_expired:
  "validate_eip3009 V proof accepted token expected now True = Inr (Some p, why) \<Longrightarrow>
     validate_eip3009 V proof accepted token expected now False =
       (if now < valid_before p then Inr (Some p, why) else reject ''authorization expired'')"
  unfolding validate_eip3009_def Let_def reject_def
  by (simp split: if_split_asm option.split_asm sum.split_asm prod.split_asm) auto

lemma proof_object_allow_expired:
  assumes "validate_proof_object V proof expected now True = Inr (Some p, why)"
  shows "validate_proof_object V proof expected now False =
    (if now < valid_before p then Inr (Some p, why) else reject ''authorization expired'')"
  using assms permit2_allow_expired eip3009_allow_expired
  by (auto simp: validate_proof_object_def reject_def split: if_splits json.splits option.splits)

section \<open>Canonical integers\<close>

lemma canonical_uint256_text:
  "canonical_uint256 (JStr s) = Some n \<longleftrightarrow> s = dec_of_int n \<and> 0 \<le> n \<and> n \<le> UINT256_MAX"
proof
  assume a: "canonical_uint256 (JStr s) = Some n"
  then have n: "n = int (nat_of_dec s)" "n \<le> UINT256_MAX"
    and s: "s = ''0'' \<or> s \<noteq> [] \<and> hd s \<noteq> CHR ''0'' \<and> list_all is_digit s"
    by (auto simp: canonical_uint256_def Let_def split: if_splits)
  have "''0'' = dec_of_nat (nat_of_dec ''0'')" by code_simp
  with s dec_of_nat_of_dec[of s] have "s = dec_of_nat (nat_of_dec s)" by auto
  with n show "s = dec_of_int n \<and> 0 \<le> n \<and> n \<le> UINT256_MAX" by (simp add: dec_of_int_def)
next
  assume a: "s = dec_of_int n \<and> 0 \<le> n \<and> n \<le> UINT256_MAX"
  show "canonical_uint256 (JStr s) = Some n"
  proof (cases "n = 0")
    case True
    have "dec_of_int 0 = ''0''" "nat_of_dec ''0'' = 0" by code_simp+
    with a True show ?thesis by (simp add: canonical_uint256_def UINT256_MAX_def)
  qed (use a canonical_uint256_dec[of n] in auto)
qed

end
