(* ===== verification/Job_Identity.thy ===== *)
theory Job_Identity
  imports Wallet_Rate_Limit Payment_Verify
begin

text \<open>
  The identity of a paid job and its request (\<open>x402_job_service.py\<close>): everything that is derived
  from the payment and the request alone, and the results the service returns.
\<close>

section \<open>Constants and configuration\<close>

definition LEASE_MILLISECONDS :: int where "LEASE_MILLISECONDS = 120000"
definition STALE_MILLISECONDS :: int where "STALE_MILLISECONDS = 120000"
definition DOWNLOAD_URL_MILLISECONDS :: int where "DOWNLOAD_URL_MILLISECONDS = 1800000"
definition MAX_EXECUTION_ATTEMPTS :: int where "MAX_EXECUTION_ATTEMPTS = 3"
definition CLAIM_DRIVE_ATTEMPTS :: nat where "CLAIM_DRIVE_ATTEMPTS = 3"
definition PENDING_PERSIST_ATTEMPTS :: nat where "PENDING_PERSIST_ATTEMPTS = 3"

record job_service =
  svc_store :: store_config
  svc_secret :: bytes
  svc_limiter :: "wallet_rate_limiter option"
  svc_owner :: string
  svc_accept_new_jobs :: bool
  svc_accounting_attempts :: nat
  svc_observer_attempts :: nat
  svc_verifier :: verifier
  svc_tracks_usage :: bool

text \<open>
  The callables the service is constructed with, and what the event loop decides: whether the
  caller was cancelled while a shielded task ran, and how often the heartbeat woke up.
\<close>

record 'w job_services = "'w services" +
  settle :: "string \<Rightarrow> string \<Rightarrow> 'w \<Rightarrow> (exn + settlement_outcome option) \<times> 'w"
  authorization_used :: "verified_payment \<Rightarrow> 'w \<Rightarrow> (exn + bool) \<times> 'w"
  report_competition :: "string \<Rightarrow> string \<Rightarrow> int \<Rightarrow> 'w \<Rightarrow> (exn + bool) \<times> 'w"
  stream_work :: "string \<Rightarrow> string \<Rightarrow> string list \<Rightarrow> 'w \<Rightarrow> ((string \<times> json) list \<times> exn option) \<times> 'w"
  stock_prompt :: "string \<Rightarrow> json \<Rightarrow> json \<Rightarrow> exn + (string \<times> string list)"
  usage_succeeded :: "string \<Rightarrow> string \<Rightarrow> int \<Rightarrow> 'w \<Rightarrow> (exn + unit) \<times> 'w"
  wallet_verified :: "string \<Rightarrow> 'w \<Rightarrow> (exn + unit) \<times> 'w"
  interrupted :: "'w \<Rightarrow> bool \<times> 'w"
  heartbeats :: "'w \<Rightarrow> nat \<times> 'w"

text \<open>
  The constructor. A service that is not given a limiter builds one over its own store, so the
  limiter is always there; \<open>fresh\<close> is what \<open>secrets.token_hex(16)\<close> would return.
\<close>

definition mk_job_service ::
  "store_config \<Rightarrow> bytes \<Rightarrow> wallet_rate_limiter option \<Rightarrow> string option \<Rightarrow> string \<Rightarrow> bool \<Rightarrow> int \<Rightarrow> int
     \<Rightarrow> verifier \<Rightarrow> bool \<Rightarrow> exn + job_service" where
  "mk_job_service cfg secret limiter owner fresh accept accounting observers V tracks_usage =
     (case (case limiter of
          Some L \<Rightarrow> Inr L
        | None \<Rightarrow> mk_wallet_rate_limiter cfg secret (int DEFAULT_MAX_ATTEMPTS)) of
        Inl e \<Rightarrow> Inl e
      | Inr L \<Rightarrow>
          (if \<not> (1 \<le> accounting \<and> accounting \<le> 10)
             then Inl (job_error_exn ''invalid_accounting_retry_attempts'')
           else if \<not> (1 \<le> observers \<and> observers \<le> 10)
             then Inl (job_error_exn ''invalid_reservation_observer_attempts'')
           else Inr \<lparr>svc_store = cfg, svc_secret = secret, svc_limiter = Some L,
             svc_owner = (case owner of Some t \<Rightarrow> if t = [] then fresh else t | None \<Rightarrow> fresh),
             svc_accept_new_jobs = accept, svc_accounting_attempts = nat accounting,
             svc_observer_attempts = nat observers, svc_verifier = V,
             svc_tracks_usage = tracks_usage\<rparr>))"

definition load_job_token_secret :: "(string \<Rightarrow> string option) \<Rightarrow> exn + bytes" where
  "load_job_token_secret env =
     (let secret = utf8 (case env ''X402_JOB_TOKEN_SECRET'' of None \<Rightarrow> [] | Some v \<Rightarrow> v)
      in if length secret < 32
         then Inl (job_error_exn ''X402_JOB_TOKEN_SECRET must contain at least 32 bytes'')
         else Inr secret)"

definition is_valid_settlement_reference :: "json \<Rightarrow> bool \<Rightarrow> bool" where
  "is_valid_settlement_reference v allow_unavailable =
     (if v = JNull then allow_unavailable else valid_settlement_reference v)"

section \<open>Identity\<close>

record job_identity =
  payment_key :: string
  identity_job_id :: string
  job_token :: string
  job_token_hash :: string

record create_job_result =
  result_job_id :: string
  result_job_token :: string
  result_status :: string
  result_expires_at :: int
  result_payment_response :: "dict option"

record job_view =
  view_job_id :: string
  view_status :: string
  view_expires_at :: int
  view_error_code :: "string option"
  view_retryable :: "bool option"
  view_download_url :: "string option"
  view_download_url_expires_at :: "int option"

definition token_matches :: "('w, 's) services_scheme \<Rightarrow> dict \<Rightarrow> json \<Rightarrow> exn + bool" where
  "token_matches E record token =
     (let token_text = (case token of JStr s \<Rightarrow> s | _ \<Rightarrow> []);
          supplied = bytes_hex (sha256 E (utf8 token_text));
          expected = py_str (dict_get_or record ''jobTokenHash'' (JStr []))
      in compare_digest supplied expected)"

definition proof_digest :: "('w, 's) services_scheme \<Rightarrow> string \<Rightarrow> exn + string" where
  "proof_digest E proof_header =
     (if list_all is_ascii proof_header then Inr (bytes_hex (sha256 E proof_header))
      else Inl (job_error_exn ''payment_rejected''))"

definition canonical_payment_parts ::
  "verified_payment \<Rightarrow> exn + (string \<times> string \<times> string)" where
  "canonical_payment_parts payment =
     (let stripped = py_strip (from_address payment);
          address_text = (if py_lower (take 2 stripped) = ''0x'' then drop 2 stripped else stripped)
      in case from_hex address_text of
           None \<Rightarrow> Inl (job_error_exn ''invalid_payment_identity'')
         | Some address_bytes \<Rightarrow>
             (if length address_text \<noteq> 40 \<or> length address_bytes \<noteq> 20
                 \<or> length (nonce_bytes payment) \<noteq> 32
              then Inl (job_error_exn ''invalid_payment_identity'')
              else case token_by_asset (JStr (asset payment)) of
                None \<Rightarrow> Inl (job_error_exn ''invalid_payment_identity'')
              | Some token \<Rightarrow>
                  Inr (''0x'' @ bytes_hex address_bytes, ''0x'' @ bytes_hex (nonce_bytes payment),
                    py_lower (address token))))"

text \<open>\<open>base64.urlsafe_b64encode(...).decode().rstrip("=")\<close>.\<close>

definition urlsafe_b64 :: "bytes \<Rightarrow> string" where
  "urlsafe_b64 bs = py_rstrip_char (CHR ''='')
     (map (\<lambda>c. if c = CHR ''+'' then CHR ''-'' else if c = CHR ''/'' then CHR ''_'' else c) (b64encode bs))"

definition identity_from_payment_key ::
  "('w, 's) services_scheme \<Rightarrow> job_service \<Rightarrow> string \<Rightarrow> job_identity" where
  "identity_from_payment_key E svc key =
     (let token = urlsafe_b64 (hmac_sha256 E (svc_secret svc) (''x402-job-token:'' @ utf8 key))
      in \<lparr>payment_key = key, identity_job_id = ''x402_'' @ take 32 key, job_token = token,
          job_token_hash = bytes_hex (sha256 E (utf8 token))\<rparr>)"

definition identity_material :: "string \<Rightarrow> string \<times> string \<times> string \<Rightarrow> bytes" where
  "identity_material symb parts =
     (case parts of (addr, non, ast) \<Rightarrow>
        if symb = ''U'' then utf8 (dec_of_int CHAIN_ID) @ '':'' @ utf8 addr @ '':'' @ utf8 non
        else ''asset:'' @ utf8 ast @ '':'' @ utf8 (dec_of_int CHAIN_ID) @ '':'' @ utf8 addr @ '':''
          @ utf8 non)"

definition derive_identity ::
  "('w, 's) services_scheme \<Rightarrow> job_service \<Rightarrow> verified_payment \<Rightarrow> exn + job_identity" where
  "derive_identity E svc payment =
     (case canonical_payment_parts payment of
        Inl e \<Rightarrow> Inl e
      | Inr parts \<Rightarrow> Inr (identity_from_payment_key E svc
          (bytes_hex (sha256 E (identity_material (token_symbol payment) parts)))))"

definition competition_event_id ::
  "('w, 's) services_scheme \<Rightarrow> verified_payment \<Rightarrow> exn + string" where
  "competition_event_id E payment =
     (case canonical_payment_parts payment of
        Inl e \<Rightarrow> Inl e
      | Inr (addr, non, ast) \<Rightarrow>
          Inr (''b402:'' @ dec_of_int CHAIN_ID @ '':''
            @ bytes_hex (sha256 E (addr @ '':'' @ non @ '':'' @ ast))))"

section \<open>Requests\<close>

definition normalize_symbol :: "string \<Rightarrow> string list" where
  "normalize_symbol s = (if py_strip s = [] then [] else [py_upper (py_strip s)])"

definition request_symbols :: "json \<Rightarrow> string list" where
  "request_symbols raw = (case raw of
     JStr s \<Rightarrow> concat (map normalize_symbol (py_split (CHR '','') s))
   | JList vs \<Rightarrow> concat (map (normalize_symbol \<circ> py_str) vs)
   | _ \<Rightarrow> [])"

definition symbol_char :: "char \<Rightarrow> bool" where
  "symbol_char c \<longleftrightarrow> is_alnum c \<or> c = CHR ''.'' \<or> ord c = 94 \<or> c = CHR ''-''"

definition symbol_ok :: "string \<Rightarrow> bool" where
  "symbol_ok s \<longleftrightarrow> length s \<le> 20 \<and> list_all symbol_char s"

definition normalize_request :: "dict \<Rightarrow> exn + dict" where
  "normalize_request request =
     (let symbols = request_symbols (dict_get request ''symbols'');
          analysis_type = py_str (py_or (dict_get request ''analysis_type'') (JStr ''comprehensive''));
          portfolio = py_or (dict_get request ''portfolio'') (JList []);
          risk_profile = py_or (dict_get request ''risk_profile'') (JDict [])
      in if \<not> (1 \<le> length symbols \<and> length symbols \<le> 10) \<or> \<not> list_all symbol_ok symbols
           then Inl (job_error_exn ''invalid_request'')
         else if length analysis_type > 64 \<or> \<not> is_list portfolio \<or> \<not> is_dict risk_profile
           then Inl (job_error_exn ''invalid_request'')
         else if \<not> finite_json portfolio \<or> \<not> finite_json risk_profile
           then Inl (job_error_exn ''invalid_request'')
         else Inr [(''symbols'', JList (map JStr symbols)), (''analysisType'', JStr analysis_type),
           (''portfolio'', portfolio), (''riskProfile'', risk_profile)])"

section \<open>Results and binding\<close>

definition create_result :: "job_identity \<Rightarrow> stored_job \<Rightarrow> ('w, 'z, create_job_result) io" where
  "create_result identity stored =
     (let record = job_record stored;
          settled = (dict_get record ''paymentStatus'' = JStr ''settled'');
          reference = dict_get record ''settlementReference''
      in if settled \<and> \<not> is_valid_settlement_reference reference True
         then io_raise (retryable_error_exn ''job_state_unavailable'')
         else io_bind (io_item record ''status'') (\<lambda>st.
              io_bind (io_item record ''expiresAt'') (\<lambda>expires.
              io_bind (io_int expires) (\<lambda>expires_at.
                io_return \<lparr>result_job_id = identity_job_id identity,
                  result_job_token = job_token identity, result_status = py_str st,
                  result_expires_at = expires_at,
                  result_payment_response = (if settled
                    then Some [(''success'', JBool True),
                      (''transaction'', py_or reference (JStr [])),
                      (''network'', JStr ''eip155:56''),
                      (''payer'', JStr (py_str (py_or (dict_get record ''address'') (JStr []))))]
                    else None)\<rparr>))))"

definition payment_rejected_error :: "verified_payment \<Rightarrow> exn" where
  "payment_rejected_error payment =
     X402JobError \<lparr>err_class = PlainJobError, err_code = ''payment_rejected'', err_retryable = False,
       err_retry_after = None,
       err_payment_response = Some [(''success'', JBool False), (''transaction'', JStr []),
         (''network'', JStr ''eip155:56''), (''payer'', JStr (from_address payment)),
         (''errorReason'', JStr ''payment_rejected'')]\<rparr>"

definition lower_text :: "json \<Rightarrow> string" where
  "lower_text v = py_lower (py_str (py_or v (JStr [])))"

definition exact_job_binding ::
  "dict \<Rightarrow> job_identity \<Rightarrow> verified_payment \<Rightarrow> string \<Rightarrow> dict \<Rightarrow> bool" where
  "exact_job_binding record identity payment digest request \<longleftrightarrow>
     dict_get record ''jobId'' = JStr (identity_job_id identity)
     \<and> dict_get record ''paymentMode'' = JStr ''paid''
     \<and> dict_get record ''paymentProofDigest'' = JStr digest
     \<and> py_eq (dict_get record ''request'') (JDict request)
     \<and> lower_text (dict_get record ''address'') = py_lower (from_address payment)
     \<and> lower_text (dict_get record ''asset'') = py_lower (asset payment)"

definition require_exact_job_binding ::
  "stored_job \<Rightarrow> job_identity \<Rightarrow> verified_payment \<Rightarrow> string \<Rightarrow> dict \<Rightarrow> exn + unit" where
  "require_exact_job_binding stored identity payment digest request =
     (if dict_get (job_record stored) ''paymentKey'' \<noteq> JStr (payment_key identity)
      then Inl JobIdentityCollision
      else if \<not> exact_job_binding (job_record stored) identity payment digest request
      then Inl (job_error_exn ''payment_rejected'')
      else Inr ())"

text \<open>
  The reservation a job record carries: \<open>None\<close> when it has none of the four fields. A state that
  cannot be hashed makes the set membership test raise.
\<close>

definition rate_fields :: "string list" where
  "rate_fields = [''rateLimitWalletDigest'', ''rateLimitReservationId'', ''rateLimitReservedAt'',
     ''rateLimitState'']"

definition rate_reservation_from_record :: "dict \<Rightarrow> exn + wallet_rate_reservation option" where
  "rate_reservation_from_record record =
     (if \<not> list_ex (dict_has record) rate_fields then Inr None
      else if \<not> list_all (dict_has record) rate_fields
        then Inl (retryable_error_exn ''job_state_unavailable'')
      else case (dict_get record ''rateLimitWalletDigest'', dict_get record ''rateLimitReservationId'',
                 dict_get record ''rateLimitReservedAt'') of
        (JStr digest, JStr rid, JInt at) \<Rightarrow>
          (if \<not> wallet_digest_re digest \<or> \<not> job_id_re rid
              \<or> dict_get record ''jobId'' \<noteq> JStr rid
              \<or> \<not> (1 \<le> at \<and> at \<le> 9999999999999)
           then Inl (retryable_error_exn ''job_state_unavailable'')
           else case dict_get record ''rateLimitState'' of
             JStr st \<Rightarrow>
               (if st \<noteq> ''reserved'' \<and> st \<noteq> ''committed'' \<and> st \<noteq> ''released''
                then Inl (retryable_error_exn ''job_state_unavailable'')
                else Inr (Some \<lparr>wallet_digest = digest, reservation_id = rid, reserved_at = at,
                  reservation_state = (if st = ''committed'' then ''committed'' else ''reserved''),
                  created_by_caller = False\<rparr>))
           | JList _ \<Rightarrow> Inl TypeError
           | JDict _ \<Rightarrow> Inl TypeError
           | _ \<Rightarrow> Inl (retryable_error_exn ''job_state_unavailable''))
      | _ \<Rightarrow> Inl (retryable_error_exn ''job_state_unavailable''))"

section \<open>Laws of identities and requests\<close>

lemma canonical_parts_shape:
  assumes "canonical_payment_parts p = Inr (addr, non, ast)"
  shows "length addr = 42" "length non = 66" "length ast = 42"
    "list_all is_ascii addr" "list_all is_ascii non" "list_all is_ascii ast"
proof -
  have hex: "list_all is_ascii (bytes_hex bs)" for bs
    using bytes_hex_lower[of bs]
    by (auto simp: list_all_iff is_lower_hex_def is_digit_def is_ascii_def)
  from assms obtain bs t where b: "length bs = 20" "length (nonce_bytes p) = 32"
    "addr = ''0x'' @ bytes_hex bs" "non = ''0x'' @ bytes_hex (nonce_bytes p)"
    "ast = py_lower (address t)" "token_by_asset (JStr (asset p)) = Some t"
    by (auto simp: canonical_payment_parts_def Let_def split: option.splits if_splits)
  from token_by_asset_Some[OF b(6)] have t: "t \<in> set TOKENS" by auto
  show "length addr = 42" "length non = 66" using b by simp_all
  show "list_all is_ascii addr" "list_all is_ascii non"
    using b(3,4) hex by (simp_all add: is_ascii_def)
  have low: "length (py_lower (address t)) = 42 \<and> list_all is_ascii (py_lower (address t))"
    using t unfolding token_defs
    by (auto simp: lower_addresses is_ascii_def)
  then show "length ast = 42" "list_all is_ascii ast" using b(5) by auto
qed

lemma identity_material_inj:
  assumes "canonical_payment_parts p = Inr (a1, n1, s1)" "canonical_payment_parts q = Inr (a2, n2, s2)"
    and "identity_material y1 (a1, n1, s1) = identity_material y2 (a2, n2, s2)"
  shows "a1 = a2 \<and> n1 = n2 \<and> (y1 = ''U'' \<longleftrightarrow> y2 = ''U'') \<and> (y1 \<noteq> ''U'' \<longrightarrow> s1 = s2)"
proof -
  note shape = canonical_parts_shape[OF assms(1)] canonical_parts_shape[OF assms(2)]
  have chain: "utf8 (dec_of_int CHAIN_ID) = ''56''" by code_simp
  from assms(3) shape chain show ?thesis
    by (auto simp: identity_material_def utf8_ascii split: if_splits)
qed

lemma take_lower_hex: "list_all is_lower_hex xs \<Longrightarrow> list_all is_lower_hex (take n xs)"
  by (meson list_all_iff in_set_takeD)

lemma identity_job_id_re:
  assumes "\<And>bs. length (sha256 E bs) = 32" "derive_identity E svc payment = Inr identity"
  shows "job_id_re (identity_job_id identity)"
  using assms
  by (auto simp: derive_identity_def identity_from_payment_key_def Let_def job_id_re_def
      bytes_hex_lower take_lower_hex split: sum.splits)

lemma symbol_char_not_space: "symbol_char c \<Longrightarrow> \<not> is_space c"
  by (auto simp: symbol_char_def is_alnum_def is_space_def is_digit_def is_lower_az_def is_upper_az_def)

lemma request_symbols_upper:
  "s \<in> set (request_symbols v) \<Longrightarrow> s \<noteq> [] \<and> (\<exists>t. s = py_upper t)"
proof -
  have "py_upper t \<noteq> []" if "t \<noteq> []" for t
    using that by (cases t) (auto simp: py_upper_def upper_char_def)
  then have "s \<noteq> [] \<and> (\<exists>t. s = py_upper t)" if "s \<in> set (normalize_symbol u)" for u
    using that by (auto simp: normalize_symbol_def split: if_splits)
  moreover assume "s \<in> set (request_symbols v)"
  ultimately show ?thesis by (fastforce simp: request_symbols_def split: json.splits)
qed

lemma renormalize_symbols:
  assumes "list_all symbol_ok ss" "\<forall>s\<in>set ss. s \<noteq> [] \<and> (\<exists>t. s = py_upper t)"
  shows "request_symbols (JList (map JStr ss)) = ss"
proof -
  have "normalize_symbol s = [s]" if "s \<in> set ss" for s
  proof -
    have "list_all (\<lambda>c. \<not> is_space c) s"
      using assms(1) that by (auto simp: list_all_iff symbol_ok_def symbol_char_not_space)
    with assms(2) that show ?thesis by (auto simp: normalize_symbol_def py_strip_none)
  qed
  then have "map (normalize_symbol \<circ> py_str) (map JStr ss) = map (\<lambda>s. [s]) ss" by simp
  then show ?thesis unfolding request_symbols_def json.case by (simp only: concat_map_singleton map_ident)
qed

lemma normalize_request_ok:
  assumes "normalize_request request = Inr normalized"
  shows "\<exists>ss at pf rp. normalized = [(''symbols'', JList (map JStr ss)), (''analysisType'', JStr at),
      (''portfolio'', JList pf), (''riskProfile'', JDict rp)]
    \<and> 1 \<le> length ss \<and> length ss \<le> 10 \<and> list_all symbol_ok ss
    \<and> (\<forall>s\<in>set ss. s \<noteq> [] \<and> (\<exists>t. s = py_upper t)) \<and> length at \<le> 64"
  using assms request_symbols_upper[of _ "dict_get request ''symbols''"]
  by (auto simp: normalize_request_def Let_def elim!: is_list.elims(2) is_dict.elims(2) split: if_splits
      intro!: exI[of _ "request_symbols (dict_get request ''symbols'')"])

end
