(* ===== verification/Job_Tasks.thy ===== *)
theory Job_Tasks
  imports Job_Identity "HOL-Library.AList"
begin

text \<open>
  Background tasks and competition accounting (\<open>x402_job_service.py\<close>). A task is a number; the
  service keeps, per job, the task last started and the set of tasks that are not done. Starting
  one leaves an event; what it then does is \<open>run_job\<close> or \<open>run_accounting\<close>.
\<close>

section \<open>Task bookkeeping\<close>

record 'w job_sys = "'w sys" +
  tasks :: "(string \<times> nat) list"
  accounting_tasks :: "(string \<times> nat) list"
  active_tasks :: "nat list"
  next_task :: nat

type_synonym ('w, 'z, 'a) job_io = "('w, 'z) job_sys_scheme \<Rightarrow> (exn + 'a) \<times> ('w, 'z) job_sys_scheme"

definition task_active :: "(string \<times> nat) list \<Rightarrow> nat list \<Rightarrow> string \<Rightarrow> bool" where
  "task_active ts active job_id = (case map_of ts job_id of None \<Rightarrow> False | Some t \<Rightarrow> t \<in> set active)"

definition spawn :: "string \<Rightarrow> ('w, 'z, unit) job_io" where
  "spawn job_id s =
     (if task_active (tasks s) (active_tasks s) job_id then (Inr (), s)
      else io_emit (JobSpawned job_id)
        (s\<lparr>tasks := AList.update job_id (next_task s) (tasks s),
           active_tasks := next_task s # active_tasks s, next_task := Suc (next_task s)\<rparr>))"

definition task_done :: "string \<Rightarrow> nat \<Rightarrow> ('w, 'z, unit) job_io" where
  "task_done job_id task s =
     (Inr (), s\<lparr>active_tasks := filter (\<lambda>t. t \<noteq> task) (active_tasks s),
        tasks := (if map_of (tasks s) job_id = Some task then AList.delete job_id (tasks s)
          else tasks s)\<rparr>)"

definition accounting_task_done :: "string \<Rightarrow> nat \<Rightarrow> ('w, 'z, unit) job_io" where
  "accounting_task_done job_id task s =
     (Inr (), s\<lparr>active_tasks := filter (\<lambda>t. t \<noteq> task) (active_tasks s),
        accounting_tasks := (if map_of (accounting_tasks s) job_id = Some task
          then AList.delete job_id (accounting_tasks s) else accounting_tasks s)\<rparr>)"

text \<open>\<open>existing.cancel()\<close> and the wait for it run its done callback before the new task starts.\<close>

definition handoff_and_spawn :: "string \<Rightarrow> ('w, 'z, unit) job_io" where
  "handoff_and_spawn job_id s =
     (case map_of (tasks s) job_id of
        None \<Rightarrow> spawn job_id s
      | Some t \<Rightarrow>
          (if t \<in> set (active_tasks s)
           then io_bind (task_done job_id t) (\<lambda>_. spawn job_id) s
           else spawn job_id s))"

definition is_busy :: "('w, 'z) job_sys_scheme \<Rightarrow> bool" where
  "is_busy s \<longleftrightarrow> active_tasks s \<noteq> []"

definition spawn_accounting :: "string \<Rightarrow> ('w, 'z, unit) job_io" where
  "spawn_accounting job_id s =
     (if \<not> job_id_re job_id then (Inr (), s)
      else if task_active (accounting_tasks s) (active_tasks s) job_id then (Inr (), s)
      else io_emit (AccountingSpawned job_id)
        (s\<lparr>accounting_tasks := AList.update job_id (next_task s) (accounting_tasks s),
           active_tasks := next_task s # active_tasks s, next_task := Suc (next_task s)\<rparr>))"

section \<open>Accounting\<close>

definition accounting_is_pending :: "dict \<Rightarrow> bool" where
  "accounting_is_pending record \<longleftrightarrow>
     dict_get record ''paymentStatus'' = JStr ''settled''
     \<and> dict_get record ''status'' \<noteq> JStr ''settling''
     \<and> (case dict_get record ''competitionEventId'' of JStr s \<Rightarrow> s \<noteq> [] | _ \<Rightarrow> False)
     \<and> (case dict_get record ''settledAt'' of JInt t \<Rightarrow> t > 0 | _ \<Rightarrow> False)"

definition accounting_marker_matches :: "dict \<Rightarrow> dict \<Rightarrow> bool" where
  "accounting_marker_matches record marker \<longleftrightarrow>
     py_eq (dict_get marker ''version'') (JInt 1)
     \<and> py_eq (dict_get marker ''eventId'') (dict_get record ''competitionEventId'')
     \<and> py_eq (dict_get marker ''settledAt'') (dict_get record ''settledAt'')"

definition redrive_accounting ::
  "('w, 's) services_scheme \<Rightarrow> job_service \<Rightarrow> stored_job \<Rightarrow> ('w, 'z, unit) job_io" where
  "redrive_accounting E svc stored =
     (if \<not> accounting_is_pending (job_record stored) then io_return ()
      else let job_id = py_str (py_or (dict_get (job_record stored) ''jobId'') (JStr []))
      in io_try_bind (read_accounting_marker E (svc_store svc) job_id)
           (\<lambda>e. if e = Cancelled then io_raise e else spawn_accounting job_id)
           (\<lambda>marker. case marker of
              None \<Rightarrow> spawn_accounting job_id
            | Some _ \<Rightarrow> io_return ()))"

definition retry_accounting ::
  "('w, 's) services_scheme \<Rightarrow> job_service \<Rightarrow> stored_job \<Rightarrow> ('w, 'z, stored_job) job_io" where
  "retry_accounting E svc stored = io_bind (redrive_accounting E svc stored) (\<lambda>_. io_return stored)"

definition report_accounting_record ::
  "('w, 's) job_services_scheme \<Rightarrow> dict \<Rightarrow> ('w, 'z, bool) io" where
  "report_accounting_record E record =
     (case (dict_get record ''competitionEventId'', dict_get record ''address'',
            int_instance (dict_get record ''settledAt'')) of
        (JStr event_id, JStr addr, Some settled_at) \<Rightarrow>
          (if event_id = [] \<or> addr = [] \<or> settled_at \<le> 0 then io_return False
           else io_bind (io_emit (CompetitionReported event_id addr settled_at)) (\<lambda>_.
             io_try_bind (io_call (report_competition E event_id addr settled_at))
               (\<lambda>e. if e = Cancelled then io_raise e else io_return False)
               io_return))
      | _ \<Rightarrow> io_return False)"

text \<open>One attempt: \<open>Some\<close> when the task returns, \<open>None\<close> when it goes on to the next attempt.\<close>

definition accounting_attempt ::
  "('w, 's) job_services_scheme \<Rightarrow> job_service \<Rightarrow> string \<Rightarrow> ('w, 'z, unit option) io" where
  "accounting_attempt E svc job_id =
     io_bind (store_read E (svc_store svc) job_id) (\<lambda>found.
       case found of
         None \<Rightarrow> io_return (Some ())
       | Some stored \<Rightarrow>
           if \<not> accounting_is_pending (job_record stored) then io_return (Some ())
           else io_bind (read_accounting_marker E (svc_store svc) job_id)
             (\<lambda>marker. case marker of
                Some _ \<Rightarrow> io_return (Some ())
              | None \<Rightarrow>
                  io_bind (report_accounting_record E (job_record stored)) (\<lambda>reported.
                    if \<not> reported then io_return None
                    else io_bind (io_int (py_or (dict_get (job_record stored) ''settledAt'') (JInt 0)))
                      (\<lambda>settled_at.
                      io_bind (create_accounting_marker E (svc_store svc) job_id
                          [(''version'', JInt 1),
                           (''eventId'', JStr (py_str (py_or
                              (dict_get (job_record stored) ''competitionEventId'') (JStr [])))),
                           (''settledAt'', JInt settled_at)]) (\<lambda>created.
                        if created then io_return (Some ())
                        else io_bind (read_accounting_marker E (svc_store svc) job_id)
                          (\<lambda>_. io_return (Some ())))))))"

definition run_accounting_step ::
  "('w, 's) job_services_scheme \<Rightarrow> job_service \<Rightarrow> string \<Rightarrow> bool \<Rightarrow> ('w, 'z, unit option) io" where
  "run_accounting_step E svc job_id delayed =
     io_bind (if delayed then io_call (sleep E) else io_return ()) (\<lambda>_.
       io_catch (accounting_attempt E svc job_id)
         (\<lambda>e. if e = Cancelled then io_raise e else io_return None))"

text \<open>Every attempt but the first sleeps before it; the first one does when it is asked to.\<close>

fun run_accounting_loop ::
  "('w, 's) job_services_scheme \<Rightarrow> job_service \<Rightarrow> string \<Rightarrow> bool \<Rightarrow> nat \<Rightarrow> ('w, 'z, unit) io" where
  "run_accounting_loop E svc job_id delay_first 0 = io_return ()"
| "run_accounting_loop E svc job_id delay_first (Suc remaining) =
     io_bind (run_accounting_step E svc job_id
         (delay_first \<or> Suc remaining < svc_accounting_attempts svc))
       (\<lambda>res. case res of
          Some r \<Rightarrow> io_return r
        | None \<Rightarrow> run_accounting_loop E svc job_id delay_first remaining)"

definition run_accounting ::
  "('w, 's) job_services_scheme \<Rightarrow> job_service \<Rightarrow> string \<Rightarrow> bool \<Rightarrow> ('w, 'z, unit) io" where
  "run_accounting E svc job_id delay_before_first =
     run_accounting_loop E svc job_id delay_before_first (svc_accounting_attempts svc)"

section \<open>Laws of the bookkeeping\<close>

lemma spawn_active:
  "task_active (tasks (snd (spawn job_id s))) (active_tasks (snd (spawn job_id s))) job_id"
  by (auto simp: spawn_def task_active_def io_emit_def update_conv' split: option.splits)

lemma spawn_twice: "io_bind (spawn job_id) (\<lambda>_. spawn job_id) s = spawn job_id s"
  using spawn_active[of job_id s]
  by (cases "spawn job_id s")
     (auto simp: io_bind_def spawn_def io_emit_def split: if_splits)

end
