(* ===== verification/Job_Settlement.thy ===== *)
theory Job_Settlement
  imports Job_Tasks
begin

text \<open>
  Creating a job and settling its payment (\<open>x402_job_service.py\<close>, \<open>create_job\<close> to
  \<open>_settle_payment\<close>). A record is \<open>{**record, k: v, ...}\<close> of the one it replaces.
\<close>

section \<open>Settlement\<close>

definition await_settlement ::
  "('w, 's) job_services_scheme \<Rightarrow> string \<Rightarrow> string \<Rightarrow> ('w, 'z, settlement_outcome) io" where
  "await_settlement E proof_header mode =
     io_try_bind (io_call (settle E proof_header mode))
       (\<lambda>e. if e = Cancelled then io_raise e else io_raise SettlementIndeterminate)
       (\<lambda>result. case result of
          None \<Rightarrow> io_raise SettlementIndeterminate
        | Some outcome \<Rightarrow>
            if (status outcome = Settled \<or> status outcome = Pending)
               \<and> \<not> is_valid_settlement_reference (opt_str (transaction outcome)) False
            then io_raise SettlementIndeterminate
            else if status outcome = Rejected \<and> transaction outcome \<noteq> None
            then io_raise SettlementIndeterminate
            else io_bind (io_emit (SettleReturned outcome)) (\<lambda>_. io_return outcome))"

definition settle_payment ::
  "('w, 's) job_services_scheme \<Rightarrow> stored_job \<Rightarrow> string \<Rightarrow> string
     \<Rightarrow> ('w, 'z, settlement_outcome) io" where
  "settle_payment E stored proof_header mode =
     io_bind (io_emit (SettleCalled (job_record stored) proof_header mode)) (\<lambda>_.
       await_settlement E proof_header mode)"

definition failed_settlement_record :: "dict \<Rightarrow> int \<Rightarrow> dict" where
  "failed_settlement_record record now = dict_update record
     [(''paymentStatus'', JStr ''failed''), (''pendingSettlementReference'', JNull),
      (''status'', JStr ''failed''), (''leaseOwner'', JNull), (''leaseExpiresAt'', JNull),
      (''updatedAt'', JInt now), (''errorCode'', JStr ''payment_failed''),
      (''retryable'', JBool False)]"

definition fail_settlement ::
  "('w, 's) services_scheme \<Rightarrow> job_service \<Rightarrow> stored_job \<Rightarrow> ('w, 'z, stored_job) io" where
  "fail_settlement E svc stored =
     io_bind (io_read (clock E)) (\<lambda>now.
       store_replace E (svc_store svc) stored (failed_settlement_record (job_record stored) now))"

section \<open>The wallet reservation of a job\<close>

definition record_text :: "dict \<Rightarrow> string \<Rightarrow> string" where
  "record_text record k = py_str (py_or (dict_get record k) (JStr []))"

definition committed_record :: "dict \<Rightarrow> int \<Rightarrow> dict" where
  "committed_record record now =
     (let queued = dict_update record
        [(''status'', JStr ''queued''), (''leaseOwner'', JNull), (''leaseExpiresAt'', JNull),
         (''updatedAt'', JInt now)]
      in if dict_has queued ''rateLimitState''
         then dict_put queued ''rateLimitState'' (JStr ''committed'') else queued)"

definition finalize_rate_commit ::
  "('w, 's) services_scheme \<Rightarrow> job_service \<Rightarrow> stored_job \<Rightarrow> ('w, 'z, stored_job) io" where
  "finalize_rate_commit E svc stored =
     io_bind (io_read (clock E)) (\<lambda>now.
     io_catch
       (store_replace E (svc_store svc) stored (committed_record (job_record stored) now))
       (\<lambda>e. if e = Cancelled then io_raise e
          else if e = JobConflict then
            io_bind (store_read E (svc_store svc) (record_text (job_record stored) ''jobId''))
              (\<lambda>found. case found of
                 None \<Rightarrow> io_raise WalletRateLimitUnavailable
               | Some latest \<Rightarrow>
                   if py_eq (dict_get (job_record latest) ''paymentKey'')
                        (dict_get (job_record stored) ''paymentKey'')
                      \<and> dict_get (job_record latest) ''paymentStatus'' = JStr ''settled''
                      \<and> dict_get (job_record latest) ''status'' = JStr ''queued''
                      \<and> dict_get_or (job_record latest) ''rateLimitState'' (JStr ''committed'')
                        = JStr ''committed''
                   then io_return latest else io_raise WalletRateLimitUnavailable)
          else io_raise WalletRateLimitUnavailable))"

definition commit_rate_limit ::
  "('w, 's) services_scheme \<Rightarrow> job_service \<Rightarrow> stored_job \<Rightarrow> ('w, 'z, stored_job) io" where
  "commit_rate_limit E svc stored =
     io_bind (io_of_sum (rate_reservation_from_record (job_record stored))) (\<lambda>reservation.
       case (reservation, svc_limiter svc) of
         (Some r, Some L) \<Rightarrow> io_bind (commit E L r) (\<lambda>_. finalize_rate_commit E svc stored)
       | _ \<Rightarrow> finalize_rate_commit E svc stored)"

definition released_record :: "dict \<Rightarrow> int \<Rightarrow> dict" where
  "released_record record now = dict_update record
     [(''rateLimitState'', JStr ''released''), (''updatedAt'', JInt now)]"

definition mark_rate_released ::
  "('w, 's) services_scheme \<Rightarrow> job_service \<Rightarrow> stored_job \<Rightarrow> ('w, 'z, stored_job) io" where
  "mark_rate_released E svc stored =
     (if \<not> dict_has (job_record stored) ''rateLimitState'' then io_return stored
      else io_bind (io_read (clock E)) (\<lambda>now.
        io_catch
          (store_replace E (svc_store svc) stored (released_record (job_record stored) now))
          (\<lambda>e. if e = JobConflict then
               io_bind (store_read E (svc_store svc) (record_text (job_record stored) ''jobId''))
                 (\<lambda>found. case found of
                    None \<Rightarrow> io_raise WalletRateLimitUnavailable
                  | Some latest \<Rightarrow>
                      if py_eq (dict_get (job_record latest) ''paymentKey'')
                           (dict_get (job_record stored) ''paymentKey'')
                         \<and> dict_get (job_record latest) ''rateLimitState'' = JStr ''released''
                      then io_return latest else io_raise WalletRateLimitUnavailable)
             else io_raise e)))"

definition release_rate_limit ::
  "('w, 's) services_scheme \<Rightarrow> job_service \<Rightarrow> stored_job \<Rightarrow> ('w, 'z, stored_job) io" where
  "release_rate_limit E svc stored =
     io_bind (io_of_sum (rate_reservation_from_record (job_record stored))) (\<lambda>reservation.
       case (reservation, svc_limiter svc) of
         (Some r, Some L) \<Rightarrow> io_bind (release E L r) (\<lambda>_. mark_rate_released E svc stored)
       | _ \<Rightarrow> io_return stored)"

definition release_after_rejection ::
  "('w, 's) services_scheme \<Rightarrow> job_service \<Rightarrow> stored_job \<Rightarrow> ('w, 'z, unit) io" where
  "release_after_rejection E svc stored =
     io_try_bind (release_rate_limit E svc stored)
       (\<lambda>e. if e = Cancelled then io_raise e else io_raise WalletRateLimitUnavailable)
       (\<lambda>_. io_return ())"

definition reconcile_rate_limit ::
  "('w, 's) services_scheme \<Rightarrow> job_service \<Rightarrow> stored_job \<Rightarrow> ('w, 'z, stored_job) io" where
  "reconcile_rate_limit E svc stored =
     io_bind (io_of_sum (rate_reservation_from_record (job_record stored))) (\<lambda>reservation.
       case (reservation, svc_limiter svc) of
         (Some r, Some L) \<Rightarrow>
           let st = dict_get (job_record stored) ''rateLimitState'';
               payment_status = dict_get (job_record stored) ''paymentStatus''
           in if payment_status = JStr ''settled'' then
                if st \<noteq> JStr ''reserved'' \<and> st \<noteq> JStr ''committed''
                then io_raise (retryable_error_exn ''job_state_unavailable'')
                else io_bind (if st = JStr ''reserved'' then commit E L r else io_return ()) (\<lambda>_.
                  if st \<noteq> JStr ''committed''
                     \<or> dict_get (job_record stored) ''status'' = JStr ''settling''
                  then finalize_rate_commit E svc stored else io_return stored)
              else if payment_status = JStr ''failed'' \<and> st = JStr ''reserved'' then
                io_bind (release E L r) (\<lambda>_. mark_rate_released E svc stored)
              else if payment_status = JStr ''failed'' \<and> st \<noteq> JStr ''released''
                  \<or> payment_status = JStr ''settling'' \<and> st \<noteq> JStr ''reserved''
                then io_raise (retryable_error_exn ''job_state_unavailable'')
              else io_return stored
       | _ \<Rightarrow> io_return stored)"

section \<open>Recording the outcome of a settlement\<close>

definition pending_record :: "dict \<Rightarrow> json \<Rightarrow> int \<Rightarrow> dict" where
  "pending_record record reference now = dict_update record
     [(''paymentStatus'', JStr ''settling''), (''pendingSettlementReference'', reference),
      (''settlementReference'', JNull), (''status'', JStr ''settling''), (''updatedAt'', JInt now)]"

definition pending_binding :: "dict \<Rightarrow> dict \<Rightarrow> bool" where
  "pending_binding original latest \<longleftrightarrow>
     dict_get latest ''jobId'' = dict_get original ''jobId''
     \<and> dict_get latest ''paymentKey'' = dict_get original ''paymentKey''
     \<and> py_eq (dict_get latest ''paymentProofDigest'') (dict_get original ''paymentProofDigest'')
     \<and> dict_get latest ''status'' = JStr ''settling''
     \<and> dict_get latest ''paymentStatus'' = JStr ''settling''
     \<and> dict_get latest ''settlementReference'' = JNull"

fun pending_loop ::
  "('w, 's) services_scheme \<Rightarrow> job_service \<Rightarrow> dict \<Rightarrow> string \<Rightarrow> json \<Rightarrow> nat \<Rightarrow> stored_job
     \<Rightarrow> ('w, 'z, stored_job) io" where
  "pending_loop E svc original job_id reference 0 candidate = io_raise SettlementIndeterminate"
| "pending_loop E svc original job_id reference (Suc remaining) candidate =
     io_bind (io_read (clock E)) (\<lambda>now.
     io_try_bind (store_replace E (svc_store svc) candidate
         (pending_record (job_record candidate) reference now))
       (\<lambda>e. if e = Cancelled then io_raise e
          else io_try_bind (store_read E (svc_store svc) job_id)
            (\<lambda>e'. if e' = Cancelled then io_raise e'
               else if remaining = 0 then io_raise SettlementIndeterminate
               else pending_loop E svc original job_id reference remaining candidate)
            (\<lambda>found. case found of
               None \<Rightarrow> io_raise (retryable_error_exn ''job_state_unavailable'')
             | Some latest \<Rightarrow>
                 if \<not> pending_binding original (job_record latest)
                 then io_raise (retryable_error_exn ''job_state_unavailable'')
                 else let latest_reference = dict_get (job_record latest) ''pendingSettlementReference''
                 in if latest_reference \<noteq> JNull then
                      (if \<not> is_valid_settlement_reference latest_reference False
                       then io_raise (retryable_error_exn ''job_state_unavailable'')
                       else if latest_reference = reference then io_return latest
                       else io_raise (retryable_error_exn ''job_state_unavailable''))
                    else pending_loop E svc original job_id reference remaining latest))
       io_return)"

definition mark_settlement_pending ::
  "('w, 's) services_scheme \<Rightarrow> job_service \<Rightarrow> stored_job \<Rightarrow> json \<Rightarrow> ('w, 'z, stored_job) io" where
  "mark_settlement_pending E svc stored reference =
     (if \<not> is_valid_settlement_reference reference False then io_raise SettlementIndeterminate
      else case (dict_get (job_record stored) ''jobId'', dict_get (job_record stored) ''paymentKey'') of
        (JStr job_id, JStr key) \<Rightarrow>
          pending_loop E svc (job_record stored) job_id reference PENDING_PERSIST_ATTEMPTS stored
      | _ \<Rightarrow> io_raise (retryable_error_exn ''job_state_unavailable''))"

definition settled_record ::
  "dict \<Rightarrow> json \<Rightarrow> bool \<Rightarrow> string \<Rightarrow> json \<Rightarrow> string \<Rightarrow> int \<Rightarrow> int \<Rightarrow> dict" where
  "settled_record record reference reserved event_id settled_at owner lease_now now =
     dict_pop (dict_pop (dict_update record
       [(''paymentStatus'', JStr ''settled''), (''pendingSettlementReference'', JNull),
        (''settlementReference'', reference),
        (''status'', JStr (if reserved then ''settling'' else ''queued'')),
        (''competitionEventId'', JStr event_id), (''settledAt'', settled_at),
        (''leaseOwner'', if reserved then JStr owner else JNull),
        (''leaseExpiresAt'', if reserved then JInt (lease_now + LEASE_MILLISECONDS) else JNull),
        (''updatedAt'', JInt now)])
       ''competitionReported'') ''competitionReportedAt''"

definition mark_settled ::
  "('w, 's) services_scheme \<Rightarrow> job_service \<Rightarrow> stored_job \<Rightarrow> verified_payment \<Rightarrow> json \<Rightarrow> bool
     \<Rightarrow> ('w, 'z, stored_job) io" where
  "mark_settled E svc stored payment reference allow_unavailable =
     (if \<not> is_valid_settlement_reference reference allow_unavailable
      then io_raise SettlementIndeterminate
      else let existing = dict_get (job_record stored) ''settledAt''
      in io_bind (case int_instance existing of
             Some t \<Rightarrow> if t > 0 then io_return existing
               else io_bind (io_read (clock E)) (\<lambda>now. io_return (JInt now))
           | None \<Rightarrow> io_bind (io_read (clock E)) (\<lambda>now. io_return (JInt now))) (\<lambda>settled_at.
         io_bind (io_of_sum (rate_reservation_from_record (job_record stored))) (\<lambda>reservation.
         let reserved = (reservation \<noteq> None)
         in io_bind (io_of_sum (competition_event_id E payment)) (\<lambda>event_id.
            io_bind (if reserved then io_read (clock E) else io_return 0) (\<lambda>lease_now.
            io_bind (io_read (clock E)) (\<lambda>now.
            io_bind (store_replace E (svc_store svc) stored
                (settled_record (job_record stored) reference reserved event_id settled_at
                  (svc_owner svc) lease_now now)) (\<lambda>persisted.
              if reserved then commit_rate_limit E svc persisted else io_return persisted)))))))"

definition settle_and_transition ::
  "('w, 's) job_services_scheme \<Rightarrow> job_service \<Rightarrow> stored_job \<Rightarrow> verified_payment \<Rightarrow> string \<Rightarrow> string
     \<Rightarrow> ('w, 'z, stored_job) io" where
  "settle_and_transition E svc stored payment proof_header mode =
     io_bind (settle_payment E stored proof_header mode) (\<lambda>outcome.
       case status outcome of
         Pending \<Rightarrow>
           io_bind (mark_settlement_pending E svc stored (opt_str (transaction outcome))) (\<lambda>_.
             io_raise SettlementIndeterminate)
       | Rejected \<Rightarrow>
           io_bind (fail_settlement E svc stored) (\<lambda>failed.
           io_bind (release_after_rejection E svc failed) (\<lambda>_.
             io_raise (payment_rejected_error payment)))
       | Settled \<Rightarrow> mark_settled E svc stored payment (opt_str (transaction outcome)) False)"

section \<open>An existing job\<close>

definition require_existing_identity ::
  "('w, 's) services_scheme \<Rightarrow> job_service \<Rightarrow> job_identity \<Rightarrow> ('w, 'z, stored_job) io" where
  "require_existing_identity E svc identity =
     io_bind (store_read E (svc_store svc) (identity_job_id identity)) (\<lambda>found.
       case found of
         None \<Rightarrow> io_raise (retryable_error_exn ''job_state_unavailable'')
       | Some stored \<Rightarrow>
           if dict_get (job_record stored) ''paymentKey'' \<noteq> JStr (payment_key identity)
           then io_raise JobIdentityCollision else io_return stored)"

fun wait_loop ::
  "('w, 's) services_scheme \<Rightarrow> job_service \<Rightarrow> job_identity \<Rightarrow> verified_payment \<Rightarrow> string \<Rightarrow> dict \<Rightarrow> nat
     \<Rightarrow> ('w, 'z, stored_job) io" where
  "wait_loop E svc identity payment digest request 0 =
     io_raise (retryable_error_exn ''job_state_unavailable'')"
| "wait_loop E svc identity payment digest request (Suc remaining) =
     io_bind (io_bind (io_catch (store_read E (svc_store svc) (identity_job_id identity))
         (\<lambda>e. if e = Cancelled then io_raise e else io_return None)) (\<lambda>found.
       case found of
         Some stored \<Rightarrow>
           io_bind (io_of_sum (require_exact_job_binding stored identity payment digest request))
             (\<lambda>_. io_return (Some stored))
       | None \<Rightarrow> io_bind (if remaining > 0 then io_call (sleep E) else io_return ()) (\<lambda>_.
           io_return None)))
       (\<lambda>res. case res of
          Some r \<Rightarrow> io_return r
        | None \<Rightarrow> wait_loop E svc identity payment digest request remaining)"

definition wait_for_exact_reserved_job ::
  "('w, 's) services_scheme \<Rightarrow> job_service \<Rightarrow> job_identity \<Rightarrow> verified_payment \<Rightarrow> string \<Rightarrow> dict
     \<Rightarrow> ('w, 'z, stored_job) io" where
  "wait_for_exact_reserved_job E svc identity payment digest request =
     wait_loop E svc identity payment digest request (svc_observer_attempts svc)"

definition claimed_settling_record :: "dict \<Rightarrow> string \<Rightarrow> int \<Rightarrow> dict" where
  "claimed_settling_record record owner now = dict_update record
     [(''leaseOwner'', JStr owner), (''leaseExpiresAt'', JInt (now + 120000)),
      (''updatedAt'', JInt now)]"

definition stored_digest_ok :: "dict \<Rightarrow> verified_payment \<Rightarrow> string \<Rightarrow> bool" where
  "stored_digest_ok record payment digest =
     (case dict_get record ''paymentProofDigest'' of
        JNull \<Rightarrow> vp_transfer_method payment = ''eip3009''
      | v \<Rightarrow> v = JStr digest)"

definition lease_is_live :: "dict \<Rightarrow> int \<Rightarrow> bool" where
  "lease_is_live record now =
     (case int_instance (dict_get record ''leaseExpiresAt'') of None \<Rightarrow> False | Some t \<Rightarrow> t > now)"

definition reconcile_settling ::
  "('w, 's) job_services_scheme \<Rightarrow> job_service \<Rightarrow> stored_job \<Rightarrow> verified_payment \<Rightarrow> string \<Rightarrow> string
     \<Rightarrow> ('w, 'z, stored_job) io" where
  "reconcile_settling E svc stored payment proof_header digest =
     (let record = job_record stored;
          pending = dict_get record ''pendingSettlementReference''
      in if \<not> stored_digest_ok record payment digest
           then io_raise (job_error_exn ''payment_rejected'')
         else if vp_transfer_method payment = ''permit2-exact'' \<and> pending \<noteq> JNull
             \<and> \<not> is_valid_settlement_reference pending False
           then io_raise (retryable_error_exn ''job_state_unavailable'')
         else if dict_get record ''status'' \<noteq> JStr ''settling''
             \<or> dict_get record ''paymentStatus'' \<noteq> JStr ''settling''
           then io_return stored
         else io_bind (io_read (clock E)) (\<lambda>now.
           if lease_is_live record now then io_return stored
           else io_try_bind (store_replace E (svc_store svc) stored
               (claimed_settling_record record (svc_owner svc) now))
             (\<lambda>e. if e = JobConflict
                then io_bind (io_of_sum (derive_identity E svc payment))
                  (require_existing_identity E svc)
                else io_raise e)
             (\<lambda>claimed.
                if vp_transfer_method payment = ''eip3009'' then
                  io_bind (io_call (authorization_used E payment)) (\<lambda>used.
                    if used then mark_settled E svc claimed payment JNull True
                    else if now div 1000 \<ge> valid_before payment then
                      io_bind (fail_settlement E svc claimed) (\<lambda>failed.
                      io_bind (release_after_rejection E svc failed) (\<lambda>_.
                        io_raise (job_error_exn ''payment_rejected'')))
                    else settle_and_transition E svc claimed payment proof_header
                      ''verify-and-settle'')
                else if vp_transfer_method payment = ''permit2-exact'' then
                  settle_and_transition E svc claimed payment proof_header ''settle-only''
                else io_raise (job_error_exn ''payment_rejected''))))"

section \<open>Creating a job\<close>

definition create_result_and_spawn ::
  "job_identity \<Rightarrow> stored_job \<Rightarrow> ('w, 'z, create_job_result) job_io" where
  "create_result_and_spawn identity stored =
     io_bind (create_result identity stored) (\<lambda>result.
     io_bind (if result_status result = ''queued'' then spawn (identity_job_id identity)
       else io_return ()) (\<lambda>_. io_return result))"

definition new_job_record ::
  "job_identity \<Rightarrow> verified_payment \<Rightarrow> string \<Rightarrow> dict \<Rightarrow> string \<Rightarrow> string \<Rightarrow> int \<Rightarrow> dict" where
  "new_job_record identity payment digest request event_id owner now =
     [(''version'', JInt 1), (''jobId'', JStr (identity_job_id identity)),
      (''paymentKey'', JStr (payment_key identity)), (''paymentStatus'', JStr ''settling''),
      (''paymentMode'', JStr ''paid''), (''asset'', JStr (py_lower (asset payment))),
      (''paymentProofDigest'', JStr digest), (''pendingSettlementReference'', JNull),
      (''settlementReference'', JNull), (''reportId'', JNull),
      (''address'', JStr (from_address payment)), (''status'', JStr ''settling''),
      (''request'', JDict request), (''jobTokenHash'', JStr (job_token_hash identity)),
      (''competitionEventId'', JStr event_id), (''settledAt'', JNull), (''attempt'', JInt 0),
      (''leaseOwner'', JStr owner), (''leaseExpiresAt'', JInt (now + 120000)),
      (''createdAt'', JInt now), (''updatedAt'', JInt now),
      (''expiresAt'', JInt (now + 7 * 24 * 60 * 60 * 1000)), (''errorCode'', JNull),
      (''retryable'', JNull)]"

definition reservation_fields :: "wallet_rate_reservation option \<Rightarrow> dict" where
  "reservation_fields reservation = (case reservation of
     None \<Rightarrow> []
   | Some r \<Rightarrow> [(''rateLimitWalletDigest'', JStr (wallet_digest r)),
       (''rateLimitReservationId'', JStr (reservation_id r)),
       (''rateLimitReservedAt'', JInt (reserved_at r)),
       (''rateLimitState'', JStr (reservation_state r))])"

definition validated_payment ::
  "job_service \<Rightarrow> string \<Rightarrow> int \<Rightarrow> ('w, 'z, verified_payment \<times> bool) io" where
  "validated_payment svc proof_header now =
     io_bind (io_of_sum
       (validate_payment_proof (svc_verifier svc) proof_header None (Some (now div 1000)) False))
       (\<lambda>(payment, why). case payment of
          Some p \<Rightarrow> io_return (p, False)
        | None \<Rightarrow>
            if why = ''authorization expired'' then
              io_bind (io_of_sum (validate_payment_proof (svc_verifier svc) proof_header None
                (Some (now div 1000)) True))
                (\<lambda>(recovered, _). case recovered of
                   Some p \<Rightarrow> io_return (p, True)
                 | None \<Rightarrow> io_raise (job_error_exn ''payment_rejected''))
            else io_raise (job_error_exn ''payment_rejected''))"

definition confirm_existing ::
  "('w, 's) services_scheme \<Rightarrow> job_service \<Rightarrow> stored_job \<Rightarrow> job_identity \<Rightarrow> verified_payment
     \<Rightarrow> string \<Rightarrow> dict \<Rightarrow> ('w, 'z, unit) io" where
  "confirm_existing E svc stored identity payment digest request =
     io_bind (io_of_sum (rate_reservation_from_record (job_record stored))) (\<lambda>reservation.
       case reservation of
         None \<Rightarrow> io_return ()
       | Some r \<Rightarrow>
           io_bind (io_of_sum (normalize_request request)) (\<lambda>normalized.
           io_bind (io_of_sum
             (require_exact_job_binding stored identity payment digest normalized)) (\<lambda>_.
             if dict_get (job_record stored) ''status'' = JStr ''settling''
                \<and> dict_get (job_record stored) ''paymentStatus'' = JStr ''settling''
             then case svc_limiter svc of
                None \<Rightarrow> io_raise WalletRateLimitUnavailable
              | Some L \<Rightarrow> io_bind (confirm E L r) (\<lambda>_. io_return ())
             else io_return ())))"

definition existing_job ::
  "('w, 's) job_services_scheme \<Rightarrow> job_service \<Rightarrow> stored_job \<Rightarrow> job_identity \<Rightarrow> verified_payment
     \<Rightarrow> string \<Rightarrow> string \<Rightarrow> dict \<Rightarrow> ('w, 'z, create_job_result) job_io" where
  "existing_job E svc stored identity payment proof_header digest request =
     (if dict_get (job_record stored) ''paymentKey'' \<noteq> JStr (payment_key identity)
      then io_raise JobIdentityCollision
      else io_bind (confirm_existing E svc stored identity payment digest request) (\<lambda>_.
           io_bind (reconcile_settling E svc stored payment proof_header digest) (\<lambda>settled.
           io_bind (reconcile_rate_limit E svc settled) (\<lambda>reconciled.
           io_bind (retry_accounting E svc reconciled)
             (create_result_and_spawn identity)))))"

text \<open>What follows the durable create, for each of its outcomes.\<close>

definition created_job ::
  "('w, 's) job_services_scheme \<Rightarrow> job_service \<Rightarrow> job_identity \<Rightarrow> verified_payment \<Rightarrow> string
     \<Rightarrow> string \<Rightarrow> dict \<Rightarrow> wallet_rate_reservation option \<Rightarrow> exn + stored_job option
     \<Rightarrow> ('w, 'z, create_job_result) job_io" where
  "created_job E svc identity payment proof_header digest request reservation outcome =
     (case outcome of
       Inl e \<Rightarrow>
         io_bind (io_catch (store_read E (svc_store svc) (identity_job_id identity))
           (\<lambda>e. if e = Cancelled then io_raise e
              else io_raise (retryable_error_exn ''job_state_unavailable''))) (\<lambda>found.
         case found of
           None \<Rightarrow> io_raise (retryable_error_exn ''job_state_unavailable'')
         | Some stored \<Rightarrow>
             io_bind (io_of_sum
               (require_exact_job_binding stored identity payment digest request)) (\<lambda>_.
               create_result identity stored))
     | Inr None \<Rightarrow>
         io_bind (wait_for_exact_reserved_job E svc identity payment digest request)
           (create_result identity)
     | Inr (Some stored) \<Rightarrow>
         io_bind (case (reservation, svc_limiter svc) of
             (Some r, Some L) \<Rightarrow> io_bind (confirm E L r) (\<lambda>_. io_return ())
           | _ \<Rightarrow> io_return ()) (\<lambda>_.
         io_bind (settle_and_transition E svc stored payment proof_header ''verify-and-settle'')
           (\<lambda>settled.
         io_bind (retry_accounting E svc settled)
           (create_result_and_spawn identity))))"

text \<open>
  The durable create runs in a shielded task: a caller that is cancelled meanwhile waits for it
  and stops. Any other failure reads the record back.
\<close>

definition create_new_job ::
  "('w, 's) job_services_scheme \<Rightarrow> job_service \<Rightarrow> job_identity \<Rightarrow> verified_payment \<Rightarrow> string
     \<Rightarrow> string \<Rightarrow> dict \<Rightarrow> wallet_rate_reservation option \<Rightarrow> dict
     \<Rightarrow> ('w, 'z, create_job_result) job_io" where
  "create_new_job E svc identity payment proof_header digest request reservation record =
     io_bind (io_attempt (store_create E (svc_store svc) record)) (\<lambda>outcome.
     io_bind (io_read (interrupted E)) (\<lambda>cancelled.
     if cancelled \<or> outcome = Inl Cancelled then io_raise Cancelled
     else created_job E svc identity payment proof_header digest request reservation outcome))"

definition admit_job ::
  "('w, 's) job_services_scheme \<Rightarrow> job_service \<Rightarrow> job_identity \<Rightarrow> verified_payment \<Rightarrow> string
     \<Rightarrow> string \<Rightarrow> dict \<Rightarrow> int \<Rightarrow> ('w, 'z, create_job_result) job_io" where
  "admit_job E svc identity payment proof_header digest request now =
     io_bind (io_of_sum (normalize_request request)) (\<lambda>normalized.
     io_bind (io_of_sum (competition_event_id E payment)) (\<lambda>event_id.
     io_bind (case svc_limiter svc of
         None \<Rightarrow> io_return None
       | Some L \<Rightarrow> io_bind (reserve E L (from_address payment) (identity_job_id identity))
           (\<lambda>r. io_return (Some r))) (\<lambda>reservation.
       if (case reservation of None \<Rightarrow> False | Some r \<Rightarrow> \<not> created_by_caller r) then
         io_bind (wait_for_exact_reserved_job E svc identity payment digest normalized)
           (create_result identity)
       else create_new_job E svc identity payment proof_header digest normalized reservation
         (dict_update (new_job_record identity payment digest normalized event_id
            (svc_owner svc) now) (reservation_fields reservation)))))"

definition create_job ::
  "('w, 's) job_services_scheme \<Rightarrow> job_service \<Rightarrow> string \<Rightarrow> dict
     \<Rightarrow> ('w, 'z, create_job_result) job_io" where
  "create_job E svc proof_header request =
     io_bind (io_read (clock E)) (\<lambda>now.
     io_bind (validated_payment svc proof_header now) (\<lambda>(payment, expired_recovery).
     io_bind (io_catch (io_call (wallet_verified E (py_lower (from_address payment))))
       (\<lambda>e. if e = Cancelled then io_raise e else io_return ())) (\<lambda>_.
     io_bind (io_of_sum (proof_digest E proof_header)) (\<lambda>digest.
     io_bind (io_of_sum (derive_identity E svc payment)) (\<lambda>identity.
     io_bind (store_read E (svc_store svc) (identity_job_id identity)) (\<lambda>found.
       case found of
         Some stored \<Rightarrow>
           existing_job E svc stored identity payment proof_header digest request
       | None \<Rightarrow>
           if expired_recovery then io_raise (job_error_exn ''payment_rejected'')
           else if \<not> svc_accept_new_jobs svc
             then io_raise (retryable_error_exn ''async_jobs_paused'')
           else admit_job E svc identity payment proof_header digest request now))))))"

end
