(* ===== verification/Job_Execution.thy ===== *)
theory Job_Execution
  imports Job_Settlement
begin

text \<open>
  Running a paid job and answering its owner (\<open>x402_job_service.py\<close>, \<open>get_job\<close>, \<open>resume_job\<close> and
  \<open>_run_job\<close> to \<open>_fail_execution\<close>). The heartbeat task runs while a report is being written; it
  is modelled by the refreshes it makes during each call of the analyst, whose number the event
  loop decides, with the holder of the record and the lease-lost flag it shares with the job.
\<close>

section \<open>Lease\<close>

definition lease_held :: "dict \<Rightarrow> string \<Rightarrow> exn + bool" where
  "lease_held record owner =
     (if dict_get record ''status'' \<noteq> JStr ''running'' then Inr False
      else compare_digest (record_text record ''leaseOwner'') owner)"

definition refreshed_record :: "dict \<Rightarrow> int \<Rightarrow> dict" where
  "refreshed_record record now = dict_update record
     [(''updatedAt'', JInt now), (''leaseExpiresAt'', JInt (now + LEASE_MILLISECONDS))]"

definition refresh_lease ::
  "('w, 's) services_scheme \<Rightarrow> job_service \<Rightarrow> stored_job \<Rightarrow> string \<Rightarrow> ('w, 'z, stored_job option) io" where
  "refresh_lease E svc stored owner =
     io_bind (io_of_sum (lease_held (job_record stored) owner)) (\<lambda>held.
       if \<not> held then io_return None
       else io_bind (io_read (clock E)) (\<lambda>now.
         io_try_bind (store_replace E (svc_store svc) stored (refreshed_record (job_record stored) now))
           (\<lambda>e. if e = JobConflict then io_return None else io_raise e)
           (\<lambda>st. io_return (Some st))))"

section \<open>Heartbeat\<close>

record heartbeat =
  holder :: stored_job
  lease_lost :: bool
  beating :: bool

definition heartbeat_once ::
  "('w, 's) services_scheme \<Rightarrow> job_service \<Rightarrow> string \<Rightarrow> heartbeat \<Rightarrow> ('w, 'z, heartbeat) io" where
  "heartbeat_once E svc owner hb =
     (if \<not> beating hb then io_return hb
      else io_try_bind
        (io_bind (io_call (sleep E)) (\<lambda>_. refresh_lease E svc (holder hb) owner))
        (\<lambda>e. if e = Cancelled then io_return (hb\<lparr>beating := False\<rparr>)
           else io_return (hb\<lparr>lease_lost := True, beating := False\<rparr>))
        (\<lambda>refreshed. case refreshed of
           None \<Rightarrow> io_return (hb\<lparr>lease_lost := True, beating := False\<rparr>)
         | Some st \<Rightarrow> io_return (hb\<lparr>holder := st\<rparr>)))"

fun heartbeat_run ::
  "('w, 's) services_scheme \<Rightarrow> job_service \<Rightarrow> string \<Rightarrow> nat \<Rightarrow> heartbeat \<Rightarrow> ('w, 'z, heartbeat) io" where
  "heartbeat_run E svc owner 0 hb = io_return hb"
| "heartbeat_run E svc owner (Suc n) hb =
     io_bind (heartbeat_once E svc owner hb) (heartbeat_run E svc owner n)"

section \<open>Claim\<close>

definition is_stale :: "dict \<Rightarrow> int \<Rightarrow> ('w, 'z, bool) io" where
  "is_stale record now =
     (if py_str (dict_get record ''status'') \<noteq> ''running'' then io_return False
      else io_bind (io_int (py_or (dict_get record ''updatedAt'') (JInt 0))) (\<lambda>updated.
        io_return (updated \<le> now - STALE_MILLISECONDS)))"

definition running_record :: "dict \<Rightarrow> int \<Rightarrow> string \<Rightarrow> int \<Rightarrow> dict" where
  "running_record record attempt owner now = dict_update record
     [(''status'', JStr ''running''), (''attempt'', JInt (attempt + 1)),
      (''leaseOwner'', JStr owner), (''leaseExpiresAt'', JInt (now + LEASE_MILLISECONDS)),
      (''updatedAt'', JInt now), (''errorCode'', JNull), (''retryable'', JNull)]"

definition claim_execution ::
  "('w, 's) services_scheme \<Rightarrow> job_service \<Rightarrow> stored_job \<Rightarrow> string
     \<Rightarrow> ('w, 'z, (stored_job \<times> string) option) io" where
  "claim_execution E svc stored owner =
     (let record = job_record stored;
          st = py_str (dict_get record ''status'')
      in io_bind (io_read (clock E)) (\<lambda>now.
         io_bind (if st = ''running''
           then io_of_sum (compare_digest (record_text record ''leaseOwner'') owner)
           else io_return False) (\<lambda>mine.
         if mine then io_return (Some (stored, owner))
         else io_bind (is_stale record now) (\<lambda>stale.
           if st \<noteq> ''queued'' \<and> \<not> stale
              \<and> \<not> (st = ''failed'' \<and> dict_get record ''retryable'' = JBool True)
           then io_return None
           else io_bind (io_int (py_or (dict_get record ''attempt'') (JInt 0))) (\<lambda>attempt.
             if attempt \<ge> MAX_EXECUTION_ATTEMPTS then io_return None
             else io_bind (store_replace E (svc_store svc) stored
                 (running_record record attempt owner now)) (\<lambda>running.
               io_return (Some (running, owner))))))))"

fun claim_loop ::
  "('w, 's) services_scheme \<Rightarrow> job_service \<Rightarrow> string \<Rightarrow> string \<Rightarrow> nat
     \<Rightarrow> ('w, 'z, (stored_job \<times> string) option) io" where
  "claim_loop E svc job_id owner 0 = io_raise OtherException"
| "claim_loop E svc job_id owner (Suc remaining) =
     io_catch
       (io_bind (store_read E (svc_store svc) job_id) (\<lambda>found.
          case found of
            None \<Rightarrow> io_return None
          | Some stored \<Rightarrow> claim_execution E svc stored owner))
       (\<lambda>e. if e = Cancelled then io_raise e
          else if remaining = 0 then io_raise e
          else io_bind (io_call (sleep E)) (\<lambda>_. claim_loop E svc job_id owner remaining))"

definition drive_execution_claim ::
  "('w, 's) services_scheme \<Rightarrow> job_service \<Rightarrow> string
     \<Rightarrow> ('w, 'z, (stored_job \<times> string) option) io" where
  "drive_execution_claim E svc job_id =
     io_bind (io_read (token_hex E)) (\<lambda>owner.
       claim_loop E svc job_id owner CLAIM_DRIVE_ATTEMPTS)"

section \<open>Report\<close>

fun last_report :: "string option \<Rightarrow> (string \<times> json) list \<Rightarrow> string option" where
  "last_report final [] = final"
| "last_report final ((event_name, payload) # evs) =
     last_report
       (if event_name \<noteq> ''report'' then final
        else case payload of
          JDict d \<Rightarrow> (case dict_get d ''content'' of
             JStr content \<Rightarrow> if content \<noteq> [] then Some content else final
           | _ \<Rightarrow> final)
        | _ \<Rightarrow> final) evs"

definition consume_report_once ::
  "('w, 's) job_services_scheme \<Rightarrow> dict \<Rightarrow> string \<Rightarrow> string list \<Rightarrow> nat \<Rightarrow> ('w, 'z, string) io" where
  "consume_report_once E record prompt symbols inner_call =
     io_bind (io_item record ''jobId'') (\<lambda>job_id.
     io_bind (io_int (py_or (dict_get record ''attempt'') (JInt 0))) (\<lambda>attempt.
     let session_id = py_str job_id @ ''-attempt-'' @ dec_of_int attempt @ ''-llm-''
           @ dec_of_nat inner_call
     in io_bind (io_read (stream_work E prompt session_id symbols)) (\<lambda>(evs, failure).
        case failure of
          Some e \<Rightarrow> io_raise e
        | None \<Rightarrow> (case last_report None evs of
            None \<Rightarrow> io_raise EmptyAnalysisResponse
          | Some final \<Rightarrow> io_return final))))"

text \<open>
  The calls of the analyst, each with the heartbeats during it. The result is a value, so that
  the heartbeat's state survives an exception.
\<close>

fun consume_calls ::
  "('w, 's) job_services_scheme \<Rightarrow> job_service \<Rightarrow> dict \<Rightarrow> string \<Rightarrow> string list \<Rightarrow> string \<Rightarrow> nat
     \<Rightarrow> heartbeat \<Rightarrow> ('w, 'z, (exn + string) \<times> heartbeat) io" where
  "consume_calls E svc record prompt symbols owner 0 hb = io_return (Inl OtherException, hb)"
| "consume_calls E svc record prompt symbols owner (Suc remaining) hb =
     io_bind (io_read (heartbeats E)) (\<lambda>n.
     io_bind (heartbeat_run E svc owner n hb) (\<lambda>hb'.
     io_bind (io_attempt (consume_report_once E record prompt symbols (3 - remaining))) (\<lambda>outcome.
       if outcome = Inl EmptyAnalysisResponse \<and> remaining > 0
       then consume_calls E svc record prompt symbols owner remaining hb'
       else io_return (outcome, hb'))))"

definition task_json :: "string list \<Rightarrow> json \<Rightarrow> string" where
  "task_json symbols analysis_type =
     json_dumps \<lparr>ensure_ascii = True, item_separator = '', '', key_separator = '': '', sort_keys = False\<rparr>
       (JDict [(''task'', JStr (''Analyze '' @ py_join '', '' symbols)),
         (''terms'', JDict [(''symbols'', JList (map JStr symbols)),
            (''analysis_type'', JStr (py_str (py_or analysis_type (JStr ''comprehensive''))))])])"

definition consume_report ::
  "('w, 's) job_services_scheme \<Rightarrow> job_service \<Rightarrow> dict \<Rightarrow> string \<Rightarrow> heartbeat
     \<Rightarrow> ('w, 'z, (exn + string) \<times> heartbeat) io" where
  "consume_report E svc record owner hb =
     (case dict_get record ''request'' of
        JDict request \<Rightarrow>
          (case dict_get request ''symbols'' of
             JList vs \<Rightarrow>
               (if \<not> list_all is_str vs then io_return (Inl MissingReport, hb)
                else let symbols = map py_str vs
                in case stock_prompt E (task_json symbols (dict_get request ''analysisType''))
                    (py_or (dict_get request ''portfolio'') (JList []))
                    (py_or (dict_get request ''riskProfile'') (JDict [])) of
                  Inl e \<Rightarrow> io_return (Inl e, hb)
                | Inr (prompt, effective) \<Rightarrow>
                    consume_calls E svc record prompt (if effective = [] then symbols else effective)
                      owner 3 hb)
           | _ \<Rightarrow> io_return (Inl MissingReport, hb))
      | _ \<Rightarrow> io_return (Inl MissingReport, hb))"

section \<open>Failure and success\<close>

definition failed_record :: "dict \<Rightarrow> string \<Rightarrow> bool \<Rightarrow> int \<Rightarrow> dict" where
  "failed_record record code can_retry now = dict_update record
     [(''status'', JStr ''failed''), (''leaseOwner'', JNull), (''leaseExpiresAt'', JNull),
      (''updatedAt'', JInt now), (''errorCode'', JStr code), (''retryable'', JBool can_retry)]"

definition fail_execution ::
  "('w, 's) services_scheme \<Rightarrow> job_service \<Rightarrow> stored_job \<Rightarrow> string \<Rightarrow> bool \<Rightarrow> string \<Rightarrow> bool
     \<Rightarrow> ('w, 'z, unit) io" where
  "fail_execution E svc stored owner lost code can =
     (if lost then io_return ()
      else io_bind (io_of_sum (lease_held (job_record stored) owner)) (\<lambda>held.
        if \<not> held then io_return ()
        else io_bind (if \<not> can then io_return False
            else if code = ''analysis_empty_response'' then io_return True
            else io_bind (io_int (py_or (dict_get (job_record stored) ''attempt'') (JInt 0)))
              (\<lambda>attempt. io_return (attempt < MAX_EXECUTION_ATTEMPTS))) (\<lambda>can_retry.
          io_bind (io_read (clock E)) (\<lambda>now.
          io_try_bind (store_replace E (svc_store svc) stored
              (failed_record (job_record stored) code can_retry now))
            (\<lambda>e. if e = JobConflict then io_return () else io_raise e)
            (\<lambda>_. io_return ())))))"

definition failure_of :: "exn \<Rightarrow> string \<times> bool" where
  "failure_of e = (case e of
     TimeoutError \<Rightarrow> (''analysis_timeout'', True)
   | EmptyAnalysisResponse \<Rightarrow> (''analysis_empty_response'', True)
   | MissingReport \<Rightarrow> (''analysis_failed'', False)
   | X402JobError err \<Rightarrow> (if err_code err = ''too_many_users'' then (''too_many_users'', True)
       else (''analysis_failed'', err_retryable err))
   | _ \<Rightarrow> (''analysis_failed'', True))"

definition succeeded_record :: "dict \<Rightarrow> string \<Rightarrow> int \<Rightarrow> dict" where
  "succeeded_record record owner now = dict_update record
     [(''status'', JStr ''succeeded''), (''reportId'', JStr owner), (''leaseOwner'', JNull),
      (''leaseExpiresAt'', JNull), (''updatedAt'', JInt now), (''errorCode'', JNull),
      (''retryable'', JNull)]"

definition submit_succeeded_usage ::
  "('w, 's) job_services_scheme \<Rightarrow> job_service \<Rightarrow> dict \<Rightarrow> ('w, 'z, unit) io" where
  "submit_succeeded_usage E svc record =
     (if \<not> svc_tracks_usage svc then io_return ()
      else io_catch
        (io_bind (io_item record ''jobId'') (\<lambda>job_id.
         io_bind (io_item record ''address'') (\<lambda>addr.
         io_bind (io_item record ''updatedAt'') (\<lambda>updated.
         io_bind (io_int updated) (\<lambda>timestamp.
         io_bind (io_emit (UsageSucceeded (py_str job_id) (py_str addr) timestamp)) (\<lambda>_.
           io_call (usage_succeeded E (py_str job_id) (py_str addr) timestamp)))))))
        (\<lambda>e. if e = Cancelled then io_raise e else io_return ()))"

definition publish_report ::
  "('w, 's) job_services_scheme \<Rightarrow> job_service \<Rightarrow> string \<Rightarrow> string \<Rightarrow> stored_job \<Rightarrow> string
     \<Rightarrow> ('w, 'z, unit) io" where
  "publish_report E svc job_id owner stored markdown =
     io_bind (refresh_lease E svc stored owner) (\<lambda>refreshed.
       case refreshed of
         None \<Rightarrow> io_return ()
       | Some fenced \<Rightarrow>
           io_try_bind (put_report E (svc_store svc) job_id markdown (Some owner))
             (\<lambda>e. if e = Cancelled then io_raise e
                else fail_execution E svc fenced owner False ''analysis_failed'' True)
             (\<lambda>_. io_bind (io_read (clock E)) (\<lambda>now.
                io_try_bind (store_replace E (svc_store svc) fenced
                    (succeeded_record (job_record fenced) owner now))
                  (\<lambda>e. if e = JobConflict then io_return () else io_raise e)
                  (\<lambda>durable. submit_succeeded_usage E svc (job_record durable)))))"

definition run_claimed_job ::
  "('w, 's) job_services_scheme \<Rightarrow> job_service \<Rightarrow> string \<Rightarrow> stored_job \<Rightarrow> string
     \<Rightarrow> ('w, 'z, unit) job_io" where
  "run_claimed_job E svc job_id running owner =
     io_bind (redrive_accounting E svc running) (\<lambda>_.
     io_bind (consume_report E svc (job_record running) owner
       \<lparr>holder = running, lease_lost = False, beating = True\<rparr>) (\<lambda>(outcome, hb).
       case outcome of
         Inl e \<Rightarrow>
           if e = Cancelled then io_raise e
           else fail_execution E svc (holder hb) owner (lease_lost hb)
             (fst (failure_of e)) (snd (failure_of e))
       | Inr markdown \<Rightarrow>
           if lease_lost hb then io_return ()
           else publish_report E svc job_id owner (holder hb) markdown))"

definition run_job ::
  "('w, 's) job_services_scheme \<Rightarrow> job_service \<Rightarrow> string \<Rightarrow> ('w, 'z, unit) job_io" where
  "run_job E svc job_id =
     io_catch
       (io_bind (drive_execution_claim E svc job_id) (\<lambda>claimed.
          case claimed of
            None \<Rightarrow> io_return ()
          | Some (running, owner) \<Rightarrow> run_claimed_job E svc job_id running owner))
       (\<lambda>e. if e = Cancelled then io_raise e else io_return ())"

section \<open>Queries\<close>

definition authorized_job ::
  "('w, 's) services_scheme \<Rightarrow> job_service \<Rightarrow> string \<Rightarrow> json \<Rightarrow> ('w, 'z, stored_job) io" where
  "authorized_job E svc job_id token =
     (if \<not> job_id_re job_id then io_raise (job_error_exn ''job_not_found'')
      else io_bind (store_read E (svc_store svc) job_id) (\<lambda>found.
        case found of
          None \<Rightarrow> io_raise (job_error_exn ''job_not_found'')
        | Some stored \<Rightarrow>
            io_bind (io_of_sum (token_matches E (job_record stored) token)) (\<lambda>matches.
            if \<not> matches then io_raise (job_error_exn ''job_not_found'')
            else io_bind (io_int (py_or (dict_get (job_record stored) ''expiresAt'') (JInt 0)))
              (\<lambda>expires.
              io_bind (io_read (clock E)) (\<lambda>now.
                if expires \<le> now then io_raise (job_error_exn ''job_expired'')
                else io_return stored)))))"

definition get_job ::
  "('w, 's) job_services_scheme \<Rightarrow> job_service \<Rightarrow> string \<Rightarrow> json \<Rightarrow> ('w, 'z, job_view) job_io" where
  "get_job E svc job_id token =
     io_bind (authorized_job E svc job_id token) (\<lambda>stored.
     let record = job_record stored
     in io_bind (io_item record ''status'') (\<lambda>st_value.
        let st = py_str st_value
        in io_bind (if st = ''queued'' then spawn job_id else io_return ()) (\<lambda>_.
           io_bind (redrive_accounting E svc stored) (\<lambda>_.
           io_bind (io_item record ''expiresAt'') (\<lambda>expires.
           io_bind (io_int expires) (\<lambda>expires_at.
           let view = \<lparr>view_job_id = job_id, view_status = st, view_expires_at = expires_at,
                 view_error_code = None, view_retryable = None, view_download_url = None,
                 view_download_url_expires_at = None\<rparr>
           in if st = ''failed'' then
                io_return (view\<lparr>view_error_code :=
                    Some (py_str (py_or (dict_get record ''errorCode'') (JStr ''analysis_failed''))),
                  view_retryable := Some (truthy (dict_get record ''retryable''))\<rparr>)
              else if st = ''succeeded'' then
                io_bind (presign_report E (svc_store svc) job_id
                    (as_str (dict_get record ''reportId''))) (\<lambda>url.
                io_bind (io_read (clock E)) (\<lambda>now.
                  io_return (view\<lparr>view_download_url := Some url,
                    view_download_url_expires_at := Some (now + DOWNLOAD_URL_MILLISECONDS)\<rparr>)))
              else io_return view))))))"

definition resumed_record :: "dict \<Rightarrow> int \<Rightarrow> dict" where
  "resumed_record record now = dict_update record
     [(''status'', JStr ''queued''), (''leaseOwner'', JNull), (''leaseExpiresAt'', JNull),
      (''updatedAt'', JInt now), (''errorCode'', JNull), (''retryable'', JNull)]"

definition apply_resume_and_handoff ::
  "('w, 's) services_scheme \<Rightarrow> job_service \<Rightarrow> stored_job \<Rightarrow> dict \<Rightarrow> ('w, 'z, unit) job_io" where
  "apply_resume_and_handoff E svc stored queued =
     io_bind (io_catch (store_replace E (svc_store svc) stored queued)
       (\<lambda>e. if e = JobConflict then io_raise (job_error_exn ''job_conflict'') else io_raise e)) (\<lambda>_.
     io_bind (io_item queued ''jobId'') (\<lambda>job_id. handoff_and_spawn (py_str job_id)))"

definition resume_job ::
  "('w, 's) job_services_scheme \<Rightarrow> job_service \<Rightarrow> string \<Rightarrow> json \<Rightarrow> ('w, 'z, job_view) job_io" where
  "resume_job E svc job_id token =
     io_bind (authorized_job E svc job_id token) (\<lambda>stored.
     io_bind (redrive_accounting E svc stored) (\<lambda>_.
     io_bind (io_read (clock E)) (\<lambda>now.
     let record = job_record stored
     in io_bind (io_item record ''status'') (\<lambda>st_value.
        let st = py_str st_value
        in io_bind (io_int (py_or (dict_get record ''attempt'') (JInt 0))) (\<lambda>attempt.
           if attempt \<ge> MAX_EXECUTION_ATTEMPTS then io_raise (job_error_exn ''attempts_exhausted'')
           else if st = ''queued'' then io_bind (spawn job_id) (\<lambda>_. get_job E svc job_id token)
           else io_bind (is_stale record now) (\<lambda>stale.
             if \<not> stale \<and> \<not> (st = ''failed'' \<and> dict_get record ''retryable'' = JBool True)
             then io_raise (job_error_exn ''job_conflict'')
             else io_bind (io_attempt
                 (apply_resume_and_handoff E svc stored (resumed_record record now))) (\<lambda>outcome.
               io_bind (io_read (interrupted E)) (\<lambda>cancelled.
                 if cancelled then io_raise Cancelled
                 else case outcome of
                   Inl e \<Rightarrow> io_raise e
                 | Inr _ \<Rightarrow> get_job E svc job_id token))))))))"

end
