(* ===== verification/Job_Lifecycle.thy ===== *)
theory Job_Lifecycle
  imports Job_Execution Versioned_Object
begin

text \<open>
  The life cycle of a job record: an invariant of every record the service writes, the changes a
  write may make, and that every operation of the service stays within them. The store applies
  the writes one after the other, each to the record it was computed from, so the invariant holds
  of every version of every record.
\<close>

section \<open>The invariant\<close>

definition has_status :: "dict \<Rightarrow> string \<Rightarrow> bool" where
  "has_status r st \<longleftrightarrow> dict_get r ''status'' = JStr st"

definition has_payment :: "dict \<Rightarrow> string \<Rightarrow> bool" where
  "has_payment r st \<longleftrightarrow> dict_get r ''paymentStatus'' = JStr st"

definition status_inv :: "dict \<Rightarrow> bool" where
  "status_inv r \<longleftrightarrow>
     (has_payment r ''settling'' \<and> has_status r ''settling'')
     \<or> (has_payment r ''failed'' \<and> has_status r ''failed'' \<and> dict_get r ''retryable'' = JBool False)
     \<or> (has_payment r ''settled'' \<and> (has_status r ''settling'' \<or> has_status r ''queued''
          \<or> has_status r ''running'' \<or> has_status r ''succeeded'' \<or> has_status r ''failed''))"

definition attempt_inv :: "dict \<Rightarrow> bool" where
  "attempt_inv r \<longleftrightarrow> (\<exists>a. dict_get r ''attempt'' = JInt a \<and> 0 \<le> a \<and> a \<le> MAX_EXECUTION_ATTEMPTS
     \<and> (has_status r ''running'' \<or> has_status r ''succeeded'' \<longrightarrow> 1 \<le> a))"

definition rate_inv :: "dict \<Rightarrow> bool" where
  "rate_inv r \<longleftrightarrow> dict_has r ''rateLimitState'' \<longrightarrow>
     (has_payment r ''settling'' \<longrightarrow> dict_get r ''rateLimitState'' = JStr ''reserved'')
     \<and> (has_payment r ''settled'' \<and> \<not> has_status r ''settling''
        \<longrightarrow> dict_get r ''rateLimitState'' = JStr ''committed'')"

definition reference_inv :: "dict \<Rightarrow> bool" where
  "reference_inv r \<longleftrightarrow>
     (has_payment r ''settled''
        \<longrightarrow> is_valid_settlement_reference (dict_get r ''settlementReference'') True)
     \<and> (has_status r ''succeeded''
        \<longrightarrow> (\<exists>rid. dict_get r ''reportId'' = JStr rid \<and> report_id_re rid))"

definition job_inv :: "dict \<Rightarrow> bool" where
  "job_inv r \<longleftrightarrow> status_inv r \<and> attempt_inv r \<and> rate_inv r \<and> reference_inv r"

lemmas job_inv_defs = job_inv_def status_inv_def attempt_inv_def rate_inv_def reference_inv_def
  has_status_def has_payment_def

section \<open>What a replacement may change\<close>

definition mutable_fields :: "string list" where
  "mutable_fields = [''paymentStatus'', ''pendingSettlementReference'', ''settlementReference'',
     ''reportId'', ''status'', ''competitionEventId'', ''settledAt'', ''attempt'', ''leaseOwner'',
     ''leaseExpiresAt'', ''updatedAt'', ''errorCode'', ''retryable'', ''rateLimitState'',
     ''competitionReported'', ''competitionReportedAt'']"

definition same_job :: "dict \<Rightarrow> dict \<Rightarrow> bool" where
  "same_job old new \<longleftrightarrow> (\<forall>k. k \<notin> set mutable_fields \<longrightarrow> dict_get new k = dict_get old k)"

definition attempt_of :: "dict \<Rightarrow> int" where
  "attempt_of r = (case dict_get r ''attempt'' of JInt a \<Rightarrow> a | _ \<Rightarrow> 0)"

text \<open>
  A settled payment stays settled, with its reference; a failed one stays failed; attempts are
  never taken back; the fields that bind the job to its payment and its owner never change.
\<close>

definition job_advance :: "dict \<Rightarrow> dict \<Rightarrow> bool" where
  "job_advance old new \<longleftrightarrow> same_job old new \<and> attempt_of old \<le> attempt_of new
     \<and> (has_payment old ''settled'' \<longrightarrow> has_payment new ''settled''
        \<and> dict_get new ''settlementReference'' = dict_get old ''settlementReference''
        \<and> dict_get new ''settledAt'' = dict_get old ''settledAt'')
     \<and> (has_payment old ''failed'' \<longrightarrow> has_payment new ''failed'')"

definition job_step :: "dict \<Rightarrow> dict \<Rightarrow> bool" where
  "job_step old new \<longleftrightarrow> (job_inv old \<longrightarrow> job_inv new \<and> job_advance old new)"

lemmas step_defs = job_advance_def attempt_of_def

section \<open>The records the service builds\<close>

lemma dict_get_update_other: "k \<notin> set (map fst kvs) \<Longrightarrow> dict_get (dict_update d kvs) k = dict_get d k"
  by (induction kvs arbitrary: d) auto

lemma same_job_update:
  "list_all (\<lambda>k. k \<in> set mutable_fields) (map fst kvs) \<Longrightarrow> same_job r (dict_update r kvs)"
  unfolding same_job_def list_all_iff by (metis dict_get_update_other)

lemma same_job_put: "same_job r d \<Longrightarrow> k \<in> set mutable_fields \<Longrightarrow> same_job r (dict_put d k v)"
  by (auto simp: same_job_def)

lemma same_job_pop: "same_job r d \<Longrightarrow> k \<in> set mutable_fields \<Longrightarrow> same_job r (dict_pop d k)"
  by (auto simp: same_job_def)

lemmas same_job_intros = same_job_update same_job_put same_job_pop

lemma built_same_job:
  "same_job r (claimed_settling_record r owner now)"
  "same_job r (failed_settlement_record r now)"
  "same_job r (released_record r now)"
  "same_job r (pending_record r ref now)"
  "same_job r (committed_record r now)"
  "same_job r (settled_record r ref reserved event_id at owner lease_now now)"
  "same_job r (resumed_record r now)"
  "same_job r (running_record r attempt owner now)"
  "same_job r (refreshed_record r now)"
  "same_job r (failed_record r code can now)"
  "same_job r (succeeded_record r owner now)"
  unfolding claimed_settling_record_def failed_settlement_record_def released_record_def
    pending_record_def committed_record_def settled_record_def resumed_record_def
    running_record_def refreshed_record_def failed_record_def succeeded_record_def Let_def
  by (auto simp only: split: if_split intro!: same_job_intros)
     (simp_all add: mutable_fields_def)

lemma claimed_settling_step: "job_step r (claimed_settling_record r owner now)"
  by (simp add: job_step_def built_same_job step_defs)
     (simp add: claimed_settling_record_def job_inv_defs)

lemma failed_settlement_step:
  "has_payment r ''settling'' \<Longrightarrow> job_step r (failed_settlement_record r now)"
  by (simp add: job_step_def built_same_job step_defs)
     (auto simp: failed_settlement_record_def job_inv_defs)

lemma released_step:
  "has_payment r ''failed'' \<Longrightarrow> job_step r (released_record r now)"
  by (simp add: job_step_def built_same_job step_defs)
     (auto simp: released_record_def job_inv_defs)

lemma pending_step:
  "has_payment r ''settling'' \<Longrightarrow> job_step r (pending_record r ref now)"
  by (simp add: job_step_def built_same_job step_defs)
     (auto simp: pending_record_def job_inv_defs)

lemma committed_step:
  "has_payment r ''settled'' \<Longrightarrow> has_status r ''settling'' \<Longrightarrow> job_step r (committed_record r now)"
  by (simp add: job_step_def built_same_job step_defs)
     (auto simp: committed_record_def Let_def job_inv_defs)

lemma settled_step:
  assumes "has_payment r ''settling''" "is_valid_settlement_reference ref True"
    and "\<not> reserved \<Longrightarrow> \<not> dict_has r ''rateLimitState''"
  shows "job_step r (settled_record r ref reserved event_id at owner lease_now now)"
  using assms
  by (simp add: job_step_def built_same_job step_defs)
     (auto simp: settled_record_def job_inv_defs)

text \<open>A job that may be resumed or claimed is paid for, and its reservation is committed.\<close>

lemma claimable_settled:
  assumes "job_inv r"
    and "has_status r ''queued'' \<or> has_status r ''running''
      \<or> has_status r ''failed'' \<and> dict_get r ''retryable'' = JBool True"
  shows "has_payment r ''settled'' \<and> \<not> has_status r ''settling''"
proof -
  from assms(2) have "\<not> has_status r ''settling''" by (auto simp: has_status_def)
  moreover from assms have "\<not> (has_payment r ''failed'' \<and> has_status r ''failed''
      \<and> dict_get r ''retryable'' = JBool False)"
    by (auto simp: has_status_def)
  ultimately show ?thesis using assms(1) unfolding job_inv_def status_inv_def by blast
qed

lemma claimable_facts:
  assumes "job_inv r"
    and "has_status r ''queued'' \<or> has_status r ''running''
      \<or> has_status r ''failed'' \<and> dict_get r ''retryable'' = JBool True"
  shows "dict_get r ''paymentStatus'' = JStr ''settled''"
    and "dict_has r ''rateLimitState'' \<Longrightarrow> dict_get r ''rateLimitState'' = JStr ''committed''"
    and "is_valid_settlement_reference (dict_get r ''settlementReference'') True"
    and "\<exists>a. dict_get r ''attempt'' = JInt a \<and> 0 \<le> a \<and> a \<le> MAX_EXECUTION_ATTEMPTS"
  using assms(1) claimable_settled[OF assms]
  unfolding job_inv_def rate_inv_def reference_inv_def attempt_inv_def has_payment_def
  by blast+

lemma resumed_step:
  assumes "has_status r ''running'' \<or> has_status r ''failed'' \<and> dict_get r ''retryable'' = JBool True"
  shows "job_step r (resumed_record r now)"
  unfolding job_step_def
proof
  assume "job_inv r"
  with assms have c: "job_inv r" "has_status r ''queued'' \<or> has_status r ''running''
      \<or> has_status r ''failed'' \<and> dict_get r ''retryable'' = JBool True" by auto
  show "job_inv (resumed_record r now) \<and> job_advance r (resumed_record r now)"
    using claimable_facts[OF c]
    by (simp add: built_same_job step_defs)
       (simp add: resumed_record_def job_inv_defs)
qed

lemma running_step:
  assumes "has_status r ''queued'' \<or> has_status r ''running''
      \<or> has_status r ''failed'' \<and> dict_get r ''retryable'' = JBool True"
    and "py_int (py_or (dict_get r ''attempt'') (JInt 0)) = Inr a" "a < MAX_EXECUTION_ATTEMPTS"
  shows "job_step r (running_record r a owner now)"
  unfolding job_step_def
proof
  assume inv: "job_inv r"
  note facts = claimable_facts[OF inv assms(1)]
  have a: "dict_get r ''attempt'' = JInt a" "0 \<le> a"
    using facts(4) assms(2) by (auto simp: py_or_def split: if_splits)
  show "job_inv (running_record r a owner now) \<and> job_advance r (running_record r a owner now)"
    using facts(1-3) a assms(3)
    by (simp add: built_same_job step_defs)
       (simp add: running_record_def job_inv_defs)
qed

lemma refreshed_step: "job_step r (refreshed_record r now)"
  by (simp add: job_step_def built_same_job step_defs)
     (simp add: refreshed_record_def job_inv_defs)

lemma failed_step: "has_status r ''running'' \<Longrightarrow> job_step r (failed_record r code can now)"
  by (simp add: job_step_def built_same_job step_defs)
     (auto simp: failed_record_def job_inv_defs)

lemma succeeded_step:
  "has_status r ''running'' \<Longrightarrow> report_id_re owner \<Longrightarrow> job_step r (succeeded_record r owner now)"
  by (simp add: job_step_def built_same_job step_defs)
     (auto simp: succeeded_record_def job_inv_defs)

lemma new_record_inv:
  assumes "\<And>r. reservation = Some r \<Longrightarrow> reservation_state r = ''reserved''"
  shows "job_inv (dict_update (new_job_record identity payment digest request event_id owner now)
    (reservation_fields reservation))"
  using assms
  by (cases reservation)
     (simp_all add: new_job_record_def reservation_fields_def job_inv_defs MAX_EXECUTION_ATTEMPTS_def)

section \<open>Versions of a job record\<close>

definition job_init :: "dict \<Rightarrow> bool" where
  "job_init r \<longleftrightarrow> job_inv r \<and> has_payment r ''settling'' \<and> attempt_of r = 0"

lemma same_job_trans: "same_job u v \<Longrightarrow> same_job v w \<Longrightarrow> same_job u w"
  by (simp add: same_job_def)

interpretation job_versions: monotone_object job_init job_step job_inv job_advance
proof unfold_locales
  show "job_advance v v" for v by (simp add: job_advance_def same_job_def)
  show "job_advance u v \<Longrightarrow> job_advance v w \<Longrightarrow> job_advance u w" for u v w
    by (auto simp: job_advance_def intro: same_job_trans)
qed (auto simp: job_init_def job_step_def)

end
