(* ===== verification/Job_Guarantee.thy ===== *)
theory Job_Guarantee
  imports Job_Lifecycle
begin

text \<open>
  Every operation of the service keeps the life cycle: whatever the external services answer, and
  wherever an operation stops, each write it sends is a step of the life cycle, the wallet records
  change as the limiter specifies, and the facilitator is only asked to settle a payment that is
  recorded as unsettled under this service's lease.
\<close>

section \<open>The guarantee\<close>

definition settle_permitted ::
  "('w, 's) services_scheme \<Rightarrow> job_service \<Rightarrow> dict \<Rightarrow> string \<Rightarrow> string \<Rightarrow> bool" where
  "settle_permitted E svc r proof_header mode \<longleftrightarrow>
     has_payment r ''settling'' \<and> has_status r ''settling''
     \<and> dict_get r ''leaseOwner'' = JStr (svc_owner svc)
     \<and> (dict_get r ''paymentProofDigest'' = JNull
        \<or> dict_get r ''paymentProofDigest'' = JStr (bytes_hex (sha256 E proof_header)))
     \<and> (mode = ''verify-and-settle'' \<or> mode = ''settle-only'')"

text \<open>
  \<open>S\<close> says which calls of the facilitator are allowed; the operations that make none satisfy the
  guarantee whatever it is.
\<close>

definition service_guarantee :: "(dict \<Rightarrow> string \<Rightarrow> string \<Rightarrow> bool) \<Rightarrow> event \<Rightarrow> bool" where
  "service_guarantee S ev = (case ev of
     JobCreateSent r \<Rightarrow> job_init r
   | JobReplaceSent old new \<Rightarrow> job_step old new
   | WalletCreateSent digest new \<Rightarrow> wallet_guarantee ev
   | WalletReplaceSent digest old new \<Rightarrow> wallet_guarantee ev
   | SettleCalled r proof_header mode \<Rightarrow> S r proof_header mode
   | SettleReturned outcome \<Rightarrow> outcome_ok outcome
   | _ \<Rightarrow> True)"

lemma service_guarantee_simps [simp]:
  "service_guarantee S (JobCreateSent r)
     \<longleftrightarrow> job_init r"
  "service_guarantee S (JobCreated r)"
  "service_guarantee S (JobReplaceSent old new) \<longleftrightarrow> job_step old new"
  "service_guarantee S (JobReplaced old new)"
  "service_guarantee S (SettleCalled r proof_header mode)
     \<longleftrightarrow> S r proof_header mode"
  "service_guarantee S (SettleReturned outcome) \<longleftrightarrow> outcome_ok outcome"
  "service_guarantee S (MarkerCreated job_id marker)"
  "service_guarantee S (ReportStored job_id rid markdown)"
  "service_guarantee S (CompetitionReported event_id addr at)"
  "service_guarantee S (JobSpawned job_id)"
  "service_guarantee S (AccountingSpawned job_id)"
  "service_guarantee S (UsageSucceeded job_id wallet at)"
  by (simp_all add: service_guarantee_def)

lemma wallet_service_guarantee: "wallet_guarantee ev \<Longrightarrow> service_guarantee S ev"
  by (cases ev) (auto simp: service_guarantee_def wallet_guarantee_def)

named_theorems svc_rule "specifications of the service operations"

section \<open>The limiter as the service uses it\<close>

lemma limiter_in_service:
  assumes "obeys wallet_guarantee m Q (\<lambda>_. True)" "\<And>a. Q a \<Longrightarrow> Q' a" "\<And>e. R e"
  shows "obeys (service_guarantee S) m Q' R"
  by (rule obeys_weaken[OF assms(1)]) (auto simp: wallet_service_guarantee assms(2,3))

lemma svc_commit [svc_rule]:
  "Q () \<Longrightarrow> (\<And>e. R e) \<Longrightarrow> obeys (service_guarantee S) (commit E' L r) Q R"
  by (rule limiter_in_service[OF obeys_commit[where Q = "\<lambda>_. True"]]) auto

lemma svc_release [svc_rule]:
  "Q () \<Longrightarrow> (\<And>e. R e) \<Longrightarrow> obeys (service_guarantee S) (release E' L r) Q R"
  by (rule limiter_in_service[OF obeys_release[where Q = "\<lambda>_. True"]]) auto

lemma svc_reserve [svc_rule]:
  assumes "\<And>r. created_by_caller r \<longrightarrow> reservation_state r = ''reserved'' \<Longrightarrow> Q r" "\<And>e. R e"
  shows "obeys (service_guarantee S) (reserve E' L wallet rid) Q R"
  by (rule limiter_in_service[OF obeys_reserve[where Q = "\<lambda>r. created_by_caller r
       \<longrightarrow> reservation_state r = ''reserved''"]])
     (auto simp: reservation_for_def assms)

section \<open>Tasks and accounting\<close>

lemma obeys_spawn [svc_rule]:
  "P (JobSpawned job_id) \<Longrightarrow> Q () \<Longrightarrow> obeys P (spawn job_id) Q R"
  by (auto simp: obeys_def spawn_def io_emit_def)

lemma obeys_spawn_accounting [svc_rule]:
  "P (AccountingSpawned job_id) \<Longrightarrow> Q () \<Longrightarrow> obeys P (spawn_accounting job_id) Q R"
  by (auto simp: obeys_def spawn_accounting_def io_emit_def)

lemma obeys_handoff [svc_rule]:
  "P (JobSpawned job_id) \<Longrightarrow> Q () \<Longrightarrow> obeys P (handoff_and_spawn job_id) Q R"
  by (auto simp: obeys_def handoff_and_spawn_def io_bind_def task_done_def spawn_def io_emit_def
      split: option.splits)

lemma obeys_redrive [svc_rule]:
  "Q () \<Longrightarrow> (\<And>e. R e)
   \<Longrightarrow> obeys (service_guarantee S) (redrive_accounting E' svc' stored) Q R"
  unfolding redrive_accounting_def by (intro hoare_rule spec_rule svc_rule) auto

lemma obeys_retry_accounting [svc_rule]:
  "Q stored \<Longrightarrow> (\<And>e. R e)
   \<Longrightarrow> obeys (service_guarantee S) (retry_accounting E' svc' stored) Q R"
  unfolding retry_accounting_def by (intro hoare_rule svc_rule) auto

lemma obeys_report_accounting [svc_rule]:
  "(\<And>b. Q b) \<Longrightarrow> (\<And>e. R e)
   \<Longrightarrow> obeys (service_guarantee S) (report_accounting_record E' record) Q R"
  unfolding report_accounting_record_def by (intro hoare_rule) auto

lemma obeys_accounting_attempt:
  "Q (Some ()) \<Longrightarrow> Q None \<Longrightarrow> (\<And>e. R e)
   \<Longrightarrow> obeys (service_guarantee S) (accounting_attempt E' svc' job_id) Q R"
  unfolding accounting_attempt_def by (intro hoare_rule spec_rule svc_rule) auto

interpretation accounting: attempt_loop "run_accounting_loop E svc job_id delay"
  "\<lambda>n. run_accounting_step E svc job_id (delay \<or> Suc n < svc_accounting_attempts svc)"
  "io_return ()" for E svc job_id delay
  by unfold_locales simp_all

lemma obeys_run_accounting:
  "emits (service_guarantee S) (run_accounting E' svc' job_id delay)"
  unfolding run_accounting_def
  by (rule accounting.obeys_loop)
     (auto simp: run_accounting_step_def intro!: hoare_rule obeys_accounting_attempt)

section \<open>Settlement\<close>

lemma valid_reference_opt:
  "is_valid_settlement_reference (opt_str tx) False \<longleftrightarrow> (\<exists>s. tx = Some s \<and> valid_reference s)"
  by (cases tx) (auto simp: is_valid_settlement_reference_def opt_str_def)

lemma obeys_await_settlement [svc_rule]:
  assumes "\<And>outcome. outcome_ok outcome \<Longrightarrow> Q outcome" "\<And>e. R e"
  shows "obeys (service_guarantee S) (await_settlement E proof_header mode) Q R"
proof -
  have ok: "outcome_ok outcome"
    if "\<not> ((status outcome = Settled \<or> status outcome = Pending)
        \<and> \<not> is_valid_settlement_reference (opt_str (transaction outcome)) False)"
      "\<not> (status outcome = Rejected \<and> transaction outcome \<noteq> None)" for outcome
    using that by (cases "status outcome") (auto simp: outcome_ok_def valid_reference_opt)
  show ?thesis
    unfolding await_settlement_def by (intro hoare_rule) (use assms ok in auto)
qed

lemma obeys_settle_payment [svc_rule]:
  assumes "S (job_record stored) proof_header mode"
    and "\<And>outcome. outcome_ok outcome \<Longrightarrow> Q outcome" "\<And>e. R e"
  shows "obeys (service_guarantee S) (settle_payment E stored proof_header mode) Q R"
  unfolding settle_payment_def by (intro hoare_rule svc_rule) (use assms in auto)

abbreviation awaiting :: "stored_job \<Rightarrow> bool" where
  "awaiting st \<equiv> has_payment (job_record st) ''settling'' \<and> has_status (job_record st) ''settling''"

lemma svc_replace [svc_rule]:
  assumes "job_step (job_record stored) record" "\<And>st. job_record st = record \<Longrightarrow> Q st" "\<And>e. R e"
  shows "obeys (service_guarantee S) (store_replace E' cfg stored record) Q R"
  by (rule obeys_store_replace) (auto simp: assms)

lemma svc_read [svc_rule]:
  assumes "\<And>st. Q (Some st)" "Q None" "\<And>e. R e"
  shows "obeys (service_guarantee S) (store_read E' cfg job_id) Q R"
  by (rule obeys_store_read) (auto simp: assms)

lemma obeys_fail_settlement [svc_rule]:
  assumes "has_payment (job_record stored) ''settling''"
    and "\<And>st. has_payment (job_record st) ''failed'' \<Longrightarrow> Q st" "\<And>e. R e"
  shows "obeys (service_guarantee S) (fail_settlement E' svc' stored) Q R"
  unfolding fail_settlement_def
  by (intro hoare_rule svc_rule failed_settlement_step)
     (use assms in \<open>simp_all add: has_payment_def failed_settlement_record_def\<close>)

lemma obeys_finalize [svc_rule]:
  assumes "\<And>now. job_step (job_record stored) (committed_record (job_record stored) now)"
    and "\<And>st. Q st" "\<And>e. R e"
  shows "obeys (service_guarantee S) (finalize_rate_commit E' svc' stored) Q R"
  unfolding finalize_rate_commit_def by (intro hoare_rule svc_rule) (simp_all add: assms)

lemma obeys_commit_rate_limit [svc_rule]:
  assumes "has_payment (job_record stored) ''settled''" "has_status (job_record stored) ''settling''"
    and "\<And>st. Q st" "\<And>e. R e"
  shows "obeys (service_guarantee S) (commit_rate_limit E' svc' stored) Q R"
  unfolding commit_rate_limit_def
  by (intro hoare_rule svc_rule committed_step) (simp_all add: assms)

lemma obeys_mark_released [svc_rule]:
  assumes "has_payment (job_record stored) ''failed''" "\<And>st. Q st" "\<And>e. R e"
  shows "obeys (service_guarantee S) (mark_rate_released E' svc' stored) Q R"
  unfolding mark_rate_released_def
  by (intro hoare_rule svc_rule released_step) (simp_all add: assms)

lemma obeys_release_after_rejection [svc_rule]:
  assumes "has_payment (job_record stored) ''failed''" "Q ()" "\<And>e. R e"
  shows "obeys (service_guarantee S) (release_after_rejection E' svc' stored) Q R"
  unfolding release_after_rejection_def release_rate_limit_def
  by (intro hoare_rule svc_rule) (simp_all add: assms)

lemma rate_reservation_has_state:
  "rate_reservation_from_record r = Inr (Some x) \<Longrightarrow> dict_has r ''rateLimitState''"
  by (auto simp: rate_reservation_from_record_def rate_fields_def split: if_splits)

lemma rate_reservation_None:
  "rate_reservation_from_record r = Inr None \<Longrightarrow> \<not> dict_has r ''rateLimitState''"
  by (auto simp: rate_reservation_from_record_def rate_fields_def
      split: if_splits json.splits)

text \<open>
  Under the invariant, a settled record whose reservation is not committed is still settling.
  Without it the step has nothing to show.
\<close>

lemma reconcile_commit_step:
  assumes "has_payment r ''settled''" "dict_has r ''rateLimitState''"
    and "dict_get r ''rateLimitState'' \<noteq> JStr ''committed'' \<or> dict_get r ''status'' = JStr ''settling''"
  shows "job_step r (committed_record r now)"
proof (cases "has_status r ''settling''")
  case True
  with assms(1) show ?thesis by (rule committed_step)
next
  case False
  with assms have "\<not> rate_inv r" by (auto simp: rate_inv_def has_status_def)
  then show ?thesis by (simp add: job_step_def job_inv_def)
qed

lemma obeys_reconcile_rate_limit [svc_rule]:
  assumes "\<And>st. Q st" "\<And>e. R e"
  shows "obeys (service_guarantee S) (reconcile_rate_limit E' svc' stored) Q R"
  unfolding reconcile_rate_limit_def
  by (intro hoare_rule svc_rule reconcile_commit_step)
     (auto simp: assms has_payment_def dest: rate_reservation_has_state)

lemma obeys_pending_loop:
  assumes "awaiting candidate" "\<And>st. Q st" "\<And>e. R e"
  shows "obeys (service_guarantee S)
    (pending_loop E' svc' original job_id ref n candidate) Q R"
  using assms(1)
proof (induction n arbitrary: candidate)
  case (Suc n)
  have again: "awaiting st" if "pending_binding original (job_record st)" for st
    using that by (simp add: pending_binding_def has_payment_def has_status_def)
  show ?case
    unfolding pending_loop.simps
    by (intro hoare_rule svc_rule pending_step Suc.IH) (use Suc.prems again assms in auto)
qed (auto intro!: hoare_rule assms)

lemma obeys_mark_pending [svc_rule]:
  assumes "awaiting stored" "\<And>st. Q st" "\<And>e. R e"
  shows "obeys (service_guarantee S) (mark_settlement_pending E' svc' stored ref) Q R"
  unfolding mark_settlement_pending_def
  by (intro hoare_rule obeys_pending_loop) (simp_all add: assms)

lemma reference_available:
  "is_valid_settlement_reference v allow \<Longrightarrow> is_valid_settlement_reference v True"
  by (auto simp: is_valid_settlement_reference_def split: if_splits)

lemma settled_record_fields [simp]:
  "has_payment (settled_record r ref reserved event_id at owner lease_now now) ''settled''"
  "reserved \<Longrightarrow> has_status (settled_record r ref reserved event_id at owner lease_now now) ''settling''"
  by (simp_all add: settled_record_def has_payment_def has_status_def)

lemma obeys_mark_settled [svc_rule]:
  assumes "has_payment (job_record stored) ''settling''" "\<And>st. Q st" "\<And>e. R e"
  shows "obeys (service_guarantee S)
    (mark_settled E' svc' stored payment ref allow) Q R"
  unfolding mark_settled_def
  by (intro hoare_rule svc_rule settled_step)
     (auto simp: assms dest: rate_reservation_None intro: reference_available)

lemma obeys_settle_and_transition [svc_rule]:
  assumes "S (job_record stored) proof_header mode" "awaiting stored"
    and "\<And>st. Q st" "\<And>e. R e"
  shows "obeys (service_guarantee S)
    (settle_and_transition E svc stored payment proof_header mode) Q R"
  unfolding settle_and_transition_def
  by (intro hoare_rule svc_rule assms(1))
     (auto split: settlement_status.split intro!: hoare_rule svc_rule simp: assms)

section \<open>Creating a job\<close>

lemma obeys_require_existing [svc_rule]:
  "(\<And>st. Q st) \<Longrightarrow> (\<And>e. R e)
   \<Longrightarrow> obeys (service_guarantee S) (require_existing_identity E' svc' identity) Q R"
  unfolding require_existing_identity_def by (intro hoare_rule svc_rule) auto

interpretation observing: attempt_loop "wait_loop E svc identity payment digest request"
  "\<lambda>n. io_bind (io_catch (store_read E (svc_store svc) (identity_job_id identity))
         (\<lambda>e. if e = Cancelled then io_raise e else io_return None)) (\<lambda>found.
       case found of
         Some stored \<Rightarrow>
           io_bind (io_of_sum (require_exact_job_binding stored identity payment digest request))
             (\<lambda>_. io_return (Some stored))
       | None \<Rightarrow> io_bind (if n > 0 then io_call (sleep E) else io_return ()) (\<lambda>_. io_return None))"
  "io_raise (retryable_error_exn ''job_state_unavailable'')" for E svc identity payment digest request
  by unfold_locales simp_all

lemma obeys_wait [svc_rule]:
  assumes "\<And>st. exact_job_binding (job_record st) identity payment digest request \<Longrightarrow> Q st" "\<And>e. R e"
  shows "obeys (service_guarantee S)
    (wait_for_exact_reserved_job E' svc' identity payment digest request) Q R"
  unfolding wait_for_exact_reserved_job_def
proof (rule observing.obeys_loop, goal_cases)
  case (1 n Q')
  show ?case
    by (intro hoare_rule svc_rule)
       (auto intro!: 1 assms simp: require_exact_job_binding_def split: if_splits)
qed (auto intro!: hoare_rule assms)

lemma claimed_settling_permitted:
  assumes "awaiting stored" "stored_digest_ok (job_record stored) payment digest"
    and "proof_digest E proof_header = Inr digest"
    and "mode = ''verify-and-settle'' \<or> mode = ''settle-only''"
  shows "settle_permitted E svc (claimed_settling_record (job_record stored) (svc_owner svc) now)
    proof_header mode"
  using assms
  by (auto simp: settle_permitted_def claimed_settling_record_def has_payment_def has_status_def
      stored_digest_ok_def proof_digest_def split: json.splits if_splits)

lemma claimed_settling_payment [simp]:
  "has_payment (claimed_settling_record r owner now) st = has_payment r st"
  "dict_get (claimed_settling_record r owner now) ''status'' = dict_get r ''status''"
  "dict_get (claimed_settling_record r owner now) ''paymentStatus'' = dict_get r ''paymentStatus''"
  by (simp_all add: has_payment_def claimed_settling_record_def)

lemma permitted_awaiting: "settle_permitted E svc r proof_header mode
    \<Longrightarrow> has_payment r ''settling'' \<and> has_status r ''settling''"
  by (simp add: settle_permitted_def)

lemma obeys_reconcile_settling:
  assumes "proof_digest E proof_header = Inr digest" "\<And>st. Q st" "\<And>e. R e"
  shows "obeys (service_guarantee (settle_permitted E svc))
    (reconcile_settling E svc stored payment proof_header digest) Q R"
  unfolding reconcile_settling_def
  by (intro hoare_rule svc_rule)
     (auto simp: assms has_payment_def has_status_def claimed_settling_step
       intro!: claimed_settling_permitted[OF _ _ assms(1)])

lemma obeys_create_result [svc_rule]:
  "(\<And>r. Q r) \<Longrightarrow> (\<And>e. R e) \<Longrightarrow> obeys P (create_result identity stored) Q R"
  unfolding create_result_def by (intro hoare_rule) auto

lemma obeys_create_result_and_spawn [svc_rule]:
  "(\<And>r. Q r) \<Longrightarrow> (\<And>e. R e)
   \<Longrightarrow> obeys (service_guarantee S) (create_result_and_spawn identity stored) Q R"
  unfolding create_result_and_spawn_def by (intro hoare_rule svc_rule) auto

lemma obeys_confirm_existing [svc_rule]:
  "Q () \<Longrightarrow> (\<And>e. R e)
   \<Longrightarrow> obeys (service_guarantee S)
     (confirm_existing E' svc' stored identity payment digest request) Q R"
  unfolding confirm_existing_def by (intro hoare_rule spec_rule) auto

lemma obeys_existing_job:
  assumes "proof_digest E proof_header = Inr digest"
  shows "emits (service_guarantee (settle_permitted E svc))
    (existing_job E svc stored identity payment proof_header digest request)"
  unfolding existing_job_def
  by (intro hoare_rule svc_rule obeys_reconcile_settling) (auto simp: assms)

lemma new_record_permitted:
  assumes "proof_digest E proof_header = Inr digest"
  shows "settle_permitted E svc (dict_update
    (new_job_record identity payment digest request event_id (svc_owner svc) now)
    (reservation_fields reservation)) proof_header ''verify-and-settle''"
  using assms
  by (cases reservation)
     (auto simp: settle_permitted_def new_job_record_def reservation_fields_def has_payment_def
       has_status_def proof_digest_def split: if_splits)

lemma new_record_attempt:
  "attempt_of (dict_update (new_job_record identity payment digest request event_id owner now)
     (reservation_fields reservation)) = 0"
  by (cases reservation) (simp_all add: attempt_of_def new_job_record_def reservation_fields_def)

lemma obeys_created_job [svc_rule]:
  assumes "\<And>st. outcome = Inr (Some st) \<Longrightarrow>
      S (job_record st) proof_header ''verify-and-settle'' \<and> awaiting st"
    and "\<And>r. Q r" "\<And>e. R e"
  shows "obeys (service_guarantee S)
    (created_job E' svc' identity payment proof_header digest request reservation outcome) Q R"
proof (cases outcome)
  case (Inl e)
  then show ?thesis
    unfolding created_job_def by simp (intro hoare_rule svc_rule, simp_all add: assms)
next
  case (Inr found)
  show ?thesis
  proof (cases found)
    case None
    with Inr show ?thesis
      unfolding created_job_def by simp (intro hoare_rule svc_rule, simp_all add: assms)
  next
    case (Some st)
    then have "S (job_record st) proof_header ''verify-and-settle'' \<and> awaiting st"
      using assms(1) Inr by simp
    with Inr Some show ?thesis
      unfolding created_job_def
      by simp (intro hoare_rule svc_rule obeys_confirm, simp_all add: assms(2,3))
  qed
qed

lemma obeys_create_new_job:
  assumes "job_inv record" "attempt_of record = 0"
    and "settle_permitted E svc record proof_header ''verify-and-settle''"
  shows "emits (service_guarantee (settle_permitted E svc))
    (create_new_job E svc identity payment proof_header digest request reservation record)"
proof -
  from assms have "job_init record" by (simp add: settle_permitted_def job_init_def)
  with assms show ?thesis
    unfolding create_new_job_def
    by (intro hoare_rule svc_rule obeys_store_create) (auto simp: permitted_awaiting)
qed

lemma obeys_admit_job:
  assumes "proof_digest E proof_header = Inr digest"
  shows "emits (service_guarantee (settle_permitted E svc))
    (admit_job E svc identity payment proof_header digest request now)"
  unfolding admit_job_def
  by (intro hoare_rule svc_rule obeys_create_new_job)
     (auto simp: new_record_attempt new_record_permitted[OF assms] intro!: new_record_inv
       split: option.splits)

lemma obeys_validated_payment [svc_rule]:
  "(\<And>p. Q p) \<Longrightarrow> (\<And>e. R e) \<Longrightarrow> obeys P (validated_payment svc proof_header now) Q R"
  unfolding validated_payment_def by (intro hoare_rule) auto

lemma obeys_create_job:
  "emits (service_guarantee (settle_permitted E svc)) (create_job E svc proof_header request)"
  unfolding create_job_def
  by (intro hoare_rule svc_rule obeys_existing_job obeys_admit_job) auto

section \<open>Running a job\<close>

lemma lease_held_running: "lease_held r owner = Inr True \<Longrightarrow> has_status r ''running''"
  by (auto simp: lease_held_def has_status_def split: if_splits)

lemma refreshed_status [simp]: "has_status (refreshed_record r now) st = has_status r st"
  by (simp add: has_status_def refreshed_record_def)

lemma obeys_refresh_lease [svc_rule]:
  assumes "\<And>st. has_status (job_record st) ''running'' \<Longrightarrow> Q (Some st)" "Q None" "\<And>e. R e"
  shows "obeys (service_guarantee S) (refresh_lease E' svc' stored owner) Q R"
  unfolding refresh_lease_def
  by (intro hoare_rule svc_rule refreshed_step) (auto simp: assms dest: lease_held_running)

lemma obeys_heartbeat_once [svc_rule]:
  "(\<And>hb. Q hb) \<Longrightarrow> (\<And>e. R e)
   \<Longrightarrow> obeys (service_guarantee S) (heartbeat_once E' svc' owner hb) Q R"
  unfolding heartbeat_once_def by (intro hoare_rule svc_rule) auto

lemma obeys_heartbeat_run [svc_rule]:
  "(\<And>hb. Q hb) \<Longrightarrow> (\<And>e. R e)
   \<Longrightarrow> obeys (service_guarantee S) (heartbeat_run E' svc' owner n hb) Q R"
  by (induction n arbitrary: hb) (auto intro!: hoare_rule svc_rule)

lemma obeys_is_stale [svc_rule]:
  assumes "\<And>b. b \<longrightarrow> py_str (dict_get record ''status'') = ''running'' \<Longrightarrow> Q b" "\<And>e. R e"
  shows "obeys P (is_stale record now) Q R"
  unfolding is_stale_def by (intro hoare_rule) (auto intro!: assms)

text \<open>A status that prints as one of the names is that name, or the record is not a valid one.\<close>

lemma job_step_status:
  assumes "\<And>st. dict_get r ''status'' = JStr st \<Longrightarrow> job_step r r'"
  shows "job_step r r'"
proof (cases "job_inv r")
  case True
  then have "\<exists>st. dict_get r ''status'' = JStr st"
    by (auto simp: job_inv_def status_inv_def has_status_def)
  with assms show ?thesis by blast
qed (simp add: job_step_def)

lemma claim_running_step:
  assumes "py_str (dict_get r ''status'') = ''queued'' \<or> py_str (dict_get r ''status'') = ''running''
      \<or> py_str (dict_get r ''status'') = ''failed'' \<and> dict_get r ''retryable'' = JBool True"
    and "py_int (py_or (dict_get r ''attempt'') (JInt 0)) = Inr a" "a < MAX_EXECUTION_ATTEMPTS"
  shows "job_step r (running_record r a owner now)"
  by (rule job_step_status, rule running_step) (use assms in \<open>auto simp: has_status_def\<close>)

lemma resume_step:
  assumes "py_str (dict_get r ''status'') = ''running''
      \<or> py_str (dict_get r ''status'') = ''failed'' \<and> dict_get r ''retryable'' = JBool True"
  shows "job_step r (resumed_record r now)"
  by (rule job_step_status, rule resumed_step) (use assms in \<open>auto simp: has_status_def\<close>)

lemma obeys_claim_execution [svc_rule]:
  assumes "\<And>c. Q c" "\<And>e. R e"
  shows "obeys (service_guarantee S) (claim_execution E' svc' stored owner) Q R"
  unfolding claim_execution_def Let_def
  by (intro hoare_rule svc_rule claim_running_step) (auto simp: assms)

lemma obeys_claim_loop [svc_rule]:
  assumes "\<And>c. Q c" "\<And>e. R e"
  shows "obeys (service_guarantee S) (claim_loop E' svc' job_id owner n) Q R"
  by (induction n) (auto intro!: hoare_rule svc_rule assms)

lemma obeys_drive_claim [svc_rule]:
  assumes "\<And>c. Q c" "\<And>e. R e"
  shows "obeys (service_guarantee S) (drive_execution_claim E' svc' job_id) Q R"
  unfolding drive_execution_claim_def by (intro hoare_rule svc_rule) (simp_all add: assms)

lemma obeys_consume_once [svc_rule]:
  "(\<And>c. Q c) \<Longrightarrow> (\<And>e. R e) \<Longrightarrow> obeys P (consume_report_once E record prompt symbols k) Q R"
  unfolding consume_report_once_def by (intro hoare_rule) auto

lemma obeys_consume_calls [svc_rule]:
  assumes "\<And>c. Q c" "\<And>e. R e"
  shows "obeys (service_guarantee S)
    (consume_calls E' svc' record prompt symbols owner n hb) Q R"
  by (induction n arbitrary: hb) (auto intro!: hoare_rule svc_rule assms)

lemma obeys_consume_report [svc_rule]:
  assumes "\<And>c. Q c" "\<And>e. R e"
  shows "obeys (service_guarantee S) (consume_report E' svc' record owner hb) Q R"
  unfolding consume_report_def by (intro hoare_rule svc_rule) (simp_all add: assms)

lemma obeys_fail_execution [svc_rule]:
  assumes "Q ()" "\<And>e. R e"
  shows "obeys (service_guarantee S)
    (fail_execution E' svc' stored owner lost code can) Q R"
  unfolding fail_execution_def
  by (intro hoare_rule svc_rule failed_step) (auto simp: assms dest: lease_held_running)

lemma obeys_submit_usage [svc_rule]:
  assumes "Q ()" "\<And>e. R e"
  shows "obeys (service_guarantee S) (submit_succeeded_usage E' svc' record) Q R"
  unfolding submit_succeeded_usage_def by (intro hoare_rule) (auto simp: assms)

lemma obeys_publish_report [svc_rule]:
  assumes "Q ()" "\<And>e. R e"
  shows "obeys (service_guarantee S)
    (publish_report E' svc' job_id owner stored markdown) Q R"
  unfolding publish_report_def
  by (intro hoare_rule svc_rule obeys_put_report succeeded_step) (auto simp: assms)

lemma obeys_run_job: "emits (service_guarantee S) (run_job E' svc' job_id)"
  unfolding run_job_def run_claimed_job_def by (intro hoare_rule svc_rule) auto

section \<open>Queries\<close>

lemma obeys_authorized_job [svc_rule]:
  assumes "\<And>st. token_matches E (job_record st) token = Inr True \<Longrightarrow> Q st" "\<And>e. R e"
  shows "obeys P (authorized_job E svc job_id token) Q R"
  unfolding authorized_job_def by (intro hoare_rule obeys_store_read) (auto simp: assms)

lemma obeys_get_job [svc_rule]:
  assumes "\<And>v. Q v" "\<And>e. R e"
  shows "obeys (service_guarantee S) (get_job E' svc' job_id token) Q R"
  unfolding get_job_def Let_def
  by (intro hoare_rule svc_rule obeys_presign_report) (simp_all add: assms)

lemma obeys_apply_resume [svc_rule]:
  assumes "job_step (job_record stored) queued" "Q ()" "\<And>e. R e"
  shows "obeys (service_guarantee S) (apply_resume_and_handoff E' svc' stored queued) Q R"
  unfolding apply_resume_and_handoff_def by (intro hoare_rule svc_rule) (simp_all add: assms)

lemma obeys_resume_job: "emits (service_guarantee S) (resume_job E' svc' job_id token)"
  unfolding resume_job_def Let_def
  by (intro hoare_rule svc_rule resume_step) auto

end
