(* ===== verification/Settle_Order.thy ===== *)
theory Settle_Order
  imports Job_Guarantee
begin

text \<open>
  Order of durable writes and settlements: the facilitator is called only after the store has
  acknowledged the record under which the call is made. The order is a property of the trace,
  so the triples here see the events so far.
\<close>

section \<open>Triples over the trace\<close>

definition trace_wp ::
  "('w, 'z, 'a) io \<Rightarrow> ('a \<Rightarrow> event list \<Rightarrow> bool) \<Rightarrow> (exn \<Rightarrow> event list \<Rightarrow> bool) \<Rightarrow> event list \<Rightarrow> bool" where
  "trace_wp m Q R es \<longleftrightarrow> (\<forall>s. events s = es \<longrightarrow>
     (case m s of (Inr a, s') \<Rightarrow> Q a (events s') | (Inl e, s') \<Rightarrow> R e (events s')))"

named_theorems trace_rule "rules for triples over the trace"

lemma trace_return [trace_rule]: "Q a es \<Longrightarrow> trace_wp (io_return a) Q R es"
  by (simp add: trace_wp_def io_defs)

lemma trace_raise [trace_rule]: "R e es \<Longrightarrow> trace_wp (io_raise e) Q R es"
  by (simp add: trace_wp_def io_defs)

lemma trace_emit [trace_rule]: "Q () (es @ [ev]) \<Longrightarrow> trace_wp (io_emit ev) Q R es"
  by (simp add: trace_wp_def io_defs)

lemma trace_try_bind [trace_rule]:
  "trace_wp m (\<lambda>a. trace_wp (f a) Q R) (\<lambda>e. trace_wp (h e) Q R) es
   \<Longrightarrow> trace_wp (io_try_bind m h f) Q R es"
  by (fastforce simp: trace_wp_def io_try_bind_def split: prod.splits sum.splits)

lemma trace_bind [trace_rule]:
  "trace_wp m (\<lambda>a. trace_wp (f a) Q R) R es \<Longrightarrow> trace_wp (io_bind m f) Q R es"
  unfolding io_bind_try
  by (rule trace_try_bind) (auto simp: trace_wp_def io_raise_def split: prod.splits sum.splits)

lemma trace_attempt [trace_rule]:
  "trace_wp m (\<lambda>a. Q (Inr a)) (\<lambda>e. Q (Inl e)) es \<Longrightarrow> trace_wp (io_attempt m) Q R es"
  unfolding io_attempt_def
  by (rule trace_try_bind) (auto simp: trace_wp_def io_return_def split: prod.splits sum.splits)

lemma trace_if [trace_rule]:
  "(b \<Longrightarrow> trace_wp m Q R es) \<Longrightarrow> (\<not> b \<Longrightarrow> trace_wp n Q R es)
   \<Longrightarrow> trace_wp (if b then m else n) Q R es"
  by simp

lemma trace_option [trace_rule]:
  "(x = None \<Longrightarrow> trace_wp m Q R es) \<Longrightarrow> (\<And>a. x = Some a \<Longrightarrow> trace_wp (n a) Q R es)
   \<Longrightarrow> trace_wp (case x of None \<Rightarrow> m | Some a \<Rightarrow> n a) Q R es"
  by (cases x) auto

section \<open>Settlement after acknowledgement\<close>

definition acknowledged :: "dict \<Rightarrow> event list \<Rightarrow> bool" where
  "acknowledged r es \<longleftrightarrow> JobCreated r \<in> set es \<or> (\<exists>old. JobReplaced old r \<in> set es)"

definition settle_ordered :: "event list \<Rightarrow> bool" where
  "settle_ordered es \<longleftrightarrow> (\<forall>before r proof_header mode after.
     es = before @ SettleCalled r proof_header mode # after \<longrightarrow> acknowledged r before)"

definition quiet :: "event \<Rightarrow> bool" where
  "quiet ev = (case ev of SettleCalled _ _ _ \<Rightarrow> False | _ \<Rightarrow> True)"

lemma settle_ordered_snoc:
  "settle_ordered (es @ [ev]) \<longleftrightarrow> settle_ordered es \<and>
     (case ev of SettleCalled r p m \<Rightarrow> acknowledged r es | _ \<Rightarrow> True)"
proof -
  have "es @ [ev] = before @ SettleCalled r p m # after \<longleftrightarrow>
      (after = [] \<and> before = es \<and> ev = SettleCalled r p m)
      \<or> (\<exists>rest. after = rest @ [ev] \<and> es = before @ SettleCalled r p m # rest)"
    for before r p m after
    by (cases after rule: rev_cases) auto
  then show ?thesis
    unfolding settle_ordered_def by (cases ev) auto
qed

lemma settle_ordered_quiet:
  "settle_ordered es \<Longrightarrow> list_all quiet xs \<Longrightarrow> settle_ordered (es @ xs)"
proof (induction xs rule: rev_induct)
  case (snoc ev xs)
  then have "settle_ordered ((es @ xs) @ [ev])"
    unfolding settle_ordered_snoc by (auto simp: quiet_def split: event.splits)
  then show ?case by simp
qed simp

lemma acknowledged_append: "acknowledged r es \<Longrightarrow> acknowledged r (es @ xs)"
  by (auto simp: acknowledged_def)

text \<open>An operation that never calls the facilitator keeps the order and what was acknowledged.\<close>

lemma trace_quiet:
  assumes "obeys quiet m Q0 (\<lambda>_. True)"
    and "\<And>a xs. Q0 a \<Longrightarrow> list_all quiet xs \<Longrightarrow> Q a (es @ xs)"
    and "\<And>e xs. list_all quiet xs \<Longrightarrow> R e (es @ xs)"
  shows "trace_wp m Q R es"
  unfolding trace_wp_def
proof (intro allI impI, goal_cases)
  case es: (1 s)
  obtain r s' where m: "m s = (r, s')" by (cases "m s")
  from obeys_events[OF assms(1) m] es obtain xs where
    xs: "events s' = es @ xs" "list_all quiet xs" by auto
  show ?case
    using m xs assms(2,3) obeys_result[OF assms(1)] by (cases r) auto
qed

lemma service_quiet: "service_guarantee (\<lambda>_ _ _. False) ev \<Longrightarrow> quiet ev"
  by (cases ev) (auto simp: service_guarantee_def quiet_def)

lemma quiet_of_service:
  "obeys (service_guarantee (\<lambda>_ _ _. False)) m Q R \<Longrightarrow> obeys quiet m Q (\<lambda>_. True)"
  by (erule obeys_weaken) (auto intro: service_quiet)

abbreviation ordered :: "'a \<Rightarrow> event list \<Rightarrow> bool" where
  "ordered \<equiv> (\<lambda>_. settle_ordered)"

lemma ordered_quiet:
  assumes "obeys (service_guarantee (\<lambda>_ _ _. False)) m (\<lambda>_. True) (\<lambda>_. True)" "settle_ordered es"
  shows "trace_wp m ordered ordered es"
  by (rule trace_quiet[OF quiet_of_service[OF assms(1)]]) (auto intro: settle_ordered_quiet[OF assms(2)])

text \<open>An operation that leaves no events.\<close>

lemma trace_silent:
  assumes "obeys (\<lambda>_. False) m Q0 (\<lambda>_. True)" "\<And>a. Q0 a \<Longrightarrow> Q a es" "\<And>e. R e es"
  shows "trace_wp m Q R es"
  unfolding trace_wp_def
proof (intro allI impI, goal_cases)
  case es: (1 s)
  obtain r s' where m: "m s = (r, s')" by (cases "m s")
  from obeys_events[OF assms(1) m] es have "events s' = es" by (auto simp: list_all_iff)
  then show ?case using m assms(2,3) obeys_result[OF assms(1)] by (cases r) auto
qed

lemma trace_of_sum [trace_rule]:
  "(\<And>a. r = Inr a \<Longrightarrow> Q a es) \<Longrightarrow> (\<And>e. R e es) \<Longrightarrow> trace_wp (io_of_sum r) Q R es"
  by (rule trace_silent[where ?Q0.0 = "\<lambda>a. r = Inr a"]) (auto intro: obeys_of_sum)

lemma trace_read [trace_rule]: "(\<And>a. Q a es) \<Longrightarrow> trace_wp (io_read f) Q R es"
  by (auto simp: trace_wp_def io_read_def split: prod.splits)

lemma trace_conditional_put [trace_rule]:
  "(\<And>t. Q t es) \<Longrightarrow> (\<And>e. R e es) \<Longrightarrow> trace_wp (conditional_put E req) Q R es"
  by (rule trace_silent[where ?Q0.0 = "\<lambda>_. True"]) (auto intro: obeys_conditional_put)

lemma trace_store_read [trace_rule]:
  "(\<And>r. Q r es) \<Longrightarrow> (\<And>e. R e es) \<Longrightarrow> trace_wp (store_read E cfg job_id) Q R es"
  by (rule trace_silent[where ?Q0.0 = "\<lambda>_. True"]) (auto intro: obeys_store_read)

lemma trace_store_create:
  assumes "settle_ordered es"
    and "\<And>st es'. settle_ordered es' \<Longrightarrow> acknowledged record es' \<Longrightarrow> job_record st = record
      \<Longrightarrow> Q (Some st) es'"
    and "\<And>es'. settle_ordered es' \<Longrightarrow> Q None es'" "\<And>e es'. settle_ordered es' \<Longrightarrow> R e es'"
  shows "trace_wp (store_create E cfg record) Q R es"
  unfolding store_create_def
  by (intro trace_rule)
     (auto intro!: assms settle_ordered_quiet[OF assms(1)] simp: settle_ordered_snoc acknowledged_def quiet_def)

lemma trace_store_replace:
  assumes "settle_ordered es"
    and "\<And>st es'. settle_ordered es' \<Longrightarrow> acknowledged record es' \<Longrightarrow> job_record st = record
      \<Longrightarrow> Q st es'"
    and "\<And>e es'. settle_ordered es' \<Longrightarrow> R e es'"
  shows "trace_wp (store_replace E cfg stored record) Q R es"
  unfolding store_replace_def
  by (intro trace_rule)
     (auto intro!: assms settle_ordered_quiet[OF assms(1)] simp: settle_ordered_snoc acknowledged_def quiet_def)

text \<open>After the call, only quiet operations follow.\<close>

abbreviation forbid :: "dict \<Rightarrow> string \<Rightarrow> string \<Rightarrow> bool" where
  "forbid \<equiv> \<lambda>_ _ _. False"

lemma ordered_settle:
  assumes "settle_ordered es" "acknowledged (job_record stored) es" "awaiting stored"
  shows "trace_wp (settle_and_transition E svc stored payment proof_header mode) ordered ordered es"
proof -
  have rest: "emits (service_guarantee forbid)
      (io_bind (await_settlement E proof_header mode) (\<lambda>outcome. case status outcome of
         Pending \<Rightarrow>
           io_bind (mark_settlement_pending E svc stored (opt_str (transaction outcome))) (\<lambda>_.
             io_raise SettlementIndeterminate)
       | Rejected \<Rightarrow>
           io_bind (fail_settlement E svc stored) (\<lambda>failed.
           io_bind (release_after_rejection E svc failed) (\<lambda>_.
             io_raise (payment_rejected_error payment)))
       | Settled \<Rightarrow> mark_settled E svc stored payment (opt_str (transaction outcome)) False))"
    by (intro hoare_rule svc_rule)
       (auto split: settlement_status.split intro!: hoare_rule svc_rule simp: assms(3))
  show ?thesis
    unfolding settle_and_transition_def settle_payment_def io_bind_assoc
    by (intro trace_bind trace_emit ordered_quiet rest) (use assms in \<open>simp add: settle_ordered_snoc\<close>)
qed

text \<open>The other operations on the way to it.\<close>

lemma trace_call [trace_rule]: "(\<And>a. Q a es) \<Longrightarrow> (\<And>e. R e es) \<Longrightarrow> trace_wp (io_call f) Q R es"
  by (auto simp: trace_wp_def io_call_def split: prod.splits sum.splits)

lemma ordered_reconcile:
  assumes "settle_ordered es"
  shows "trace_wp (reconcile_settling E svc stored payment proof_header digest) ordered ordered es"
proof -
  have existing: "trace_wp (require_existing_identity E svc identity) ordered ordered es'"
    if "settle_ordered es'" for identity es'
    by (rule ordered_quiet[OF _ that]) (auto intro: svc_rule)
  have settled: "trace_wp (mark_settled E svc st payment JNull True) ordered ordered es'"
    if "settle_ordered es'" "has_payment (job_record st) ''settling''" for st es'
    by (rule ordered_quiet[OF _ that(1)]) (auto intro!: svc_rule that(2))
  have rejected: "trace_wp (io_bind (fail_settlement E svc st) (\<lambda>failed.
      io_bind (release_after_rejection E svc failed) (\<lambda>_.
        io_raise (job_error_exn ''payment_rejected''))) :: ('a, 'd, stored_job) io) ordered ordered es'"
    if "settle_ordered es'" "has_payment (job_record st) ''settling''" for st es'
    by (rule ordered_quiet[OF _ that(1)]) (auto intro!: hoare_rule svc_rule that(2))
  show ?thesis
    unfolding reconcile_settling_def Let_def
    by (intro rejected trace_rule trace_store_replace)
       (auto simp: assms has_payment_def has_status_def intro!: existing settled ordered_settle)
qed

lemma trace_consequence:
  "trace_wp m Q R es \<Longrightarrow> (\<And>a es'. Q a es' \<Longrightarrow> Q' a es') \<Longrightarrow> trace_wp m Q' R es"
  unfolding trace_wp_def by (fastforce split: prod.splits sum.splits)

lemma ordered_then:
  assumes "trace_wp m ordered ordered es" "\<And>a es'. settle_ordered es' \<Longrightarrow> trace_wp (f a) ordered ordered es'"
  shows "trace_wp (io_bind m f) ordered ordered es"
proof (rule trace_bind)
  show "trace_wp m (\<lambda>a. trace_wp (f a) ordered ordered) ordered es"
    using assms unfolding trace_wp_def by (fastforce split: prod.splits sum.splits)
qed

lemma ordered_existing_job:
  assumes "settle_ordered es"
  shows "trace_wp (existing_job E svc stored identity payment proof_header digest request)
    ordered ordered es"
  unfolding existing_job_def
  by (intro trace_if trace_raise ordered_then ordered_reconcile ordered_quiet)
     (auto intro!: svc_rule simp: assms)

lemma ordered_created_job:
  assumes "settle_ordered es"
    and "\<And>st. outcome = Inr (Some st) \<Longrightarrow> acknowledged (job_record st) es \<and> awaiting st"
  shows "trace_wp (created_job E svc identity payment proof_header digest request reservation outcome)
    ordered ordered es"
proof (cases "\<exists>st. outcome = Inr (Some st)")
  case True
  then obtain st where st: "outcome = Inr (Some st)" ..
  have confirm: "trace_wp (case (reservation, svc_limiter svc) of
      (Some r, Some L) \<Rightarrow> io_bind (confirm E L r) (\<lambda>_. io_return ()) | _ \<Rightarrow> io_return ())
      (\<lambda>_ es'. settle_ordered es' \<and> acknowledged (job_record st) es') ordered es"
    by (rule trace_quiet[where ?Q0.0 = "\<lambda>_. True"])
       (use assms st in \<open>auto intro!: hoare_rule obeys_confirm settle_ordered_quiet acknowledged_append
          split: option.splits\<close>)
  show ?thesis
    unfolding created_job_def st sum.case option.case
  proof (rule trace_bind, rule trace_consequence[OF confirm], goal_cases)
    case (1 u es')
    then show ?case
      using assms(2)[OF st]
      by (intro ordered_then ordered_settle ordered_quiet) (auto intro!: svc_rule)
  qed
next
  case False
  then have "emits (service_guarantee forbid)
      (created_job E svc identity payment proof_header digest request reservation outcome)"
    by (intro obeys_created_job) auto
  then show ?thesis by (rule ordered_quiet) (rule assms(1))
qed

lemma ordered_create_new_job:
  assumes "settle_ordered es" "has_payment record ''settling''" "has_status record ''settling''"
  shows "trace_wp (create_new_job E svc identity payment proof_header digest request reservation
    record) ordered ordered es"
  unfolding create_new_job_def
  by (intro trace_rule trace_store_create ordered_created_job) (auto simp: assms)

lemma new_record_awaiting:
  "has_payment (dict_update (new_job_record identity payment digest request event_id owner now)
     (reservation_fields reservation)) ''settling''"
  "has_status (dict_update (new_job_record identity payment digest request event_id owner now)
     (reservation_fields reservation)) ''settling''"
  by (cases reservation; simp add: has_payment_def has_status_def new_job_record_def
      reservation_fields_def)+

lemma ordered_admit_job:
  assumes "settle_ordered es"
  shows "trace_wp (admit_job E svc identity payment proof_header digest request now)
    ordered ordered es"
proof -
  have res: "emits (service_guarantee forbid) (case svc_limiter svc of
      None \<Rightarrow> io_return None
    | Some L \<Rightarrow> io_bind (reserve E L (from_address payment) (identity_job_id identity))
        (\<lambda>r. io_return (Some r)))"
    by (intro hoare_rule svc_rule) auto
  show ?thesis
    unfolding admit_job_def
    by (intro ordered_then trace_if trace_of_sum ordered_create_new_job ordered_quiet res)
       (auto intro!: hoare_rule svc_rule simp: assms new_record_awaiting)
qed

lemma ordered_create_job:
  assumes "settle_ordered es"
  shows "trace_wp (create_job E svc proof_header request) ordered ordered es"
proof -
  have wallet: "trace_wp (io_catch (io_call (wallet_verified E w))
      (\<lambda>e. if e = Cancelled then io_raise e else io_return ())) ordered ordered es'"
    if "settle_ordered es'" for w es'
    by (rule ordered_quiet[OF _ that]) (auto intro!: hoare_rule)
  have valid: "trace_wp (validated_payment svc proof_header now) ordered ordered es'"
    if "settle_ordered es'" for now es'
    by (rule ordered_quiet[OF _ that]) (auto intro!: svc_rule)
  show ?thesis
    unfolding create_job_def split_def
    by (intro ordered_then trace_if trace_option trace_of_sum trace_read trace_raise trace_store_read
        ordered_existing_job ordered_admit_job wallet valid)
       (simp_all add: assms)
qed

end
