(* ===== verification/Service_Runs.thy ===== *)
theory Service_Runs
  imports Settle_Order
begin

text \<open>
  Whole runs of one replica of the service: calls of its public operations and turns of its
  background tasks, one after the other, while the rest of the world (other replicas, the chain,
  the clock) changes in any way between them. The guarantees of the single operations become
  invariants of every reachable state.
\<close>

datatype service_call =
    CreateJob string dict
  | GetJob string json
  | ResumeJob string json
  | RunJob string
  | RunAccounting string bool
  | TaskDone string nat
  | AccountingTaskDone string nat

fun perform ::
  "('w, 's) job_services_scheme \<Rightarrow> job_service \<Rightarrow> service_call
     \<Rightarrow> ('w, 'z) job_sys_scheme \<Rightarrow> ('w, 'z) job_sys_scheme" where
  "perform E svc (CreateJob proof_header request) s = snd (create_job E svc proof_header request s)"
| "perform E svc (GetJob job_id token) s = snd (get_job E svc job_id token s)"
| "perform E svc (ResumeJob job_id token) s = snd (resume_job E svc job_id token s)"
| "perform E svc (RunJob job_id) s = snd (run_job E svc job_id s)"
| "perform E svc (RunAccounting job_id delayed) s = snd (run_accounting E svc job_id delayed s)"
| "perform E svc (TaskDone job_id task) s = snd (task_done job_id task s)"
| "perform E svc (AccountingTaskDone job_id task) s = snd (accounting_task_done job_id task s)"

inductive service_run ::
  "('w, 's) job_services_scheme \<Rightarrow> job_service \<Rightarrow> ('w, 'z) job_sys_scheme \<Rightarrow> bool"
  for E svc where
  run_start: "events s = [] \<Longrightarrow> service_run E svc s"
| run_world: "service_run E svc s \<Longrightarrow> service_run E svc (s\<lparr>world := w\<rparr>)"
| run_call: "service_run E svc s \<Longrightarrow> service_run E svc (perform E svc call s)"

lemma emits_events:
  "emits P m \<Longrightarrow> list_all P (events s) \<Longrightarrow> list_all P (events (snd (m s)))"
  using obeys_events[of P m "\<lambda>_. True" "\<lambda>_. True" s] by (cases "m s") fastforce

lemma perform_guarantee:
  assumes "list_all (service_guarantee (settle_permitted E svc)) (events s)"
  shows "list_all (service_guarantee (settle_permitted E svc)) (events (perform E svc call s))"
  using assms
  by (cases call)
     (auto simp: task_done_def accounting_task_done_def
       intro!: emits_events obeys_create_job obeys_get_job obeys_resume_job obeys_run_job
         obeys_run_accounting)

lemma run_guarantee:
  "service_run E svc s \<Longrightarrow> list_all (service_guarantee (settle_permitted E svc)) (events s)"
  by (induction rule: service_run.induct) (auto intro: perform_guarantee)

text \<open>Only \<open>create_job\<close> calls the facilitator; the other calls leave the order as it is.\<close>

lemma trace_ordered:
  assumes "trace_wp m ordered ordered (events s)"
  shows "settle_ordered (events (snd (m s)))"
  using assms by (cases "m s") (auto simp: trace_wp_def split: sum.splits)

lemma perform_ordered:
  assumes "settle_ordered (events s)"
  shows "settle_ordered (events (perform E svc call s))"
  using assms
  by (cases call)
     (auto simp: task_done_def accounting_task_done_def
       intro!: trace_ordered ordered_create_job ordered_quiet obeys_get_job obeys_resume_job
         obeys_run_job obeys_run_accounting)

lemma run_ordered: "service_run E svc s \<Longrightarrow> settle_ordered (events s)"
  by (induction rule: service_run.induct)
     (simp_all add: perform_ordered, simp add: settle_ordered_def)

end
