(* ===== verification/Json_Wire.thy ===== *)
theory Json_Wire
  imports Py_Json
begin

text \<open>
  What is printed is read back: base64, UTF-8 and \<open>json.dumps\<close>/\<open>json.loads\<close> are codecs, and so is
  the composition that the store and the gateway put on the wire, the UTF-8 bytes of a JSON text.
  The law of a codec is stated once, as a locale.
\<close>

section \<open>Codecs\<close>

text \<open>
  \<open>norm\<close> is what the printer does not keep: with \<open>sort_keys\<close> a value comes back with its keys in
  order.
\<close>

locale codec =
  fixes enc :: "'a \<Rightarrow> 'b" and dec :: "'b \<Rightarrow> 'c option" and valid :: "'a \<Rightarrow> bool" and norm :: "'a \<Rightarrow> 'c"
  assumes dec_enc: "valid x \<Longrightarrow> dec (enc x) = Some (norm x)"
begin

lemma enc_determines: "valid x \<Longrightarrow> valid y \<Longrightarrow> enc x = enc y \<Longrightarrow> norm x = norm y"
  using dec_enc[of x] dec_enc[of y] by simp

lemma dec_enc_bind: "valid x \<Longrightarrow> (case dec (enc x) of None \<Rightarrow> d | Some y \<Rightarrow> f y) = f (norm x)"
  by (simp add: dec_enc)

end

text \<open>One codec after another, where the outer one gives back exactly what it was given.\<close>

locale codec_pair = inner: codec enc1 dec1 valid1 norm1 + outer: codec enc2 dec2 valid2 id
  for enc1 :: "'a \<Rightarrow> 'b" and dec1 :: "'b \<Rightarrow> 'c option" and valid1 norm1
    and enc2 :: "'b \<Rightarrow> 'd" and dec2 :: "'d \<Rightarrow> 'b option" and valid2 +
  assumes range: "valid1 x \<Longrightarrow> valid2 (enc1 x)"

sublocale codec_pair \<subseteq> pair: codec "\<lambda>x. enc2 (enc1 x)" "\<lambda>y. Option.bind (dec2 y) dec1" valid1 norm1
  by unfold_locales (simp add: inner.dec_enc outer.dec_enc range)

interpretation b64: codec b64encode b64decode "\<lambda>_. True" id
  by unfold_locales simp

section \<open>UTF-8\<close>

lemma utf8_decode_char: "utf8_decode (utf8_char c @ bs) = map_option ((#) c) (utf8_decode bs)"
proof (cases "ord c < 128")
  case False
  have "ord c div 64 = 2 \<or> ord c div 64 = 3" using False nat_of_char_less_256[of c] by linarith
  then obtain q where q: "ord c div 64 = q" "q = 2 \<or> q = 3" by blast
  have "ord c = q * 64 + ord c mod 64" unfolding q(1)[symmetric] by simp
  then have "chr (q * 64 + ord c mod 64) = c" by (metis char_of_char)
  with False q show ?thesis by (auto simp: utf8_char_def)
qed (simp add: utf8_char_def)

lemma utf8_roundtrip: "utf8_decode (utf8 s) = Some s"
  by (induction s) (simp_all add: utf8_def utf8_decode_char)

interpretation utf8: codec utf8 utf8_decode "\<lambda>_. True" id
  by unfold_locales (simp add: utf8_roundtrip)

section \<open>Strings\<close>

lemma hex4_digits: "n < 256 \<Longrightarrow> hex4 (hex_chr 0) (hex_chr 0) (hex_chr (n div 16)) (hex_chr (n mod 16)) = Some n"
proof -
  assume "n < 256"
  then have "n div 16 < 16" "n mod 16 < 16" by auto
  then show ?thesis using hex_val_chr[of "n div 16"] hex_val_chr[of "n mod 16"] hex_val_chr[of 0]
    by (simp add: hex4_def)
qed

lemma hex_digits_4:
  assumes "n < 256"
  shows "hex_digits 4 n = [hex_chr 0, hex_chr 0, hex_chr (n div 16), hex_chr (n mod 16)]"
proof -
  have "rev [0..<4] = [3, 2, 1, 0]" by (simp add: upt_rec)
  with assms show ?thesis by (simp add: hex_digits_def)
qed

lemma json_escapes:
  "ord c = 34 \<or> ord c = 92 \<Longrightarrow> json_escape c = Some c"
  "json_escape (CHR ''n'') = Some (chr 10)" "json_escape (CHR ''r'') = Some (chr 13)"
  "json_escape (CHR ''t'') = Some (chr 9)" "json_escape (CHR ''f'') = Some (chr 12)"
  "json_escape (CHR ''b'') = Some (chr 8)" "json_escape (CHR ''u'') = None"
  by (auto simp: json_escape_def)

lemma ord_chr_eq: "ord c = n \<Longrightarrow> chr n = c"
  by (metis char_of_char)

lemma json_chars_char:
  "json_chars (json_char ea c @ rest) = map_option (\<lambda>(s, r). (c # s, r)) (json_chars rest)"
  using nat_of_char_less_256[of c]
  by (auto simp: json_char_def json_escapes hex_digits_4 hex4_digits ord_chr_eq)

lemma json_chars_string:
  "json_chars (concat (map (json_char ea) s) @ chr 34 # rest) = Some (s, rest)"
  by (induction s) (simp_all add: json_chars_char)

section \<open>Numbers\<close>

text \<open>What may follow a number without becoming a part of it.\<close>

fun number_end :: "string \<Rightarrow> bool" where
  "number_end [] = True"
| "number_end (c # cs) = (\<not> is_digit c \<and> c \<noteq> CHR ''.'' \<and> c \<noteq> CHR ''e'' \<and> c \<noteq> CHR ''E'')"

lemma number_end_parts:
  "number_end rest \<Longrightarrow> json_fraction rest = ([], rest)"
  "number_end rest \<Longrightarrow> json_exponent rest = ([], rest)"
  by (cases rest; auto simp: json_fraction_def json_exponent_def split: list.splits)+

lemma number_end_takeWhile:
  "number_end rest \<Longrightarrow> list_all is_digit ds \<Longrightarrow>
   takeWhile is_digit (ds @ rest) = ds \<and> dropWhile is_digit (ds @ rest) = rest"
  by (induction ds) (cases rest; auto)+

lemma json_int_part_dec:
  assumes "number_end rest"
  shows "json_int_part (dec_of_nat n @ rest) = (dec_of_nat n, rest)"
proof (cases "n = 0")
  case True
  moreover have "digit_chr 0 = CHR ''0''" by code_simp
  ultimately show ?thesis by (simp add: dec_of_nat.simps json_int_part_def)
next
  case False
  obtain c cs where d: "dec_of_nat n = c # cs" using dec_of_nat_digits[of n] by (cases "dec_of_nat n") auto
  with False hd_dec_of_nat[of n] have "c \<noteq> CHR ''0''" by simp
  with d show ?thesis using number_end_takeWhile[OF assms, of "dec_of_nat n"] dec_of_nat_digits[of n]
    by (simp add: json_int_part_def)
qed

lemma json_number_dec:
  assumes "number_end rest" "length (dec_of_int i) \<le> 4300"
  shows "json_number h (dec_of_int i @ rest) = Inr (JInt i, rest)"
proof -
  have "hd (dec_of_nat n @ rest) \<noteq> CHR ''-''" "dec_of_nat n \<noteq> []" for n
    using dec_of_nat_digits[of n] by (cases "dec_of_nat n"; auto simp: is_digit_def)+
  then show ?thesis using assms
    by (cases "i < 0") (simp_all add: json_number_def dec_of_int_def json_int_part_dec number_end_parts)
qed

section \<open>Values\<close>

text \<open>
  A value that can be printed and read back: no floats, integers within the digit limit, distinct
  keys. The separators of the options are those of the code, with or without a space.
\<close>

fun wire_json :: "json \<Rightarrow> bool" where
  "wire_json (JInt i) = (length (dec_of_int i) \<le> 4300)"
| "wire_json (JFloat f) = False"
| "wire_json (JList xs) = list_all wire_json xs"
| "wire_json (JDict d) = (distinct (map fst d) \<and> list_all (\<lambda>(k, v). wire_json v) d)"
| "wire_json _ = True"

definition printed_order :: "bool \<Rightarrow> dict \<Rightarrow> dict" where
  "printed_order b d = (if b then sort_key fst d else d)"

lemma set_printed_order [simp]: "set (printed_order b d) = set d"
  by (simp add: printed_order_def)

lemma distinct_printed_order [simp]: "distinct (map fst (printed_order b d)) = distinct (map fst d)"
  by (cases b) (simp_all add: printed_order_def distinct_map inj_on_def)

function (sequential) printed_json :: "bool \<Rightarrow> json \<Rightarrow> json" where
  "printed_json b (JList xs) = JList (map (printed_json b) xs)"
| "printed_json b (JDict d) = JDict (map (\<lambda>(k, v). (k, printed_json b v)) (printed_order b d))"
| "printed_json b v = v"
  by pat_completeness auto
termination
  by (relation "measure (\<lambda>(b, v). size v)") (auto simp: termination_simp)

definition wire_options :: "dumps_options \<Rightarrow> bool" where
  "wire_options opt \<longleftrightarrow> item_separator opt \<in> {'','', '', ''} \<and> key_separator opt \<in> {'':'', '': ''}"

lemma skip_space_simps [simp]:
  "skip_space [] = []" "skip_space (c # cs) = (if json_space c then skip_space cs else c # cs)"
  by (simp_all add: skip_space_def)

definition starts_value :: "string \<Rightarrow> bool" where
  "starts_value s \<longleftrightarrow> (\<exists>c cs. s = c # cs \<and> \<not> json_space c \<and> c \<noteq> CHR '']'' \<and> c \<noteq> CHR ''}'')"

lemma starts_value_append: "starts_value s \<Longrightarrow> starts_value (s @ t)"
  by (auto simp: starts_value_def)

lemma starts_value_skip: "starts_value s \<Longrightarrow> skip_space s = s"
  by (auto simp: starts_value_def)

lemma dec_of_int_head:
  "\<exists>c cs. dec_of_int i = c # cs \<and> (is_digit c \<or> c = CHR ''-'' \<and> cs \<noteq> [] \<and> is_digit (hd cs))"
proof -
  have "dec_of_nat n \<noteq> [] \<and> is_digit (hd (dec_of_nat n))" for n
    using dec_of_nat_digits[of n] by (cases "dec_of_nat n") auto
  then show ?thesis by (auto simp: dec_of_int_def neq_Nil_conv) (metis list.sel(1))
qed

lemma starts_with_Cons [simp]:
  "starts_with (a # p) (b # s) \<longleftrightarrow> a = b \<and> starts_with p s" "\<not> starts_with (a # p) []" "starts_with [] s"
  by (auto simp: starts_with_def)

lemma json_value_dec:
  assumes "number_end rest" "length (dec_of_int i) \<le> 4300"
  shows "json_value h (Suc n) (dec_of_int i @ rest) = Inr (JInt i, rest)"
proof -
  obtain c cs where c: "dec_of_int i = c # cs"
    and "is_digit c \<or> c = CHR ''-'' \<and> cs \<noteq> [] \<and> is_digit (hd cs)"
    using dec_of_int_head[of i] by blast
  then have "ord c \<noteq> 34" "c \<noteq> CHR ''[''" "c \<noteq> CHR ''{''" "c \<noteq> CHR ''n''" "c \<noteq> CHR ''t''"
    "c \<noteq> CHR ''f''" "c \<noteq> CHR ''N''" "c \<noteq> CHR ''I''" "c = CHR ''-'' \<Longrightarrow> cs \<noteq> [] \<and> hd cs \<noteq> CHR ''I''"
    by (auto simp: is_digit_def)
  moreover have "json_number h (c # cs @ rest) = Inr (JInt i, rest)"
    using json_number_dec[OF assms] by (simp add: c)
  moreover have "\<not> starts_with ''-Infinity'' (c # cs @ rest)"
    using calculation(9) by (cases cs) auto
  ultimately show ?thesis by (auto simp: c)
qed

lemma quote_chr: "chr 34 \<noteq> CHR '']''" "chr 34 \<noteq> CHR ''}''"
  by code_simp+

lemma json_dumps_start:
  assumes "wire_json v"
  shows "starts_value (json_dumps opt v)"
proof (cases v)
  case (JInt i)
  then show ?thesis using dec_of_int_head[of i]
    by (auto simp: starts_value_def json_space_def is_digit_def)
qed (use assms in \<open>auto simp: starts_value_def json_string_def json_space_def quote_chr\<close>)

text \<open>Reading back one value, whatever follows it, with fuel for its text.\<close>

definition reads_back :: "json_hooks \<Rightarrow> dumps_options \<Rightarrow> json \<Rightarrow> bool" where
  "reads_back h opt v \<longleftrightarrow> (\<forall>n rest. length (json_dumps opt v) \<le> n \<longrightarrow> number_end rest \<longrightarrow>
     json_value h n (json_dumps opt v @ rest) = Inr (printed_json (sort_keys opt) v, rest))"

lemma reads_backD:
  "reads_back h opt v \<Longrightarrow> length (json_dumps opt v) \<le> n \<Longrightarrow> number_end rest \<Longrightarrow>
   json_value h n (json_dumps opt v @ rest) = Inr (printed_json (sort_keys opt) v, rest)"
  by (simp add: reads_back_def)

lemma reads_backI:
  assumes "\<And>n rest. length (json_dumps opt v) \<le> Suc n \<Longrightarrow> number_end rest \<Longrightarrow>
      json_value h (Suc n) (json_dumps opt v @ rest) = Inr (printed_json (sort_keys opt) v, rest)"
    "wire_json v"
  shows "reads_back h opt v"
  unfolding reads_back_def
proof (intro allI impI)
  fix n rest assume n: "length (json_dumps opt v) \<le> n" and rest: "number_end rest"
  have "json_dumps opt v \<noteq> []" using json_dumps_start[OF assms(2), of opt] by (auto simp: starts_value_def)
  with n obtain m where "n = Suc m" by (cases n) auto
  with n rest assms(1) show "json_value h n (json_dumps opt v @ rest)
      = Inr (printed_json (sort_keys opt) v, rest)" by blast
qed

lemma separators_end [simp]:
  "\<not> is_digit (CHR '','')" "\<not> is_digit (CHR '']'')" "\<not> is_digit (CHR ''}'')"
  by (simp_all add: is_digit_def)

lemma separators_space [simp]:
  "json_space (CHR '' '')" "\<not> json_space (CHR '','')" "\<not> json_space (CHR '':'')"
  "\<not> json_space (CHR '']'')" "\<not> json_space (CHR ''}'')"
  by (simp_all add: json_space_def)

lemma json_items_back:
  assumes "xs \<noteq> []" "\<forall>x\<in>set xs. wire_json x \<and> reads_back h opt x" "wire_options opt"
    "length (py_join (item_separator opt) (map (json_dumps opt) xs)) < n"
  shows "json_items h n (py_join (item_separator opt) (map (json_dumps opt) xs) @ CHR '']'' # rest)
    = Inr (map (printed_json (sort_keys opt)) xs, rest)"
  using assms
proof (induction xs arbitrary: n)
  case (Cons x xs)
  obtain m where n: "n = Suc m" using Cons.prems(4) by (cases n) auto
  have x: "reads_back h opt x" using Cons.prems(2) by simp
  show ?case
  proof (cases xs)
    case Nil
    with Cons.prems(4) n reads_backD[OF x, of m "CHR '']'' # rest"] show ?thesis by simp
  next
    case (Cons y ys)
    let ?t = "py_join (item_separator opt) (map (json_dumps opt) xs) @ CHR '']'' # rest"
    have "\<exists>z zs. xs = z # zs" using Cons by blast
    then have "starts_value ?t" using Cons.prems(2)
      by (cases "tl xs") (auto intro!: starts_value_append json_dumps_start)
    then have skip: "skip_space ?t = ?t" by (rule starts_value_skip)
    obtain sp where sep: "item_separator opt = CHR '','' # sp" "sp = [] \<or> sp = '' ''"
      using Cons.prems(3) by (auto simp: wire_options_def)
    have "json_items h m ?t = Inr (map (printed_json (sort_keys opt)) xs, rest)"
      using Cons.IH[of m] Cons.prems n Cons sep by auto
    moreover have "json_value h m (json_dumps opt x @ CHR '','' # sp @ ?t)
        = Inr (printed_json (sort_keys opt) x, CHR '','' # sp @ ?t)"
      using Cons.prems(4) n Cons sep by (intro reads_backD[OF x]) auto
    ultimately show ?thesis using skip sep n Cons by auto
  qed
qed simp

lemma dict_put_new: "k \<notin> fst ` set d \<Longrightarrow> dict_put d k v = d @ [(k, v)]"
  by (induction d k v rule: dict_put.induct) auto

abbreviation member_text :: "dumps_options \<Rightarrow> string \<times> json \<Rightarrow> string" where
  "member_text opt \<equiv> \<lambda>(k, v). json_string (ensure_ascii opt) k @ key_separator opt @ json_dumps opt v"

lemma json_members_back:
  assumes "kvs \<noteq> []" "\<forall>(k, v)\<in>set kvs. wire_json v \<and> reads_back h opt v" "wire_options opt"
    "distinct (map fst kvs)" "fst ` set d \<inter> fst ` set kvs = {}"
    "length (py_join (item_separator opt) (map (member_text opt) kvs)) < n"
  shows "json_members h n d (py_join (item_separator opt) (map (member_text opt) kvs) @ CHR ''}'' # rest)
    = Inr (d @ map (\<lambda>(k, v). (k, printed_json (sort_keys opt) v)) kvs, rest)"
  using assms
proof (induction kvs arbitrary: n d)
  case (Cons kv kvs)
  obtain k v where kv: "kv = (k, v)" by (cases kv)
  obtain m where n: "n = Suc m" using Cons.prems(6) by (cases n) auto
  have v: "wire_json v" "reads_back h opt v" using Cons.prems(2) kv by auto
  let ?p = "\<lambda>v. printed_json (sort_keys opt) v"
  obtain sp where sep: "item_separator opt = CHR '','' # sp" "sp = [] \<or> sp = '' ''"
    using Cons.prems(3) by (auto simp: wire_options_def)
  obtain kp where ksep: "key_separator opt = CHR '':'' # kp" "kp = [] \<or> kp = '' ''"
    using Cons.prems(3) by (auto simp: wire_options_def)
  have skip_v: "skip_space (kp @ json_dumps opt v @ t) = json_dumps opt v @ t" for t
    using ksep starts_value_skip[OF starts_value_append[OF json_dumps_start[OF v(1)]]] by auto
  have put: "dict_put d k (?p v) = d @ [(k, ?p v)]"
    using Cons.prems(5) by (intro dict_put_new) (auto simp: kv)
  have "k \<notin> fst ` set d" using Cons.prems(5) by (auto simp: kv)
  then have fresh: "\<not> dict_has d k" by (simp add: dict_has_def map_of_eq_None_iff)
  have len: "length (json_dumps opt v) \<le> m" using Cons.prems(6) n kv
    by (cases kvs) auto
  have step: "json_members h n d (member_text opt kv @ c # t) =
     (if c = CHR ''}'' then Inr (d @ [(k, ?p v)], t)
      else if c = CHR '','' then json_members h m (d @ [(k, ?p v)]) (skip_space t) else Inl JsonSyntax)"
    if "c = CHR ''}'' \<or> c = CHR '',''" for c t
    using that reads_backD[OF v(2) len, of "c # t"] ksep skip_v[of "c # t"]
    by (auto simp: n kv json_string_def json_chars_string put fresh)
  show ?case
  proof (cases kvs)
    case Nil
    with step[of "CHR ''}''" rest] kv show ?thesis by simp
  next
    case (Cons kv' kvs')
    let ?t = "py_join (item_separator opt) (map (member_text opt) kvs) @ CHR ''}'' # rest"
    obtain k' v' where "kv' = (k', v')" by (cases kv')
    then have "starts_value ?t" using Cons by (cases kvs')
      (auto simp: json_string_def starts_value_def json_space_def quote_chr)
    then have skip: "skip_space (sp @ ?t) = ?t" using sep by (auto simp: starts_value_skip)
    have "json_members h m (d @ [(k, ?p v)]) ?t
        = Inr ((d @ [(k, ?p v)]) @ map (\<lambda>(k, v). (k, ?p v)) kvs, rest)"
      using Cons.prems Cons sep kv n by (intro Cons.IH) auto
    with step[of "CHR '',''" "sp @ ?t"] skip Cons sep kv show ?thesis by simp
  qed
qed simp

lemma json_value_back:
  assumes "wire_json v" "wire_options opt"
  shows "reads_back h opt v"
  using assms(1)
proof (induction v)
  case (JInt i)
  then show ?case by (intro reads_backI) (auto simp del: json_value.simps simp: json_value_dec)
next
  case (JStr s)
  then show ?case by (intro reads_backI) (auto simp: json_string_def json_chars_string)
next
  case (JList xs)
  let ?t = "py_join (item_separator opt) (map (json_dumps opt) xs)"
  have "json_value h (Suc n) (''['' @ ?t @ '']'' @ rest) = Inr (printed_json (sort_keys opt) (JList xs), rest)"
    if "length ?t < n" for n rest
  proof (cases "xs = []")
    case False
    then have "starts_value ?t" using JList(2)
      by (cases xs; cases "tl xs") (auto intro!: starts_value_append json_dumps_start)
    then obtain c cs where "?t = c # cs" "\<not> json_space c" "c \<noteq> CHR '']''" by (auto simp: starts_value_def)
    moreover have "json_items h n (?t @ CHR '']'' # rest) = Inr (map (printed_json (sort_keys opt)) xs, rest)"
      using False JList assms(2) that by (intro json_items_back) (auto simp: list_all_iff)
    ultimately show ?thesis by simp
  qed simp
  with JList.prems show ?case by (intro reads_backI) (auto simp del: json_value.simps)
next
  case (JDict d)
  let ?d = "printed_order (sort_keys opt) d"
  let ?t = "py_join (item_separator opt) (map (member_text opt) ?d)"
  have "json_value h (Suc n) (''{'' @ ?t @ ''}'' @ rest) = Inr (printed_json (sort_keys opt) (JDict d), rest)"
    if "length ?t < n" for n rest
  proof (cases "?d = []")
    case False
    then obtain kv kvs where "?d = kv # kvs" by (cases ?d) auto
    then obtain cs where "?t = chr 34 # cs"
      by (cases kv; cases kvs) (auto simp: json_string_def)
    moreover have "json_members h n [] (?t @ CHR ''}'' # rest)
        = Inr ([] @ map (\<lambda>(k, v). (k, printed_json (sort_keys opt) v)) ?d, rest)"
      using False JDict assms(2) that by (intro json_members_back) (auto simp: list_all_iff)
    ultimately show ?thesis by (simp add: quote_chr json_space_def)
  qed simp
  moreover have "json_dumps opt (JDict d) = ''{'' @ ?t @ ''}''" by (simp add: printed_order_def)
  ultimately show ?case using JDict.prems by (intro reads_backI) (auto simp del: json_value.simps)
qed (auto intro!: reads_backI)

theorem json_roundtrip:
  assumes "wire_json v" "wire_options opt"
  shows "json_parse h (json_dumps opt v) = Some (printed_json (sort_keys opt) v)"
proof -
  have "json_value h (Suc (length (json_dumps opt v))) (json_dumps opt v @ [])
      = Inr (printed_json (sort_keys opt) v, [])"
    using assms by (intro reads_backD[OF json_value_back]) auto
  then show ?thesis using starts_value_skip[OF json_dumps_start[OF assms(1)]]
    by (simp add: json_parse_def json_decode_def)
qed

lemma printed_json_False [simp]: "printed_json False v = v"
proof (induction v)
  case (JDict d)
  then show ?case by (auto simp: printed_order_def intro!: map_idI)
qed (auto intro!: map_idI)

lemma wire_options_compact [simp]: "wire_options compact" "wire_options compact_sorted"
  by (simp_all add: wire_options_def compact_def compact_sorted_def)

lemma sort_keys_compact [simp]: "\<not> sort_keys compact" "sort_keys compact_sorted"
  by (simp_all add: compact_def compact_sorted_def)

interpretation json_wire: codec_pair "json_dumps opt" "json_parse h" "\<lambda>v. wire_json v \<and> wire_options opt"
    "printed_json (sort_keys opt)" utf8 utf8_decode "\<lambda>_. True" for opt h
  by unfold_locales (simp_all add: json_roundtrip)

text \<open>Sorting the keys changes no lookup.\<close>

lemma map_of_printed_order: "distinct (map fst d) \<Longrightarrow> map_of (printed_order b d) = map_of d"
  by (rule map_of_inject_set[THEN iffD2]) simp_all

lemma dict_get_printed:
  assumes "distinct (map fst d)"
  shows "dict_get (map (\<lambda>(k, v). (k, printed_json b v)) (printed_order b d)) k = printed_json b (dict_get d k)"
  using assms
  by (simp add: dict_get_def map_of_map map_of_printed_order split: option.split)

end
