(* ===== verification/Store_Refinement.thy ===== *)
theory Store_Refinement
  imports Job_Store Json_Wire
begin

text \<open>
  The job store as a compare-and-swap register per job. Against an object store that honours the
  two preconditions of a put and answers what was put, \<open>create\<close>, \<open>read\<close> and \<open>replace\<close> implement the
  operations of an abstract map from job ids to a record and its tag.
\<close>

section \<open>The object store\<close>

type_synonym object_map = "string \<times> string \<rightharpoonup> bytes \<times> string"

definition put_location :: "put_request \<Rightarrow> string \<times> string" where
  "put_location req = (put_bucket req, put_key req)"

definition put_admitted :: "object_map \<Rightarrow> put_request \<Rightarrow> bool" where
  "put_admitted m req \<longleftrightarrow>
     (put_if_none_match req \<longrightarrow> m (put_location req) = None)
     \<and> (case put_if_match req of None \<Rightarrow> True
        | Some t \<Rightarrow> (\<exists>body. m (put_location req) = Some (body, t)))"

text \<open>A request carries at most one of the two preconditions.\<close>

definition one_condition :: "put_request \<Rightarrow> bool" where
  "one_condition req \<longleftrightarrow> \<not> (put_if_none_match req \<and> put_if_match req \<noteq> None)"

text \<open>
  What the code relies on: an admitted put stores its body under a new tag, a refused one reports
  a failed precondition (a missing object when there is none to match) and changes nothing, a get
  answers the stored object.
\<close>

definition honest_objects :: "('w, 's) services_scheme \<Rightarrow> ('w \<Rightarrow> object_map) \<Rightarrow> bool" where
  "honest_objects E objs \<longleftrightarrow>
     (\<forall>req w r w'. one_condition req \<longrightarrow> put_object E req w = (r, w') \<longrightarrow>
       (if put_admitted (objs w) req
        then (\<exists>tag. r = Inr tag \<and> objs w' = (objs w)(put_location req \<mapsto> (put_body req, tag)))
        else objs w' = objs w \<and> (\<exists>http. r = Inl (ClientError
          (if objs w (put_location req) = None then ''NoSuchKey'' else ''PreconditionFailed'') http)
          \<and> http \<noteq> Some 409)))
     \<and> (\<forall>b k w r w'. get_object E b k w = (r, w') \<longrightarrow>
        objs w' = objs w \<and> (case objs w (b, k) of
          None \<Rightarrow> (\<exists>http. r = Inl (ClientError ''NoSuchKey'' http))
        | Some obj \<Rightarrow> r = Inr obj))"

lemma honest_put:
  assumes "honest_objects E objs" "put_admitted (objs w) req" "one_condition req"
  shows "\<exists>tag w'. put_object E req w = (Inr tag, w')
    \<and> objs w' = (objs w)(put_location req \<mapsto> (put_body req, tag))"
proof -
  obtain r w' where put: "put_object E req w = (r, w')" by fastforce
  from assms(1)[unfolded honest_objects_def, THEN conjunct1, THEN spec, THEN spec, THEN spec, THEN spec,
      THEN mp, THEN mp, OF assms(3) put] assms(2) put show ?thesis by auto
qed

lemma honest_refused:
  assumes "honest_objects E objs" "\<not> put_admitted (objs w) req" "one_condition req"
  shows "\<exists>http w'. put_object E req w = (Inl (ClientError
      (if objs w (put_location req) = None then ''NoSuchKey'' else ''PreconditionFailed'') http), w')
    \<and> http \<noteq> Some 409 \<and> objs w' = objs w"
proof -
  obtain r w' where put: "put_object E req w = (r, w')" by fastforce
  from assms(1)[unfolded honest_objects_def, THEN conjunct1, THEN spec, THEN spec, THEN spec, THEN spec,
      THEN mp, THEN mp, OF assms(3) put] assms(2) put show ?thesis by auto
qed

lemma honest_get:
  assumes "honest_objects E objs" "objs w (b, k) = Some obj"
  shows "\<exists>w'. get_object E b k w = (Inr obj, w') \<and> objs w' = objs w"
proof -
  obtain r w' where got: "get_object E b k w = (r, w')" by fastforce
  from assms(1)[unfolded honest_objects_def, THEN conjunct2, THEN spec, THEN spec, THEN spec, THEN spec,
      THEN spec, THEN mp, OF got] got assms(2) show ?thesis by auto
qed

lemma conditional_put_admitted:
  assumes "honest_objects E objs" "put_admitted (objs (world s)) req" "one_condition req"
  shows "\<exists>tag s'. conditional_put E req s = (Inr tag, s')
    \<and> objs (world s') = (objs (world s))(put_location req \<mapsto> (put_body req, tag))"
  using honest_put[OF assms] by (auto simp: conditional_put_def numeral_2_eq_2 io_defs)

lemma conditional_put_refused:
  assumes "honest_objects E objs" "\<not> put_admitted (objs (world s)) req" "one_condition req"
  shows "\<exists>http s'. conditional_put E req s = (Inl (ClientError
      (if objs (world s) (put_location req) = None then ''NoSuchKey'' else ''PreconditionFailed'') http), s')
    \<and> objs (world s') = objs (world s)"
  using honest_refused[OF assms]
  by (auto simp: conditional_put_def numeral_2_eq_2 io_defs put_conflict_def)

lemma request_location [simp]:
  "put_location (conditional_request cfg key body cache m) = (bucket cfg, key)"
  "put_body (conditional_request cfg key body cache m) = body"
  "one_condition (conditional_request cfg key body cache m)"
  by (cases m; simp add: put_location_def conditional_request_def one_condition_def)+

lemma request_admitted:
  "put_admitted m (conditional_request cfg key body cache None) \<longleftrightarrow> m (bucket cfg, key) = None"
  "put_admitted m (conditional_request cfg key body cache (Some t))
     \<longleftrightarrow> (\<exists>old. m (bucket cfg, key) = Some (old, t))"
  by (simp_all add: put_admitted_def put_location_def conditional_request_def)

section \<open>Reading back what was written\<close>

definition stored_form :: "dict \<Rightarrow> dict" where
  "stored_form record = map (\<lambda>(k, v). (k, printed_json True v)) (printed_order True record)"

lemma stored_form_get:
  "distinct (map fst record) \<Longrightarrow> dict_get (stored_form record) k = printed_json True (dict_get record k)"
  by (simp add: stored_form_def dict_get_printed)

lemma encode_job_body:
  "encode_job record = Inr body \<Longrightarrow>
   body = utf8 (json_dumps compact_sorted (JDict record)) \<and> length body \<le> MAX_JOB_BYTES"
  by (auto simp: encode_job_def Let_def split: if_splits)

lemma json_loads_dumps:
  assumes "wire_json v"
  shows "json_loads E (utf8 (json_dumps compact_sorted v)) = Inr (printed_json True v)"
  using assms json_wire.pair.dec_enc[of v compact_sorted "default_hooks (float_of E)"]
  by (simp add: json_loads_def utf8_roundtrip)

lemma json_loads_job:
  "encode_job record = Inr body \<Longrightarrow> wire_json (JDict record) \<Longrightarrow>
   json_loads E body = Inr (JDict (stored_form record))"
  using json_loads_dumps[of "JDict record" E]
  by (auto simp del: json_dumps.simps simp: stored_form_def dest!: encode_job_body)

section \<open>The abstract map\<close>

definition job_view ::
  "('w, 's) services_scheme \<Rightarrow> store_config \<Rightarrow> object_map \<Rightarrow> string \<rightharpoonup> dict \<times> string" where
  "job_view E cfg m job_id =
     (case job_key cfg job_id of
        Inl e \<Rightarrow> None
      | Inr key \<Rightarrow>
          (case m (bucket cfg, key) of
             None \<Rightarrow> None
           | Some (body, tag) \<Rightarrow>
               (if length body > MAX_JOB_BYTES then None
                else case json_loads E body of Inr (JDict d) \<Rightarrow> Some (d, tag) | _ \<Rightarrow> None)))"

lemma job_key_inject: "job_key cfg a = Inr k \<Longrightarrow> job_key cfg b = Inr k \<Longrightarrow> a = b"
  by (auto simp: job_key_def split: if_splits)

lemma job_view_put:
  assumes "job_key cfg job_id = Inr key" "encode_job record = Inr body" "wire_json (JDict record)"
  shows "job_view E cfg (m((bucket cfg, key) \<mapsto> (body, tag)))
    = (job_view E cfg m)(job_id \<mapsto> (stored_form record, tag))"
  using assms job_key_inject[of cfg] encode_job_body[OF assms(2)]
  by (fastforce simp: fun_eq_iff job_view_def json_loads_job split: sum.splits)

lemma store_read_view:
  assumes "honest_objects E objs" "job_key cfg job_id = Inr key"
    "job_view E cfg (objs (world s)) job_id = Some (record, tag)"
  shows "\<exists>s'. store_read E cfg job_id s = (Inr (Some \<lparr>job_record = record, job_etag = tag\<rparr>), s')
    \<and> objs (world s') = objs (world s) \<and> events s' = events s"
proof -
  from assms(2,3) obtain body where body: "objs (world s) (bucket cfg, key) = Some (body, tag)"
    "length body \<le> MAX_JOB_BYTES" "json_loads E body = Inr (JDict record)"
    by (auto simp: job_view_def split: option.splits if_splits sum.splits json.splits)
  obtain w' where "get_object E (bucket cfg) key (world s) = (Inr (body, tag), w')"
    "objs w' = objs (world s)"
    using honest_get[OF assms(1) body(1)] by blast
  with assms(2) body show ?thesis by (simp add: store_read_def io_defs Let_def)
qed

lemma store_create_new:
  assumes "honest_objects E objs" "encode_job record = Inr body" "wire_json (JDict record)"
    "job_key cfg (record_job_id record) = Inr key" "objs (world s) (bucket cfg, key) = None"
  shows "\<exists>tag s'. store_create E cfg record s = (Inr (Some \<lparr>job_record = record, job_etag = tag\<rparr>), s')
    \<and> job_view E cfg (objs (world s')) =
       (job_view E cfg (objs (world s)))(record_job_id record \<mapsto> (stored_form record, tag))"
proof -
  let ?req = "conditional_request cfg key body ''no-store'' None"
  let ?s = "s\<lparr>events := events s @ [JobCreateSent record]\<rparr>"
  have "put_admitted (objs (world ?s)) ?req"
    using assms(5) by (simp add: request_admitted)
  from conditional_put_admitted[OF assms(1) this request_location(3)] obtain tag s' where put:
    "conditional_put E ?req ?s = (Inr tag, s')"
    "objs (world s') = (objs (world s))((bucket cfg, key) \<mapsto> (body, tag))"
    by auto
  then show ?thesis using assms
    by (simp add: store_create_def io_defs job_view_put)
qed

lemma store_create_taken:
  assumes "honest_objects E objs" "encode_job record = Inr body"
    "job_key cfg (record_job_id record) = Inr key" "objs (world s) (bucket cfg, key) \<noteq> None"
  shows "\<exists>s'. store_create E cfg record s = (Inr None, s') \<and> objs (world s') = objs (world s)"
proof -
  let ?req = "conditional_request cfg key body ''no-store'' None"
  let ?s = "s\<lparr>events := events s @ [JobCreateSent record]\<rparr>"
  have "\<not> put_admitted (objs (world ?s)) ?req"
    using assms(4) by (simp add: request_admitted)
  from conditional_put_refused[OF assms(1) this request_location(3)] obtain http s' where
    "conditional_put E ?req ?s = (Inl (ClientError ''PreconditionFailed'' http), s')"
    "objs (world s') = objs (world s)"
    using assms(4) by auto
  then show ?thesis using assms
    by (simp add: store_create_def io_defs precondition_failed_def)
qed

lemma store_replace_current:
  assumes "honest_objects E objs" "encode_job record = Inr body" "wire_json (JDict record)"
    "job_key cfg (record_job_id record) = Inr key"
    "objs (world s) (bucket cfg, key) = Some (old, job_etag stored)"
  shows "\<exists>tag s'. store_replace E cfg stored record s = (Inr \<lparr>job_record = record, job_etag = tag\<rparr>, s')
    \<and> job_view E cfg (objs (world s')) =
       (job_view E cfg (objs (world s)))(record_job_id record \<mapsto> (stored_form record, tag))"
proof -
  let ?req = "conditional_request cfg key body ''no-store'' (Some (job_etag stored))"
  let ?s = "s\<lparr>events := events s @ [JobReplaceSent (job_record stored) record]\<rparr>"
  have "put_admitted (objs (world ?s)) ?req"
    using assms(5) by (simp add: request_admitted)
  from conditional_put_admitted[OF assms(1) this request_location(3)] obtain tag s' where put:
    "conditional_put E ?req ?s = (Inr tag, s')"
    "objs (world s') = (objs (world s))((bucket cfg, key) \<mapsto> (body, tag))"
    by auto
  then show ?thesis using assms
    by (simp add: store_replace_def io_defs job_view_put)
qed

lemma store_replace_stale:
  assumes "honest_objects E objs" "encode_job record = Inr body"
    "job_key cfg (record_job_id record) = Inr key"
    "objs (world s) (bucket cfg, key) = Some (old, tag)" "tag \<noteq> job_etag stored"
  shows "\<exists>s'. store_replace E cfg stored record s = (Inl JobConflict, s') \<and> objs (world s') = objs (world s)"
proof -
  let ?req = "conditional_request cfg key body ''no-store'' (Some (job_etag stored))"
  let ?s = "s\<lparr>events := events s @ [JobReplaceSent (job_record stored) record]\<rparr>"
  have "\<not> put_admitted (objs (world ?s)) ?req"
    using assms(4,5) by (simp add: request_admitted)
  from conditional_put_refused[OF assms(1) this request_location(3)] obtain http s' where
    "conditional_put E ?req ?s = (Inl (ClientError ''PreconditionFailed'' http), s')"
    "objs (world s') = objs (world s)"
    using assms(4) by auto
  then show ?thesis using assms
    by (simp add: store_replace_def io_defs precondition_failed_def)
qed

end
