(* ===== verification/Reference_World.thy ===== *)
theory Reference_World
  imports Service_Runs Store_Refinement "HOL-Library.Code_Target_Nat"
begin

text \<open>
  One concrete set of external services, on which the definitions of the development can be
  evaluated: an object store in memory that honours \<open>IfNoneMatch\<close> and \<open>IfMatch\<close>, a clock that
  advances by a fixed step at every reading, and a digest that is not cryptographic. It shows that
  what the development assumes of the services can be met.
\<close>

record ref_world =
  objects :: "((string \<times> string) \<times> (bytes \<times> string)) list"
  tag_counter :: nat
  now_ms :: int
  tick :: int

definition ref_put :: "put_request \<Rightarrow> ('z) ref_world_scheme \<Rightarrow> (exn + string) \<times> 'z ref_world_scheme" where
  "ref_put req w =
     (let k = (put_bucket req, put_key req);
          current = map_of (objects w) k;
          tag = dec_of_nat (tag_counter w);
          stored = (Inr tag, w\<lparr>objects := (k, (put_body req, tag)) # objects w,
            tag_counter := Suc (tag_counter w)\<rparr>);
          refused = (Inl (ClientError ''PreconditionFailed'' (Some 412)), w)
      in if put_if_none_match req then (if current = None then stored else refused)
         else case put_if_match req of
           None \<Rightarrow> stored
         | Some t \<Rightarrow>
             (case current of
                None \<Rightarrow> (Inl (ClientError ''NoSuchKey'' (Some 404)), w)
              | Some (body, t') \<Rightarrow> if t = t' then stored else refused))"

definition ref_get ::
  "string \<Rightarrow> string \<Rightarrow> 'z ref_world_scheme \<Rightarrow> (exn + (bytes \<times> string)) \<times> 'z ref_world_scheme" where
  "ref_get bkt key w = (case map_of (objects w) (bkt, key) of
     None \<Rightarrow> (Inl (ClientError ''NoSuchKey'' (Some 404)), w)
   | Some obj \<Rightarrow> (Inr obj, w))"

definition ref_digest :: "bytes \<Rightarrow> bytes" where
  "ref_digest bs = take 32 (rev bs @ replicate 32 (CHR ''d''))"

definition ref_services :: "'z ref_world_scheme services" where
  "ref_services =
     \<lparr>put_object = ref_put, get_object = ref_get,
      presign_url = (\<lambda>bkt key ttl w. (Inr (''https://'' @ bkt @ ''/'' @ key), w)),
      clock = (\<lambda>w. (now_ms w, w\<lparr>now_ms := now_ms w + tick w\<rparr>)),
      conflict_delay = (\<lambda>attempt w. (Inr (JInt 0), w)),
      sleep = (\<lambda>w. (Inr (), w)),
      token_hex = (\<lambda>w. (bytes_hex (to_bytes_big 16 (tag_counter w)), w\<lparr>tag_counter := Suc (tag_counter w)\<rparr>)),
      float_of = (\<lambda>t. NaN),
      sha256 = ref_digest,
      hmac_sha256 = (\<lambda>key msg. ref_digest (key @ msg))\<rparr>"

definition ref_init :: "int \<Rightarrow> ref_world sys" where
  "ref_init t = \<lparr>world = \<lparr>objects = [], tag_counter = 1, now_ms = t, tick = 5\<rparr>, events = []\<rparr>"

definition ref_config :: store_config where
  "ref_config = \<lparr>bucket = ''jobs'', key_prefix = ''x402-jobs''\<rparr>"

definition ref_limiter :: wallet_rate_limiter where
  "ref_limiter = \<lparr>limiter_store = ref_config, limiter_secret = replicate 32 (CHR ''k''), max_attempts = 2\<rparr>"

lemma ref_sleeps: "sleeps ref_services"
  by (simp add: sleeps_def ref_services_def)

lemma ref_put_admitted:
  "put_admitted (map_of (objects w)) req \<Longrightarrow> one_condition req \<Longrightarrow>
   ref_put req w = (Inr (dec_of_nat (tag_counter w)),
     w\<lparr>objects := (put_location req, (put_body req, dec_of_nat (tag_counter w))) # objects w,
       tag_counter := Suc (tag_counter w)\<rparr>)"
  by (auto simp: ref_put_def Let_def put_admitted_def put_location_def one_condition_def split: option.splits)

lemma ref_put_refused:
  "\<not> put_admitted (map_of (objects w)) req \<Longrightarrow> one_condition req \<Longrightarrow>
   ref_put req w = (Inl (if map_of (objects w) (put_location req) = None
       then ClientError ''NoSuchKey'' (Some 404) else ClientError ''PreconditionFailed'' (Some 412)), w)"
  by (cases "put_if_none_match req"; cases "put_if_match req"; cases "map_of (objects w) (put_location req)")
     (auto simp: ref_put_def Let_def put_admitted_def put_location_def one_condition_def)

lemma ref_honest: "honest_objects ref_services (\<lambda>w. map_of (objects w))"
proof -
  have services: "put_object ref_services = ref_put" "get_object ref_services = ref_get"
    by (simp_all add: ref_services_def)
  show ?thesis unfolding honest_objects_def services
  proof (intro conjI allI impI)
    fix req r and w w' :: "'z ref_world_scheme"
    assume one: "one_condition req" and put: "ref_put req w = (r, w')"
    show "if put_admitted (map_of (objects w)) req
      then \<exists>tag. r = Inr tag \<and>
        map_of (objects w') = (map_of (objects w))(put_location req \<mapsto> (put_body req, tag))
      else map_of (objects w') = map_of (objects w) \<and> (\<exists>http. r = Inl (ClientError
          (if map_of (objects w) (put_location req) = None then ''NoSuchKey'' else ''PreconditionFailed'') http)
          \<and> http \<noteq> Some 409)"
    proof (cases "put_admitted (map_of (objects w)) req")
      case True
      from ref_put_admitted[OF this one] put True show ?thesis by auto
    next
      case False
      from ref_put_refused[OF this one] put False show ?thesis by auto
    qed
  qed (auto simp: ref_get_def split: option.splits)
qed

section \<open>A payment and a service\<close>

text \<open>
  A payer, a signed payment of the price in U and a replica of the service. The signature scheme
  recovers the signature itself as the signer; the facilitator settles every payment.
\<close>

definition demo_eth :: eth where
  "demo_eth = \<lparr>keccak = (\<lambda>bs. take 32 bs), abi_encode = (\<lambda>vs. Inr []),
     to_checksum_address = Inr, recover_hash = (\<lambda>digest sig. Inr sig)\<rparr>"

definition demo_verifier :: verifier where
  "demo_verifier = \<lparr>pay_to_address = ''0x'' @ replicate 40 (CHR ''b''), unix_time = 1000,
     eth_lib = demo_eth, verify_float = (\<lambda>t. NaN)\<rparr>"

definition demo_payer :: string where
  "demo_payer = ''0x'' @ replicate 40 (CHR ''a'')"

definition demo_extra :: dict where
  "demo_extra = [(''name'', JStr ''United Stables''), (''version'', JStr ''1''),
     (''assetTransferMethod'', JStr ''eip3009''), (''signerAddress'', JStr demo_payer)]"

definition demo_proof :: dict where
  "demo_proof = [(''x402Version'', JInt 2), (''resource'', JDict [(''url'', JStr ''/invocations'')]),
     (''accepted'', JDict (build_payment_requirement demo_verifier U_TOKEN demo_extra PRICE_WEI)),
     (''payload'', JDict [(''signature'', JStr demo_payer),
        (''authorization'', JDict [(''from'', JStr demo_payer),
           (''to'', JStr (pay_to_address demo_verifier)), (''value'', JStr ''100000000000000000''),
           (''validAfter'', JInt 100), (''validBefore'', JInt 2000), (''nonce'', JStr ''0x01'')])])]"

definition demo_header :: string where
  "demo_header = b64encode (utf8 (json_dumps compact_sorted (JDict demo_proof)))"

definition demo_reference :: string where
  "demo_reference = ''0x'' @ replicate 64 (CHR ''e'')"

definition demo_services :: "ref_world job_services" where
  "demo_services = services.extend ref_services
     \<lparr>settle = (\<lambda>proof_header mode w.
        (Inr (Some \<lparr>status = Settled, transaction = Some demo_reference, reason = None\<rparr>), w)),
      authorization_used = (\<lambda>payment w. (Inr False, w)),
      report_competition = (\<lambda>event_id addr at w. (Inr True, w)),
      stream_work = (\<lambda>prompt sid symbols w. (([], None), w)),
      stock_prompt = (\<lambda>kind portfolio risk. Inr (''analyse'', [''AAPL''])),
      usage_succeeded = (\<lambda>job_id wallet at w. (Inr (), w)),
      wallet_verified = (\<lambda>wallet w. (Inr (), w)),
      interrupted = (\<lambda>w. (False, w)),
      heartbeats = (\<lambda>w. (0, w))\<rparr>"

definition demo_service :: job_service where
  "demo_service = \<lparr>svc_store = ref_config, svc_secret = replicate 32 (CHR ''s''),
     svc_limiter = Some ref_limiter, svc_owner = replicate 32 (CHR ''0''),
     svc_accept_new_jobs = True, svc_accounting_attempts = 1, svc_observer_attempts = 1,
     svc_verifier = demo_verifier, svc_tracks_usage = False\<rparr>"

definition demo_request :: dict where
  "demo_request = [(''symbols'', JStr ''aapl, msft'')]"

definition demo_start :: "ref_world job_sys" where
  "demo_start = \<lparr>world = world (ref_init 1000000), events = [], tasks = [],
     accounting_tasks = [], active_tasks = [], next_task = 0\<rparr>"

lemma demo_run:
  "service_run demo_services demo_service
     (perform demo_services demo_service (CreateJob demo_header demo_request) demo_start)"
  by (rule run_call, rule run_start) (simp add: demo_start_def)

lemma demo_accepted:
  "(case validate_proof_object demo_verifier demo_proof None 1000 False of
      Inr (Some p, why) \<Rightarrow> valid_before p = 2000 | _ \<Rightarrow> False)"
  by code_simp

lemma demo_recovered:
  "(case validate_proof_object demo_verifier demo_proof None 3000 True of
      Inr (Some p, why) \<Rightarrow> valid_before p = 2000 | _ \<Rightarrow> False)"
  by code_simp

section \<open>A job record and its settlement\<close>

definition demo_identity :: job_identity where
  "demo_identity = identity_from_payment_key demo_services demo_service (replicate 64 (CHR ''a''))"

definition demo_payment :: verified_payment where
  "demo_payment = \<lparr>vp_proof = demo_proof, from_address = demo_payer,
     to_address = pay_to_address demo_verifier, pay_value = PRICE_WEI, valid_after = 100,
     valid_before = 2000, nonce = ''0x01'', nonce_bytes = to_bytes_big 32 1,
     asset = py_lower (address U_TOKEN), token_symbol = ''U'', vp_transfer_method = ''eip3009''\<rparr>"

definition demo_job :: dict where
  "demo_job = new_job_record demo_identity demo_payment ''digest'' demo_request ''event''
     (svc_owner demo_service) 1000000"

definition demo_settled_job :: dict where
  "demo_settled_job = settled_record demo_job (JStr demo_reference) False ''event'' (JInt 1000000)
     (svc_owner demo_service) 1000000 1000000"

lemma demo_history: "history job_init job_step [demo_job, demo_settled_job]"
proof -
  have "job_init demo_job"
    using new_record_inv[of None demo_identity demo_payment "''digest''" demo_request "''event''"
      "svc_owner demo_service" 1000000]
    by (simp add: job_init_def demo_job_def reservation_fields_def)
       (simp add: new_job_record_def has_payment_def attempt_of_def)
  moreover have "job_step demo_job demo_settled_job"
    unfolding demo_settled_job_def
    by (rule settled_step)
       (simp_all add: demo_job_def new_job_record_def has_payment_def demo_reference_def
         is_valid_settlement_reference_def valid_reference_def is_visible_def
         list_all_iff)
  ultimately show ?thesis by (simp add: history_def)
qed

definition demo_payment_respelled :: verified_payment where
  "demo_payment_respelled = demo_payment\<lparr>from_address := ''0X'' @ replicate 40 (CHR ''A'')\<rparr>"

end
