(* ===== verification/Py_Net.thy ===== *)
theory Py_Net
  imports Py_Prelude
begin

text \<open>
  What the sources use of \<open>ipaddress\<close> and \<open>urllib.parse\<close> (CPython 3.11): \<open>ip_address(s).compressed\<close>
  and the parts of \<open>urlsplit\<close>. An address is kept as its list of octets or hextets instead of the
  integer they make up.
\<close>

section \<open>Addresses\<close>

fun those_list :: "'a option list \<Rightarrow> 'a list option" where
  "those_list [] = Some []"
| "those_list (None # xs) = None"
| "those_list (Some x # xs) = map_option ((#) x) (those_list xs)"

definition parse_octet :: "string \<Rightarrow> nat option" where
  "parse_octet s =
     (if s = [] \<or> \<not> list_all is_digit s \<or> length s > 3 \<or> (s \<noteq> ''0'' \<and> hd s = CHR ''0'')
         \<or> nat_of_dec s > 255
      then None else Some (nat_of_dec s))"

definition ipv4_octets :: "string \<Rightarrow> nat list option" where
  "ipv4_octets s = (let octets = py_split (CHR ''.'') s in
     if length octets \<noteq> 4 then None else those_list (map parse_octet octets))"

fun hex_of_nat :: "nat \<Rightarrow> string" where
  "hex_of_nat n = (if n < 16 then [hex_chr n] else hex_of_nat (n div 16) @ [hex_chr (n mod 16)])"

declare hex_of_nat.simps [simp del]

definition nat_of_hex :: "string \<Rightarrow> nat" where
  "nat_of_hex s = foldl (\<lambda>a c. a * 16 + hex_val c) 0 s"

definition parse_hextet :: "string \<Rightarrow> nat option" where
  "parse_hextet s =
     (if s = [] \<or> \<not> list_all is_hex s \<or> length s > 4 then None else Some (nat_of_hex s))"

text \<open>An IPv4-style suffix is rewritten as two hextets.\<close>

definition ipv6_parts :: "string \<Rightarrow> string list option" where
  "ipv6_parts s = (let parts = py_split (CHR '':'') s in
     if length parts < 3 then None
     else if CHR ''.'' \<in> set (last parts) then
       (case ipv4_octets (last parts) of
          Some [a, b, c, d] \<Rightarrow>
            Some (butlast parts @ [hex_of_nat (a * 256 + b), hex_of_nat (c * 256 + d)])
        | _ \<Rightarrow> None)
     else Some parts)"

definition ipv6_of_parts :: "string list \<Rightarrow> nat list option" where
  "ipv6_of_parts parts =
     (if length parts > 9 then None
      else case filter (\<lambda>i. parts ! i = []) [1..<length parts - 1] of
        [] \<Rightarrow>
          (if length parts \<noteq> 8 \<or> hd parts = [] \<or> last parts = [] then None
           else those_list (map parse_hextet parts))
      | [skip] \<Rightarrow>
          (let hi = (if hd parts = [] then skip - 1 else skip);
               lo = (if last parts = [] then length parts - skip - 2 else length parts - skip - 1)
           in if hd parts = [] \<and> hi \<noteq> 0 \<or> last parts = [] \<and> lo \<noteq> 0 \<or> hi + lo > 7 then None
              else case (those_list (map parse_hextet (take hi parts)),
                         those_list (map parse_hextet (drop (length parts - lo) parts))) of
                (Some high, Some low) \<Rightarrow> Some (high @ replicate (8 - (hi + lo)) 0 @ low)
              | _ \<Rightarrow> None)
      | _ \<Rightarrow> None)"

definition ipv6_hextets :: "string \<Rightarrow> nat list option" where
  "ipv6_hextets s = (case ipv6_parts s of None \<Rightarrow> None | Some parts \<Rightarrow> ipv6_of_parts parts)"

text \<open>
  The longest run of zero hextets, the first of equally long ones: the loop with its index, the
  start and length of the current run and of the best one so far.
\<close>

fun longest_zeros :: "nat \<Rightarrow> string list \<Rightarrow> nat \<Rightarrow> nat \<Rightarrow> nat \<Rightarrow> nat \<Rightarrow> nat \<times> nat" where
  "longest_zeros index [] start len best_start best_len = (best_start, best_len)"
| "longest_zeros index (h # hs) start len best_start best_len =
     (if h = ''0'' then
        (let start' = (if len = 0 then index else start) in
         if Suc len > best_len
         then longest_zeros (Suc index) hs start' (Suc len) start' (Suc len)
         else longest_zeros (Suc index) hs start' (Suc len) best_start best_len)
      else longest_zeros (Suc index) hs start 0 best_start best_len)"

definition compress_hextets :: "string list \<Rightarrow> string list" where
  "compress_hextets hs =
     (case longest_zeros 0 hs 0 0 0 0 of (start, len) \<Rightarrow>
        if len > 1
        then (if start = 0 then [[]] else []) @ take start hs @ [[]] @ drop (start + len) hs
          @ (if start + len = length hs then [[]] else [])
        else hs)"

definition ipv6_text :: "nat list \<Rightarrow> string" where
  "ipv6_text hextets = py_join '':'' (compress_hextets (map hex_of_nat hextets))"

definition py_partition :: "char \<Rightarrow> string \<Rightarrow> string \<times> bool \<times> string" where
  "py_partition c s = (takeWhile (\<lambda>x. x \<noteq> c) s, c \<in> set s, drop 1 (dropWhile (\<lambda>x. x \<noteq> c) s))"

text \<open>Address objects; an IPv6 one may have a scope. \<open>None\<close> is the \<open>ValueError\<close>.\<close>

datatype ip = IPv4 "nat list" | IPv6 "nat list" "string option"

definition ip_parse :: "string \<Rightarrow> ip option" where
  "ip_parse s =
     (case ipv4_octets s of
        Some octets \<Rightarrow> Some (IPv4 octets)
      | None \<Rightarrow>
          (if CHR ''/'' \<in> set s then None
           else case py_partition (CHR ''%'') s of (addr, scoped, scope) \<Rightarrow>
             if scoped \<and> (scope = [] \<or> CHR ''%'' \<in> set scope) then None
             else map_option (\<lambda>hextets. IPv6 hextets (if scoped then Some scope else None)) (ipv6_hextets addr)))"

fun ip_text :: "ip \<Rightarrow> string" where
  "ip_text (IPv4 octets) = py_join ''.'' (map dec_of_nat octets)"
| "ip_text (IPv6 hextets scope) =
     ipv6_text hextets @ (case scope of None \<Rightarrow> [] | Some z \<Rightarrow> CHR ''%'' # z)"

fun is_ipv6 :: "ip \<Rightarrow> bool" where
  "is_ipv6 (IPv6 hextets scope) = True"
| "is_ipv6 (IPv4 octets) = False"

definition ip_address :: "string \<Rightarrow> (bool \<times> string) option" where
  "ip_address s = map_option (\<lambda>a. (is_ipv6 a, ip_text a)) (ip_parse s)"

definition ip_compressed :: "string \<Rightarrow> string option" where
  "ip_compressed s = map_option snd (ip_address s)"

section \<open>The text of an address parses to the address\<close>

lemma set_join: "set (py_join sep xs) \<subseteq> set sep \<union> \<Union> (set ` set xs)"
  by (induction sep xs rule: py_join.induct) auto

lemma py_split_simple: "c \<notin> set s \<Longrightarrow> py_split c s = [s]"
  by (induction s) auto

lemma py_split_append: "c \<notin> set s \<Longrightarrow> py_split c (s @ c # t) = s # py_split c t"
  by (induction s) auto

lemma py_split_join:
  "ss \<noteq> [] \<Longrightarrow> \<forall>s\<in>set ss. c \<notin> set s \<Longrightarrow> py_split c (py_join [c] ss) = ss"
  by (induction "[c]" ss rule: py_join.induct) (auto simp: py_split_simple py_split_append)

lemma those_list_Some: "those_list xs = Some ys \<longleftrightarrow> xs = map Some ys"
  by (induction xs arbitrary: ys rule: those_list.induct) (auto simp: Cons_eq_map_conv)

lemma parse_octet_dec: "n \<le> 255 \<Longrightarrow> parse_octet (dec_of_nat n) = Some n"
proof -
  assume n: "n \<le> 255"
  have "length (dec_of_nat n) \<le> 3" using length_dec_of_nat[of n 2] n by simp
  moreover have "hd (dec_of_nat n) \<noteq> CHR ''0'' \<or> dec_of_nat n = ''0''"
    using hd_dec_of_nat[of n] by (cases "n = 0") (simp_all add: dec_of_nat.simps[of 0] digit_chr_def)
  ultimately show ?thesis using n dec_of_nat_digits[of n] by (auto simp: parse_octet_def)
qed

lemma parse_octet_bound: "parse_octet s = Some n \<Longrightarrow> n \<le> 255 \<and> list_all is_digit s"
  by (auto simp: parse_octet_def split: if_splits)

lemma dec_of_nat_no: "\<not> is_digit c \<Longrightarrow> c \<notin> set (dec_of_nat n)"
  using dec_of_nat_digits[of n] by (auto simp: list_all_iff)

lemma ipv4_roundtrip:
  assumes "length os = 4" "list_all (\<lambda>n. n \<le> 255) os"
  shows "ipv4_octets (py_join ''.'' (map dec_of_nat os)) = Some os"
proof -
  have "CHR ''.'' \<notin> set (dec_of_nat n)" for n by (rule dec_of_nat_no) (simp add: is_digit_def)
  then have "py_split (CHR ''.'') (py_join ''.'' (map dec_of_nat os)) = map dec_of_nat os"
    using assms(1) by (intro py_split_join) auto
  with assms show ?thesis
    by (simp add: ipv4_octets_def those_list_Some list_all_iff parse_octet_dec)
qed

lemma ipv4_octets_ok: "ipv4_octets s = Some os \<Longrightarrow> length os = 4 \<and> list_all (\<lambda>n. n \<le> 255) os"
  by (auto simp: ipv4_octets_def Let_def those_list_Some list_all_iff map_eq_conv dest!: parse_octet_bound
      split: if_splits)
     (metis length_map, metis in_set_conv_nth length_map nth_map parse_octet_bound)

lemma hex_of_nat_hex: "list_all is_lower_hex (hex_of_nat n) \<and> hex_of_nat n \<noteq> []"
proof (induction n rule: hex_of_nat.induct)
  case (1 n)
  then show ?case by (subst (1 2) hex_of_nat.simps) (auto simp: is_lower_hex_hex_chr)
qed

lemma nat_of_hex_snoc: "nat_of_hex (s @ [c]) = nat_of_hex s * 16 + hex_val c"
  by (simp add: nat_of_hex_def)

lemma nat_of_hex_of_nat: "nat_of_hex (hex_of_nat n) = n"
proof (induction n rule: hex_of_nat.induct)
  case (1 n)
  show ?case
  proof (cases "n < 16")
    case True
    then show ?thesis
      by (subst hex_of_nat.simps) (simp add: nat_of_hex_def hex_val_chr)
  next
    case False
    then show ?thesis using 1
      by (subst hex_of_nat.simps) (simp add: nat_of_hex_snoc hex_val_chr div_mult_mod_eq)
  qed
qed

lemma length_hex_of_nat: "n < 16 ^ Suc k \<Longrightarrow> length (hex_of_nat n) \<le> Suc k"
proof (induction k arbitrary: n)
  case 0
  then show ?case by (subst hex_of_nat.simps) simp
next
  case (Suc k)
  have "n div 16 < 16 ^ Suc k" using Suc.prems by (simp add: less_mult_imp_div_less)
  from Suc.IH[OF this] show ?case by (subst hex_of_nat.simps) simp
qed

lemma parse_hextet_hex: "n < 65536 \<Longrightarrow> parse_hextet (hex_of_nat n) = Some n"
  using length_hex_of_nat[of n 3] hex_of_nat_hex[of n]
  by (auto simp: parse_hextet_def nat_of_hex_of_nat list_all_iff is_hex_def)

lemma hex_of_nat_no: "\<not> is_lower_hex c \<Longrightarrow> c \<notin> set (hex_of_nat n)"
  using hex_of_nat_hex[of n] by (auto simp: list_all_iff)

lemma hex_of_nat_zero: "hex_of_nat n = ''0'' \<longleftrightarrow> n = 0"
proof
  assume "hex_of_nat n = ''0''"
  with nat_of_hex_of_nat[of n] show "n = 0" by (simp add: nat_of_hex_def hex_val_def is_digit_def)
next
  have "hex_of_nat 0 = ''0''" by code_simp
  then show "n = 0 \<Longrightarrow> hex_of_nat n = ''0''" by simp
qed

text \<open>What the loop over the hextets finds is a run of zeros.\<close>

definition zero_run :: "string list \<Rightarrow> nat \<Rightarrow> nat \<Rightarrow> bool" where
  "zero_run hs start len \<longleftrightarrow> start + len \<le> length hs \<and> (\<forall>i. start \<le> i \<and> i < start + len \<longrightarrow> hs ! i = ''0'')"

lemma longest_zeros_run:
  assumes "longest_zeros (length pre) hs start len bs bl = (s, l)"
    and "zero_run pre bs bl" "len \<noteq> 0 \<longrightarrow> start + len = length pre" "len \<noteq> 0 \<longrightarrow> zero_run pre start len"
  shows "zero_run (pre @ hs) s l"
  using assms
proof (induction hs arbitrary: pre start len bs bl)
  case (Cons h hs)
  have best: "zero_run (pre @ [h]) bs bl"
    using Cons.prems(2) by (auto simp: zero_run_def nth_append)
  show ?case
  proof (cases "h = ''0''")
    case False
    have "zero_run ((pre @ [h]) @ hs) s l"
      by (rule Cons.IH[where start = start and len = 0 and bs = bs and bl = bl])
         (use Cons.prems(1) False best in auto)
    then show ?thesis by simp
  next
    case True
    define start' where "start' = (if len = 0 then length pre else start)"
    have run: "zero_run (pre @ [h]) start' (Suc len)" "start' + Suc len = length (pre @ [h])"
      using Cons.prems(3,4) True
      by (auto simp: zero_run_def start'_def nth_append less_Suc_eq)
    have "zero_run ((pre @ [h]) @ hs) s l"
      by (rule Cons.IH[where start = start' and len = "Suc len"
            and bs = "if Suc len > bl then start' else bs" and bl = "if Suc len > bl then Suc len else bl"])
         (use Cons.prems(1) True best run in \<open>auto simp: start'_def Let_def split: if_splits\<close>)
    then show ?thesis by simp
  qed
qed simp

lemma filter_upt_single:
  "a \<le> k \<Longrightarrow> k < b \<Longrightarrow> (\<And>i. a \<le> i \<Longrightarrow> i < b \<Longrightarrow> P i \<longleftrightarrow> i = k) \<Longrightarrow> filter P [a..<b] = [k]"
proof -
  assume k: "a \<le> k" "k < b" and P: "\<And>i. a \<le> i \<Longrightarrow> i < b \<Longrightarrow> P i \<longleftrightarrow> i = k"
  then have "[a..<b] = [a..<k] @ k # [Suc k..<b]"
    using upt_add_eq_append[of a k "b - k"] by (simp add: upt_conv_Cons)
  moreover have "filter P [a..<k] = []" "filter P [Suc k..<b] = []"
    using P k by (auto simp: filter_empty_conv)
  ultimately show ?thesis using P k by simp
qed

lemma hex_of_nat_nonempty [simp]: "hex_of_nat n \<noteq> []"
  using hex_of_nat_hex by blast

lemma those_hextets:
  "list_all (\<lambda>n. n < 65536) hs \<Longrightarrow> those_list (map parse_hextet (map hex_of_nat hs)) = Some hs"
  by (auto simp: those_list_Some list_all_iff parse_hextet_hex)

text \<open>An address written with \<open>::\<close> between \<open>high\<close> and \<open>low\<close>.\<close>

lemma ipv6_of_parts_skip:
  assumes ok: "list_all (\<lambda>n. n < 65536) high" "list_all (\<lambda>n. n < 65536) low"
    and len: "length high + length low \<le> 7"
  shows "ipv6_of_parts ((if high = [] then [[]] else []) @ map hex_of_nat high @ [[]]
      @ map hex_of_nat low @ (if low = [] then [[]] else []))
    = Some (high @ replicate (8 - (length high + length low)) 0 @ low)"
    (is "ipv6_of_parts ?P = _")
proof -
  let ?pre = "(if high = [] then [[]] else []) @ map hex_of_nat high"
  let ?post = "map hex_of_nat low @ (if low = [] then [[]] else [])"
  define k where "k = length ?pre"
  have P: "?P = ?pre @ [] # ?post" by simp
  have k: "1 \<le> k" "length ?P = k + 1 + length ?post" "1 \<le> length ?post"
    by (auto simp: k_def Suc_le_eq)
  have "?P ! i = [] \<longleftrightarrow> i = k" if "1 \<le> i" "i < length ?P - 1" for i
  proof -
    consider "i < k" | "i = k" | "k < i" by linarith
    then show ?thesis
    proof cases
      case 1
      then have "?P ! i = ?pre ! i" by (simp only: P nth_append k_def[symmetric] if_True)
      also have "\<dots> \<noteq> []" using 1 that(1) by (cases "high = []") (auto simp: k_def nth_append)
      finally show ?thesis using 1 by simp
    next
      case 2
      then show ?thesis by (simp only: P nth_append k_def[symmetric]) simp
    next
      case 3
      define j where "j = i - k - 1"
      have j: "i = k + 1 + j" "j < length ?post - 1" using 3 that(2) k(2) by (auto simp: j_def)
      have "?P ! i = ([] # ?post) ! Suc j"
        unfolding P using j(1) by (subst nth_append) (simp only: k_def[symmetric], simp)
      then have "?P ! i = ?post ! j" by simp
      also have "\<dots> \<noteq> []" using j(2) by (cases "low = []") (auto simp: nth_append)
      finally show ?thesis using 3 by simp
    qed
  qed
  then have blank: "filter (\<lambda>i. ?P ! i = []) [1..<length ?P - 1] = [k]"
    using k by (intro filter_upt_single) auto
  have ends: "hd ?P = [] \<longleftrightarrow> high = []" "last ?P = [] \<longleftrightarrow> low = []"
    by (auto simp: hd_append last_map hd_map)
  have short: "\<not> length ?P > 9" using len k(2) by (auto simp: k_def)
  have hi: "(if hd ?P = [] then k - 1 else k) = length high"
    unfolding ends by (auto simp: k_def)
  have lo: "(if last ?P = [] then length ?P - k - 2 else length ?P - k - 1) = length low"
    unfolding ends k(2) by auto
  have parts: "take (length high) ?P = map hex_of_nat high"
    "drop (length ?P - length low) ?P = map hex_of_nat low"
    by auto
  have fits: "\<not> (high = [] \<and> length high \<noteq> 0 \<or> low = [] \<and> length low \<noteq> 0
      \<or> 7 < length high + length low)" using len by auto
  show ?thesis
    unfolding ipv6_of_parts_def blank list.case Let_def hi lo parts
    unfolding ends if_not_P[OF short] if_not_P[OF fits]
      those_hextets[OF ok(1)] those_hextets[OF ok(2)] prod.case option.case
    by (rule refl)
qed

lemma compressed_parts:
  assumes "length hs = 8" "list_all (\<lambda>n. n < 65536) hs"
  shows "ipv6_of_parts (compress_hextets (map hex_of_nat hs)) = Some hs"
    and "3 \<le> length (compress_hextets (map hex_of_nat hs))"
    and "\<forall>p\<in>set (compress_hextets (map hex_of_nat hs)). list_all is_lower_hex p"
proof -
  let ?H = "map hex_of_nat hs"
  obtain s l where sl: "longest_zeros 0 ?H 0 0 0 0 = (s, l)" by fastforce
  have run: "zero_run ?H s l"
  proof -
    have "zero_run ([] @ ?H) s l"
      by (rule longest_zeros_run[where start = 0 and len = 0 and bs = 0 and bl = 0])
         (simp_all add: sl zero_run_def)
    then show ?thesis by simp
  qed
  let ?thesis' = "\<lambda>ps. ipv6_of_parts ps = Some hs \<and> 3 \<le> length ps
    \<and> (\<forall>p\<in>set ps. list_all is_lower_hex p)"
  have "?thesis' (compress_hextets ?H)"
  proof (cases "l > 1")
    case False
    then have c: "compress_hextets ?H = ?H" by (simp add: compress_hextets_def sl)
    have ne: "hs \<noteq> []" using assms(1) by auto
    have "filter (\<lambda>i. ?H ! i = []) [1..<length ?H - 1] = []"
      using assms(1) by (auto simp: filter_empty_conv)
    then have "ipv6_of_parts ?H = Some hs"
      using assms those_hextets[OF assms(2)] by (auto simp: ipv6_of_parts_def hd_map[OF ne] last_map[OF ne])
    then show ?thesis using c assms(1) hex_of_nat_hex by auto
  next
    case True
    let ?high = "take s hs" and ?low = "drop (s + l) hs"
    have len: "s + l \<le> 8" using run assms(1) by (simp add: zero_run_def)
    have "hs ! i = 0" if "s \<le> i" "i < s + l" for i
      using run that len assms(1) by (auto simp: zero_run_def hex_of_nat_zero)
    then have "take l (drop s hs) = replicate l 0"
      using len assms(1) by (intro nth_equalityI) auto
    then have hs: "hs = ?high @ replicate l 0 @ ?low"
      by (metis append_take_drop_id drop_drop add.commute)
    have c: "compress_hextets ?H = (if ?high = [] then [[]] else []) @ map hex_of_nat ?high @ [[]]
        @ map hex_of_nat ?low @ (if ?low = [] then [[]] else [])"
      using True len assms(1) by (auto simp: compress_hextets_def sl take_map drop_map)
    have "ipv6_of_parts (compress_hextets ?H)
        = Some (?high @ replicate (8 - (length ?high + length ?low)) 0 @ ?low)"
      unfolding c using assms(2) len assms(1) True
      by (intro ipv6_of_parts_skip) (auto simp: list_all_iff dest: in_set_takeD in_set_dropD)
    moreover have "8 - (length ?high + length ?low) = l" using len assms(1) by auto
    moreover have "3 \<le> length (compress_hextets ?H)" unfolding c by (auto simp: Suc_le_eq)
    moreover have "\<forall>p\<in>set (compress_hextets ?H). list_all is_lower_hex p"
      unfolding c using hex_of_nat_hex by auto
    ultimately show ?thesis using hs by simp
  qed
  then show "ipv6_of_parts (compress_hextets ?H) = Some hs" "3 \<le> length (compress_hextets ?H)"
    "\<forall>p\<in>set (compress_hextets ?H). list_all is_lower_hex p" by blast+
qed

lemma ipv6_roundtrip:
  assumes "length hs = 8" "list_all (\<lambda>n. n < 65536) hs"
  shows "ipv6_hextets (ipv6_text hs) = Some hs"
    and "CHR '':'' \<in> set (ipv6_text hs)"
    and "\<forall>c\<in>set (ipv6_text hs). is_lower_hex c \<or> c = CHR '':''"
proof -
  note parts = compressed_parts[OF assms]
  let ?ps = "compress_hextets (map hex_of_nat hs)"
  have no: "\<not> is_lower_hex (CHR '':'')" "\<not> is_lower_hex (CHR ''.'')"
    by (auto simp: is_lower_hex_def is_digit_def)
  have "?ps \<noteq> []" using parts(2) by auto
  then have split: "py_split (CHR '':'') (ipv6_text hs) = ?ps"
    unfolding ipv6_text_def using parts(3) no by (intro py_split_join) (auto simp: list_all_iff)
  have "CHR ''.'' \<notin> set (last ?ps)"
    using parts(3) no last_in_set[OF \<open>?ps \<noteq> []\<close>] by (auto simp: list_all_iff)
  then show "ipv6_hextets (ipv6_text hs) = Some hs"
    using parts(1,2) by (simp add: ipv6_hextets_def ipv6_parts_def split)
  show "CHR '':'' \<in> set (ipv6_text hs)"
  proof (rule ccontr)
    assume "CHR '':'' \<notin> set (ipv6_text hs)"
    with split have "?ps = [ipv6_text hs]" by (simp add: py_split_simple)
    with parts(2) show False by simp
  qed
  have "set (py_join '':'' ps) \<subseteq> \<Union>(set ` set ps) \<union> {CHR '':''}" for ps
    by (induction "'':''" ps rule: py_join.induct) auto
  from this[of ?ps] show "\<forall>c\<in>set (ipv6_text hs). is_lower_hex c \<or> c = CHR '':''"
    unfolding ipv6_text_def using parts(3) by (fastforce simp: list_all_iff)
qed

section \<open>Compression is idempotent\<close>

lemma nat_of_hex_bound: "list_all is_hex s \<Longrightarrow> nat_of_hex s < 16 ^ length s"
proof (induction s rule: rev_induct)
  case (snoc c s)
  then have "hex_val c < 16" by (auto simp: py_defs)
  with snoc show ?case by (simp add: nat_of_hex_snoc)
qed (simp add: nat_of_hex_def)

lemma parse_hextet_bound: "parse_hextet s = Some n \<Longrightarrow> n < 65536"
proof -
  assume p: "parse_hextet s = Some n"
  then have "nat_of_hex s < 16 ^ length s" "length s \<le> 4" "n = nat_of_hex s"
    by (auto simp: parse_hextet_def nat_of_hex_bound split: if_splits)
  moreover have "(16::nat) ^ length s \<le> 16 ^ 4" using \<open>length s \<le> 4\<close> by (intro power_increasing) auto
  ultimately show ?thesis by simp
qed

lemma those_hextets_bound:
  "those_list (map parse_hextet ps) = Some ns \<Longrightarrow> length ns = length ps \<and> list_all (\<lambda>n. n < 65536) ns"
  unfolding those_list_Some list_all_iff
  by (metis (no_types, lifting) imageE image_eqI length_map list.set_map parse_hextet_bound)

lemma filter_upt_bound: "filter P [a..<n - Suc 0] = [k] \<Longrightarrow> min n k = k"
proof -
  assume "filter P [a..<n - Suc 0] = [k]"
  then have "k \<in> set (filter P [a..<n - Suc 0])" by simp
  then show ?thesis by auto
qed

lemma all_replicate: "list_all P (replicate n x) \<longleftrightarrow> n = 0 \<or> P x"
  by (auto simp: list_all_iff)

lemma ipv6_hextets_ok:
  assumes "ipv6_hextets s = Some hs"
  shows "length hs = 8 \<and> list_all (\<lambda>n. n < 65536) hs"
proof -
  from assms obtain ps where "ipv6_of_parts ps = Some hs"
    by (auto simp: ipv6_hextets_def split: option.splits)
  then show ?thesis
    unfolding ipv6_of_parts_def Let_def
    by (auto simp: all_replicate split: if_splits list.splits option.splits
        dest!: those_hextets_bound dest: filter_upt_bound)
qed

lemma ipv4_octets_chars: "ipv4_octets s = Some os \<Longrightarrow> c \<in> set s \<Longrightarrow> is_digit c \<or> c = CHR ''.''"
proof -
  assume a: "ipv4_octets s = Some os" and c: "c \<in> set s"
  have "set s \<subseteq> \<Union>(set ` set (py_split (CHR ''.'') s)) \<union> {CHR ''.''}"
    by (induction "CHR ''.''" s rule: py_split.induct) (auto split: list.splits, blast)
  moreover have "list_all is_digit p" if "p \<in> set (py_split (CHR ''.'') s)" for p
    using a that by (auto simp: ipv4_octets_def Let_def those_list_Some dest: parse_octet_bound split: if_splits)
      (metis image_eqI imageE list.set_map parse_octet_bound)
  ultimately show ?thesis using c by (fastforce simp: list_all_iff)
qed

lemma py_partition_simps:
  "c \<notin> set a \<Longrightarrow> py_partition c a = (a, False, [])"
  "c \<notin> set a \<Longrightarrow> py_partition c (a @ c # b) = (a, True, b)"
  by (induction a) (auto simp: py_partition_def)

lemma ip_parse_text:
  assumes "ip_parse s = Some a"
  shows "ip_parse (ip_text a) = Some a"
proof (cases "ipv4_octets s")
  case (Some os)
  with assms show ?thesis
    using ipv4_octets_ok[OF Some] ipv4_roundtrip by (auto simp: ip_parse_def)
next
  case None
  with assms obtain addr scoped scope hs where
    parts: "py_partition (CHR ''%'') s = (addr, scoped, scope)" "CHR ''/'' \<notin> set s"
      "\<not> (scoped \<and> (scope = [] \<or> CHR ''%'' \<in> set scope))" "ipv6_hextets addr = Some hs"
    and a: "a = IPv6 hs (if scoped then Some scope else None)"
    by (auto simp: ip_parse_def split: if_splits prod.splits option.splits)
  define t where "t = ip_text a"
  have t: "t = ipv6_text hs @ (if scoped then CHR ''%'' # scope else [])" by (simp add: t_def a)
  note rt = ipv6_roundtrip[of hs] ipv6_hextets_ok[OF parts(4)]
  have no: "\<not> is_lower_hex (CHR ''%'')" "\<not> is_lower_hex (CHR ''/'')" "\<not> is_digit (CHR '':'')"
    by (auto simp: is_lower_hex_def is_digit_def)
  have chars: "CHR ''%'' \<notin> set (ipv6_text hs)" "CHR ''/'' \<notin> set (ipv6_text hs)"
    using rt no by fastforce+
  have "CHR '':'' \<in> set t" using rt t by simp
  then have v4: "ipv4_octets t = None"
    using ipv4_octets_chars[of t _ "CHR '':''"] no(3) by (cases "ipv4_octets t") auto
  have "set scope \<subseteq> set s"
    using parts(1) by (auto simp: py_partition_def dest!: in_set_dropD set_dropWhileD)
  then have slash: "CHR ''/'' \<notin> set t" using t chars(2) parts(2) by auto
  have "py_partition (CHR ''%'') t = (ipv6_text hs, scoped, if scoped then scope else [])"
    using chars(1) by (simp add: t py_partition_simps)
  with v4 slash parts(3) rt have "ip_parse t = Some a" by (auto simp: ip_parse_def a)
  then show ?thesis by (simp add: t_def)
qed

lemma ip_address_idem: "ip_address s = Some (v6, t) \<Longrightarrow> ip_address t = Some (v6, t)"
  by (auto simp: ip_address_def ip_parse_text)

lemma ip_compressed_idem: "ip_compressed s = Some t \<Longrightarrow> ip_compressed t = Some t"
  by (auto simp: ip_compressed_def dest: ip_address_idem)

section \<open>URLs\<close>

record split_url =
  url_scheme :: string
  url_netloc :: string
  url_path :: string
  url_query :: string
  url_fragment :: string

definition scheme_char :: "char \<Rightarrow> bool" where
  "scheme_char c \<longleftrightarrow> is_lower_az c \<or> is_upper_az c \<or> is_digit c
     \<or> c = CHR ''+'' \<or> c = CHR ''-'' \<or> c = CHR ''.''"

definition netloc_end :: "char \<Rightarrow> bool" where
  "netloc_end c \<longleftrightarrow> c = CHR ''/'' \<or> c = CHR ''?'' \<or> c = CHR ''#''"

definition bracketed_host_ok :: "string \<Rightarrow> bool" where
  "bracketed_host_ok host =
     (if starts_with ''v'' host
      then takeWhile is_hex (drop 1 host) \<noteq> []
        \<and> (case dropWhile is_hex (drop 1 host) of
             c # d # rest \<Rightarrow> c = CHR ''.''
           | _ \<Rightarrow> False)
      else case ip_address host of Some (True, _) \<Rightarrow> True | _ \<Rightarrow> False)"

definition netloc_brackets_ok :: "string \<Rightarrow> bool" where
  "netloc_brackets_ok netloc \<longleftrightarrow>
     (CHR ''['' \<in> set netloc \<longleftrightarrow> CHR '']'' \<in> set netloc)
     \<and> (CHR ''['' \<in> set netloc \<longrightarrow> bracketed_host_ok
          (fst (py_partition (CHR '']'') (snd (snd (py_partition (CHR ''['') netloc))))))"

text \<open>The path, the query and the fragment of what follows the network location.\<close>

definition path_part :: "string \<Rightarrow> string" where
  "path_part rest = takeWhile (\<lambda>c. c \<noteq> CHR ''?'' \<and> c \<noteq> CHR ''#'') rest"

definition query_fragment :: "string \<Rightarrow> string \<times> string" where
  "query_fragment rest =
     (case py_partition (CHR ''#'') rest of (front, _, fragment) \<Rightarrow>
        (snd (snd (py_partition (CHR ''?'') front)), fragment))"

definition urlsplit :: "string \<Rightarrow> split_url option" where
  "urlsplit url =
     (let u = filter (\<lambda>c. ord c \<noteq> 9 \<and> ord c \<noteq> 10 \<and> ord c \<noteq> 13) (dropWhile (\<lambda>c. ord c \<le> 32) url);
          head = takeWhile (\<lambda>c. c \<noteq> CHR '':'') u;
          schemed = (CHR '':'' \<in> set u \<and> head \<noteq> [] \<and> (is_lower_az (hd u) \<or> is_upper_az (hd u))
            \<and> list_all scheme_char head);
          scheme = (if schemed then py_lower head else []);
          rest = (if schemed then drop (Suc (length head)) u else u);
          located = (take 2 rest = ''//'');
          netloc = (if located then takeWhile (\<lambda>c. \<not> netloc_end c) (drop 2 rest) else []);
          tail = (if located then dropWhile (\<lambda>c. \<not> netloc_end c) (drop 2 rest) else rest)
      in if \<not> netloc_brackets_ok netloc then None
         else case query_fragment tail of (query, fragment) \<Rightarrow>
           Some \<lparr>url_scheme = scheme, url_netloc = netloc, url_path = path_part tail, url_query = query,
             url_fragment = fragment\<rparr>)"

definition url_host_port :: "string \<Rightarrow> string \<times> string" where
  "url_host_port netloc =
     (let hostinfo = rev (takeWhile (\<lambda>c. c \<noteq> CHR ''@'') (rev netloc))
      in if CHR ''['' \<in> set hostinfo
         then (case py_partition (CHR '']'') (snd (snd (py_partition (CHR ''['') hostinfo))) of
           (host, _, port) \<Rightarrow> (host, snd (snd (py_partition (CHR '':'') port))))
         else (case py_partition (CHR '':'') hostinfo of (host, _, port) \<Rightarrow> (host, port)))"

text \<open>The \<open>port\<close> attribute: \<open>None\<close> is the \<open>ValueError\<close>, \<open>Some None\<close> no port.\<close>

definition url_port :: "string \<Rightarrow> nat option option" where
  "url_port netloc = (let port = snd (url_host_port netloc) in
     if port = [] then Some None
     else if list_all is_digit port \<and> length port \<le> 4300 \<and> nat_of_dec port \<le> 65535
     then Some (Some (nat_of_dec port)) else None)"

text \<open>\<open>username\<close> and \<open>password\<close>, the empty text also standing for \<open>None\<close>.\<close>

definition url_userinfo :: "string \<Rightarrow> string \<times> string" where
  "url_userinfo netloc =
     (if CHR ''@'' \<in> set netloc
      then case py_partition (CHR '':'') (rev (drop 1 (dropWhile (\<lambda>c. c \<noteq> CHR ''@'') (rev netloc)))) of
        (user, _, password) \<Rightarrow> (user, password)
      else ([], []))"

text \<open>
  The check that the gateway and the agent make of the public base URL: \<open>Some\<close> its text without
  trailing slashes.
\<close>

definition public_base_ok :: "string \<Rightarrow> bool" where
  "public_base_ok v \<longleftrightarrow> v \<noteq> [] \<and> list_all (\<lambda>c. 32 < ord c) v
     \<and> (case urlsplit v of None \<Rightarrow> False
        | Some u \<Rightarrow> url_scheme u = ''https'' \<and> url_netloc u \<noteq> [] \<and> fst (url_host_port (url_netloc u)) \<noteq> []
            \<and> CHR ''@'' \<notin> set (url_netloc u) \<and> url_query u = [] \<and> url_fragment u = []
            \<and> (case url_port (url_netloc u) of
                 None \<Rightarrow> False | Some None \<Rightarrow> True | Some (Some p) \<Rightarrow> 1 \<le> p))"

definition public_base :: "string \<Rightarrow> string option" where
  "public_base v = (if public_base_ok v then Some (py_rstrip_char (CHR ''/'') v) else None)"

definition https_url :: "string \<Rightarrow> bool" where
  "https_url v = (case urlsplit v of None \<Rightarrow> False
     | Some u \<Rightarrow> url_scheme u = ''https'' \<and> fst (url_host_port (url_netloc u)) \<noteq> []
         \<and> url_userinfo (url_netloc u) = ([], []) \<and> url_query u = [] \<and> url_fragment u = [])"

section \<open>Checking the public base twice changes nothing\<close>

lemma py_rstrip_append:
  "xs \<noteq> [] \<Longrightarrow> last xs \<noteq> c \<Longrightarrow> py_rstrip_char c (xs @ ys) = xs @ py_rstrip_char c ys"
  by (cases xs rule: rev_cases)
     (auto simp: py_rstrip_char_def py_rstrip_by_def dropWhile_append dropWhile_eq_Nil_conv)

lemma py_rstrip_idem [simp]: "py_rstrip_char c (py_rstrip_char c s) = py_rstrip_char c s"
  by (simp add: py_rstrip_char_def py_rstrip_by_def dropWhile_idem)

lemma set_py_rstrip: "set (py_rstrip_char c s) \<subseteq> set s"
  by (auto simp: py_rstrip_char_def py_rstrip_by_def dest: set_dropWhileD)

lemma py_rstrip_last: "s = [] \<or> last s \<noteq> c \<Longrightarrow> py_rstrip_char c s = s"
  by (cases s rule: rev_cases) (auto simp: py_rstrip_char_def py_rstrip_by_def)

lemma py_rstrip_hd: "py_rstrip_char c s = [] \<or> hd (py_rstrip_char c s) = hd s"
proof (induction s rule: rev_induct)
  case (snoc x s)
  then show ?case
    by (cases "s = []") (auto simp: py_rstrip_char_def py_rstrip_by_def hd_append)
qed (simp add: py_rstrip_char_def py_rstrip_by_def)

lemma py_partition_end:
  "snd (snd (py_partition c s)) = [] \<Longrightarrow> c \<in> set s \<Longrightarrow> last s = c"
proof (induction s)
  case (Cons x s)
  then show ?case by (cases "x = c") (auto simp: py_partition_def)
qed simp

lemma query_fragment_rstrip:
  assumes "query_fragment t = ([], [])"
  shows "query_fragment (py_rstrip_char (CHR ''/'') t) = ([], [])"
proof (cases "t = [] \<or> last t \<noteq> CHR ''/''")
  case False
  then have l: "last t = CHR ''/''" by simp
  from assms have f: "snd (snd (py_partition (CHR ''#'') t)) = []"
    and q: "snd (snd (py_partition (CHR ''?'') (fst (py_partition (CHR ''#'') t)))) = []"
    by (auto simp: query_fragment_def split: prod.splits)
  have h: "CHR ''#'' \<notin> set t" using py_partition_end[OF f] l by auto
  then have "CHR ''?'' \<notin> set t" using py_partition_end[of "CHR ''?''" t] q l
    by (auto simp: py_partition_simps)
  with h have "CHR ''#'' \<notin> set (py_rstrip_char (CHR ''/'') t)"
    "CHR ''?'' \<notin> set (py_rstrip_char (CHR ''/'') t)" using set_py_rstrip by blast+
  then show ?thesis by (simp add: query_fragment_def py_partition_simps)
qed (simp add: py_rstrip_last assms)

text \<open>How a URL with a scheme and a network location is taken apart.\<close>

definition url_form :: "string \<Rightarrow> string \<Rightarrow> string \<Rightarrow> bool" where
  "url_form sch netloc tail \<longleftrightarrow> sch \<noteq> [] \<and> (is_lower_az (hd sch) \<or> is_upper_az (hd sch))
     \<and> list_all scheme_char sch \<and> list_all (\<lambda>c. \<not> netloc_end c) netloc
     \<and> (tail = [] \<or> netloc_end (hd tail))
     \<and> list_all (\<lambda>c. 32 < ord c) (sch @ ''://'' @ netloc @ tail)"

lemma printable_kept:
  "list_all (\<lambda>c. 32 < ord c) v
   \<Longrightarrow> filter (\<lambda>c. ord c \<noteq> 9 \<and> ord c \<noteq> 10 \<and> ord c \<noteq> 13) (dropWhile (\<lambda>c. ord c \<le> 32) v) = v"
  by (cases v) (auto simp: list_all_iff filter_id_conv)

lemma dropWhile_hd: "dropWhile P xs = [] \<or> \<not> P (hd (dropWhile P xs))"
  by (induction xs) auto

lemma urlsplit_form:
  assumes "url_form sch netloc tail"
  shows "urlsplit (sch @ ''://'' @ netloc @ tail) =
    (if \<not> netloc_brackets_ok netloc then None
     else Some \<lparr>url_scheme = py_lower sch, url_netloc = netloc, url_path = path_part tail,
       url_query = fst (query_fragment tail), url_fragment = snd (query_fragment tail)\<rparr>)"
proof -
  let ?u = "sch @ ''://'' @ netloc @ tail"
  have u: "filter (\<lambda>c. ord c \<noteq> 9 \<and> ord c \<noteq> 10 \<and> ord c \<noteq> 13) (dropWhile (\<lambda>c. ord c \<le> 32) ?u) = ?u"
    using assms unfolding url_form_def by (intro printable_kept) blast
  have "CHR '':'' \<notin> set sch"
    using assms by (auto simp: url_form_def list_all_iff scheme_char_def py_defs)
  then have head: "takeWhile (\<lambda>c. c \<noteq> CHR '':'') ?u = sch"
    by (auto simp: takeWhile_append takeWhile_eq_all_conv)
  have nl: "takeWhile (\<lambda>c. \<not> netloc_end c) (netloc @ tail) = netloc"
    "dropWhile (\<lambda>c. \<not> netloc_end c) (netloc @ tail) = tail"
    using assms by (cases tail; auto simp: url_form_def list_all_iff takeWhile_append2 dropWhile_append3)+
  show ?thesis
    unfolding urlsplit_def Let_def u head
    using assms by (simp add: url_form_def nl split: prod.splits)
qed

lemma url_form_split:
  assumes "list_all (\<lambda>c. 32 < ord c) v" and s: "urlsplit v = Some s" "url_scheme s \<noteq> []" "url_netloc s \<noteq> []"
  obtains sch netloc tail where "v = sch @ ''://'' @ netloc @ tail" "url_form sch netloc tail" "netloc \<noteq> []"
proof -
  have u: "filter (\<lambda>c. ord c \<noteq> 9 \<and> ord c \<noteq> 10 \<and> ord c \<noteq> 13) (dropWhile (\<lambda>c. ord c \<le> 32) v) = v"
    using assms(1) by (rule printable_kept)
  define sch where "sch = takeWhile (\<lambda>c. c \<noteq> CHR '':'') v"
  define rest where "rest = drop (Suc (length sch)) v"
  from s have c: "CHR '':'' \<in> set v" "sch \<noteq> []" "is_lower_az (hd v) \<or> is_upper_az (hd v)"
      "list_all scheme_char sch"
    and loc: "take 2 rest = ''//''" "takeWhile (\<lambda>c. \<not> netloc_end c) (drop 2 rest) \<noteq> []"
    unfolding urlsplit_def Let_def u rest_def sch_def
    by (auto split: if_splits prod.splits)
  have "v = sch @ '':'' @ rest"
  proof -
    have "dropWhile (\<lambda>c. c \<noteq> CHR '':'') v \<noteq> []" using c(1) by (auto simp: dropWhile_eq_Nil_conv)
    then obtain r where r: "dropWhile (\<lambda>c. c \<noteq> CHR '':'') v = CHR '':'' # r"
      using hd_dropWhile[of "\<lambda>c. c \<noteq> CHR '':''" v] by (cases "dropWhile (\<lambda>c. c \<noteq> CHR '':'') v") auto
    have v: "v = sch @ CHR '':'' # r"
      using takeWhile_dropWhile_id[of "\<lambda>c. c \<noteq> CHR '':''" v] r by (simp add: sch_def)
    have "rest = r" unfolding rest_def by (subst v) simp
    with v show ?thesis by simp
  qed
  moreover have "rest = ''//'' @ takeWhile (\<lambda>c. \<not> netloc_end c) (drop 2 rest)
      @ dropWhile (\<lambda>c. \<not> netloc_end c) (drop 2 rest)"
    using append_take_drop_id[of 2 rest] loc(1) by simp
  ultimately have v: "v = sch @ ''://'' @ takeWhile (\<lambda>c. \<not> netloc_end c) (drop 2 rest)
      @ dropWhile (\<lambda>c. \<not> netloc_end c) (drop 2 rest)" by simp
  moreover have "hd v = hd sch" using c(2) v by (metis hd_append2)
  moreover have "list_all (\<lambda>c. \<not> netloc_end c) (takeWhile (\<lambda>c. \<not> netloc_end c) (drop 2 rest))"
    by (auto simp: list_all_iff dest: set_takeWhileD)
  moreover have "dropWhile (\<lambda>c. \<not> netloc_end c) (drop 2 rest) = []
      \<or> netloc_end (hd (dropWhile (\<lambda>c. \<not> netloc_end c) (drop 2 rest)))"
    using dropWhile_hd[of "\<lambda>c. \<not> netloc_end c"] by blast
  ultimately have "url_form sch (takeWhile (\<lambda>c. \<not> netloc_end c) (drop 2 rest))
      (dropWhile (\<lambda>c. \<not> netloc_end c) (drop 2 rest))"
    using c assms(1) unfolding url_form_def by simp
  from that[OF v this loc(2)] show ?thesis .
qed

lemma public_base_form:
  assumes "public_base_ok v"
  obtains sch netloc tail where "v = sch @ ''://'' @ netloc @ tail" "url_form sch netloc tail" "netloc \<noteq> []"
proof -
  from assms obtain s where s: "list_all (\<lambda>c. 32 < ord c) v" "urlsplit v = Some s" "url_scheme s \<noteq> []" "url_netloc s \<noteq> []"
    by (auto simp: public_base_ok_def split: option.splits)
  from url_form_split[OF this] that show thesis .
qed

lemma public_base_idem:
  assumes "public_base v = Some b"
  shows "public_base b = Some b"
proof -
  from assms have ok: "public_base_ok v" and b: "b = py_rstrip_char (CHR ''/'') v"
    by (auto simp: public_base_def split: if_splits)
  from public_base_form[OF ok] obtain sch netloc tail where
    v: "v = sch @ ''://'' @ netloc @ tail" and form: "url_form sch netloc tail" and ne: "netloc \<noteq> []"
    by blast
  let ?tail = "py_rstrip_char (CHR ''/'') tail"
  have "last netloc \<noteq> CHR ''/''"
    using form ne last_in_set[OF ne] by (auto simp: url_form_def list_all_iff netloc_end_def)
  then have b': "b = sch @ ''://'' @ netloc @ ?tail"
    using py_rstrip_append[of "sch @ ''://'' @ netloc" "CHR ''/''" tail] ne by (simp add: b v)
  have "?tail = [] \<or> hd ?tail = hd tail" by (rule py_rstrip_hd)
  then have form': "url_form sch netloc ?tail"
    using form set_py_rstrip[of "CHR ''/''" tail]
    by (auto simp: url_form_def list_all_iff subset_iff)
  have sv: "urlsplit v = Some \<lparr>url_scheme = py_lower sch, url_netloc = netloc, url_path = path_part tail,
      url_query = [], url_fragment = []\<rparr>" and qf: "query_fragment tail = ([], [])" and br: "netloc_brackets_ok netloc"
    using ok urlsplit_form[OF form]
    by (auto simp: public_base_ok_def v prod_eq_iff split: if_splits)
  have "urlsplit b = Some \<lparr>url_scheme = py_lower sch, url_netloc = netloc, url_path = path_part ?tail,
      url_query = [], url_fragment = []\<rparr>"
    unfolding b' urlsplit_form[OF form'] using query_fragment_rstrip[OF qf] br by simp
  moreover have "list_all (\<lambda>c. 32 < ord c) b" using form' by (simp add: b' url_form_def)
  ultimately have "public_base_ok b" using ok ne sv by (simp add: public_base_ok_def b')
  then show ?thesis by (simp add: public_base_def b)
qed

end
