(* ===== verification/Gateway_Request.thy ===== *)
theory Gateway_Request
  imports Py_Json Py_Net
begin

text \<open>
  The public side of the gateway (\<open>gateway/x402_lambda/src/envelope.py\<close>): what it takes from an
  API Gateway proxy event and the envelope it builds. SHA-256 is a parameter.
\<close>

datatype gateway_request_error = GatewayRequestError (error_code: string) (error_status: int)

definition gateway_error :: "string \<Rightarrow> gateway_request_error + 'a" where
  "gateway_error code = Inl (GatewayRequestError code 400)"

definition ALLOWED_HEADERS :: "string list" where
  "ALLOWED_HEADERS = [''accept'', ''content-type'', ''payment-signature'', ''x-job-token'']"

definition job_path :: "string \<Rightarrow> bool" where
  "job_path path \<longleftrightarrow> starts_with ''/x402/jobs/x402_'' path
     \<and> list_all is_lower_hex (take 32 (drop 16 path))
     \<and> (length path = 48 \<or> length path = 55 \<and> drop 48 path = ''/resume'')"

definition gateway_header_re :: "string \<Rightarrow> bool" where
  "gateway_header_re s \<longleftrightarrow> s \<noteq> [] \<and> list_all (\<lambda>c. is_lower_az c \<or> is_digit c \<or> c = CHR ''-'') s"

definition MAX_BODY_BYTES :: nat where "MAX_BODY_BYTES = 256 * 1024"
definition MAX_HEADER_SIGNATURE_CHARACTERS :: nat where
  "MAX_HEADER_SIGNATURE_CHARACTERS = 32 * 1024"

definition trusted_source_ip :: "dict \<Rightarrow> gateway_request_error + string" where
  "trusted_source_ip event =
     (case dict_get event ''requestContext'' of
        JDict context \<Rightarrow>
          (case dict_get context ''identity'' of
             JDict identity \<Rightarrow>
               (case dict_get identity ''sourceIp'' of
                  JStr value \<Rightarrow>
                    (case ip_compressed value of
                       None \<Rightarrow> gateway_error ''source_ip_unavailable''
                     | Some ip \<Rightarrow> Inr ip)
                | _ \<Rightarrow> gateway_error ''source_ip_unavailable'')
           | _ \<Rightarrow> gateway_error ''source_ip_unavailable'')
      | _ \<Rightarrow> gateway_error ''source_ip_unavailable'')"

definition without_stage_prefix :: "string \<Rightarrow> json \<Rightarrow> string" where
  "without_stage_prefix path request_context =
     (case (case request_context of JDict context \<Rightarrow> dict_get context ''stage'' | _ \<Rightarrow> JNull) of
        JStr stage \<Rightarrow>
          (if stage = [] then path
           else let prefix = ''/'' @ stage
                in if path = prefix then ''/''
                   else if starts_with (prefix @ ''/'') path then drop (length prefix) path
                   else path)
      | _ \<Rightarrow> path)"

definition validated_route :: "dict \<Rightarrow> gateway_request_error + (string \<times> string)" where
  "validated_route event =
     (case (dict_get event ''httpMethod'', dict_get event ''path'') of
        (JStr method, JStr raw_path) \<Rightarrow>
          (let path = without_stage_prefix raw_path (dict_get event ''requestContext'')
           in if (method, path) = (''GET'', ''/x402/price'')
                 \<or> (method, path) = (''POST'', ''/x402/analyze/async'')
                 \<or> (job_path path
                    \<and> (method = ''GET'' \<and> \<not> ends_with ''/resume'' path
                       \<or> method = ''POST'' \<and> ends_with ''/resume'' path))
              then Inr (method, path) else gateway_error ''route_not_allowed'')
      | _ \<Rightarrow> gateway_error ''route_not_allowed'')"

definition empty_query :: "json \<Rightarrow> bool" where
  "empty_query v \<longleftrightarrow> v = JNull \<or> v = JDict []"

definition validated_query :: "dict \<Rightarrow> gateway_request_error + string" where
  "validated_query event =
     (if empty_query (dict_get event ''queryStringParameters'')
         \<and> empty_query (dict_get event ''multiValueQueryStringParameters'')
      then Inr [] else gateway_error ''query_not_allowed'')"

definition decode_body :: "dict \<Rightarrow> gateway_request_error + bytes" where
  "decode_body event =
     (case dict_get_or event ''isBase64Encoded'' (JBool False) of
        JBool encoded \<Rightarrow>
          sum_bind (case dict_get event ''body'' of
              JNull \<Rightarrow> Inr []
            | JStr raw_body \<Rightarrow>
                (if encoded then
                   (case b64decode raw_body of
                      None \<Rightarrow> gateway_error ''invalid_body_base64''
                    | Some body \<Rightarrow> Inr body)
                 else Inr (utf8 raw_body))
            | _ \<Rightarrow> gateway_error ''invalid_request_body'') (\<lambda>body.
          if length body > MAX_BODY_BYTES then Inl (GatewayRequestError ''request_too_large'' 413)
          else Inr body)
      | _ \<Rightarrow> gateway_error ''invalid_body_base64'')"

definition header_name :: "string \<Rightarrow> gateway_request_error + string" where
  "header_name raw_name = (let name = py_lower raw_name in
     if \<not> gateway_header_re name then gateway_error ''request_header_not_allowed'' else Inr name)"

definition header_value_ok :: "string \<Rightarrow> string \<Rightarrow> bool" where
  "header_value_ok name v \<longleftrightarrow> list_all (\<lambda>c. ord c \<noteq> 13 \<and> ord c \<noteq> 10 \<and> ord c \<noteq> 0) v
     \<and> \<not> (name = ''payment-signature'' \<and> length v > MAX_HEADER_SIGNATURE_CHARACTERS)"

definition record_header :: "dict \<Rightarrow> string \<Rightarrow> json \<Rightarrow> gateway_request_error + dict" where
  "record_header headers raw_name value =
     sum_bind (header_name raw_name) (\<lambda>name.
     if name \<notin> set ALLOWED_HEADERS then Inr headers
     else case value of
       JStr v \<Rightarrow>
         (if \<not> header_value_ok name v then gateway_error ''request_header_not_allowed''
          else if dict_has headers name \<and> dict_get headers name \<noteq> JStr v
          then gateway_error ''request_header_not_allowed''
          else Inr (dict_put headers name (JStr v)))
     | _ \<Rightarrow> gateway_error ''request_header_not_allowed'')"

fun record_headers :: "dict \<Rightarrow> dict \<Rightarrow> gateway_request_error + dict" where
  "record_headers headers [] = Inr headers"
| "record_headers headers ((raw_name, value) # rest) =
     sum_bind (record_header headers raw_name value) (\<lambda>headers'. record_headers headers' rest)"

fun record_multi_headers :: "dict \<Rightarrow> dict \<Rightarrow> gateway_request_error + dict" where
  "record_multi_headers headers [] = Inr headers"
| "record_multi_headers headers ((raw_name, values) # rest) =
     sum_bind (header_name raw_name) (\<lambda>name.
     if name \<notin> set ALLOWED_HEADERS then record_multi_headers headers rest
     else case values of
       JList [value] \<Rightarrow>
         sum_bind (record_header headers raw_name value) (\<lambda>headers'. record_multi_headers headers' rest)
     | _ \<Rightarrow> gateway_error ''request_header_not_allowed'')"

definition allowed_headers :: "json \<Rightarrow> json \<Rightarrow> gateway_request_error + dict" where
  "allowed_headers raw_headers multi_value_headers =
     (case raw_headers of
        JDict raw \<Rightarrow>
          sum_bind (record_headers [] raw) (\<lambda>headers.
          case multi_value_headers of
            JNull \<Rightarrow> Inr headers
          | JDict multi \<Rightarrow> record_multi_headers headers multi
          | _ \<Rightarrow> gateway_error ''invalid_request_headers'')
      | _ \<Rightarrow> gateway_error ''invalid_request_headers'')"

definition gateway_public_base :: "string \<Rightarrow> gateway_request_error + string" where
  "gateway_public_base value = (case public_base value of
     None \<Rightarrow> gateway_error ''invalid_public_base_url''
   | Some b \<Rightarrow> Inr b)"

definition header_text :: "dict \<Rightarrow> string \<Rightarrow> string" where
  "header_text headers name = py_str (dict_get_or headers name (JStr []))"

definition request_material :: "string \<Rightarrow> string \<Rightarrow> string \<Rightarrow> dict \<Rightarrow> bytes \<Rightarrow> bytes" where
  "request_material method path query_string headers body =
     concat [''x402-gateway-v1'' @ [chr 0], method, [chr 0], path, [chr 0], query_string, [chr 0],
       utf8 (header_text headers ''payment-signature''), [chr 0],
       utf8 (header_text headers ''x-job-token''), [chr 0], body]"

definition build_envelope ::
  "(bytes \<Rightarrow> bytes) \<Rightarrow> dict \<Rightarrow> string \<Rightarrow> gateway_request_error + dict" where
  "build_envelope sha event public_base_url =
     sum_bind (validated_route event) (\<lambda>(method, path).
     sum_bind (trusted_source_ip event) (\<lambda>source_ip.
     sum_bind (validated_query event) (\<lambda>query_string.
     sum_bind (decode_body event) (\<lambda>body.
     if method = ''GET'' \<and> body \<noteq> [] then gateway_error ''get_request_body_not_allowed''
     else sum_bind (allowed_headers (py_or (dict_get event ''headers'') (JDict []))
         (dict_get event ''multiValueHeaders'')) (\<lambda>headers.
     sum_bind (gateway_public_base public_base_url) (\<lambda>base.
       Inr [(''version'', JInt 1),
         (''requestId'',
           JStr (''x402gw_'' @ bytes_hex (sha (request_material method path query_string headers body)))),
         (''method'', JStr method), (''path'', JStr path), (''queryString'', JStr query_string),
         (''publicBaseUrl'', JStr base), (''headers'', JDict headers),
         (''bodyBase64'', JStr (b64encode body)), (''sourceIp'', JStr source_ip)]))))))"

section \<open>What the gateway lets through\<close>

definition headers_ok :: "dict \<Rightarrow> bool" where
  "headers_ok headers \<longleftrightarrow> distinct (map fst headers)
     \<and> (\<forall>(name, value)\<in>set headers. name \<in> set ALLOWED_HEADERS
        \<and> (\<exists>v. value = JStr v \<and> header_value_ok name v))"

lemma set_dict_put: "kv \<in> set (dict_put d k x) \<Longrightarrow> kv = (k, x) \<or> kv \<in> set d"
  by (induction d k x rule: dict_put.induct) (auto split: if_splits)

lemma headers_ok_put:
  "headers_ok headers \<Longrightarrow> name \<in> set ALLOWED_HEADERS \<Longrightarrow> header_value_ok name v
   \<Longrightarrow> headers_ok (dict_put headers name (JStr v))"
  unfolding headers_ok_def by (auto simp: distinct_dict_put dest!: set_dict_put)

lemma record_header_ok:
  "record_header headers raw_name value = Inr headers' \<Longrightarrow> headers_ok headers \<Longrightarrow> headers_ok headers'"
  by (auto simp: record_header_def sum_bind_Inr gateway_error_def headers_ok_put
      split: if_splits json.splits)

lemma record_headers_ok:
  "record_headers headers raw = Inr headers' \<Longrightarrow> headers_ok headers \<Longrightarrow> headers_ok headers'"
  by (induction headers raw rule: record_headers.induct)
     (auto simp: sum_bind_Inr dest: record_header_ok)

lemma record_multi_headers_ok:
  "record_multi_headers headers raw = Inr headers' \<Longrightarrow> headers_ok headers \<Longrightarrow> headers_ok headers'"
proof (induction raw arbitrary: headers)
  case (Cons item rest)
  obtain raw_name vs where item: "item = (raw_name, vs)" by fastforce
  from Cons.prems(1) obtain name where name: "header_name raw_name = Inr name"
    by (auto simp: item sum_bind_Inr)
  show ?case
  proof (cases "name \<in> set ALLOWED_HEADERS")
    case True
    with Cons.prems(1) name obtain v0 mid where
      "record_header headers raw_name v0 = Inr mid" "record_multi_headers mid rest = Inr headers'"
      by (auto simp: item gateway_error_def sum_bind_Inr split: json.splits list.splits)
    with Cons.IH Cons.prems(2) record_header_ok show ?thesis by blast
  next
    case False
    with Cons name show ?thesis by (auto simp: item)
  qed
qed simp

lemma allowed_headers_ok:
  assumes "allowed_headers raw multi = Inr headers"
  shows "headers_ok headers"
proof -
  from assms obtain d first where d: "record_headers [] d = Inr first"
    and rest: "multi = JNull \<and> headers = first
      \<or> (\<exists>m. multi = JDict m \<and> record_multi_headers first m = Inr headers)"
    by (cases multi) (auto simp: allowed_headers_def sum_bind_Inr gateway_error_def split: json.splits)
  have "headers_ok first" using record_headers_ok[OF d] by (simp add: headers_ok_def)
  with rest record_multi_headers_ok show ?thesis by blast
qed

lemma decode_body_bound: "decode_body event = Inr body \<Longrightarrow> length body \<le> MAX_BODY_BYTES"
  by (auto simp: decode_body_def sum_bind_Inr gateway_error_def split: json.splits if_splits)

end
