(* ===== verification/Gateway_Client.thy ===== *)
theory Gateway_Client
  imports Gateway_Request
begin

text \<open>
  The private side of the gateway: the A2A client (\<open>agentcore_client.py\<close>), the OAuth client with its
  warm caches (\<open>oauth_client.py\<close>) and the Lambda handler that composes them (\<open>handler.py\<close>). The
  HTTP transports, the secret reader, the clock and random tokens are functions of the world.
\<close>

section \<open>Exceptions and the outside\<close>

datatype gateway_exn =
    RequestError gateway_request_error
  | AgentInvocationUnauthorized
  | AgentInvocationRateLimited
  | AgentInvocationTimeout
  | AgentInvocationUnavailable
  | InvalidAgentResponse
  | OAuthUnavailable string
  | GatewayConfigurationError
  | TransportTimeout
  | OtherGatewayError

text \<open>A transport response: \<open>None\<close> is a body that is not a byte string.\<close>

record transport_response =
  resp_status :: json
  resp_body :: "bytes option"

record transport_request =
  http_url :: string
  http_headers :: "(string \<times> string) list"
  http_body :: bytes

record ('w, 't) gateway_services =
  agent_transport :: "transport_request \<Rightarrow> 'w \<Rightarrow> (gateway_exn + transport_response option) \<times> 'w"
  token_transport :: "transport_request \<Rightarrow> 'w \<Rightarrow> (gateway_exn + transport_response option) \<times> 'w"
  secret_reader :: "'w \<Rightarrow> (gateway_exn + string) \<times> 'w"
  monotonic :: "'w \<Rightarrow> 't \<times> 'w"
  session_token :: "'w \<Rightarrow> string \<times> 'w"
  gateway_float :: "string \<Rightarrow> pyfloat"
  gateway_sha256 :: "bytes \<Rightarrow> bytes"

definition gateway_json :: "('w, 't) gateway_services \<Rightarrow> string \<Rightarrow> json option" where
  "gateway_json E text = json_parse (default_hooks (gateway_float E)) text"

section \<open>The A2A client\<close>

definition MAX_AGENTCORE_RESPONSE_BYTES :: nat where
  "MAX_AGENTCORE_RESPONSE_BYTES = 3 * 1024 * 1024"

definition MAX_CLIENT_RESPONSE_BYTES :: nat where
  "MAX_CLIENT_RESPONSE_BYTES = 2 * 1024 * 1024"

definition CLIENT_RESPONSE_HEADERS :: "string list" where
  "CLIENT_RESPONSE_HEADERS = [''content-type'', ''location'', ''retry-after'', ''cache-control'', ''vary'',
     ''payment-required'', ''payment-response'']"

fun clean_response_headers :: "dict \<Rightarrow> gateway_exn + dict" where
  "clean_response_headers [] = Inr []"
| "clean_response_headers ((name, value) # headers) =
     (case value of
        JStr v \<Rightarrow>
          (if name \<notin> set CLIENT_RESPONSE_HEADERS \<or> \<not> gateway_header_re name
              \<or> \<not> list_all (\<lambda>c. ord c \<noteq> 13 \<and> ord c \<noteq> 10 \<and> ord c \<noteq> 0) v
           then Inl InvalidAgentResponse
           else sum_bind (clean_response_headers headers) (\<lambda>clean. Inr ((name, JStr v) # clean)))
      | _ \<Rightarrow> Inl InvalidAgentResponse)"

definition validated_response_envelope :: "dict \<Rightarrow> string \<Rightarrow> gateway_exn + dict" where
  "validated_response_envelope value request_id =
     (if \<not> keys_are value [''requestId'', ''status'', ''headers'', ''bodyBase64'']
         \<or> dict_get value ''requestId'' \<noteq> JStr request_id then Inl InvalidAgentResponse
      else case (dict_get value ''status'', dict_get value ''headers'', dict_get value ''bodyBase64'') of
        (JInt st, JDict headers, JStr body_base64) \<Rightarrow>
          (if \<not> (100 \<le> st \<and> st \<le> 599) then Inl InvalidAgentResponse
           else sum_bind (clean_response_headers headers) (\<lambda>clean.
           case b64decode body_base64 of
             None \<Rightarrow> Inl InvalidAgentResponse
           | Some decoded \<Rightarrow>
               (if length decoded > MAX_CLIENT_RESPONSE_BYTES then Inl InvalidAgentResponse
                else Inr [(''requestId'', JStr request_id), (''status'', JInt st),
                  (''headers'', JDict clean), (''bodyBase64'', JStr body_base64)])))
      | _ \<Rightarrow> Inl InvalidAgentResponse)"

definition data_part :: "json \<Rightarrow> json option" where
  "data_part part = (case part of
     JDict d \<Rightarrow> (if dict_get d ''kind'' = JStr ''data'' then Some (dict_get d ''data'') else None)
   | _ \<Rightarrow> None)"

text \<open>The parts of the result of a JSON-RPC response that is bound to the request.\<close>

definition response_parts :: "('w, 't) gateway_services \<Rightarrow> bytes \<Rightarrow> string \<Rightarrow> json option" where
  "response_parts E raw_body request_id =
     (case utf8_decode raw_body of
        None \<Rightarrow> None
      | Some text \<Rightarrow>
          (case gateway_json E text of
             Some (JDict payload) \<Rightarrow>
               (if dict_get payload ''jsonrpc'' \<noteq> JStr ''2.0''
                   \<or> dict_get payload ''id'' \<noteq> JStr request_id then None
                else case dict_get payload ''result'' of
                  JDict result \<Rightarrow>
                    (if dict_has result ''parts'' then Some (dict_get result ''parts'') else None)
                | _ \<Rightarrow> None)
           | _ \<Rightarrow> None))"

definition extract_response ::
  "('w, 't) gateway_services \<Rightarrow> transport_response option \<Rightarrow> string \<Rightarrow> gateway_exn + dict" where
  "extract_response E response request_id =
     (case response of
        None \<Rightarrow> Inl InvalidAgentResponse
      | Some r \<Rightarrow>
     (case resp_status r of
        JInt st \<Rightarrow>
     (if st = 401 \<or> st = 403 then Inl AgentInvocationUnauthorized
      else if st = 429 then Inl AgentInvocationRateLimited
      else if 500 \<le> st \<and> st \<le> 599 then Inl AgentInvocationUnavailable
      else if \<not> (200 \<le> st \<and> st \<le> 299) then Inl InvalidAgentResponse
      else case resp_body r of
        None \<Rightarrow> Inl InvalidAgentResponse
      | Some raw_body \<Rightarrow>
     (if length raw_body > MAX_AGENTCORE_RESPONSE_BYTES then Inl InvalidAgentResponse
      else case response_parts E raw_body request_id of
        Some (JList parts) \<Rightarrow>
          (case filter (\<lambda>p. p \<noteq> None) (map data_part parts) of
             [Some (JDict value)] \<Rightarrow> validated_response_envelope value request_id
           | _ \<Rightarrow> Inl InvalidAgentResponse)
      | _ \<Rightarrow> Inl InvalidAgentResponse))
      | _ \<Rightarrow> Inl InvalidAgentResponse))"

definition rpc_request :: "string \<Rightarrow> dict \<Rightarrow> json" where
  "rpc_request request_id envelope =
     JDict [(''jsonrpc'', JStr ''2.0''), (''id'', JStr request_id), (''method'', JStr ''message/send''),
       (''params'', JDict [(''message'', JDict [(''kind'', JStr ''message''),
          (''messageId'', JStr request_id), (''role'', JStr ''user''),
          (''parts'', JList [JDict [(''kind'', JStr ''data''),
             (''data'', JDict [(''skill'', JStr ''x402_http_envelope''),
                (''envelope'', JDict envelope)])]])])])]"

text \<open>What the client makes of an exception of its transport.\<close>

definition agent_exn :: "gateway_exn \<Rightarrow> gateway_exn" where
  "agent_exn e = (case e of
     TransportTimeout \<Rightarrow> AgentInvocationTimeout
   | AgentInvocationUnauthorized \<Rightarrow> e | AgentInvocationRateLimited \<Rightarrow> e
   | AgentInvocationTimeout \<Rightarrow> e | AgentInvocationUnavailable \<Rightarrow> e | InvalidAgentResponse \<Rightarrow> e
   | _ \<Rightarrow> AgentInvocationUnavailable)"

definition invoke ::
  "('w, 't) gateway_services \<Rightarrow> string \<Rightarrow> dict \<Rightarrow> string \<Rightarrow> 'w \<Rightarrow> (gateway_exn + dict) \<times> 'w" where
  "invoke E runtime_url envelope authorization_header w =
     (case dict_get envelope ''requestId'' of
        JStr request_id \<Rightarrow>
          (case session_token E w of (token, w1) \<Rightarrow>
           case agent_transport E \<lparr>http_url = runtime_url,
               http_headers = [(''Authorization'', authorization_header),
                 (''Content-Type'', ''application/json''), (''Accept'', ''application/json''),
                 (''X-Amzn-Bedrock-AgentCore-Runtime-Session-Id'', ''x402-gateway-session-'' @ token)],
               http_body = utf8 (json_dumps compact (rpc_request request_id envelope))\<rparr> w1 of
             (Inl e, w2) \<Rightarrow> (Inl (agent_exn e), w2)
           | (Inr response, w2) \<Rightarrow> (extract_response E response request_id, w2))
      | _ \<Rightarrow> (Inl InvalidAgentResponse, w))"

section \<open>The OAuth client\<close>

definition MAX_TOKEN_RESPONSE_BYTES :: nat where "MAX_TOKEN_RESPONSE_BYTES = 64 * 1024"

record 't oauth_client =
  oauth_secret :: "dict option"
  oauth_token :: "string option"
  refresh_at :: 't

definition oauth_init :: "'t::linordered_idom oauth_client" where
  "oauth_init = \<lparr>oauth_secret = None, oauth_token = None, refresh_at = 0\<rparr>"

definition secret_fields :: "string list" where
  "secret_fields = [''client_id'', ''client_secret'', ''token_url'', ''scope'']"

definition secret_ok :: "dict \<Rightarrow> bool" where
  "secret_ok d \<longleftrightarrow> keys_are d secret_fields
     \<and> list_all (\<lambda>k. case dict_get d k of JStr s \<Rightarrow> py_strip s \<noteq> [] | _ \<Rightarrow> False) secret_fields
     \<and> (case dict_get d ''token_url'' of JStr u \<Rightarrow> https_url u | _ \<Rightarrow> False)"

definition load_secret ::
  "('w, 't) gateway_services \<Rightarrow> 't oauth_client \<Rightarrow> 'w \<Rightarrow> (gateway_exn + dict) \<times> 't oauth_client \<times> 'w" where
  "load_secret E c w =
     (case oauth_secret c of
        Some secret \<Rightarrow> (Inr secret, c, w)
      | None \<Rightarrow>
          (case secret_reader E w of
             (Inl e, w') \<Rightarrow> (Inl (OAuthUnavailable ''oauth_secret_invalid''), c, w')
           | (Inr raw, w') \<Rightarrow>
               (case gateway_json E raw of
                  Some (JDict parsed) \<Rightarrow>
                    (if secret_ok parsed
                     then let secret = map (\<lambda>k. (k, dict_get parsed k)) secret_fields
                          in (Inr secret, c\<lparr>oauth_secret := Some secret\<rparr>, w')
                     else (Inl (OAuthUnavailable ''oauth_secret_invalid''), c, w'))
                | _ \<Rightarrow> (Inl (OAuthUnavailable ''oauth_secret_invalid''), c, w'))))"

text \<open>\<open>urllib.parse.urlencode\<close> of the form: \<open>quote_plus\<close> of each value.\<close>

definition quote_safe :: "char \<Rightarrow> bool" where
  "quote_safe c \<longleftrightarrow> is_lower_az c \<or> is_upper_az c \<or> is_digit c
     \<or> c = CHR ''_'' \<or> c = CHR ''.'' \<or> c = CHR ''-'' \<or> c = CHR ''~''"

definition quote_plus :: "string \<Rightarrow> string" where
  "quote_plus s = concat (map (\<lambda>c.
     if quote_safe c then [c] else if c = CHR '' '' then ''+''
     else CHR ''%'' # py_upper (bytes_hex [c])) (utf8 s))"

definition parsed_token :: "('w, 't) gateway_services \<Rightarrow> transport_response option \<Rightarrow> (string \<times> int) option" where
  "parsed_token E response =
     (case response of
        Some r \<Rightarrow>
          (case (resp_status r, resp_body r) of
             (JInt st, Some raw_body) \<Rightarrow>
               (if \<not> (200 \<le> st \<and> st \<le> 299) \<or> length raw_body > MAX_TOKEN_RESPONSE_BYTES then None
                else case (case utf8_decode raw_body of None \<Rightarrow> None | Some t \<Rightarrow> gateway_json E t) of
                  Some (JDict parsed) \<Rightarrow>
                    (case (dict_get parsed ''access_token'', dict_get parsed ''expires_in'',
                           dict_get parsed ''token_type'') of
                       (JStr token, JInt expires_in, JStr token_type) \<Rightarrow>
                         (if token = [] \<or> expires_in \<le> 0 \<or> py_lower token_type \<noteq> ''bearer''
                          then None else Some (token, expires_in))
                     | _ \<Rightarrow> None)
                | _ \<Rightarrow> None)
           | _ \<Rightarrow> None)
      | None \<Rightarrow> None)"

definition secret_text :: "dict \<Rightarrow> string \<Rightarrow> string" where
  "secret_text secret k = py_str (dict_get secret k)"

definition fetch_token ::
  "('w, 't) gateway_services \<Rightarrow> dict \<Rightarrow> 'w \<Rightarrow> (gateway_exn + (string \<times> int)) \<times> 'w" where
  "fetch_token E secret w =
     (case token_transport E \<lparr>http_url = secret_text secret ''token_url'',
         http_headers = [(''authorization'', ''Basic '' @ b64encode (utf8
             (secret_text secret ''client_id'' @ '':'' @ secret_text secret ''client_secret''))),
           (''content-type'', ''application/x-www-form-urlencoded''), (''accept'', ''application/json'')],
         http_body = ''grant_type=client_credentials&scope='' @ quote_plus (secret_text secret ''scope'')\<rparr> w of
        (Inl (OAuthUnavailable code), w') \<Rightarrow> (Inl (OAuthUnavailable code), w')
      | (Inl _, w') \<Rightarrow> (Inl (OAuthUnavailable ''oauth_token_unavailable''), w')
      | (Inr response, w') \<Rightarrow>
          (case parsed_token E response of
             None \<Rightarrow> (Inl (OAuthUnavailable ''oauth_token_unavailable''), w')
           | Some token \<Rightarrow> (Inr token, w')))"

definition authorization_header ::
  "('w, 't::linordered_idom) gateway_services \<Rightarrow> 't oauth_client \<Rightarrow> 'w
     \<Rightarrow> (gateway_exn + string) \<times> 't oauth_client \<times> 'w" where
  "authorization_header E c w =
     (let fetch = (\<lambda>w. case load_secret E c w of
            (Inl e, c1, w1) \<Rightarrow> (Inl e, c1, w1)
          | (Inr secret, c1, w1) \<Rightarrow>
              (case fetch_token E secret w1 of
                 (Inl e, w2) \<Rightarrow> (Inl e, c1, w2)
               | (Inr (token, expires_in), w2) \<Rightarrow>
                   (case monotonic E w2 of (now, w3) \<Rightarrow>
                      (Inr (''Bearer '' @ token),
                       c1\<lparr>oauth_token := Some token,
                          refresh_at := now + of_int (max 0 (expires_in - 30))\<rparr>, w3))))
      in case oauth_token c of
           None \<Rightarrow> fetch w
         | Some token \<Rightarrow>
             (case monotonic E w of (now, w1) \<Rightarrow>
                if now < refresh_at c then (Inr (''Bearer '' @ token), c, w1) else fetch w1))"

section \<open>The handler\<close>

definition stage_name_re :: "string \<Rightarrow> bool" where
  "stage_name_re s \<longleftrightarrow> s \<noteq> [] \<and> list_all (\<lambda>c. is_lower_az c \<or> is_digit c \<or> c = CHR ''-'') s"

definition label_char :: "char \<Rightarrow> bool" where
  "label_char c \<longleftrightarrow> is_lower_az c \<or> is_digit c \<or> c = CHR ''-''"

text \<open>\<open>[a-z0-9]{10}\.execute-api\.[a-z0-9-]+\.amazonaws\.com(?:\.cn)?\<close>\<close>

definition execute_api_domain_re :: "string \<Rightarrow> bool" where
  "execute_api_domain_re s = (case py_split (CHR ''.'') s of
     api # service # region # rest \<Rightarrow>
       length api = 10 \<and> list_all (\<lambda>c. is_lower_az c \<or> is_digit c) api \<and> service = ''execute-api''
       \<and> region \<noteq> [] \<and> list_all label_char region
       \<and> (rest = [''amazonaws'', ''com''] \<or> rest = [''amazonaws'', ''com'', ''cn''])
   | _ \<Rightarrow> False)"

definition domain_label_re :: "string \<Rightarrow> bool" where
  "domain_label_re s \<longleftrightarrow> 1 \<le> length s \<and> length s \<le> 63 \<and> list_all label_char s
     \<and> hd s \<noteq> CHR ''-'' \<and> last s \<noteq> CHR ''-''"

definition custom_domain_name_re :: "string \<Rightarrow> bool" where
  "custom_domain_name_re s \<longleftrightarrow> 1 \<le> length s \<and> length s \<le> 253
     \<and> 2 \<le> length (py_split (CHR ''.'') s) \<and> list_all domain_label_re (py_split (CHR ''.'') s)"

definition trusted_public_base :: "dict \<Rightarrow> string \<Rightarrow> gateway_exn + string" where
  "trusted_public_base event custom_domain_name =
     (case dict_get event ''requestContext'' of
        JDict context \<Rightarrow>
          (case (dict_get context ''domainName'', dict_get context ''stage'') of
             (JStr domain_name, JStr stage) \<Rightarrow>
               (if \<not> stage_name_re stage then Inl GatewayConfigurationError
                else sum_bind
                  (if custom_domain_name \<noteq> [] \<and> domain_name = custom_domain_name \<and> stage = ''mainnet''
                   then Inr (''https://'' @ domain_name)
                   else if execute_api_domain_re domain_name
                   then Inr (''https://'' @ domain_name @ ''/'' @ stage)
                   else Inl GatewayConfigurationError) (\<lambda>candidate.
                case gateway_public_base candidate of
                  Inl e \<Rightarrow> Inl GatewayConfigurationError
                | Inr base \<Rightarrow> Inr base))
           | _ \<Rightarrow> Inl GatewayConfigurationError)
      | _ \<Rightarrow> Inl GatewayConfigurationError)"

definition safe_error :: "int \<Rightarrow> string \<Rightarrow> bool \<Rightarrow> dict" where
  "safe_error st code can_retry =
     [(''statusCode'', JInt st), (''headers'', JDict [(''content-type'', JStr ''application/json'')]),
      (''isBase64Encoded'', JBool False),
      (''body'', JStr (json_dumps compact (JDict ((''errorCode'', JStr code)
         # (if can_retry then [(''retryable'', JBool True)] else [])))))]"

definition gateway_failure :: "gateway_exn \<Rightarrow> dict" where
  "gateway_failure e = (case e of
     RequestError err \<Rightarrow> safe_error (error_status err) (error_code err) False
   | AgentInvocationTimeout \<Rightarrow> safe_error 503 ''settlement_status_unknown'' True
   | OAuthUnavailable _ \<Rightarrow> safe_error 503 ''service_unavailable'' True
   | AgentInvocationUnauthorized \<Rightarrow> safe_error 503 ''service_unavailable'' True
   | AgentInvocationRateLimited \<Rightarrow> safe_error 503 ''service_unavailable'' True
   | AgentInvocationUnavailable \<Rightarrow> safe_error 503 ''service_unavailable'' True
   | GatewayConfigurationError \<Rightarrow> safe_error 503 ''service_unavailable'' True
   | InvalidAgentResponse \<Rightarrow> safe_error 502 ''invalid_upstream_response'' False
   | _ \<Rightarrow> safe_error 500 ''internal_error'' False)"

definition gateway_success :: "dict \<Rightarrow> gateway_exn + dict" where
  "gateway_success response =
     (case dict_get response ''bodyBase64'' of
        JStr body_base64 \<Rightarrow>
          (case b64decode body_base64 of
             None \<Rightarrow> Inl InvalidAgentResponse
           | Some raw \<Rightarrow>
               (case utf8_decode raw of
                  None \<Rightarrow> Inl InvalidAgentResponse
                | Some body \<Rightarrow>
                    Inr [(''statusCode'', dict_get response ''status''),
                      (''headers'', dict_get response ''headers''), (''isBase64Encoded'', JBool False),
                      (''body'', JStr body)]))
      | _ \<Rightarrow> Inl OtherGatewayError)"

record gateway_application =
  runtime_url :: string
  custom_domain_name :: string

definition event_envelope ::
  "('w, 't) gateway_services \<Rightarrow> gateway_application \<Rightarrow> dict \<Rightarrow> gateway_exn + dict" where
  "event_envelope E app event =
     sum_bind (trusted_public_base event (custom_domain_name app)) (\<lambda>base.
     case build_envelope (gateway_sha256 E) event base of
       Inl err \<Rightarrow> Inl (RequestError err)
     | Inr envelope \<Rightarrow> Inr envelope)"

definition gateway_handle ::
  "('w, 't::linordered_idom) gateway_services \<Rightarrow> gateway_application \<Rightarrow> dict \<Rightarrow> 't oauth_client \<Rightarrow> 'w
     \<Rightarrow> dict \<times> 't oauth_client \<times> 'w" where
  "gateway_handle E app event c w =
     (case event_envelope E app event of
        Inl e \<Rightarrow> (gateway_failure e, c, w)
      | Inr envelope \<Rightarrow>
          (case authorization_header E c w of
             (Inl e, c1, w1) \<Rightarrow> (gateway_failure e, c1, w1)
           | (Inr header, c1, w1) \<Rightarrow>
               (case invoke E (runtime_url app) envelope header w1 of
                  (Inl e, w2) \<Rightarrow> (gateway_failure e, c1, w2)
                | (Inr response, w2) \<Rightarrow>
                    (case gateway_success response of
                       Inl e \<Rightarrow> (gateway_failure e, c1, w2)
                     | Inr result \<Rightarrow> (result, c1, w2)))))"

text \<open>The application that is built once from the environment.\<close>

definition application_from_environment ::
  "(string \<Rightarrow> string option) \<Rightarrow> gateway_exn + gateway_application" where
  "application_from_environment env =
     (let get = (\<lambda>k. case env k of None \<Rightarrow> [] | Some v \<Rightarrow> v);
          url = get ''AGENTCORE_INVOKE_URL'';
          domain = get ''X402_CUSTOM_DOMAIN_NAME''
      in if url = [] \<or> get ''OAUTH_SECRET_ARN'' = [] \<or> domain = [] then Inl GatewayConfigurationError
         else if \<not> custom_domain_name_re domain then Inl GatewayConfigurationError
         else if \<not> https_url url then Inl GatewayConfigurationError
         else Inr \<lparr>runtime_url = url, custom_domain_name = domain\<rparr>)"

definition lambda_handler ::
  "('w, 't::linordered_idom) gateway_services \<Rightarrow> (string \<Rightarrow> string option) \<Rightarrow> dict \<Rightarrow> 't oauth_client \<Rightarrow> 'w
     \<Rightarrow> dict \<times> 't oauth_client \<times> 'w" where
  "lambda_handler E env event c w =
     (case application_from_environment env of
        Inl e \<Rightarrow> (safe_error 503 ''service_unavailable'' True, c, w)
      | Inr app \<Rightarrow> gateway_handle E app event c w)"

end
