(* ===== verification/X402_Envelope.thy ===== *)
theory X402_Envelope
  imports Py_Json Py_Net
begin

text \<open>
  The bridge from the internal envelope to the application (\<open>x402_envelope.py\<close>): the checks of a
  request envelope in the order of the code, the dispatch, and the checks and the encoding of the
  messages the application sends. An error is the code of the \<open>EnvelopeError\<close>.
\<close>

section \<open>Requests\<close>

definition ROUTES :: "(string \<times> string) list" where
  "ROUTES = [(''GET'', ''/x402/price''), (''POST'', ''/x402/analyze/async'')]"

text \<open>\<open>/x402/jobs/x402_[0-9a-f]{32}(?:/resume)?\<close>\<close>

definition job_route :: "string \<Rightarrow> bool" where
  "job_route path \<longleftrightarrow> starts_with ''/x402/jobs/x402_'' path
     \<and> list_all is_lower_hex (take 32 (drop 16 path))
     \<and> (length path = 48 \<or> length path = 55 \<and> drop 48 path = ''/resume'')"

definition header_name_re :: "string \<Rightarrow> bool" where
  "header_name_re s \<longleftrightarrow> s \<noteq> [] \<and> list_all (\<lambda>c. is_lower_az c \<or> is_digit c \<or> c = CHR ''-'') s"

definition request_id_re :: "string \<Rightarrow> bool" where
  "request_id_re s \<longleftrightarrow> length s = 71 \<and> take 7 s = ''x402gw_'' \<and> list_all is_lower_hex (drop 7 s)"

definition REQUEST_HEADERS :: "string list" where
  "REQUEST_HEADERS = [''accept'', ''content-type'', ''payment-signature'', ''x-job-token'']"

definition RESPONSE_HEADERS :: "string list" where
  "RESPONSE_HEADERS = [''content-type'', ''location'', ''retry-after'', ''cache-control'', ''vary'',
     ''payment-required'', ''payment-response'']"

definition MAX_REQUEST_BYTES :: nat where "MAX_REQUEST_BYTES = 256 * 1024"
definition MAX_RESPONSE_BYTES :: nat where "MAX_RESPONSE_BYTES = 2 * 1024 * 1024"

definition BASE_ENVELOPE_FIELDS :: "string list" where
  "BASE_ENVELOPE_FIELDS = [''version'', ''requestId'', ''method'', ''path'', ''queryString'', ''headers'',
     ''bodyBase64'', ''publicBaseUrl'']"

definition SOURCE_ENVELOPE_FIELDS :: "string list" where
  "SOURCE_ENVELOPE_FIELDS = ''sourceIp'' # BASE_ENVELOPE_FIELDS"

record envelope_request =
  env_request_id :: string
  env_method :: string
  env_path :: string
  env_query_string :: bytes
  env_headers :: "(bytes \<times> bytes) list"
  env_body :: bytes
  env_public_base_url :: string
  env_source_ip :: "string option"

definition envelope_source_ip :: "json \<Rightarrow> string + string" where
  "envelope_source_ip value = (case value of
     JStr s \<Rightarrow> (case ip_compressed s of None \<Rightarrow> Inl ''invalid_source_ip'' | Some t \<Rightarrow> Inr t)
   | _ \<Rightarrow> Inl ''invalid_source_ip'')"

definition is_allowed_route :: "string \<Rightarrow> string \<Rightarrow> bool" where
  "is_allowed_route method path =
     (if (method, path) \<in> set ROUTES then True
      else if \<not> job_route path then False
      else method = ''GET'' \<and> \<not> ends_with ''/resume'' path
        \<or> method = ''POST'' \<and> ends_with ''/resume'' path)"

definition validate_query_string :: "json \<Rightarrow> string + bytes" where
  "validate_query_string value = (if value \<noteq> JStr [] then Inl ''query_not_allowed'' else Inr [])"

definition validate_public_base_url :: "json \<Rightarrow> string + string" where
  "validate_public_base_url value = (case value of
     JStr s \<Rightarrow> (case public_base s of None \<Rightarrow> Inl ''invalid_public_base_url'' | Some b \<Rightarrow> Inr b)
   | _ \<Rightarrow> Inl ''invalid_public_base_url'')"

definition plain_value :: "string \<Rightarrow> bool" where
  "plain_value s \<longleftrightarrow> list_all (\<lambda>c. ord c \<noteq> 13 \<and> ord c \<noteq> 10 \<and> ord c \<noteq> 0) s"

fun validate_request_headers :: "dict \<Rightarrow> string + (bytes \<times> bytes) list" where
  "validate_request_headers [] = Inr []"
| "validate_request_headers ((name, value) # headers) =
     (case value of
        JStr v \<Rightarrow>
          (if \<not> header_name_re name \<or> name \<notin> set REQUEST_HEADERS \<or> \<not> plain_value v
           then Inl ''request_header_not_allowed''
           else sum_bind (validate_request_headers headers) (\<lambda>result. Inr ((name, v) # result)))
      | _ \<Rightarrow> Inl ''request_header_not_allowed'')"

definition decode_request_body :: "json \<Rightarrow> string + bytes" where
  "decode_request_body value = (case value of
     JStr s \<Rightarrow>
       (case b64decode s of
          None \<Rightarrow> Inl ''invalid_body_base64''
        | Some body \<Rightarrow>
            (if length body > MAX_REQUEST_BYTES then Inl ''request_too_large'' else Inr body))
   | _ \<Rightarrow> Inl ''invalid_body_base64'')"

definition validate_request :: "json \<Rightarrow> json \<Rightarrow> string + envelope_request" where
  "validate_request envelope expected_public_base_url =
     (case envelope of
        JDict env \<Rightarrow>
     (if \<not> keys_are env BASE_ENVELOPE_FIELDS \<and> \<not> keys_are env SOURCE_ENVELOPE_FIELDS
      then Inl ''invalid_envelope''
      else if exact_int (dict_get env ''version'') \<noteq> Some 1 then Inl ''invalid_envelope_version''
      else case dict_get env ''requestId'' of
        JStr request_id \<Rightarrow>
     (if \<not> request_id_re request_id then Inl ''invalid_request_id''
      else sum_bind (validate_public_base_url expected_public_base_url) (\<lambda>expected_base_url.
     sum_bind (validate_public_base_url (dict_get env ''publicBaseUrl'')) (\<lambda>public_base_url.
      if public_base_url \<noteq> expected_base_url then Inl ''public_base_mismatch''
      else case (dict_get env ''method'', dict_get env ''path'') of
        (JStr method, JStr path) \<Rightarrow>
     (if \<not> is_allowed_route method path then Inl ''route_not_allowed''
      else sum_bind (validate_query_string (dict_get env ''queryString'')) (\<lambda>query_string.
     sum_bind (decode_request_body (dict_get env ''bodyBase64'')) (\<lambda>body.
      if method = ''GET'' \<and> body \<noteq> [] then Inl ''get_request_body_not_allowed''
      else sum_bind (case dict_get env ''headers'' of
          JDict headers \<Rightarrow> validate_request_headers headers
        | _ \<Rightarrow> Inl ''invalid_request_headers'') (\<lambda>headers.
     sum_bind (if dict_has env ''sourceIp''
          then sum_bind (envelope_source_ip (dict_get env ''sourceIp'')) (\<lambda>ip. Inr (Some ip))
          else Inr None) (\<lambda>source_ip.
        Inr \<lparr>env_request_id = request_id, env_method = method, env_path = path,
          env_query_string = query_string, env_headers = headers, env_body = body,
          env_public_base_url = public_base_url, env_source_ip = source_ip\<rparr>)))))
      | _ \<Rightarrow> Inl ''route_not_allowed'')))
      | _ \<Rightarrow> Inl ''invalid_request_id'')
      | _ \<Rightarrow> Inl ''invalid_envelope'')"

section \<open>Responses\<close>

text \<open>
  A message of the application. The values are dynamically typed: \<open>None\<close> for the headers is a value
  that is not a list, and inside the list an entry that is not a pair of byte strings; \<open>None\<close> for
  the body is a value that is not a byte string. What is missing has the default of the code.
\<close>

record asgi_message =
  msg_type :: string
  msg_status :: json
  msg_headers :: "(bytes \<times> bytes) option list option"
  msg_body :: "bytes option"
  msg_more_body :: bool

fun response_headers :: "dict \<Rightarrow> (bytes \<times> bytes) option list \<Rightarrow> string + dict" where
  "response_headers result [] = Inr result"
| "response_headers result (None # headers) = Inl ''invalid_response_headers''"
| "response_headers result (Some (name, value) # headers) =
     (if \<not> list_all is_ascii name \<or> \<not> header_name_re name \<or> name \<noteq> py_lower name
      then Inl ''invalid_response_headers''
      else response_headers
        (if name \<in> set RESPONSE_HEADERS then dict_put result name (JStr value) else result) headers)"

fun join_bodies :: "asgi_message list \<Rightarrow> string + bytes" where
  "join_bodies [] = Inr []"
| "join_bodies (message # messages) =
     (case msg_body message of
        None \<Rightarrow> Inl ''invalid_response_body''
      | Some body \<Rightarrow> sum_bind (join_bodies messages) (\<lambda>rest. Inr (body @ rest)))"

definition is_start :: "asgi_message \<Rightarrow> bool" where
  "is_start message \<longleftrightarrow> msg_type message = ''http.response.start''"

definition validate_and_encode_response :: "string \<Rightarrow> asgi_message list \<Rightarrow> string + dict" where
  "validate_and_encode_response request_id sent =
     (case dropWhile (\<lambda>message. \<not> is_start message) sent of
        [] \<Rightarrow> Inl ''missing_response_start''
      | start # rest \<Rightarrow>
     (if length (filter is_start sent) \<noteq> 1 then Inl ''duplicate_response_start''
      else let body_messages = filter (\<lambda>message. msg_type message = ''http.response.body'') rest
      in if body_messages = [] then Inl ''missing_response_body''
      else if list_ex msg_more_body body_messages then Inl ''streaming_not_supported''
      else case exact_int (msg_status start) of
        None \<Rightarrow> Inl ''invalid_response_status''
      | Some status \<Rightarrow>
     (if \<not> (100 \<le> status \<and> status \<le> 599) then Inl ''invalid_response_status''
      else sum_bind (join_bodies body_messages) (\<lambda>body.
      if length body > MAX_RESPONSE_BYTES then Inl ''response_too_large''
      else sum_bind (case msg_headers start of
          None \<Rightarrow> Inl ''invalid_response_headers''
        | Some headers \<Rightarrow> response_headers [] headers) (\<lambda>headers.
        Inr [(''requestId'', JStr request_id), (''status'', JInt status), (''headers'', JDict headers),
             (''bodyBase64'', JStr (b64encode body))])))))"

text \<open>
  The application is a function of the request and the world to the messages it sends, or to the
  exception it raises; an error of the envelope is \<open>Inl (Inl code)\<close>.
\<close>

definition dispatch_x402_envelope ::
  "(envelope_request \<Rightarrow> 'w \<Rightarrow> ('e + asgi_message list) \<times> 'w) \<Rightarrow> json \<Rightarrow> json \<Rightarrow> 'w
     \<Rightarrow> ((string + 'e) + dict) \<times> 'w" where
  "dispatch_x402_envelope app envelope expected w =
     (case validate_request envelope expected of
        Inl code \<Rightarrow> (Inl (Inl code), w)
      | Inr request \<Rightarrow>
          (case app request w of
             (Inl e, w') \<Rightarrow> (Inl (Inr e), w')
           | (Inr sent, w') \<Rightarrow>
               (case validate_and_encode_response (env_request_id request) sent of
                  Inl code \<Rightarrow> (Inl (Inl code), w')
                | Inr response \<Rightarrow> (Inr response, w'))))"

end
