(* ===== verification/Gateway_Bridge.thy ===== *)
theory Gateway_Bridge
  imports Gateway_Client X402_Envelope Json_Wire
begin

text \<open>
  The two ends of the bridge fit: what the gateway builds is what the agent's envelope check
  accepts, unchanged, and what the agent sends back is what the gateway's client accepts, unchanged.
  Both sides are separate programs with their own copies of the checks.
\<close>

section \<open>Requests\<close>

lemma job_path_route: "job_path = job_route"
  by (simp add: fun_eq_iff job_path_def job_route_def)

lemma gateway_header_re_eq: "gateway_header_re = header_name_re"
  by (simp add: fun_eq_iff gateway_header_re_def header_name_re_def)

lemma validated_route_allowed:
  "validated_route event = Inr (verb, route) \<Longrightarrow> is_allowed_route verb route"
  by (auto simp: validated_route_def is_allowed_route_def ROUTES_def job_path_route gateway_error_def Let_def
      split: json.splits if_splits)

definition plain_headers :: "dict \<Rightarrow> (bytes \<times> bytes) list" where
  "plain_headers headers = map (\<lambda>(name, value). (name, py_str value)) headers"

lemma request_header_names: "name \<in> set ALLOWED_HEADERS \<Longrightarrow> header_name_re name \<and> name \<in> set REQUEST_HEADERS"
  by (auto simp: ALLOWED_HEADERS_def REQUEST_HEADERS_def header_name_re_def is_lower_az_def is_digit_def)

lemma validate_headers_ok: "headers_ok headers \<Longrightarrow> validate_request_headers headers = Inr (plain_headers headers)"
proof (induction headers)
  case (Cons header headers)
  obtain name x where header: "header = (name, x)" by (cases header)
  with Cons.prems obtain v where v: "x = JStr v" "header_value_ok name v" "name \<in> set ALLOWED_HEADERS"
    by (auto simp: headers_ok_def)
  have "headers_ok headers" using Cons.prems by (auto simp: headers_ok_def)
  with Cons.IH v request_header_names[of name] show ?case
    by (simp add: header plain_headers_def plain_value_def header_value_ok_def)
qed (simp add: plain_headers_def)

lemma request_id_ok: "length digest = 32 \<Longrightarrow> request_id_re (''x402gw_'' @ bytes_hex digest)"
  by (simp add: request_id_re_def bytes_hex_lower)

lemma trusted_source_ip_canonical: "trusted_source_ip event = Inr ip \<Longrightarrow> ip_compressed ip = Some ip"
  by (auto simp: trusted_source_ip_def gateway_error_def dest: ip_compressed_idem
      split: json.splits option.splits)

text \<open>What a built envelope consists of.\<close>

lemma build_envelope_parts:
  assumes "build_envelope sha event base = Inr env"
  obtains verb route ip body headers b where
    "validated_route event = Inr (verb, route)" "trusted_source_ip event = Inr ip"
    "validated_query event = Inr []" "decode_body event = Inr body" "verb = ''GET'' \<longrightarrow> body = []"
    "headers_ok headers" "public_base base = Some b"
    "allowed_headers (py_or (dict_get event ''headers'') (JDict [])) (dict_get event ''multiValueHeaders'')
       = Inr headers"
    "env = [(''version'', JInt 1),
         (''requestId'', JStr (''x402gw_'' @ bytes_hex (sha (request_material verb route [] headers body)))),
         (''method'', JStr verb), (''path'', JStr route), (''queryString'', JStr []),
         (''publicBaseUrl'', JStr b), (''headers'', JDict headers),
         (''bodyBase64'', JStr (b64encode body)), (''sourceIp'', JStr ip)]"
proof -
  from assms obtain verb route ip q body headers b where
    parts: "validated_route event = Inr (verb, route)" "trusted_source_ip event = Inr ip"
    "validated_query event = Inr q" "decode_body event = Inr body" "verb = ''GET'' \<longrightarrow> body = []"
    "allowed_headers (py_or (dict_get event ''headers'') (JDict [])) (dict_get event ''multiValueHeaders'')
       = Inr headers" "gateway_public_base base = Inr b"
    and env: "env = [(''version'', JInt 1),
         (''requestId'', JStr (''x402gw_'' @ bytes_hex (sha (request_material verb route q headers body)))),
         (''method'', JStr verb), (''path'', JStr route), (''queryString'', JStr q),
         (''publicBaseUrl'', JStr b), (''headers'', JDict headers),
         (''bodyBase64'', JStr (b64encode body)), (''sourceIp'', JStr ip)]"
    unfolding build_envelope_def by (auto simp: sum_bind_Inr gateway_error_def split: if_splits)
  have "q = []" using parts(3) by (auto simp: validated_query_def gateway_error_def split: if_splits)
  moreover have "public_base base = Some b" using parts(7)
    by (auto simp: gateway_public_base_def gateway_error_def split: option.splits)
  ultimately show ?thesis using that parts env allowed_headers_ok by blast
qed

lemma bridge_request:
  assumes "build_envelope sha event base = Inr env" "\<forall>m. length (sha m) = 32"
    "public_base expected = public_base base"
  shows "\<exists>request ip headers. validate_request (JDict env) (JStr expected) = Inr request
    \<and> dict_get env ''requestId'' = JStr (env_request_id request)
    \<and> validated_route event = Inr (env_method request, env_path request)
    \<and> decode_body event = Inr (env_body request)
    \<and> allowed_headers (py_or (dict_get event ''headers'') (JDict [])) (dict_get event ''multiValueHeaders'')
        = Inr headers \<and> env_headers request = plain_headers headers
    \<and> trusted_source_ip event = Inr ip \<and> env_source_ip request = Some ip
    \<and> public_base base = Some (env_public_base_url request)"
proof -
  from assms(1) obtain verb route ip body headers b where parts:
    "validated_route event = Inr (verb, route)" "trusted_source_ip event = Inr ip"
    "decode_body event = Inr body" "verb = ''GET'' \<longrightarrow> body = []"
    "headers_ok headers" "public_base base = Some b"
    "allowed_headers (py_or (dict_get event ''headers'') (JDict [])) (dict_get event ''multiValueHeaders'')
       = Inr headers"
    and env: "env = [(''version'', JInt 1),
         (''requestId'', JStr (''x402gw_'' @ bytes_hex (sha (request_material verb route [] headers body)))),
         (''method'', JStr verb), (''path'', JStr route), (''queryString'', JStr []),
         (''publicBaseUrl'', JStr b), (''headers'', JDict headers),
         (''bodyBase64'', JStr (b64encode body)), (''sourceIp'', JStr ip)]"
    by (rule build_envelope_parts)
  note ok = validated_route_allowed[OF parts(1)] validate_headers_ok[OF parts(5)]
    trusted_source_ip_canonical[OF parts(2)] decode_body_bound[OF parts(3)]
    public_base_idem[OF parts(6)] request_id_ok[of "sha (request_material verb route [] headers body)"]
  have "keys_are env SOURCE_ENVELOPE_FIELDS"
    by (auto simp: env keys_are_def SOURCE_ENVELOPE_FIELDS_def BASE_ENVELOPE_FIELDS_def)
  with ok parts assms(2,3) have "validate_request (JDict env) (JStr expected) = Inr
      \<lparr>env_request_id = ''x402gw_'' @ bytes_hex (sha (request_material verb route [] headers body)),
       env_method = verb, env_path = route, env_query_string = [], env_headers = plain_headers headers,
       env_body = body, env_public_base_url = b, env_source_ip = Some ip\<rparr>"
    by (simp add: validate_request_def env validate_public_base_url_def validate_query_string_def
        decode_request_body_def envelope_source_ip_def MAX_REQUEST_BYTES_def MAX_BODY_BYTES_def)
  with parts show ?thesis by (simp add: env)
qed

text \<open>The envelope survives the JSON text the client sends.\<close>

lemma headers_ok_wire: "headers_ok headers \<Longrightarrow> wire_json (JDict headers)"
  by (auto simp: headers_ok_def list_all_iff)

lemma rpc_request_wire:
  assumes "build_envelope sha event base = Inr env"
  shows "wire_json (rpc_request request_id env)"
proof -
  have one: "length (dec_of_int 1) \<le> 4300" by code_simp
  from assms show ?thesis
    by (elim build_envelope_parts) (auto simp: rpc_request_def one dest: headers_ok_wire)
qed

lemma rpc_request_delivered:
  assumes "build_envelope sha event base = Inr env"
  shows "Option.bind (utf8_decode (utf8 (json_dumps compact (rpc_request request_id env)))) (json_parse h)
    = Some (rpc_request request_id env)"
  using json_wire.pair.dec_enc[of "rpc_request request_id env" compact h] rpc_request_wire[OF assms]
  by simp

section \<open>Responses\<close>

definition clean_headers :: "dict \<Rightarrow> bool" where
  "clean_headers headers \<longleftrightarrow> (\<forall>(name, value)\<in>set headers. name \<in> set RESPONSE_HEADERS
     \<and> header_name_re name \<and> (\<exists>v. value = JStr v \<and> plain_value v))"

definition plain_start :: "asgi_message list \<Rightarrow> bool" where
  "plain_start sent \<longleftrightarrow> (\<forall>message\<in>set sent. \<forall>headers name value.
     msg_headers message = Some headers \<longrightarrow> Some (name, value) \<in> set headers \<longrightarrow> plain_value value)"

lemma clean_headers_put:
  "clean_headers d \<Longrightarrow> name \<in> set RESPONSE_HEADERS \<Longrightarrow> header_name_re name \<Longrightarrow> plain_value v
   \<Longrightarrow> clean_headers (dict_put d name (JStr v))"
  unfolding clean_headers_def by (auto dest!: set_dict_put)

lemma response_headers_clean:
  "response_headers d hs = Inr d' \<Longrightarrow> clean_headers d \<Longrightarrow>
   \<forall>name v. Some (name, v) \<in> set hs \<longrightarrow> plain_value v \<Longrightarrow> clean_headers d'"
  by (induction d hs rule: response_headers.induct)
     (auto split: if_splits simp: clean_headers_put)

lemma client_headers: "CLIENT_RESPONSE_HEADERS = RESPONSE_HEADERS"
  by (simp add: CLIENT_RESPONSE_HEADERS_def RESPONSE_HEADERS_def)

lemma clean_response_headers_id:
  "clean_headers d \<Longrightarrow> clean_response_headers d = Inr d"
proof (induction d)
  case (Cons header d)
  obtain name x where header: "header = (name, x)" by (cases header)
  have "clean_headers d" using Cons.prems by (auto simp: clean_headers_def)
  moreover obtain v where "x = JStr v" "plain_value v" "name \<in> set RESPONSE_HEADERS" "header_name_re name"
    using Cons.prems by (auto simp: header clean_headers_def)
  ultimately show ?case using Cons.IH
    by (simp add: header gateway_header_re_eq client_headers plain_value_def)
qed simp

lemma encoded_response_parts:
  assumes "validate_and_encode_response request_id sent = Inr response"
  obtains status headers body start rest hs where
    "response = [(''requestId'', JStr request_id), (''status'', JInt status), (''headers'', JDict headers),
       (''bodyBase64'', JStr (b64encode body))]"
    "100 \<le> status" "status \<le> 599" "length body \<le> MAX_RESPONSE_BYTES" "start \<in> set sent"
    "msg_headers start = Some hs" "response_headers [] hs = Inr headers" "msg_status start = JInt status"
    "dropWhile (\<lambda>message. \<not> is_start message) sent = start # rest"
    "join_bodies (filter (\<lambda>message. msg_type message = ''http.response.body'') rest) = Inr body"
proof -
  from assms obtain start rest where drop: "dropWhile (\<lambda>message. \<not> is_start message) sent = start # rest"
    by (auto simp: validate_and_encode_response_def split: list.splits)
  then have "start \<in> set sent" by (metis list.set_intros(1) set_dropWhileD)
  with assms drop that show ?thesis
    by (fastforce simp: validate_and_encode_response_def Let_def sum_bind_Inr
        split: if_splits option.splits)
qed

lemma bridge_response:
  assumes "validate_and_encode_response request_id sent = Inr response" "plain_start sent"
  shows "validated_response_envelope response request_id = Inr response"
proof -
  from assms(1) obtain status headers body start rest hs where parts:
    "response = [(''requestId'', JStr request_id), (''status'', JInt status), (''headers'', JDict headers),
       (''bodyBase64'', JStr (b64encode body))]"
    "100 \<le> status" "status \<le> 599" "length body \<le> MAX_RESPONSE_BYTES" "start \<in> set sent"
    "msg_headers start = Some hs" "response_headers [] hs = Inr headers"
    by (rule encoded_response_parts)
  have "\<forall>name v. Some (name, v) \<in> set hs \<longrightarrow> plain_value v"
    using assms(2) parts(5,6) by (auto simp: plain_start_def)
  then have "clean_headers headers"
    using response_headers_clean[OF parts(7)] by (simp add: clean_headers_def)
  then show ?thesis using parts(2-4)
    by (auto simp: parts(1) validated_response_envelope_def keys_are_def clean_response_headers_id
        MAX_CLIENT_RESPONSE_BYTES_def MAX_RESPONSE_BYTES_def)
qed

text \<open>Only the binding of the JSON-RPC response and its single data part are asked of the server.\<close>

lemma bridge_extract:
  assumes "validate_and_encode_response request_id sent = Inr response" "plain_start sent"
    "length raw \<le> MAX_AGENTCORE_RESPONSE_BYTES"
    "response_parts E raw request_id =
       Some (JList [JDict [(''kind'', JStr ''data''), (''data'', JDict response)]])"
  shows "extract_response E (Some \<lparr>resp_status = JInt 200, resp_body = Some raw\<rparr>) request_id = Inr response"
  using assms bridge_response[OF assms(1,2)] by (simp add: extract_response_def data_part_def)

text \<open>What the handler makes of it: status, headers and text as the application sent them.\<close>

lemma bridge_success:
  assumes "validate_and_encode_response request_id sent = Inr response"
  shows "\<exists>status headers body. dict_get response ''status'' = JInt status
    \<and> dict_get response ''headers'' = JDict headers
    \<and> join_bodies (filter (\<lambda>message. msg_type message = ''http.response.body'')
        (tl (dropWhile (\<lambda>message. \<not> is_start message) sent))) = Inr body
    \<and> gateway_success response = (case utf8_decode body of
        None \<Rightarrow> Inl InvalidAgentResponse
      | Some text \<Rightarrow> Inr [(''statusCode'', JInt status), (''headers'', JDict headers),
          (''isBase64Encoded'', JBool False), (''body'', JStr text)])"
  using assms by (elim encoded_response_parts) (simp add: gateway_success_def split: option.splits)

section \<open>The token cache\<close>

lemma load_secret_ok:
  assumes "load_secret E c w = (r, c', w')" "case oauth_secret c of None \<Rightarrow> True | Some s \<Rightarrow> secret_ok s"
  shows "(case oauth_secret c' of None \<Rightarrow> True | Some s \<Rightarrow> secret_ok s)
    \<and> oauth_token c' = oauth_token c \<and> refresh_at c' = refresh_at c
    \<and> (\<forall>s. r = Inr s \<longrightarrow> oauth_secret c' = Some s)
    \<and> (\<forall>s. oauth_secret c = Some s \<longrightarrow> c' = c \<and> w' = w)"
proof -
  have "secret_ok (map (\<lambda>k. (k, dict_get parsed k)) secret_fields)" if "secret_ok parsed" for parsed
    using that by (simp add: secret_ok_def secret_fields_def keys_are_def)
  with assms show ?thesis
    by (auto simp: load_secret_def Let_def split: option.splits sum.splits prod.splits json.splits if_splits)
qed

text \<open>
  A token is kept for its lifetime less thirty seconds of the clock that is read after it was
  fetched; until then the client returns it without any call but the clock, from then on it
  fetches a new one.
\<close>

lemma authorization_cached:
  assumes "oauth_token c = Some token" "monotonic E w = (now, w1)" "now < refresh_at c"
  shows "authorization_header E c w = (Inr (''Bearer '' @ token), c, w1)"
  using assms by (simp add: authorization_header_def)

lemma authorization_fresh:
  assumes "authorization_header E c w = (Inr header, c', w')"
  shows "\<exists>token. header = ''Bearer '' @ token \<and> oauth_token c' = Some token
    \<and> (c' = c \<and> (\<exists>now. monotonic E w = (now, w') \<and> now < refresh_at c)
       \<or> (\<exists>secret w0 w1 now expires_in. fetch_token E secret w0 = (Inr (token, expires_in), w1)
            \<and> oauth_secret c' = Some secret \<and> monotonic E w1 = (now, w')
            \<and> refresh_at c' = now + of_int (max 0 (expires_in - 30))))"
proof -
  have load: "oauth_secret c1 = Some s" if "load_secret E c v = (Inr s, c1, v1)" for s c1 v v1
    using that by (auto simp: load_secret_def Let_def split: option.splits sum.splits prod.splits json.splits if_splits)
  from assms show ?thesis
    by (auto simp: authorization_header_def Let_def split: option.splits prod.splits sum.splits if_splits
        dest!: load) blast+
qed

end
