(* ===== verification/Gateway_World.thy ===== *)
theory Gateway_World
  imports Gateway_Bridge "HOL-Library.Code_Target_Nat"
begin

text \<open>
  What the gateway answers when something goes wrong, and one concrete event, agent and token
  endpoint on which the definitions of the gateway are evaluated.
\<close>

section \<open>Failures\<close>

definition request_error_codes :: "string list" where
  "request_error_codes = [''route_not_allowed'', ''source_ip_unavailable'', ''query_not_allowed'',
     ''invalid_body_base64'', ''invalid_request_body'', ''get_request_body_not_allowed'',
     ''invalid_request_headers'', ''request_header_not_allowed'', ''invalid_public_base_url'']"

definition request_error_ok :: "gateway_request_error \<Rightarrow> bool" where
  "request_error_ok err \<longleftrightarrow> err = GatewayRequestError ''request_too_large'' 413
     \<or> error_status err = 400 \<and> error_code err \<in> set request_error_codes"

definition fails_ok :: "gateway_request_error + 'a \<Rightarrow> bool" where
  "fails_ok r \<longleftrightarrow> (case r of Inl err \<Rightarrow> request_error_ok err | Inr _ \<Rightarrow> True)"

lemma fails_ok_Inr [simp]: "fails_ok (Inr a)"
  by (simp add: fails_ok_def)

lemma fails_ok_codes [simp]:
  "fails_ok (gateway_error ''route_not_allowed'')" "fails_ok (gateway_error ''source_ip_unavailable'')"
  "fails_ok (gateway_error ''query_not_allowed'')" "fails_ok (gateway_error ''invalid_body_base64'')"
  "fails_ok (gateway_error ''invalid_request_body'')"
  "fails_ok (gateway_error ''get_request_body_not_allowed'')"
  "fails_ok (gateway_error ''invalid_request_headers'')"
  "fails_ok (gateway_error ''request_header_not_allowed'')"
  "fails_ok (gateway_error ''invalid_public_base_url'')"
  "fails_ok (Inl (GatewayRequestError ''request_too_large'' 413))"
  by (simp_all add: fails_ok_def gateway_error_def request_error_ok_def request_error_codes_def)

lemma fails_ok_bind [intro]: "fails_ok r \<Longrightarrow> (\<And>a. fails_ok (f a)) \<Longrightarrow> fails_ok (sum_bind r f)"
  by (cases r) (auto simp: fails_ok_def)

lemma header_name_fails [simp]: "fails_ok (header_name raw)"
  by (simp add: header_name_def Let_def)

lemma record_header_fails [simp]: "fails_ok (record_header headers raw v)"
  unfolding record_header_def by (rule fails_ok_bind) (simp_all split: json.split)

lemma record_headers_fails [simp]: "fails_ok (record_headers headers raw)"
  by (induction headers raw rule: record_headers.induct) auto

lemma record_multi_headers_fails [simp]: "fails_ok (record_multi_headers headers raw)"
proof (induction raw arbitrary: headers)
  case (Cons item rest)
  then show ?case
    by (cases item) (auto split: json.split list.split intro!: fails_ok_bind)
qed simp

lemma allowed_headers_fails [simp]: "fails_ok (allowed_headers raw multi)"
  unfolding allowed_headers_def by (auto split: json.split intro!: fails_ok_bind)

lemma request_parts_fail [simp]:
  "fails_ok (validated_route event)" "fails_ok (trusted_source_ip event)" "fails_ok (validated_query event)"
  "fails_ok (gateway_public_base base)"
  by (simp_all add: validated_route_def trusted_source_ip_def validated_query_def gateway_public_base_def Let_def
      split: json.split option.split)

lemma decode_body_fails [simp]: "fails_ok (decode_body event)"
  unfolding decode_body_def by (auto split: json.split option.split intro!: fails_ok_bind)

lemma build_envelope_fails: "fails_ok (build_envelope sha event base)"
  unfolding build_envelope_def by (auto intro!: fails_ok_bind split: prod.split)

text \<open>The failures of a request, by the step that fails.\<close>

definition handle_fails ::
  "('w, 't::linordered_idom) gateway_services \<Rightarrow> gateway_application \<Rightarrow> dict \<Rightarrow> 't oauth_client \<Rightarrow> 'w
     \<Rightarrow> gateway_exn \<Rightarrow> bool" where
  "handle_fails E app event c w e \<longleftrightarrow>
     event_envelope E app event = Inl e
     \<or> (\<exists>envelope. event_envelope E app event = Inr envelope
        \<and> (fst (authorization_header E c w) = Inl e
           \<or> (\<exists>header c1 w1. authorization_header E c w = (Inr header, c1, w1)
              \<and> (fst (invoke E (runtime_url app) envelope header w1) = Inl e
                 \<or> (\<exists>response. fst (invoke E (runtime_url app) envelope header w1) = Inr response
                    \<and> gateway_success response = Inl e)))))"

lemma gateway_handle_outcome:
  "(\<exists>envelope header c1 w1 response result. event_envelope E app event = Inr envelope
      \<and> authorization_header E c w = (Inr header, c1, w1)
      \<and> fst (invoke E (runtime_url app) envelope header w1) = Inr response
      \<and> gateway_success response = Inr result \<and> fst (gateway_handle E app event c w) = result)
   \<or> (\<exists>e. handle_fails E app event c w e \<and> fst (gateway_handle E app event c w) = gateway_failure e)"
  by (auto simp: gateway_handle_def handle_fails_def split: sum.split prod.split)

definition public_failures :: "(int \<times> string \<times> bool) list" where
  "public_failures = [(503, ''service_unavailable'', True), (503, ''settlement_status_unknown'', True),
     (502, ''invalid_upstream_response'', False), (500, ''internal_error'', False),
     (413, ''request_too_large'', False)] @ map (\<lambda>code. (400, code, False)) request_error_codes"

lemma authorization_errors: "fst (authorization_header E c w) = Inl e \<Longrightarrow> \<exists>code. e = OAuthUnavailable code"
proof -
  have load: "\<exists>code. e = OAuthUnavailable code" if "load_secret E c v = (Inl e, c1, v1)" for e c1 v v1
    using that by (auto simp: load_secret_def Let_def split: option.splits sum.splits prod.splits json.splits if_splits)
  have fetch: "\<exists>code. e = OAuthUnavailable code" if "fetch_token E secret v = (Inl e, v1)" for e secret v v1
    using that by (auto simp: fetch_token_def split: option.splits sum.splits prod.splits gateway_exn.splits)
  assume "fst (authorization_header E c w) = Inl e"
  then show ?thesis
    by (auto simp: authorization_header_def Let_def split: option.splits prod.splits sum.splits if_splits
        dest: load fetch)
qed

definition client_failures :: "gateway_exn list" where
  "client_failures = [AgentInvocationUnauthorized, AgentInvocationRateLimited, AgentInvocationUnavailable,
     InvalidAgentResponse]"

lemma clean_response_headers_errors:
  "clean_response_headers headers = Inl e \<Longrightarrow> e = InvalidAgentResponse"
  by (induction headers arbitrary: e rule: clean_response_headers.induct)
     (auto simp: sum_bind_Inl split: json.splits if_splits)

lemma validated_response_envelope_errors:
  "validated_response_envelope value request_id = Inl e \<Longrightarrow> e = InvalidAgentResponse"
  by (auto simp: validated_response_envelope_def sum_bind_Inl dest: clean_response_headers_errors
      split: if_splits json.splits option.splits)

lemma extract_response_errors: "extract_response E response request_id = Inl e \<Longrightarrow> e \<in> set client_failures"
  by (auto simp: extract_response_def client_failures_def dest: validated_response_envelope_errors
      split: option.splits json.splits if_splits list.splits)

lemma invoke_errors:
  "fst (invoke E url envelope header w) = Inl e \<Longrightarrow> e \<in> set client_failures
   \<or> e = AgentInvocationTimeout \<and> (\<exists>req w'. fst (agent_transport E req w') \<in> {Inl TransportTimeout, Inl AgentInvocationTimeout})"
  by (auto simp: invoke_def agent_exn_def client_failures_def split: json.splits prod.splits sum.splits
      gateway_exn.splits dest!: extract_response_errors) (metis fst_conv)+

lemma gateway_success_errors:
  "gateway_success response = Inl e \<Longrightarrow> e = InvalidAgentResponse \<or> e = OtherGatewayError"
  by (auto simp: gateway_success_def split: json.splits option.splits)

lemma trusted_public_base_errors:
  "case trusted_public_base event domain of Inl e \<Rightarrow> e = GatewayConfigurationError | Inr _ \<Rightarrow> True"
  by (simp add: trusted_public_base_def sum_bind_def split: json.split sum.split)

lemma event_envelope_errors:
  assumes "event_envelope E app event = Inl e"
  shows "e = GatewayConfigurationError \<or> (\<exists>err. e = RequestError err \<and> request_error_ok err)"
proof (cases "trusted_public_base event (custom_domain_name app)")
  case (Inl e')
  with assms trusted_public_base_errors[of event "custom_domain_name app"] show ?thesis
    by (simp add: event_envelope_def)
next
  case (Inr base)
  with assms build_envelope_fails[of "gateway_sha256 E" event base] show ?thesis
    by (auto simp: event_envelope_def fails_ok_def split: sum.splits)
qed

lemma handle_failure_public:
  assumes "handle_fails E app event c w e"
  shows "\<exists>(st, code, retry)\<in>set public_failures. gateway_failure e = safe_error st code retry
    \<and> (retry \<longleftrightarrow> st = 503) \<and> (code = ''settlement_status_unknown'' \<longleftrightarrow> e = AgentInvocationTimeout)"
proof -
  consider (request) err where "e = RequestError err" "request_error_ok err"
    | (other) "e \<in> set client_failures \<or> e = AgentInvocationTimeout \<or> e = GatewayConfigurationError
        \<or> e = OtherGatewayError \<or> (\<exists>code. e = OAuthUnavailable code)"
    using assms unfolding handle_fails_def
    by (auto dest!: event_envelope_errors authorization_errors invoke_errors gateway_success_errors
        simp: client_failures_def)
  then show ?thesis
  proof cases
    case request
    then consider "err = GatewayRequestError ''request_too_large'' 413"
      | code where "err = GatewayRequestError code 400" "code \<in> set request_error_codes"
      by (cases err) (auto simp: request_error_ok_def)
    then show ?thesis
    proof cases
      case 1
      with request show ?thesis by (simp add: gateway_failure_def public_failures_def)
    next
      case 2
      moreover from 2 have "code \<noteq> ''settlement_status_unknown''" by (auto simp: request_error_codes_def)
      ultimately show ?thesis using request
        by (auto simp: gateway_failure_def public_failures_def intro!: bexI[of _ "(400, code, False)"])
    qed
  next
    case other
    then show ?thesis by (auto simp: client_failures_def gateway_failure_def public_failures_def)
  qed
qed

section \<open>A concrete exchange\<close>

definition demo_digest :: "bytes \<Rightarrow> bytes" where
  "demo_digest m = replicate 32 (CHR ''d'')"

definition demo_domain :: string where
  "demo_domain = ''abcdefghij.execute-api.us-east-1.amazonaws.com''"

definition demo_event :: dict where
  "demo_event = [(''httpMethod'', JStr ''GET''), (''path'', JStr ''/mainnet/x402/price''),
     (''requestContext'', JDict [(''stage'', JStr ''mainnet''), (''domainName'', JStr demo_domain),
        (''identity'', JDict [(''sourceIp'', JStr ''203.0.113.7'')])]),
     (''headers'', JDict [(''Accept'', JStr ''application/json''), (''X-Other'', JStr ''dropped'')])]"

definition demo_base :: string where
  "demo_base = ''https://'' @ demo_domain @ ''/mainnet''"

definition demo_envelope :: dict where
  "demo_envelope = (case build_envelope demo_digest demo_event demo_base of Inr env \<Rightarrow> env | Inl e \<Rightarrow> [])"

definition demo_request_id :: string where
  "demo_request_id = ''x402gw_'' @ bytes_hex (replicate 32 (CHR ''d''))"

definition demo_sent :: "asgi_message list" where
  "demo_sent = [\<lparr>msg_type = ''http.response.start'', msg_status = JInt 200,
       msg_headers = Some [Some (''content-type'', ''application/json''), Some (''server'', ''hidden'')],
       msg_body = None, msg_more_body = False\<rparr>,
     \<lparr>msg_type = ''http.response.body'', msg_status = JNull, msg_headers = Some [],
       msg_body = Some ''{}'', msg_more_body = False\<rparr>]"

definition demo_response :: dict where
  "demo_response = [(''requestId'', JStr demo_request_id), (''status'', JInt 200),
     (''headers'', JDict [(''content-type'', JStr ''application/json'')]), (''bodyBase64'', JStr ''e30='')]"

definition demo_raw :: bytes where
  "demo_raw = utf8 (json_dumps compact (JDict [(''jsonrpc'', JStr ''2.0''), (''id'', JStr demo_request_id),
     (''result'', JDict [(''parts'', JList [JDict [(''kind'', JStr ''data''), (''data'', JDict demo_response)]])])]))"

text \<open>An agent that answers every request with that text, a token endpoint, and a clock of whole seconds.\<close>

definition demo_gateway :: "(int, int) gateway_services" where
  "demo_gateway = \<lparr>agent_transport = (\<lambda>req w. (Inr (Some \<lparr>resp_status = JInt 200, resp_body = Some demo_raw\<rparr>), w)),
     token_transport = (\<lambda>req w. (Inr (Some \<lparr>resp_status = JInt 200,
       resp_body = Some (utf8 (json_dumps compact (JDict [(''access_token'', JStr ''t0''),
         (''expires_in'', JInt 90), (''token_type'', JStr ''Bearer'')])))\<rparr>), w)),
     secret_reader = (\<lambda>w. (Inr (json_dumps compact (JDict [(''client_id'', JStr ''c''),
       (''client_secret'', JStr ''s''), (''token_url'', JStr ''https://auth.example.com/token''),
       (''scope'', JStr ''x402/invoke'')])), w)),
     monotonic = (\<lambda>w. (w, w + 1)),
     session_token = (\<lambda>w. (''00'', w)),
     gateway_float = (\<lambda>t. NaN),
     gateway_sha256 = demo_digest\<rparr>"

definition demo_oauth :: "int oauth_client" where
  "demo_oauth = \<lparr>oauth_secret = None, oauth_token = Some ''t0'', refresh_at = 60\<rparr>"

definition demo_application :: gateway_application where
  "demo_application = \<lparr>runtime_url = ''https://agent.example.com/'', custom_domain_name = ''x402.example.com''\<rparr>"

lemma demo_build: "build_envelope demo_digest demo_event demo_base = Inr demo_envelope"
  by code_simp

lemma demo_encoded: "validate_and_encode_response demo_request_id demo_sent = Inr demo_response"
  by code_simp

lemma demo_plain: "plain_start demo_sent"
  by (simp add: plain_start_def demo_sent_def plain_value_def)

lemma demo_raw_bound: "length demo_raw \<le> MAX_AGENTCORE_RESPONSE_BYTES"
  by code_simp

lemma demo_parts: "response_parts demo_gateway demo_raw demo_request_id =
    Some (JList [JDict [(''kind'', JStr ''data''), (''data'', JDict demo_response)]])"
proof -
  have "wire_json (JDict [(''jsonrpc'', JStr ''2.0''), (''id'', JStr demo_request_id),
     (''result'', JDict [(''parts'', JList [JDict [(''kind'', JStr ''data''), (''data'', JDict demo_response)]])])])"
    by code_simp
  then show ?thesis
    by (simp add: response_parts_def demo_raw_def utf8_roundtrip gateway_json_def json_roundtrip
        del: json_dumps.simps printed_json.simps)
qed

end
