(* ===== verification/B402_Client.thy ===== *)
theory B402_Client
  imports X402_Effects Py_Net Payment_Proof Json_Wire
begin

text \<open>
  The client of the B402 facilitator (\<open>b402_client.py\<close>): configuration, signed requests, the cache
  of supported payment kinds, and the classification of verification and settlement results. The
  HTTP client, RSA and the clocks are parameters; a response is its status and what \<open>json()\<close> gives.
  The lock around the cache is not contended: requests of a replica run one after the other.
\<close>

section \<open>Actions\<close>

text \<open>An action on a state that may raise.\<close>

type_synonym ('s, 'a) act = "'s \<Rightarrow> (exn + 'a) \<times> 's"

definition act_return :: "'a \<Rightarrow> ('s, 'a) act" where
  "act_return a s = (Inr a, s)"

definition act_raise :: "exn \<Rightarrow> ('s, 'a) act" where
  "act_raise e s = (Inl e, s)"

definition act_try :: "('s, 'a) act \<Rightarrow> (exn \<Rightarrow> ('s, 'b) act) \<Rightarrow> ('a \<Rightarrow> ('s, 'b) act) \<Rightarrow> ('s, 'b) act" where
  "act_try m h f s = (case m s of (Inl e, s') \<Rightarrow> h e s' | (Inr a, s') \<Rightarrow> f a s')"

definition act_bind :: "('s, 'a) act \<Rightarrow> ('a \<Rightarrow> ('s, 'b) act) \<Rightarrow> ('s, 'b) act" where
  "act_bind m f = act_try m act_raise f"

definition act_of_sum :: "exn + 'a \<Rightarrow> ('s, 'a) act" where
  "act_of_sum r s = (r, s)"

definition act_read :: "('s \<Rightarrow> 'a \<times> 's) \<Rightarrow> ('s, 'a) act" where
  "act_read f s = (case f s of (a, s') \<Rightarrow> (Inr a, s'))"

definition act_get :: "('s \<Rightarrow> 'a) \<Rightarrow> ('s, 'a) act" where
  "act_get f s = (Inr (f s), s)"

definition act_modify :: "('s \<Rightarrow> 's) \<Rightarrow> ('s, unit) act" where
  "act_modify f s = (Inr (), f s)"

lemmas act_defs = act_return_def act_raise_def act_try_def act_bind_def act_of_sum_def act_read_def
  act_get_def act_modify_def

text \<open>
  \<open>act_obeys m Q R\<close>: whatever the state, a value \<open>m\<close> returns satisfies \<open>Q\<close> and an exception it
  raises satisfies \<open>R\<close>.
\<close>

definition act_obeys :: "('s, 'a) act \<Rightarrow> ('a \<Rightarrow> bool) \<Rightarrow> (exn \<Rightarrow> bool) \<Rightarrow> bool" where
  "act_obeys m Q R \<longleftrightarrow> (\<forall>s. case fst (m s) of Inl e \<Rightarrow> R e | Inr a \<Rightarrow> Q a)"

named_theorems act_rule "rules for what an action returns and raises"

lemma act_obeys_atoms [simp]:
  "act_obeys (act_return a) Q R \<longleftrightarrow> Q a" "act_obeys (act_raise e) Q R \<longleftrightarrow> R e"
  "act_obeys (act_modify m) Q' R \<longleftrightarrow> Q' ()"
  "act_obeys (act_of_sum r) Q R \<longleftrightarrow> (case r of Inl e \<Rightarrow> R e | Inr a \<Rightarrow> Q a)"
  by (auto simp: act_obeys_def act_defs)

lemma act_obeys_get [act_rule]: "(\<And>a. Q a) \<Longrightarrow> act_obeys (act_get g) Q R"
  by (auto simp: act_obeys_def act_defs)

lemma act_obeys_try [act_rule]:
  assumes "act_obeys m (\<lambda>a. act_obeys (f a) Q R) (\<lambda>e. act_obeys (h e) Q R)"
  shows "act_obeys (act_try m h f) Q R"
  unfolding act_obeys_def
proof
  fix s
  obtain r s' where m: "m s = (r, s')" by (cases "m s")
  from assms[unfolded act_obeys_def[of m], rule_format, of s] m
  show "case fst (act_try m h f s) of Inl e \<Rightarrow> R e | Inr a \<Rightarrow> Q a"
    by (cases r) (auto simp: act_try_def act_obeys_def)
qed

lemma act_obeys_bind [act_rule]:
  "act_obeys m (\<lambda>a. act_obeys (f a) Q R) R \<Longrightarrow> act_obeys (act_bind m f) Q R"
  unfolding act_bind_def by (rule act_obeys_try) (auto simp: act_obeys_def act_raise_def)

lemma act_obeys_weaken:
  "act_obeys m Q R \<Longrightarrow> (\<And>a. Q a \<Longrightarrow> Q' a) \<Longrightarrow> (\<And>e. R e \<Longrightarrow> R' e) \<Longrightarrow> act_obeys m Q' R'"
  by (fastforce simp: act_obeys_def split: sum.splits)

section \<open>Configuration\<close>

datatype b402_config_error = B402ConfigurationError | B402ConfigValueError

record b402_config =
  client_id :: string
  access_token :: string
  base_url :: string
  private_key :: string

definition b402_names :: "string list" where
  "b402_names = [''B402_CLIENT_ID'', ''B402_ACCESS_TOKEN'', ''B402_BASE_URL'', ''B402_PRIVATE_KEY'']"

definition env_text :: "(string \<Rightarrow> string option) \<Rightarrow> string \<Rightarrow> string" where
  "env_text env name = py_strip (case env name of None \<Rightarrow> [] | Some v \<Rightarrow> v)"

text \<open>
  \<open>Inr None\<close> when nothing is configured. \<open>importable\<close> is whether the RSA library reads a private
  key from these bytes. \<open>urlsplit\<close> may raise a \<open>ValueError\<close>, which nothing here turns into a
  configuration error.
\<close>

definition b402_config_from_env ::
  "(bytes \<Rightarrow> bool) \<Rightarrow> (string \<Rightarrow> string option) \<Rightarrow> b402_config_error + b402_config option" where
  "b402_config_from_env importable env =
     (let raw_base_url = py_rstrip_char (CHR ''/'') (env_text env ''B402_BASE_URL'')
      in if list_all (\<lambda>name. env_text env name = []) b402_names then Inr None
         else if list_ex (\<lambda>name. env_text env name = []) b402_names then Inl B402ConfigurationError
         else case urlsplit raw_base_url of
           None \<Rightarrow> Inl B402ConfigValueError
         | Some parsed \<Rightarrow>
             (if url_scheme parsed \<noteq> ''https'' \<or> url_netloc parsed = [] \<or> CHR ''@'' \<in> set (url_netloc parsed)
                 \<or> url_query parsed \<noteq> [] \<or> url_fragment parsed \<noteq> []
              then Inl B402ConfigurationError
              else case b64decode (env_text env ''B402_PRIVATE_KEY'') of
                None \<Rightarrow> Inl B402ConfigurationError
              | Some key \<Rightarrow>
                  (if \<not> importable key then Inl B402ConfigurationError
                   else Inr (Some \<lparr>client_id = env_text env ''B402_CLIENT_ID'',
                     access_token = env_text env ''B402_ACCESS_TOKEN'', base_url = raw_base_url,
                     private_key = env_text env ''B402_PRIVATE_KEY''\<rparr>))))"

section \<open>Requests\<close>

record b402_response =
  status_code :: int
  response_json :: "exn + json"

record ('w, 't) b402_services =
  http_post :: "string \<Rightarrow> bytes \<Rightarrow> (string \<times> string) list \<Rightarrow> 'w \<Rightarrow> (exn + b402_response) \<times> 'w"
  rsa_sign :: "bytes \<Rightarrow> bytes"
  b402_now_ms :: "'w \<Rightarrow> int \<times> 'w"
  b402_monotonic :: "'w \<Rightarrow> 't \<times> 'w"

record ('w, 't) b402_state =
  supported_kinds :: "dict list option"
  supported_expires_at :: 't
  b402_world :: 'w

definition outside :: "('w \<Rightarrow> (exn + 'a) \<times> 'w) \<Rightarrow> (('w, 't) b402_state, 'a) act" where
  "outside f s = (case f (b402_world s) of (r, w) \<Rightarrow> (r, s\<lparr>b402_world := w\<rparr>))"

definition outside_read :: "('w \<Rightarrow> 'a \<times> 'w) \<Rightarrow> (('w, 't) b402_state, 'a) act" where
  "outside_read f = outside (\<lambda>w. case f w of (a, w') \<Rightarrow> (Inr a, w'))"

definition b402_init :: "'w \<Rightarrow> ('w, 't::linordered_idom) b402_state" where
  "b402_init w = \<lparr>supported_kinds = None, supported_expires_at = 0, b402_world = w\<rparr>"

definition wire_compact :: dumps_options where
  "wire_compact = \<lparr>ensure_ascii = False, item_separator = '','', key_separator = '':'', sort_keys = False\<rparr>"

text \<open>What the body of the \<open>try\<close> makes of the response; every \<open>Exception\<close> becomes an unknown outcome.\<close>

definition b402_parsed :: "b402_response \<Rightarrow> exn + json" where
  "b402_parsed response =
     (if status_code response \<ge> 500 \<or> status_code response = 401 \<or> status_code response = 403
      then Inl B402Indeterminate
      else case response_json response of
        Inl e \<Rightarrow> Inl (if e = Cancelled then Cancelled else B402Indeterminate)
      | Inr v \<Rightarrow> Inr v)"

definition b402_post ::
  "('w, 't) b402_services \<Rightarrow> b402_config \<Rightarrow> string \<Rightarrow> dict \<Rightarrow> (('w, 't) b402_state, dict) act" where
  "b402_post B cfg path payload =
     (let body = utf8 (json_dumps wire_compact (JDict payload))
      in act_bind (outside_read (b402_now_ms B)) (\<lambda>now.
         let timestamp = dec_of_int now;
             signature = b64encode (rsa_sign B (body @ timestamp))
         in act_try (outside (http_post B (base_url cfg @ ''/'' @ py_lstrip_by (\<lambda>c. c = CHR ''/'') path) body
              [(''Content-Type'', ''application/json''), (''X-Tesla-ClientId'', client_id cfg),
               (''X-Tesla-SignAccessToken'', access_token cfg), (''X-Tesla-Timestamp'', timestamp),
               (''X-Tesla-Signature'', signature)]))
            (\<lambda>e. act_raise (if e = Cancelled then Cancelled else B402Indeterminate))
            (\<lambda>response. act_bind (act_of_sum (b402_parsed response)) (\<lambda>parsed.
               case parsed of
                 JDict d \<Rightarrow> act_return d
               | _ \<Rightarrow> act_raise B402Indeterminate))))"

section \<open>Supported kinds\<close>

definition is_evm_address :: "json \<Rightarrow> bool" where
  "is_evm_address v = (case v of JStr s \<Rightarrow> evm_address_re s | _ \<Rightarrow> False)"

definition fresh_kinds :: "('w, 't::linordered_idom) b402_state \<Rightarrow> 't \<Rightarrow> dict list option" where
  "fresh_kinds s now = (if now < supported_expires_at s then supported_kinds s else None)"

definition response_kinds :: "dict \<Rightarrow> exn + dict list" where
  "response_kinds response =
     (case (case dict_get response ''data'' of JDict data \<Rightarrow> dict_get data ''kinds'' | _ \<Rightarrow> JNull) of
        JList kinds \<Rightarrow>
          (if dict_get response ''code'' \<noteq> JStr ''000000'' then Inl B402Indeterminate
           else if \<not> list_all is_dict kinds then Inl B402Indeterminate
           else Inr (map (\<lambda>k. case k of JDict d \<Rightarrow> d | _ \<Rightarrow> []) kinds))
      | _ \<Rightarrow> Inl B402Indeterminate)"

definition fetch_kinds ::
  "('w, 't::linordered_idom) b402_services \<Rightarrow> b402_config \<Rightarrow> 't \<Rightarrow> (('w, 't) b402_state, dict list) act" where
  "fetch_kinds B cfg now =
     act_bind (b402_post B cfg ''/papi/v2/b402/supported'' []) (\<lambda>response.
     act_bind (act_of_sum (response_kinds response)) (\<lambda>kinds.
     act_bind (act_modify (\<lambda>s. s\<lparr>supported_kinds := Some kinds, supported_expires_at := now + 3600\<rparr>)) (\<lambda>_.
       act_return kinds)))"

definition get_supported_kinds ::
  "('w, 't::linordered_idom) b402_services \<Rightarrow> b402_config \<Rightarrow> (('w, 't) b402_state, dict list) act" where
  "get_supported_kinds B cfg =
     act_bind (outside_read (b402_monotonic B)) (\<lambda>now.
     act_bind (act_get (\<lambda>s. fresh_kinds s now)) (\<lambda>cached.
       case cached of
         Some kinds \<Rightarrow> act_return kinds
       | None \<Rightarrow>
           act_bind (outside_read (b402_monotonic B)) (\<lambda>now.
           act_bind (act_get (\<lambda>s. fresh_kinds s now)) (\<lambda>cached.
             case cached of
               Some kinds \<Rightarrow> act_return kinds
             | None \<Rightarrow> fetch_kinds B cfg now))))"

text \<open>The \<open>extra\<close> of a kind that fits the token, in the order of the code's conditions.\<close>

definition kind_extra :: "string \<Rightarrow> payment_token \<Rightarrow> dict \<Rightarrow> dict option" where
  "kind_extra network token kind =
     (case dict_get kind ''extra'' of
        JDict extra \<Rightarrow>
          (let valid_addresses = is_evm_address (dict_get extra ''signerAddress'')
               \<and> (transfer_method token = ''permit2-exact'' \<longrightarrow> is_evm_address (dict_get extra ''spenderAddress''))
           in if py_eq (dict_get kind ''x402Version'') (JInt 2)
                 \<and> dict_get kind ''scheme'' = JStr ''exact'' \<and> dict_get kind ''network'' = JStr network
                 \<and> dict_get extra ''name'' = JStr (domain_name token)
                 \<and> dict_get extra ''version'' = JStr (domain_version token)
                 \<and> dict_get extra ''assetTransferMethod'' = JStr (transfer_method token)
                 \<and> valid_addresses
              then Some extra else None)
      | _ \<Rightarrow> None)"

definition selected_extra :: "string \<Rightarrow> dict list \<Rightarrow> payment_token \<Rightarrow> dict option" where
  "selected_extra network kinds token =
     (case List.map_filter (kind_extra network token) kinds of [extra] \<Rightarrow> Some extra | _ \<Rightarrow> None)"

definition payment_extras ::
  "('w, 't::linordered_idom) b402_services \<Rightarrow> b402_config \<Rightarrow> string \<Rightarrow> payment_token list
     \<Rightarrow> (('w, 't) b402_state, (string \<times> dict) list) act" where
  "payment_extras B cfg network tokens =
     act_bind (get_supported_kinds B cfg) (\<lambda>kinds.
       act_return (List.map_filter (\<lambda>token.
         map_option (\<lambda>extra. (symbol token, extra)) (selected_extra network kinds token)) tokens))"

section \<open>Verification and settlement\<close>

definition success_data :: "dict \<Rightarrow> exn + dict" where
  "success_data response =
     (if dict_get response ''code'' \<noteq> JStr ''000000'' then Inl B402Indeterminate
      else case dict_get response ''data'' of JDict data \<Rightarrow> Inr data | _ \<Rightarrow> Inl B402Indeterminate)"

definition b402_reason :: "dict \<Rightarrow> string \<Rightarrow> string \<Rightarrow> string" where
  "b402_reason data field fallback =
     (case dict_get data field of JStr s \<Rightarrow> if s \<noteq> [] then s else fallback | _ \<Rightarrow> fallback)"

text \<open>The constructor of an outcome, whose \<open>ValueError\<close> is not caught in this module.\<close>

definition outcome :: "settlement_status \<Rightarrow> string option \<Rightarrow> string option \<Rightarrow> exn + settlement_outcome" where
  "outcome st tx rs = (case mk_outcome st tx rs of None \<Rightarrow> Inl ValueError | Some out \<Rightarrow> Inr out)"

definition settlement_result :: "dict \<Rightarrow> exn + settlement_outcome" where
  "settlement_result data =
     (case (dict_get data ''success'', dict_get data ''transaction'') of
        (JBool True, JStr tx) \<Rightarrow>
          (if valid_reference tx then outcome Settled (Some tx) None else Inl B402Indeterminate)
      | (JBool False, JStr tx) \<Rightarrow>
          (if valid_reference tx then outcome Pending (Some tx) None
           else if tx = [] then outcome Rejected None
             (Some (b402_reason data ''errorReason'' ''payment settlement rejected''))
           else Inl B402Indeterminate)
      | _ \<Rightarrow> Inl B402Indeterminate)"

text \<open>\<open>None\<close> when the payment was verified, \<open>Some\<close> the outcome when it was rejected.\<close>

definition verification_result :: "dict \<Rightarrow> exn + settlement_outcome option" where
  "verification_result data =
     (case dict_get data ''isValid'' of
        JBool False \<Rightarrow> sum_map Some (outcome Rejected None
          (Some (b402_reason data ''invalidReason'' ''payment verification rejected'')))
      | JBool True \<Rightarrow> Inr None
      | _ \<Rightarrow> Inl B402Indeterminate)"

definition settle_envelope :: "dict \<Rightarrow> dict \<Rightarrow> dict" where
  "settle_envelope payment_payload accepted =
     [(''x402Version'', JInt 2), (''paymentPayload'', JDict payment_payload),
      (''paymentRequirements'', JDict accepted)]"

text \<open>The settlement request and what its response means.\<close>

definition post_settlement ::
  "('w, 't::linordered_idom) b402_services \<Rightarrow> b402_config \<Rightarrow> dict \<Rightarrow> (('w, 't) b402_state, settlement_outcome) act" where
  "post_settlement B cfg envelope =
     act_bind (b402_post B cfg ''/papi/v2/b402/settle'' envelope) (\<lambda>settlement.
     act_bind (act_of_sum (success_data settlement)) (\<lambda>data.
       act_of_sum (settlement_result data)))"

definition b402_settle ::
  "('w, 't::linordered_idom) b402_services \<Rightarrow> b402_config \<Rightarrow> dict \<Rightarrow> bool
     \<Rightarrow> (('w, 't) b402_state, settlement_outcome) act" where
  "b402_settle B cfg payment_payload verify_first =
     (case dict_get payment_payload ''accepted'' of
        JDict accepted \<Rightarrow>
     (case dict_get accepted ''extra'' of
        JDict extra \<Rightarrow>
     (case token_by_asset (dict_get accepted ''asset'') of
        None \<Rightarrow> act_raise (B402Rejected ''payment requirement asset is unsupported'')
      | Some token \<Rightarrow>
     (case dict_get accepted ''network'' of
        JStr network \<Rightarrow>
          act_bind (payment_extras B cfg network [token]) (\<lambda>current_extras.
          if \<not> (case map_of current_extras (symbol token) of
                 None \<Rightarrow> False | Some current \<Rightarrow> py_eq (JDict current) (JDict extra))
          then act_raise (B402Rejected ''payment requirement is no longer supported'')
          else if verify_first then
            act_bind (b402_post B cfg ''/papi/v2/b402/verify'' (settle_envelope payment_payload accepted))
              (\<lambda>verification.
            act_bind (act_of_sum (success_data verification)) (\<lambda>data.
            act_bind (act_of_sum (verification_result data)) (\<lambda>rejection.
              case rejection of
                Some out \<Rightarrow> act_return out
              | None \<Rightarrow> post_settlement B cfg (settle_envelope payment_payload accepted))))
          else post_settlement B cfg (settle_envelope payment_payload accepted))
      | _ \<Rightarrow> act_raise (B402Rejected ''payment requirement network is missing'')))
      | _ \<Rightarrow> act_raise (B402Rejected ''payment requirement extra is missing''))
      | _ \<Rightarrow> act_raise (B402Rejected ''payment requirement is missing''))"

definition verify_and_settle ::
  "('w, 't::linordered_idom) b402_services \<Rightarrow> b402_config \<Rightarrow> dict \<Rightarrow> (('w, 't) b402_state, settlement_outcome) act" where
  "verify_and_settle B cfg payment_payload = b402_settle B cfg payment_payload True"

definition settle_only ::
  "('w, 't::linordered_idom) b402_services \<Rightarrow> b402_config \<Rightarrow> dict \<Rightarrow> (('w, 't) b402_state, settlement_outcome) act" where
  "settle_only B cfg payment_payload = b402_settle B cfg payment_payload False"

section \<open>What the client returns and raises\<close>

definition b402_exn :: "exn \<Rightarrow> bool" where
  "b402_exn e \<longleftrightarrow> e = Cancelled \<or> e = B402Indeterminate \<or> (\<exists>why. e = B402Rejected why)"

lemma outside_obeys [act_rule]: "(\<And>a. Q a) \<Longrightarrow> (\<And>e. R e) \<Longrightarrow> act_obeys (outside f) Q R"
  by (auto simp: act_obeys_def split: sum.splits)

lemma outside_read_obeys [act_rule]: "(\<And>a. Q a) \<Longrightarrow> act_obeys (outside_read f) Q R"
  by (auto simp: act_obeys_def outside_read_def outside_def split: prod.splits)

lemma b402_parsed_exn: "b402_parsed r = Inl e \<Longrightarrow> e = Cancelled \<or> e = B402Indeterminate"
  by (auto simp: b402_parsed_def split: if_splits sum.splits)

lemma b402_post_obeys:
  "act_obeys (b402_post B cfg path payload) (\<lambda>_. True) (\<lambda>e. e = Cancelled \<or> e = B402Indeterminate)"
  unfolding b402_post_def Let_def
  by (intro act_rule) (auto dest: b402_parsed_exn split: json.split sum.split)

lemma response_kinds_exn: "response_kinds r = Inl e \<Longrightarrow> e = B402Indeterminate"
  by (auto simp: response_kinds_def split: json.splits if_splits)

lemma fetch_kinds_obeys:
  "act_obeys (fetch_kinds B cfg now) (\<lambda>_. True) (\<lambda>e. e = Cancelled \<or> e = B402Indeterminate)"
  unfolding fetch_kinds_def
  by (rule act_obeys_bind, rule act_obeys_weaken[OF b402_post_obeys])
     (auto intro!: act_obeys_bind dest: response_kinds_exn split: sum.split)

lemma get_supported_kinds_obeys:
  "act_obeys (get_supported_kinds B cfg) (\<lambda>_. True) (\<lambda>e. e = Cancelled \<or> e = B402Indeterminate)"
  unfolding get_supported_kinds_def
  by (intro act_rule) (auto intro!: act_rule fetch_kinds_obeys split: option.split)

lemma outcome_valid: "outcome st tx rs = Inr out \<Longrightarrow> outcome_ok out"
  by (auto simp: outcome_def dest: mk_outcome_ok split: option.splits)

lemma outcome_total:
  "valid_reference tx \<Longrightarrow> outcome Settled (Some tx) rs \<noteq> Inl e"
  "valid_reference tx \<Longrightarrow> outcome Pending (Some tx) rs \<noteq> Inl e"
  "outcome Rejected None rs \<noteq> Inl e"
  by (simp_all add: outcome_def mk_outcome_def opt_str_def)

lemma results_obey:
  "settlement_result data = Inl e \<Longrightarrow> e = B402Indeterminate"
  "settlement_result data = Inr out \<Longrightarrow> outcome_ok out"
  "verification_result data = Inl e \<Longrightarrow> e = B402Indeterminate"
  "verification_result data = Inr (Some out) \<Longrightarrow> outcome_ok out \<and> status out = Rejected"
  "success_data response = Inl e \<Longrightarrow> e = B402Indeterminate"
  by (auto simp: settlement_result_def verification_result_def success_data_def outcome_total
      outcome_def mk_outcome_def outcome_ok_def opt_str_def
      split: json.splits bool.splits if_splits)

lemma payment_extras_obeys:
  "act_obeys (payment_extras B cfg network tokens) (\<lambda>_. True) (\<lambda>e. e = Cancelled \<or> e = B402Indeterminate)"
  unfolding payment_extras_def
  by (rule act_obeys_bind, rule act_obeys_weaken[OF get_supported_kinds_obeys]) auto

lemma post_settlement_obeys:
  "act_obeys (post_settlement B cfg envelope) outcome_ok b402_exn"
  unfolding post_settlement_def
  by (rule act_obeys_bind, rule act_obeys_weaken[OF b402_post_obeys])
     (auto intro!: act_obeys_bind simp: b402_exn_def dest: results_obey split: sum.split)

lemma verification_obeys:
  assumes "act_obeys m outcome_ok b402_exn"
  shows "act_obeys (act_bind (b402_post B cfg path envelope) (\<lambda>verification.
      act_bind (act_of_sum (success_data verification)) (\<lambda>data.
      act_bind (act_of_sum (verification_result data)) (\<lambda>rejection.
        case rejection of Some out \<Rightarrow> act_return out | None \<Rightarrow> m)))) outcome_ok b402_exn"
  by (rule act_obeys_bind, rule act_obeys_weaken[OF b402_post_obeys])
     (auto intro!: act_obeys_bind assms simp: b402_exn_def dest!: results_obey(3-5)
       split: sum.split option.split)

text \<open>
  Whatever the facilitator answers, the client returns a well-formed outcome or raises a rejection
  or an unknown outcome: a reference is never invented and no other exception escapes.
\<close>

lemma b402_settle_obeys: "act_obeys (b402_settle B cfg payment verify_first) outcome_ok b402_exn"
proof -
  have extras: "act_obeys (act_bind (payment_extras B cfg network [token]) f) outcome_ok b402_exn"
    if "\<And>extras. act_obeys (f extras) outcome_ok b402_exn" for network token f
    by (rule act_obeys_bind, rule act_obeys_weaken[OF payment_extras_obeys])
       (auto simp: b402_exn_def that)
  show ?thesis unfolding b402_settle_def
    by (auto intro!: extras verification_obeys post_settlement_obeys simp: b402_exn_def
        split: json.split option.split)
qed

section \<open>Which requests are sent, and in which order\<close>

text \<open>\<open>log\<close> reads the URLs posted so far off the world; no other call of the client adds to it.\<close>

definition logs_posts :: "('w, 't) b402_services \<Rightarrow> ('w \<Rightarrow> string list) \<Rightarrow> bool" where
  "logs_posts B log \<longleftrightarrow>
     (\<forall>url body headers w. log (snd (http_post B url body headers w)) = log w @ [url])
     \<and> (\<forall>w. log (snd (b402_now_ms B w)) = log w) \<and> (\<forall>w. log (snd (b402_monotonic B w)) = log w)"

definition b402_url :: "b402_config \<Rightarrow> string \<Rightarrow> string" where
  "b402_url cfg operation = base_url cfg @ ''/papi/v2/b402/'' @ operation"

text \<open>
  \<open>sends B log m U\<close>: from every state \<open>m\<close> posts to URLs \<open>us\<close> and gives a result \<open>r\<close> with \<open>U us r\<close>.
\<close>

definition sends ::
  "('w \<Rightarrow> string list) \<Rightarrow> (('w, 't) b402_state, 'a) act \<Rightarrow> (string list \<Rightarrow> exn + 'a \<Rightarrow> bool) \<Rightarrow> bool" where
  "sends log m U \<longleftrightarrow> (\<forall>s. \<exists>us. log (b402_world (snd (m s))) = log (b402_world s) @ us \<and> U us (fst (m s)))"

lemma sends_atoms:
  "U [] (Inr a) \<Longrightarrow> sends log (act_return a) U" "U [] (Inl e) \<Longrightarrow> sends log (act_raise e) U"
  "U [] r \<Longrightarrow> sends log (act_of_sum r) U" "(\<And>a. U [] (Inr a)) \<Longrightarrow> sends log (act_get g) U"
  by (auto simp: sends_def act_defs)

lemma sends_modify: "(\<And>s. b402_world (f s) = b402_world s) \<Longrightarrow> U [] (Inr ()) \<Longrightarrow> sends log (act_modify f) U"
  by (auto simp: sends_def act_defs)

lemma sends_read:
  "\<forall>w. log (snd (f w)) = log w \<Longrightarrow> (\<And>a. U [] (Inr a)) \<Longrightarrow> sends log (outside_read f) U"
  unfolding sends_def outside_read_def outside_def
proof (intro allI exI[of _ "[]"])
  fix s :: "('a, 'c) b402_state"
  assume "\<forall>w. log (snd (f w)) = log w" and U: "\<And>a. U [] (Inr a)"
  then have "log (snd (f (b402_world s))) = log (b402_world s)" by blast
  then show "log (b402_world (snd (case case f (b402_world s) of (a, w') \<Rightarrow> (Inr a, w') of
        (r, w) \<Rightarrow> (r, s\<lparr>b402_world := w\<rparr>)))) = log (b402_world s) @ []
      \<and> U [] (fst (case case f (b402_world s) of (a, w') \<Rightarrow> (Inr a, w') of (r, w) \<Rightarrow> (r, s\<lparr>b402_world := w\<rparr>)))"
    using U by (cases "f (b402_world s)") simp
qed

lemma sends_try:
  assumes "sends log m (\<lambda>us r. case r of Inl e \<Rightarrow> sends log (h e) (\<lambda>vs. U (us @ vs))
      | Inr a \<Rightarrow> sends log (f a) (\<lambda>vs. U (us @ vs)))"
  shows "sends log (act_try m h f) U"
  unfolding sends_def
proof
  fix s
  obtain r s' where m: "m s = (r, s')" by (cases "m s")
  with assms obtain us where us: "log (b402_world s') = log (b402_world s) @ us"
    "case r of Inl e \<Rightarrow> sends log (h e) (\<lambda>vs. U (us @ vs)) | Inr a \<Rightarrow> sends log (f a) (\<lambda>vs. U (us @ vs))"
    by (auto simp: sends_def[of log m] dest!: spec[of _ s])
  show "\<exists>us. log (b402_world (snd (act_try m h f s))) = log (b402_world s) @ us \<and> U us (fst (act_try m h f s))"
  proof (cases r)
    case (Inl e)
    with us obtain vs where "log (b402_world (snd (h e s'))) = log (b402_world s') @ vs" "U (us @ vs) (fst (h e s'))"
      unfolding sends_def by (auto dest!: spec[of _ s'])
    with us m Inl show ?thesis by (auto simp: act_try_def)
  next
    case (Inr a)
    with us obtain vs where "log (b402_world (snd (f a s'))) = log (b402_world s') @ vs" "U (us @ vs) (fst (f a s'))"
      unfolding sends_def by (auto dest!: spec[of _ s'])
    with us m Inr show ?thesis by (auto simp: act_try_def)
  qed
qed

lemma sends_bind:
  assumes "sends log m (\<lambda>us r. case r of Inl e \<Rightarrow> U us (Inl e) | Inr a \<Rightarrow> sends log (f a) (\<lambda>vs. U (us @ vs)))"
  shows "sends log (act_bind m f) U"
  unfolding act_bind_def
  by (rule sends_try) (use assms in \<open>fastforce simp: sends_def[of log m] sends_def[of log "act_raise e" for e]
    act_raise_def split: sum.splits\<close>)

lemma sends_weaken: "sends log m U \<Longrightarrow> (\<And>us r. U us r \<Longrightarrow> V us r) \<Longrightarrow> sends log m V"
  unfolding sends_def by blast

lemma sends_post:
  assumes "logs_posts B log"
  shows "sends log (b402_post B cfg (''/papi/v2/b402/'' @ operation) payload) (\<lambda>us r. us = [b402_url cfg operation])"
proof -
  have post: "sends log (outside (http_post B (b402_url cfg operation) body headers))
      (\<lambda>us r. us = [b402_url cfg operation])" for body headers
    using assms by (auto simp: sends_def outside_def logs_posts_def split: prod.splits) (metis snd_conv)
  have url: "base_url cfg @ ''/'' @ py_lstrip_by (\<lambda>c. c = CHR ''/'') (''/papi/v2/b402/'' @ operation)
      = b402_url cfg operation"
    by (simp add: b402_url_def py_lstrip_by_def)
  show ?thesis unfolding b402_post_def Let_def url
    using assms
    by (auto intro!: sends_bind sends_read sends_try sends_weaken[OF post] sends_atoms
        simp: logs_posts_def split: sum.split json.split)
qed

lemma sends_kinds:
  assumes "logs_posts B log"
  shows "sends log (get_supported_kinds B cfg) (\<lambda>us r. us = [] \<or> us = [b402_url cfg ''supported''])"
proof -
  let ?U = "\<lambda>us (r :: exn + dict list). us = [] \<or> us = [b402_url cfg ''supported'']"
  have clock: "\<forall>w. log (snd (b402_monotonic B w)) = log w" using assms by (simp add: logs_posts_def)
  have post: "sends log (b402_post B cfg ''/papi/v2/b402/supported'' []) (\<lambda>us r. us = [b402_url cfg ''supported''])"
    using sends_post[OF assms, of cfg "''supported''"] by simp
  have fetch: "sends log (fetch_kinds B cfg now) ?U" for now
    unfolding fetch_kinds_def
    by (auto intro!: sends_bind sends_weaken[OF post] sends_atoms sends_modify split: sum.split)
  show ?thesis unfolding get_supported_kinds_def
    by (auto intro!: sends_bind sends_read[OF clock] sends_atoms fetch split: option.split)
qed

lemma sends_extras:
  assumes "logs_posts B log"
  shows "sends log (payment_extras B cfg network tokens) (\<lambda>us r. us = [] \<or> us = [b402_url cfg ''supported''])"
  unfolding payment_extras_def
  by (rule sends_bind, rule sends_weaken[OF sends_kinds[OF assms]])
     (auto intro!: sends_atoms split: sum.split)

text \<open>
  A settlement sends at most one settlement request, as its last one; when it verifies first that
  request comes after the verification. An outcome with a reference was answered to it.
\<close>

definition settle_requests :: "b402_config \<Rightarrow> bool \<Rightarrow> string list \<Rightarrow> exn + settlement_outcome \<Rightarrow> bool" where
  "settle_requests cfg verify_first us r \<longleftrightarrow>
     (let supported = [b402_url cfg ''supported'']; verify = [b402_url cfg ''verify''];
          settling = [b402_url cfg ''settle'']
      in (\<exists>first\<in>{[], supported}.
           us = first \<and> (\<exists>e. r = Inl e)
           \<or> verify_first \<and> us = first @ verify \<and> (case r of Inl e \<Rightarrow> True | Inr out \<Rightarrow> status out = Rejected)
           \<or> us = first @ (if verify_first then verify else []) @ settling))"

lemma sends_settlement:
  assumes "logs_posts B log"
  shows "sends log (post_settlement B cfg envelope) (\<lambda>us r. us = [b402_url cfg ''settle''])"
proof -
  have post: "sends log (b402_post B cfg ''/papi/v2/b402/settle'' envelope) (\<lambda>us r. us = [b402_url cfg ''settle''])"
    using sends_post[OF assms, of cfg "''settle''"] by simp
  show ?thesis unfolding post_settlement_def
    by (auto intro!: sends_bind sends_weaken[OF post] sends_atoms split: sum.split)
qed

lemma sends_verification:
  assumes "logs_posts B log"
  shows "sends log (act_bind (b402_post B cfg ''/papi/v2/b402/verify'' envelope) (\<lambda>verification.
      act_bind (act_of_sum (success_data verification)) (\<lambda>data.
      act_bind (act_of_sum (verification_result data)) (\<lambda>rejection.
        case rejection of Some out \<Rightarrow> act_return out | None \<Rightarrow> post_settlement B cfg envelope))))
    (\<lambda>us r. us = [b402_url cfg ''verify''] \<and> (case r of Inl e \<Rightarrow> True | Inr out \<Rightarrow> status out = Rejected)
       \<or> us = [b402_url cfg ''verify'', b402_url cfg ''settle''])"
proof -
  have post: "sends log (b402_post B cfg ''/papi/v2/b402/verify'' envelope) (\<lambda>us r. us = [b402_url cfg ''verify''])"
    using sends_post[OF assms, of cfg "''verify''"] by simp
  show ?thesis
    by (auto intro!: sends_bind sends_weaken[OF post] sends_weaken[OF sends_settlement[OF assms]] sends_atoms
        dest!: results_obey(4) split: sum.split option.split)
qed

lemma sends_settle:
  assumes "logs_posts B log"
  shows "sends log (b402_settle B cfg payment verify_first) (settle_requests cfg verify_first)"
proof -
  have refused: "sends log (act_raise e) (settle_requests cfg verify_first)" for e
    by (rule sends_atoms) (simp add: settle_requests_def)
  have extras: "sends log (act_bind (payment_extras B cfg network [token]) f) (settle_requests cfg vf)"
    if "\<And>extras. sends log (f extras) (\<lambda>vs r. \<forall>first\<in>{[], [b402_url cfg ''supported'']}.
      settle_requests cfg vf (first @ vs) r)" for network token f vf
    by (rule sends_bind, rule sends_weaken[OF sends_extras[OF assms]])
       (use sends_weaken[OF that] in \<open>auto simp: settle_requests_def split: sum.split\<close>)
  show ?thesis unfolding b402_settle_def
    by (auto intro!: extras refused sends_atoms sends_weaken[OF sends_verification[OF assms]]
        sends_weaken[OF sends_settlement[OF assms]] simp: settle_requests_def
        split: json.split option.split)
qed

end
