(* ===== verification/Facilitator.thy ===== *)
theory Facilitator
  imports B402_Client Job_Identity
begin

text \<open>
  Settlement through the configured backend (\<open>x402_handler.py\<close>): the B402 client when there is
  one, else a generic facilitator for EIP-3009 payments, else a rejection. This is the function the
  job service is given as \<open>settle\<close>.
\<close>

record ('w, 't) facilitator =
  fac_b402 :: "b402_config option"
  fac_services :: "('w, 't) b402_services"
  facilitator_url :: string
  generic_post :: "string \<Rightarrow> dict \<Rightarrow> 'w \<Rightarrow> (exn + b402_response) \<times> 'w"
  fac_verifier :: verifier

text \<open>The outcome of an unknown remote result; every \<open>Exception\<close> of the generic path becomes it.\<close>

definition indeterminate_exn :: "exn \<Rightarrow> exn" where
  "indeterminate_exn e = (if e = Cancelled then Cancelled else SettlementIndeterminate)"

definition generic_result :: "json \<Rightarrow> exn + (bool \<times> string)" where
  "generic_result v =
     (case v of
        JDict data \<Rightarrow>
          (case dict_get data ''success'' of
             JBool True \<Rightarrow>
               (case dict_get data ''transaction'' of
                  JStr txhash \<Rightarrow>
                    (if is_valid_settlement_reference (JStr txhash) False then Inr (True, txhash)
                     else Inl SettlementIndeterminate)
                | _ \<Rightarrow> Inl SettlementIndeterminate)
           | JBool False \<Rightarrow>
               (if dict_has data ''transaction'' \<and> dict_get data ''transaction'' \<noteq> JStr []
                then Inl SettlementIndeterminate
                else Inr (False, py_str (py_or (dict_get data ''errorReason'')
                  (py_or (dict_get data ''error'') (JStr ''facilitator rejected'')))))
           | _ \<Rightarrow> Inl SettlementIndeterminate)
      | _ \<Rightarrow> Inl SettlementIndeterminate)"

definition settle_generic ::
  "('w, 't) facilitator \<Rightarrow> dict \<Rightarrow> (('w, 't) b402_state, bool \<times> string) act" where
  "settle_generic F payload =
     act_try (outside (generic_post F (facilitator_url F @ ''/settle'') payload))
       (\<lambda>e. act_raise (indeterminate_exn e))
       (\<lambda>resp.
          if status_code resp \<ge> 500 then act_raise SettlementIndeterminate
          else case response_json resp of
            Inl e \<Rightarrow> act_raise (indeterminate_exn e)
          | Inr v \<Rightarrow> act_of_sum (generic_result v))"

definition rejected_outcome :: "string \<Rightarrow> ('s, settlement_outcome) act" where
  "rejected_outcome why = act_of_sum (outcome Rejected None (Some why))"

definition settle_via_b402 ::
  "('w, 't::linordered_idom) facilitator \<Rightarrow> b402_config \<Rightarrow> dict \<Rightarrow> string
     \<Rightarrow> (('w, 't) b402_state, settlement_outcome) act" where
  "settle_via_b402 F cfg proof mode =
     act_try
       (if mode = ''verify-and-settle'' then verify_and_settle (fac_services F) cfg proof
        else if mode = ''settle-only'' then settle_only (fac_services F) cfg proof
        else rejected_outcome ''payment not settled: invalid settlement mode'')
       (\<lambda>e. case e of
          B402Rejected why \<Rightarrow> rejected_outcome why
        | B402Indeterminate \<Rightarrow> act_raise SettlementIndeterminate
        | _ \<Rightarrow> act_raise e)
       act_return"

definition settle_via_facilitator ::
  "('w, 't::linordered_idom) facilitator \<Rightarrow> string \<Rightarrow> string \<Rightarrow> (('w, 't) b402_state, settlement_outcome) act" where
  "settle_via_facilitator F proof_b64 mode =
     (case decode_payment_signature (fac_verifier F) proof_b64 of
        None \<Rightarrow> rejected_outcome ''Payment-Signature is not valid base64 JSON''
      | Some proof \<Rightarrow>
     (case dict_get proof ''accepted'' of
        JDict accepted \<Rightarrow>
     (case dict_get accepted ''extra'' of
        JDict extra \<Rightarrow>
     (case fac_b402 F of
        Some cfg \<Rightarrow> settle_via_b402 F cfg proof mode
      | None \<Rightarrow>
          (if dict_get extra ''assetTransferMethod'' \<noteq> JStr ''eip3009''
           then rejected_outcome ''payment not settled: transfer method requires B402''
           else if facilitator_url F \<noteq> [] then
             act_bind (settle_generic F (settle_envelope proof accepted)) (\<lambda>(settled, detail).
               if settled then act_of_sum (outcome Settled (Some detail) None)
               else rejected_outcome detail)
           else rejected_outcome (''payment not settled: no settlement backend configured. ''
             @ ''Configure all four B402 V2 settings for production.'')))
      | _ \<Rightarrow> rejected_outcome ''payment not settled: missing transfer method'')
      | _ \<Rightarrow> rejected_outcome ''payment not settled: missing V2 accepted requirement''))"

text \<open>As the job service calls it.\<close>

definition facilitator_settle ::
  "('w, 't::linordered_idom) facilitator \<Rightarrow> string \<Rightarrow> string \<Rightarrow> ('w, 't) b402_state
     \<Rightarrow> (exn + settlement_outcome option) \<times> ('w, 't) b402_state" where
  "facilitator_settle F proof_b64 mode s =
     (case settle_via_facilitator F proof_b64 mode s of (r, s') \<Rightarrow> (sum_map Some r, s'))"

section \<open>What it returns and raises\<close>

lemma rejected_obeys [simp]: "act_obeys (rejected_outcome why) outcome_ok R"
  by (simp add: rejected_outcome_def outcome_def mk_outcome_def outcome_ok_def)

definition settle_exn :: "exn \<Rightarrow> bool" where
  "settle_exn e \<longleftrightarrow> e = Cancelled \<or> e = SettlementIndeterminate"

lemma generic_result_obeys:
  "case generic_result v of Inl e \<Rightarrow> settle_exn e | Inr (settled, detail) \<Rightarrow> settled \<longrightarrow> valid_reference detail"
  by (auto simp: generic_result_def settle_exn_def is_valid_settlement_reference_def
      split: json.split bool.split)

lemma settle_generic_obeys:
  "act_obeys (settle_generic F payload) (\<lambda>(settled, detail). settled \<longrightarrow> valid_reference detail) settle_exn"
proof -
  have "case generic_result v of Inl e \<Rightarrow> settle_exn e
      | Inr a \<Rightarrow> (case a of (settled, detail) \<Rightarrow> settled \<longrightarrow> valid_reference detail)" for v
    using generic_result_obeys[of v] by (simp split: sum.splits)
  then show ?thesis unfolding settle_generic_def
    by (intro act_rule) (auto simp: settle_exn_def indeterminate_exn_def split: sum.split)
qed

lemma settle_via_b402_obeys: "act_obeys (settle_via_b402 F cfg proof mode) outcome_ok settle_exn"
proof -
  have b402: "act_obeys m (\<lambda>a. act_obeys (act_return a) outcome_ok settle_exn)
      (\<lambda>e. act_obeys (case e of B402Rejected why \<Rightarrow> rejected_outcome why
        | B402Indeterminate \<Rightarrow> act_raise SettlementIndeterminate | _ \<Rightarrow> act_raise e) outcome_ok settle_exn)"
    if "act_obeys m outcome_ok b402_exn" for m :: "(('a, 'b) b402_state, settlement_outcome) act"
    by (rule act_obeys_weaken[OF that]) (auto simp: b402_exn_def settle_exn_def)
  show ?thesis unfolding settle_via_b402_def verify_and_settle_def settle_only_def
    by (rule act_obeys_try, rule b402) (simp add: b402_settle_obeys)
qed

text \<open>
  A settlement gives a well-formed outcome, is cancelled, or has the one exception that keeps the
  job in settlement: an unknown remote result is never turned into a rejection.
\<close>

lemma settle_via_facilitator_obeys: "act_obeys (settle_via_facilitator F proof_b64 mode) outcome_ok settle_exn"
proof -
  have "act_obeys (act_bind (settle_generic F payload) (\<lambda>(settled, detail).
      if settled then act_of_sum (outcome Settled (Some detail) None) else rejected_outcome detail))
      outcome_ok settle_exn" for payload
    by (rule act_obeys_bind, rule act_obeys_weaken[OF settle_generic_obeys])
       (auto simp: outcome_def mk_outcome_def opt_str_def outcome_ok_def split: sum.split)
  then show ?thesis unfolding settle_via_facilitator_def
    by (auto intro: settle_via_b402_obeys split: option.split json.split)
qed

lemma facilitator_settle_ok:
  "case fst (facilitator_settle F proof_b64 mode s) of
     Inl e \<Rightarrow> settle_exn e | Inr out \<Rightarrow> (\<exists>r. out = Some r \<and> outcome_ok r)"
proof -
  obtain r s' where r: "settle_via_facilitator F proof_b64 mode s = (r, s')" by fastforce
  with settle_via_facilitator_obeys[of F proof_b64 mode, unfolded act_obeys_def, THEN spec, of s]
  show ?thesis by (cases r) (simp_all add: facilitator_settle_def)
qed

text \<open>Without a backend nothing is sent and nothing is settled.\<close>

lemma settle_fails_closed:
  assumes "fac_b402 F = None" "facilitator_url F = []"
  shows "\<exists>out. settle_via_facilitator F proof_b64 mode s = (Inr out, s) \<and> status out = Rejected"
  using assms
  by (auto simp: settle_via_facilitator_def rejected_outcome_def outcome_def mk_outcome_def act_of_sum_def
      split: option.split json.split)

end
