(* ===== verification/X402_Handler.thy ===== *)
theory X402_Handler
  imports Facilitator X402_Envelope Job_Execution
begin

text \<open>
  The HTTP endpoints (\<open>x402_handler.py\<close>): an ASGI application that answers the \<open>/x402\<close> routes over
  the job service and passes everything else on. A request is its scope and the messages that
  \<open>receive\<close> yields before the client is gone; the answer is the list of messages that are sent. The
  world is that of the B402 client, whose cache the price and challenge routes share with the
  settlement.
\<close>

section \<open>Requests\<close>

record http_scope =
  scope_type :: string
  scope_path :: string
  scope_method :: "string option"
  scope_scheme :: "string option"
  scope_headers :: "(bytes \<times> bytes) list"
  scope_public_base_url :: "string option"

text \<open>A received message; a request message has its body, if any, and whether more follows.\<close>

datatype http_message = RequestMessage "bytes option" bool | Disconnect | OtherMessage

definition ASYNC_BODY_MAX_BYTES :: nat where "ASYNC_BODY_MAX_BYTES = 256 * 1024"

datatype body_result = BodyRead bytes | BodyTooLarge | RequestDisconnected

text \<open>The loop of \<open>_read_json_body\<close>; what was joined so far is \<open>body\<close>.\<close>

fun read_body :: "nat \<Rightarrow> bytes \<Rightarrow> http_message list \<Rightarrow> body_result" where
  "read_body max_bytes body [] = RequestDisconnected"
| "read_body max_bytes body (Disconnect # messages) = RequestDisconnected"
| "read_body max_bytes body (OtherMessage # messages) = read_body max_bytes body messages"
| "read_body max_bytes body (RequestMessage chunk more_body # messages) =
     (let body' = body @ (case chunk of None \<Rightarrow> [] | Some c \<Rightarrow> c)
      in if length body' > max_bytes then BodyTooLarge
         else if more_body then read_body max_bytes body' messages
         else BodyRead body')"

text \<open>
  \<open>json.loads\<close> of bytes: \<open>detect_encoding\<close> and the decoders it selects, on the modelled code points.
\<close>

fun utf16_decode :: "bool \<Rightarrow> bytes \<Rightarrow> string option" where
  "utf16_decode big [] = Some []"
| "utf16_decode big [a] = None"
| "utf16_decode big (a # b # bs) =
     (let hi = (if big then a else b); lo = (if big then b else a)
      in if ord hi = 0 then map_option ((#) lo) (utf16_decode big bs) else None)"

fun utf32_decode :: "bool \<Rightarrow> bytes \<Rightarrow> string option" where
  "utf32_decode big [] = Some []"
| "utf32_decode big (a # b # c # d # bs) =
     (let lo = (if big then d else a); rest = (if big then [a, b, c] else [b, c, d])
      in if list_all (\<lambda>x. ord x = 0) rest then map_option ((#) lo) (utf32_decode big bs) else None)"
| "utf32_decode big _ = None"

definition json_text :: "bytes \<Rightarrow> string option" where
  "json_text b =
     (let at = (\<lambda>i. ord (b ! i))
      in if starts_with [chr 0, chr 0, chr 254, chr 255] b then utf32_decode True (drop 4 b)
         else if starts_with [chr 255, chr 254, chr 0, chr 0] b then utf32_decode False (drop 4 b)
         else if starts_with [chr 254, chr 255] b then utf16_decode True (drop 2 b)
         else if starts_with [chr 255, chr 254] b then utf16_decode False (drop 2 b)
         else if starts_with [chr 239, chr 187, chr 191] b then utf8_decode (drop 3 b)
         else if length b \<ge> 4 \<and> at 0 = 0 then
           (if at 1 \<noteq> 0 then utf16_decode True b else utf32_decode True b)
         else if length b \<ge> 4 \<and> at 1 = 0 then
           (if at 2 \<noteq> 0 \<or> at 3 \<noteq> 0 then utf16_decode False b else utf32_decode False b)
         else if length b = 2 \<and> at 0 = 0 then utf16_decode True b
         else if length b = 2 \<and> at 1 = 0 then utf16_decode False b
         else utf8_decode b)"

text \<open>
  The decoded request. A \<open>JSONDecodeError\<close> or \<open>UnicodeDecodeError\<close> is \<open>Inr None\<close>, which the handler
  answers; a plain \<open>ValueError\<close> (an integer beyond the digit limit) is not caught there.
\<close>

definition request_json :: "('w, 's) services_scheme \<Rightarrow> bytes \<Rightarrow> exn + json option" where
  "request_json E body =
     (case json_text body of
        None \<Rightarrow> Inr None
      | Some text \<Rightarrow>
          (case json_decode (default_hooks (float_of E)) text of
             Inl JsonSyntax \<Rightarrow> Inr None
           | Inl JsonNumber \<Rightarrow> Inl ValueError
           | Inr v \<Rightarrow> Inr (Some v)))"

text \<open>\<open>bytes.lower()\<close> changes ASCII letters only; \<open>None\<close> is \<open>InvalidHeaderValue\<close>.\<close>

definition bytes_lower :: "bytes \<Rightarrow> bytes" where
  "bytes_lower b = map (\<lambda>c. if is_upper_az c then chr (ord c + 32) else c) b"

definition request_header :: "http_scope \<Rightarrow> bytes \<Rightarrow> string option" where
  "request_header scope name =
     (case find (\<lambda>(n, v). bytes_lower n = bytes_lower name) (scope_headers scope) of
        None \<Rightarrow> Some []
      | Some (n, v) \<Rightarrow> utf8_decode v)"

definition parse_symbols :: "json \<Rightarrow> string list" where
  "parse_symbols raw =
     (case raw of
        JList xs \<Rightarrow> map py_upper (filter (\<lambda>s. s \<noteq> []) (map (\<lambda>x. py_strip (py_str x)) xs))
      | JStr s \<Rightarrow> map py_upper (filter (\<lambda>s. s \<noteq> []) (map py_strip (py_split (CHR '','') s)))
      | _ \<Rightarrow> [])"

text \<open>\<open>dict(headers)\<close> keeps the last value of a name; \<open>None\<close> is \<open>UnicodeDecodeError\<close>.\<close>

definition scope_host :: "http_scope \<Rightarrow> string option" where
  "scope_host scope =
     (let host = (case map_of (rev (scope_headers scope)) ''host'' of None \<Rightarrow> [] | Some v \<Rightarrow> v)
      in utf8_decode (if host = [] then ''localhost:9000'' else host))"

definition public_resource :: "http_scope \<Rightarrow> string \<Rightarrow> exn + string" where
  "public_resource scope path =
     (let trusted = py_rstrip_char (CHR ''/'')
            (case scope_public_base_url scope of None \<Rightarrow> [] | Some u \<Rightarrow> u);
          scheme = (case scope_scheme scope of None \<Rightarrow> ''http'' | Some s \<Rightarrow> if s = [] then ''http'' else s)
      in if trusted \<noteq> [] then Inr (trusted @ path)
         else case scope_host scope of
           None \<Rightarrow> Inl ValueError
         | Some host \<Rightarrow> Inr (scheme @ ''://'' @ host @ path))"

section \<open>Responses\<close>

type_synonym http_headers = "(bytes \<times> bytes) list"

definition spaced :: dumps_options where
  "spaced = \<lparr>ensure_ascii = False, item_separator = '', '', key_separator = '': '', sort_keys = False\<rparr>"

definition send_body :: "int \<Rightarrow> bytes \<Rightarrow> http_headers \<Rightarrow> asgi_message list" where
  "send_body st body extra_headers =
     [\<lparr>msg_type = ''http.response.start'', msg_status = JInt st,
            msg_headers = Some (map Some ([(''content-type'', ''application/json''),
              (''content-length'', dec_of_nat (length body))] @ extra_headers)),
            msg_body = Some [], msg_more_body = False\<rparr>,
          \<lparr>msg_type = ''http.response.body'', msg_status = JNull, msg_headers = Some [],
            msg_body = Some body, msg_more_body = False\<rparr>]"

definition send_json :: "int \<Rightarrow> dict \<Rightarrow> http_headers \<Rightarrow> asgi_message list" where
  "send_json st data extra_headers = send_body st (utf8 (json_dumps spaced (JDict data))) extra_headers"

definition async_response_headers :: "bool \<Rightarrow> http_headers \<Rightarrow> http_headers" where
  "async_response_headers token_authenticated extra_headers =
     [(''cache-control'', ''private, no-store'')]
     @ (if token_authenticated then [(''vary'', ''X-Job-Token'')] else []) @ extra_headers"

text \<open>\<open>allow_nan=False\<close>: a value that is not finite raises \<open>ValueError\<close>.\<close>

definition encode_payment_header :: "dict \<Rightarrow> exn + bytes" where
  "encode_payment_header v =
     (if finite_json (JDict v) then Inr (b64encode (utf8 (json_dumps compact (JDict v)))) else Inl ValueError)"

definition payment_response_header :: "dict option \<Rightarrow> exn + http_headers" where
  "payment_response_header response =
     (case response of
        None \<Rightarrow> Inr []
      | Some v \<Rightarrow> sum_map (\<lambda>encoded. [(''payment-response'', encoded)]) (encode_payment_header v))"

definition error_body :: "string \<Rightarrow> bool \<Rightarrow> dict" where
  "error_body code can_retry =
     (''errorCode'', JStr code) # (if can_retry then [(''retryable'', JBool True)] else [])"

definition send_service_unavailable :: "bool \<Rightarrow> asgi_message list" where
  "send_service_unavailable token_authenticated =
     send_json 503 (error_body ''job_service_unavailable'' True) (async_response_headers token_authenticated [])"

definition send_payment_backend_unavailable :: "asgi_message list" where
  "send_payment_backend_unavailable =
     send_json 503 (error_body ''payment_backend_unavailable'' True) (async_response_headers False [])"

text \<open>The status of the codes that are answered as such; \<open>None\<close> is the service unavailable.\<close>

definition job_error_status :: "string \<Rightarrow> (int \<times> bool) option" where
  "job_error_status code =
     (if code = ''job_not_found'' then Some (404, False)
      else if code = ''job_expired'' then Some (410, False)
      else if code = ''job_conflict'' \<or> code = ''attempts_exhausted'' then Some (409, False)
      else if code = ''invalid_request'' then Some (400, False)
      else if code = ''payment_rejected'' then Some (402, False)
      else if code \<in> {''async_jobs_paused'', ''job_state_unavailable'', ''payment_unavailable'', ''settlement_pending''}
        then Some (503, True)
      else None)"

definition send_job_error :: "job_error \<Rightarrow> bool \<Rightarrow> exn + asgi_message list" where
  "send_job_error err token_authenticated =
     sum_bind (payment_response_header (err_payment_response err)) (\<lambda>payment.
     Inr (case job_error_status (err_code err) of
        Some (st, can_retry) \<Rightarrow>
          send_json st (error_body (err_code err) can_retry)
            (async_response_headers token_authenticated [] @ payment)
      | None \<Rightarrow> send_service_unavailable token_authenticated))"

definition plain_job_error :: "string \<Rightarrow> job_error" where
  "plain_job_error code = \<lparr>err_class = PlainJobError, err_code = code, err_retryable = False,
     err_retry_after = None, err_payment_response = None\<rparr>"

definition job_view_body :: "job_view \<Rightarrow> dict" where
  "job_view_body view =
     [(''jobId'', JStr (view_job_id view)), (''status'', JStr (view_status view)),
      (''expiresAt'', JInt (view_expires_at view))]
     @ (case view_error_code view of
          None \<Rightarrow> []
        | Some code \<Rightarrow>
            [(''errorCode'', JStr code), (''retryable'', JBool (view_retryable view = Some True))]
            @ (if code = ''too_many_users''
               then [(''error'', JStr ''Too many users now. Please try again later'')] else []))
     @ (case view_download_url view of
          None \<Rightarrow> []
        | Some url \<Rightarrow>
            [(''downloadUrl'', JStr url),
             (''downloadUrlExpiresAt'',
               case view_download_url_expires_at view of None \<Rightarrow> JNull | Some t \<Rightarrow> JInt t)])"

section \<open>The application\<close>

text \<open>
  What the application is built with; the job service and the usage reporter may be missing. The
  calls of the reporter and the inner application are functions of the world.
\<close>

record ('w, 't) x402_app =
  app_service :: "job_service option"
  app_facilitator :: "('w, 't) facilitator"
  app_verifier :: verifier
  app_reporter :: bool
  start_attempt :: "('w, 't) b402_state \<Rightarrow> (exn + unit) \<times> ('w, 't) b402_state"
  submit_attempt :: "('w, 't) b402_state \<Rightarrow> (exn + unit) \<times> ('w, 't) b402_state"
  inner_app :: "http_scope \<Rightarrow> http_message list \<Rightarrow> ('w, 't) b402_state \<Rightarrow> (exn + asgi_message list) \<times> ('w, 't) b402_state"

definition paid_requirements ::
  "('w, 't::linordered_idom) x402_app \<Rightarrow> (('w, 't) b402_state, 'z, json list) job_io" where
  "paid_requirements A =
     (case fac_b402 (app_facilitator A) of
        None \<Rightarrow> io_raise B402Indeterminate
      | Some cfg \<Rightarrow>
          io_bind (io_call (payment_extras (fac_services (app_facilitator A)) cfg
              (''eip155:'' @ dec_of_int CHAIN_ID) TOKENS)) (\<lambda>extras.
          let requirements = List.map_filter (\<lambda>token.
                map_option (\<lambda>extra. JDict (build_payment_requirement (app_verifier A) token extra PRICE_WEI))
                  (map_of extras (symbol token))) TOKENS
          in if requirements = [] then io_raise (B402Rejected ''no configured payment token is supported'')
             else io_return requirements))"

text \<open>\<open>item["extra"]["assetTransferMethod"]\<close> of a requirement this code has built.\<close>

definition requirement_scheme :: "json \<Rightarrow> json" where
  "requirement_scheme item =
     (case item of
        JDict d \<Rightarrow> (case dict_get d ''extra'' of JDict extra \<Rightarrow> dict_get extra ''assetTransferMethod'' | _ \<Rightarrow> JNull)
      | _ \<Rightarrow> JNull)"

definition price_body :: "('w, 't) x402_app \<Rightarrow> dict \<Rightarrow> dict" where
  "price_body A challenge =
     (let accepts = (case dict_get challenge ''accepts'' of JList xs \<Rightarrow> xs | _ \<Rightarrow> []);
          accept = (case accepts of JDict d # _ \<Rightarrow> d | _ \<Rightarrow> []);
          schemes = rev (remdups (rev (map requirement_scheme accepts)))
      in [(''x402Version'', JInt 2), (''paymentRequired'', JBool True), (''price_u'', JStr ''0.1''),
          (''price_wei'', dict_get_or accept ''amount'' (JStr (dec_of_int PRICE_WEI))),
          (''asset'', dict_get accept ''asset''), (''network'', dict_get accept ''network''),
          (''payTo'', dict_get accept ''payTo''), (''accepts'', JList accepts),
          (''supportedAssets'', JList (map JDict supported_assets)),
          (''signingScheme'', hd schemes), (''signingSchemes'', JList schemes),
          (''facilitator'', JStr (if fac_b402 (app_facilitator A) \<noteq> None then ''binance-b402-v2''
             else if facilitator_url (app_facilitator A) \<noteq> [] then facilitator_url (app_facilitator A)
             else ''(unavailable)''))])"

definition handle_price ::
  "('w, 't::linordered_idom) x402_app \<Rightarrow> http_scope \<Rightarrow> (('w, 't) b402_state, 'z, asgi_message list) job_io" where
  "handle_price A scope =
     io_try_bind (paid_requirements A)
       (\<lambda>e. if e = Cancelled then io_raise e else io_return send_payment_backend_unavailable)
       (\<lambda>requirements.
          io_bind (io_of_sum (public_resource scope ''/x402/analyze/async'')) (\<lambda>resource.
            io_return (send_json 200 (price_body A
              (build_payment_challenge (app_verifier A) [] resource (Inr requirements))) [])))"

definition payment_challenge ::
  "('w, 't::linordered_idom) x402_app \<Rightarrow> http_scope \<Rightarrow> dict \<Rightarrow> (('w, 't) b402_state, 'z, asgi_message list) job_io" where
  "payment_challenge A scope req =
     io_try_bind
       (io_bind (paid_requirements A) (\<lambda>requirements.
        io_bind (io_of_sum (public_resource scope ''/x402/analyze/async'')) (\<lambda>resource.
          io_return (build_payment_challenge (app_verifier A)
            (parse_symbols (py_or (dict_get req ''symbols'') (JStr []))) resource (Inr requirements)))))
       (\<lambda>e. if e = Cancelled then io_raise e else io_return send_payment_backend_unavailable)
       (\<lambda>challenge.
          io_bind (io_of_sum (encode_payment_header challenge)) (\<lambda>encoded.
            io_return (send_json 402
              [(''error'', JStr ''Payment Required''),
               (''description'', JStr ''Retry this request with a valid Payment-Signature header.''),
               (''paymentRequired'', JDict challenge)]
              ((''payment-required'', encoded) # async_response_headers False []))))"

text \<open>A rejection of the job service, as the three job routes answer it.\<close>

definition job_failure :: "bool \<Rightarrow> exn \<Rightarrow> ('w, 'z, asgi_message list) job_io" where
  "job_failure token_authenticated e =
     (case e of
        X402JobError err \<Rightarrow> io_of_sum (send_job_error err token_authenticated)
      | Cancelled \<Rightarrow> io_raise Cancelled
      | _ \<Rightarrow> io_return (send_service_unavailable token_authenticated))"

definition create_failure :: "exn \<Rightarrow> ('w, 'z, asgi_message list) job_io" where
  "create_failure e =
     (case e of
        WalletRateLimitExceeded retry_after_seconds \<Rightarrow>
          io_return (send_json 429 (error_body ''wallet_rate_limited'' True)
            (async_response_headers False [(''retry-after'', dec_of_int retry_after_seconds)]))
      | WalletRateLimitUnavailable \<Rightarrow>
          io_return (send_json 503 (error_body ''wallet_rate_limit_unavailable'' True)
            (async_response_headers False []))
      | _ \<Rightarrow> job_failure False e)"

definition created_response :: "create_job_result \<Rightarrow> exn + asgi_message list" where
  "created_response result =
     (let status_url = ''/x402/jobs/'' @ result_job_id result
      in sum_bind (payment_response_header (result_payment_response result)) (\<lambda>payment.
         Inr (send_json 202
           [(''jobId'', JStr (result_job_id result)), (''jobToken'', JStr (result_job_token result)),
            (''status'', JStr (result_status result)), (''statusUrl'', JStr status_url),
            (''expiresAt'', JInt (result_expires_at result))]
           ([(''location'', utf8 status_url), (''retry-after'', ''10'')] @ payment
             @ async_response_headers False []))))"

definition handle_async_analyze ::
  "(('w, 't::linordered_idom) b402_state, 's) job_services_scheme \<Rightarrow> ('w, 't) x402_app \<Rightarrow> job_service
     \<Rightarrow> http_scope \<Rightarrow> http_message list \<Rightarrow> (('w, 't) b402_state, 'z, asgi_message list) job_io" where
  "handle_async_analyze E A svc scope messages =
     (case read_body ASYNC_BODY_MAX_BYTES [] messages of
        BodyTooLarge \<Rightarrow>
          io_return (send_json 413 (error_body ''request_too_large'' False) (async_response_headers False []))
      | RequestDisconnected \<Rightarrow> io_return []
      | BodyRead body \<Rightarrow>
          io_bind (io_of_sum (request_json E body)) (\<lambda>decoded.
          case decoded of
            Some (JDict req) \<Rightarrow>
              (case request_header scope ''payment-signature'' of
                 None \<Rightarrow> io_of_sum (send_job_error (plain_job_error ''payment_rejected'') False)
               | Some payment_header \<Rightarrow>
                   (if payment_header = [] then payment_challenge A scope req
                    else io_try_bind (create_job E svc payment_header req) create_failure
                      (\<lambda>result. io_of_sum (created_response result))))
          | _ \<Rightarrow> io_return (send_json 400 (error_body ''invalid_request'' False) (async_response_headers False []))))"

text \<open>
  The tracked route: the attempt of the usage reporter surrounds the handling and is submitted in
  every case. Without an attempt the job service is given no observer of the verified wallet.
\<close>

definition unobserved :: "('w, 's) job_services_scheme \<Rightarrow> ('w, 's) job_services_scheme" where
  "unobserved E = E\<lparr>wallet_verified := (\<lambda>wallet w. (Inr (), w))\<rparr>"

definition io_finally :: "('w, 'z, 'a) job_io \<Rightarrow> ('w, 'z, unit) job_io \<Rightarrow> ('w, 'z, 'a) job_io" where
  "io_finally m cleanup =
     io_try_bind m (\<lambda>e. io_bind cleanup (\<lambda>_. io_raise e)) (\<lambda>a. io_bind cleanup (\<lambda>_. io_return a))"

definition swallow :: "('w, 'z, 'a) job_io \<Rightarrow> ('w, 'z, bool) job_io" where
  "swallow m = io_try_bind m (\<lambda>e. if e = Cancelled then io_raise e else io_return False) (\<lambda>_. io_return True)"

definition handle_tracked_async_analyze ::
  "(('w, 't::linordered_idom) b402_state, 's) job_services_scheme \<Rightarrow> ('w, 't) x402_app
     \<Rightarrow> http_scope \<Rightarrow> http_message list \<Rightarrow> (('w, 't) b402_state, 'z, asgi_message list) job_io" where
  "handle_tracked_async_analyze E A scope messages =
     io_bind (if app_reporter A then swallow (io_call (start_attempt A)) else io_return False) (\<lambda>attempt.
     io_finally
       (case app_service A of
          None \<Rightarrow> io_return (send_json 404 [(''error'', JStr ''not found'')] (async_response_headers False []))
        | Some svc \<Rightarrow> handle_async_analyze (if attempt then E else unobserved E) A svc scope messages)
       (if attempt then io_bind (swallow (io_call (submit_attempt A))) (\<lambda>_. io_return ()) else io_return ()))"

definition with_token ::
  "http_scope \<Rightarrow> (json \<Rightarrow> ('w, 'z, job_view) job_io) \<Rightarrow> (job_view \<Rightarrow> asgi_message list)
     \<Rightarrow> ('w, 'z, asgi_message list) job_io" where
  "with_token scope call answer =
     (case request_header scope ''x-job-token'' of
        None \<Rightarrow> io_of_sum (send_job_error (plain_job_error ''job_not_found'') True)
      | Some token \<Rightarrow> io_try_bind (call (JStr token)) (job_failure True) (\<lambda>view. io_return (answer view)))"

definition handle_job_get ::
  "('w, 's) job_services_scheme \<Rightarrow> job_service \<Rightarrow> http_scope \<Rightarrow> string \<Rightarrow> ('w, 'z, asgi_message list) job_io" where
  "handle_job_get E svc scope job_id =
     with_token scope (get_job E svc job_id) (\<lambda>view.
       send_json 200 (job_view_body view) (async_response_headers True
         (if view_status view = ''queued'' \<or> view_status view = ''running''
          then [(''retry-after'', ''10'')] else [])))"

definition handle_job_resume ::
  "('w, 's) job_services_scheme \<Rightarrow> job_service \<Rightarrow> http_scope \<Rightarrow> string \<Rightarrow> ('w, 'z, asgi_message list) job_io" where
  "handle_job_resume E svc scope job_id =
     with_token scope (resume_job E svc job_id) (\<lambda>view.
       send_json 202 (job_view_body view) (async_response_headers True [(''retry-after'', ''10'')]))"

text \<open>
  The body of an unknown route, as bytes: its one character beyond the modelled code points is
  U+2192, three bytes in UTF-8.
\<close>

definition not_found_body :: bytes where
  \<open>not_found_body = ''{"error": "not found", "x402_routes": ["GET  /x402/price", "POST /x402/analyze/async  (+ Payment-Signature header)  ''
     @ [chr 226, chr 134, chr 146] @ '' paid, asynchronous report", "GET  /x402/jobs/{jobId}  (+ X-Job-Token header)", "POST /x402/jobs/{jobId}/resume  (+ X-Job-Token header)"]}''\<close>

definition unknown_route :: "string \<Rightarrow> asgi_message list" where
  "unknown_route raw_path =
     send_body 404 not_found_body
       (if raw_path = ''/x402/analyze/async'' then async_response_headers False []
        else if starts_with ''/x402/jobs/'' raw_path then async_response_headers True []
        else [])"

definition missing_service :: "asgi_message list" where
  "missing_service = send_json 404 [(''error'', JStr ''not found'')] (async_response_headers True [])"

text \<open>The groups of the job pattern: the job id and whether \<open>/resume\<close> follows.\<close>

definition job_match :: "string \<Rightarrow> (string \<times> bool) option" where
  "job_match path = (if job_route path then Some (take 37 (drop 11 path), length path = 55) else None)"

definition scope_http_method :: "http_scope \<Rightarrow> string" where
  "scope_http_method scope =
     py_upper (case scope_method scope of None \<Rightarrow> ''GET'' | Some m \<Rightarrow> if m = [] then ''GET'' else m)"

definition x402_call ::
  "(('w, 't::linordered_idom) b402_state, 's) job_services_scheme \<Rightarrow> ('w, 't) x402_app
     \<Rightarrow> http_scope \<Rightarrow> http_message list \<Rightarrow> (('w, 't) b402_state, 'z, asgi_message list) job_io" where
  "x402_call E A scope messages =
     (let raw_path = scope_path scope; verb = scope_http_method scope
      in if scope_type scope \<noteq> ''http'' \<or> \<not> starts_with ''/x402'' raw_path
           then io_call (inner_app A scope messages)
         else if py_rstrip_char (CHR ''/'') raw_path = ''/x402/price'' then handle_price A scope
         else if raw_path = ''/x402/analyze/async'' \<and> verb = ''POST''
           then handle_tracked_async_analyze E A scope messages
         else case job_match raw_path of
           Some (job_id, resume) \<Rightarrow>
             (if verb = ''GET'' \<and> \<not> resume then
                (case app_service A of None \<Rightarrow> io_return missing_service
                 | Some svc \<Rightarrow> handle_job_get E svc scope job_id)
              else if verb = ''POST'' \<and> resume then
                (case app_service A of None \<Rightarrow> io_return missing_service
                 | Some svc \<Rightarrow> handle_job_resume E svc scope job_id)
              else io_return (unknown_route raw_path))
         | None \<Rightarrow> io_return (unknown_route raw_path))"

text \<open>
  The request of an envelope as the bridge hands it over: its scope, and a \<open>receive\<close> that yields
  the whole body as one message and then that the client is gone.
\<close>

definition envelope_scope :: "envelope_request \<Rightarrow> http_scope" where
  "envelope_scope request =
     \<lparr>scope_type = ''http'', scope_path = env_path request, scope_method = Some (env_method request),
      scope_scheme = Some ''https'', scope_headers = env_headers request,
      scope_public_base_url = Some (env_public_base_url request)\<rparr>"

definition envelope_messages :: "envelope_request \<Rightarrow> http_message list" where
  "envelope_messages request = [RequestMessage (Some (env_body request)) False]"

definition x402_envelope_app ::
  "(('w, 't::linordered_idom) b402_state, 's) job_services_scheme \<Rightarrow> ('w, 't) x402_app
     \<Rightarrow> envelope_request \<Rightarrow> (('w, 't) b402_state, 'z, asgi_message list) job_io" where
  "x402_envelope_app E A request = x402_call E A (envelope_scope request) (envelope_messages request)"

end
