(* ===== verification/Handler_Answers.thy ===== *)
theory Handler_Answers
  imports X402_Handler Job_Guarantee
begin

text \<open>
  What the HTTP endpoints guarantee: every handled request is answered by one complete response,
  whose form the bridge accepts; the service's own guarantee carries over to every route; a request
  without a payment header touches neither the store nor the facilitator's settlement.
\<close>

section \<open>Complete responses\<close>

definition response_names :: "string list" where
  "response_names = [''cache-control'', ''vary'', ''retry-after'', ''location'', ''payment-required'',
     ''payment-response'']"

definition admitted_names :: "http_headers \<Rightarrow> bool" where
  "admitted_names extra \<longleftrightarrow> list_all (\<lambda>(name, v). name \<in> set response_names) extra"

lemma admitted_names_simps [simp]:
  "admitted_names []" "admitted_names (xs @ ys) \<longleftrightarrow> admitted_names xs \<and> admitted_names ys"
  "admitted_names ((name, v) # xs) \<longleftrightarrow> name \<in> set response_names \<and> admitted_names xs"
  by (simp_all add: admitted_names_def)

text \<open>
  One start message with the exact length of the body, one body message, a status of \<open>sts\<close> and
  header names the bridge admits.
\<close>

definition answer :: "int set \<Rightarrow> asgi_message list \<Rightarrow> bool" where
  "answer sts sent \<longleftrightarrow> (\<exists>st body extra. sent = send_body st body extra \<and> st \<in> sts
     \<and> admitted_names extra)"

definition x402_statuses :: "int set" where
  "x402_statuses = {200, 202, 400, 402, 404, 409, 410, 413, 429, 503}"

lemma answer_mono: "answer S sent \<Longrightarrow> S \<subseteq> T \<Longrightarrow> answer T sent"
  by (auto simp: answer_def)

lemma send_json_answer: "st \<in> S \<Longrightarrow> admitted_names extra \<Longrightarrow> answer S (send_json st data extra)"
  by (auto simp: answer_def send_json_def)

lemma send_body_answer: "st \<in> S \<Longrightarrow> admitted_names extra \<Longrightarrow> answer S (send_body st body extra)"
  by (auto simp: answer_def)

lemma async_headers_names:
  "admitted_names extra \<Longrightarrow> admitted_names (async_response_headers tok extra)"
  by (auto simp: async_response_headers_def response_names_def)

lemma payment_header_names:
  "payment_response_header response = Inr payment \<Longrightarrow> admitted_names payment"
  by (cases response) (auto simp: payment_response_header_def sum_map_def sum_bind_Inr response_names_def)

lemma unavailable_answers:
  "503 \<in> S \<Longrightarrow> answer S (send_service_unavailable tok)" "503 \<in> S \<Longrightarrow> answer S send_payment_backend_unavailable"
  by (auto simp: send_service_unavailable_def send_payment_backend_unavailable_def
      intro!: send_json_answer async_headers_names)

lemma job_error_answer:
  assumes "send_job_error err tok = Inr sent" "{400, 402, 404, 409, 410, 503} \<subseteq> S"
  shows "answer S sent"
proof -
  from assms(1) obtain payment where payment: "payment_response_header (err_payment_response err) = Inr payment"
    "sent = (case job_error_status (err_code err) of
        Some (st, can_retry) \<Rightarrow> send_json st (error_body (err_code err) can_retry)
            (async_response_headers tok [] @ payment)
      | None \<Rightarrow> send_service_unavailable tok)"
    by (auto simp: send_job_error_def sum_bind_Inr)
  have "st \<in> S" if "job_error_status code = Some (st, can_retry)" for code st can_retry
    using that assms(2) by (auto simp: job_error_status_def split: if_splits)
  then show ?thesis
    using payment(2) assms(2) payment_header_names[OF payment(1)] async_headers_names[of "[]" tok]
    by (auto split: option.splits intro!: send_json_answer unavailable_answers)
qed

lemma not_found_answers:
  "404 \<in> S \<Longrightarrow> answer S missing_service" "404 \<in> S \<Longrightarrow> answer S (unknown_route path)"
  by (auto simp: missing_service_def unknown_route_def intro!: send_json_answer send_body_answer async_headers_names)

section \<open>Exceptions that leave the application\<close>

text \<open>
  A cancellation, or a \<open>ValueError\<close>: an integer literal beyond the digit limit in the request, a
  host header that is not UTF-8, a payment header that holds a value that is not finite.
\<close>

definition escapes :: "exn \<Rightarrow> bool" where
  "escapes e \<longleftrightarrow> e = Cancelled \<or> e = ValueError"

lemma escapes_simps [simp]: "escapes Cancelled" "escapes ValueError"
  by (simp_all add: escapes_def)

lemma header_escapes:
  "encode_payment_header v = Inl e \<Longrightarrow> e = ValueError"
  "payment_response_header response = Inl e \<Longrightarrow> e = ValueError"
  "send_job_error err tok = Inl e \<Longrightarrow> e = ValueError"
  "created_response result = Inl e \<Longrightarrow> e = ValueError"
  "public_resource scope path = Inl e \<Longrightarrow> e = ValueError"
  "request_json E body = Inl e \<Longrightarrow> e = ValueError"
  by (auto simp: encode_payment_header_def payment_response_header_def send_job_error_def created_response_def
      public_resource_def request_json_def sum_map_def sum_bind_Inl Let_def
      split: if_splits option.splits json_error.splits sum.splits)

section \<open>The routes\<close>

lemma obeys_job_failure:
  assumes "{400, 402, 404, 409, 410, 503} \<subseteq> S"
  shows "obeys P (job_failure tok e) (answer S) escapes"
  using assms unfolding job_failure_def
  by (cases e) (auto intro!: hoare_rule unavailable_answers dest: job_error_answer header_escapes)

lemma obeys_create_failure:
  assumes "{400, 402, 404, 409, 410, 429, 503} \<subseteq> S"
  shows "obeys P (create_failure e) (answer S) escapes"
proof -
  have "answer S (send_json st data (async_response_headers False [(''retry-after'', v)]))"
    "answer S (send_json st data (async_response_headers False []))" if "st \<in> S" for st data v
    using that by (auto intro!: send_json_answer async_headers_names simp: response_names_def)
  then show ?thesis
    using assms obeys_job_failure[of S P False e] unfolding create_failure_def
    by (cases e) (auto intro!: hoare_rule)
qed

lemma obeys_requirements: "emits P (paid_requirements A)"
  unfolding paid_requirements_def Let_def by (intro hoare_rule) auto

lemma obeys_price: "obeys P (handle_price A scope) (answer {200, 503}) escapes"
  unfolding handle_price_def
  by (intro hoare_rule obeys_weaken[OF obeys_requirements[of P]])
     (auto intro!: hoare_rule send_json_answer unavailable_answers dest: header_escapes)

lemma obeys_challenge: "obeys P (payment_challenge A scope req) (answer {402, 503}) escapes"
  unfolding payment_challenge_def
  by (intro hoare_rule obeys_weaken[OF obeys_requirements[of P]])
     (auto intro!: hoare_rule send_json_answer unavailable_answers dest: header_escapes
       simp: async_response_headers_def response_names_def)

lemma created_answer: "created_response result = Inr sent \<Longrightarrow> 202 \<in> S \<Longrightarrow> answer S sent"
  by (auto simp: created_response_def Let_def sum_bind_Inr async_response_headers_def
      intro!: send_json_answer dest!: payment_header_names) (auto simp: response_names_def)

lemma plain_answer:
  "st \<in> S \<Longrightarrow> answer S (send_json st data (async_response_headers tok []))"
  by (auto intro!: send_json_answer async_headers_names)

text \<open>What the analysis route does with a body: \<open>sent = []\<close> is only for a client that is gone.\<close>

definition analyze_answer :: "http_message list \<Rightarrow> int set \<Rightarrow> asgi_message list \<Rightarrow> bool" where
  "analyze_answer messages S sent \<longleftrightarrow>
     (if read_body ASYNC_BODY_MAX_BYTES [] messages = RequestDisconnected then sent = [] else answer S sent)"

lemma obeys_analyze:
  assumes create: "\<And>payment_header req. request_header scope ''payment-signature'' = Some payment_header \<Longrightarrow>
      payment_header \<noteq> [] \<Longrightarrow> emits P (create_job E svc payment_header req :: (_, 'z, _) job_io)"
  shows "obeys P (handle_async_analyze E A svc scope messages :: (_, 'z, _) job_io) (analyze_answer messages (x402_statuses - {200}))
    escapes"
proof -
  define S where "S = x402_statuses - {200}"
  have mem: "{202, 400, 402, 404, 409, 410, 413, 429, 503} \<subseteq> S" by (auto simp: S_def x402_statuses_def)
  have job: "obeys P (io_of_sum (send_job_error err False)) (answer S) escapes" for err
    using mem by (auto intro!: hoare_rule dest: job_error_answer header_escapes)
  have created: "obeys P (io_of_sum (created_response result)) (answer S) escapes" for result
    using mem by (auto intro!: hoare_rule dest: created_answer header_escapes)
  have failure: "obeys P (create_failure e) (answer S) escapes" for e
    using mem by (auto intro!: obeys_create_failure)
  have challenge: "obeys P (payment_challenge A scope req) (answer S) escapes" for req
    using mem by (auto intro!: obeys_weaken[OF obeys_challenge] elim: answer_mono)
  have paid: "obeys P (io_try_bind (create_job E svc payment_header req :: (_, 'z, _) job_io) create_failure
      (\<lambda>result. io_of_sum (created_response result))) (answer S) escapes"
    if "request_header scope ''payment-signature'' = Some payment_header" "payment_header \<noteq> []" for payment_header req
    by (rule obeys_try_bind, rule obeys_weaken[OF create[OF that]]) (simp_all add: failure created)
  have plain: "answer S (send_json st data (async_response_headers False []))" if "st = 400 \<or> st = 413" for st data
    using that mem by (auto intro!: plain_answer)
  show ?thesis unfolding handle_async_analyze_def analyze_answer_def S_def[symmetric]
    by (cases "read_body ASYNC_BODY_MAX_BYTES [] messages")
       (auto intro!: obeys_return obeys_bind obeys_of_sum obeys_json obeys_option job challenge paid plain
         dest: header_escapes)
qed


lemma unobserved_permitted [simp]: "settle_permitted (unobserved E) svc = settle_permitted E svc"
  by (simp add: fun_eq_iff settle_permitted_def unobserved_def)

lemma obeys_swallow: "emits P m \<Longrightarrow> obeys P (swallow m) (\<lambda>_. True) escapes"
  unfolding swallow_def by (intro obeys_try_bind, erule obeys_weaken) (auto intro: hoare_rule)

lemma obeys_finally:
  assumes "obeys P m Q R" "obeys P cleanup (\<lambda>_. True) R"
  shows "obeys P (io_finally m cleanup) Q R"
  unfolding io_finally_def
  by (rule obeys_compose[OF assms(1)])
     (rule obeys_bind, rule obeys_weaken[OF assms(2)], auto intro: hoare_rule)+

lemma obeys_tracked:
  assumes create: "\<And>E' svc payment_header req. E' \<in> {E, unobserved E} \<Longrightarrow> app_service A = Some svc \<Longrightarrow>
      request_header scope ''payment-signature'' = Some payment_header \<Longrightarrow> payment_header \<noteq> [] \<Longrightarrow>
      emits P (create_job E' svc payment_header req :: (_, 'z, _) job_io)"
  shows "obeys P (handle_tracked_async_analyze E A scope messages :: (_, 'z, _) job_io)
    (\<lambda>sent. app_service A = None \<and> answer {404} sent \<or> analyze_answer messages (x402_statuses - {200}) sent) escapes"
proof -
  have cleanup: "obeys P (if attempt then io_bind (swallow (io_call (submit_attempt A))) (\<lambda>_. io_return ())
      else (io_return () :: (_, 'z, _) job_io)) (\<lambda>_. True) escapes" for attempt
    by (auto intro!: hoare_rule obeys_weaken[OF obeys_swallow[where P = P]])
  have "obeys P (case app_service A of
        None \<Rightarrow> (io_return (send_json 404 [(''error'', JStr ''not found'')] (async_response_headers False [])) :: (_, 'z, _) job_io)
      | Some svc \<Rightarrow> handle_async_analyze (if attempt then E else unobserved E) A svc scope messages)
    (\<lambda>sent. app_service A = None \<and> answer {404} sent \<or> analyze_answer messages (x402_statuses - {200}) sent)
    escapes" for attempt
    by (cases "app_service A")
       (auto intro!: hoare_rule plain_answer obeys_weaken[OF obeys_analyze] create)
  note rest = obeys_finally[OF this cleanup]
  have "obeys P (if app_reporter A then swallow (io_call (start_attempt A)) else (io_return False :: (_, 'z, _) job_io))
      (\<lambda>_. True) escapes"
    by (auto intro!: hoare_rule obeys_swallow)
  then show ?thesis unfolding handle_tracked_async_analyze_def
    by (rule obeys_bind[OF obeys_weaken]) (simp_all add: rest)
qed

lemma obeys_with_token:
  assumes "\<And>token. emits P (call token)" "\<And>v. answer S (reply v)" "{400, 402, 404, 409, 410, 503} \<subseteq> S"
  shows "obeys P (with_token scope call reply) (answer S) escapes"
proof -
  have "obeys P (io_of_sum (send_job_error err True)) (answer S) escapes" for err
    using assms(3) by (auto intro!: hoare_rule dest: job_error_answer header_escapes)
  then show ?thesis unfolding with_token_def
    using assms(2)
    by (auto intro!: obeys_try_bind obeys_weaken[OF assms(1)] obeys_job_failure assms(3) obeys_return
        split: option.split)
qed

lemma obeys_job_routes:
  "obeys (service_guarantee S) (handle_job_get E svc scope job_id)
     (answer {200, 400, 402, 404, 409, 410, 503}) escapes"
  "obeys (service_guarantee S) (handle_job_resume E svc scope job_id)
     (answer {202, 400, 402, 404, 409, 410, 503}) escapes"
  unfolding handle_job_get_def handle_job_resume_def
  by (auto intro!: obeys_with_token obeys_get_job obeys_resume_job send_json_answer async_headers_names
      simp: response_names_def)

section \<open>The application\<close>

definition handled :: "http_scope \<Rightarrow> bool" where
  "handled scope \<longleftrightarrow> scope_type scope = ''http'' \<and> starts_with ''/x402'' (scope_path scope)"

definition service_permits :: "('w, 's) services_scheme \<Rightarrow> ('w0, 't) x402_app \<Rightarrow> dict \<Rightarrow> string \<Rightarrow> string \<Rightarrow> bool" where
  "service_permits E A r proof_header mode \<longleftrightarrow>
     (\<exists>svc. app_service A = Some svc \<and> settle_permitted E svc r proof_header mode)"

lemma service_guarantee_mono:
  "service_guarantee S ev \<Longrightarrow> (\<And>r p m. S r p m \<Longrightarrow> T r p m) \<Longrightarrow> service_guarantee T ev"
  by (cases ev) (auto simp: service_guarantee_def)

text \<open>
  A handled request is answered by one complete response, or by nothing when the client is gone
  before its body is read; whatever it does to the store, the limiter and the facilitator is what
  the service's guarantee allows.
\<close>

lemma obeys_x402_call:
  assumes "handled scope"
  shows "obeys (service_guarantee (service_permits E A)) (x402_call E A scope messages)
    (\<lambda>sent. answer x402_statuses sent
       \<or> sent = [] \<and> read_body ASYNC_BODY_MAX_BYTES [] messages = RequestDisconnected) escapes"
proof -
  let ?P = "service_guarantee (service_permits E A)"
  let ?Q = "\<lambda>sent. answer x402_statuses sent
       \<or> sent = [] \<and> read_body ASYNC_BODY_MAX_BYTES [] messages = RequestDisconnected"
  have up: "?Q sent" if "answer S sent" "S \<subseteq> x402_statuses" for S sent
    using answer_mono[OF that] by blast
  have price: "obeys ?P (handle_price A scope) ?Q escapes"
    by (rule obeys_weaken[OF obeys_price[of ?P]], assumption, erule up) (simp_all add: x402_statuses_def)
  have create: "emits ?P (create_job E' svc payment_header req)"
    if "E' \<in> {E, unobserved E}" "app_service A = Some svc" for E' svc payment_header req
  proof (rule obeys_weaken[OF obeys_create_job])
    show "?P ev" if "service_guarantee (settle_permitted E' svc) ev" for ev
      by (rule service_guarantee_mono[OF that])
         (use \<open>E' \<in> {E, unobserved E}\<close> \<open>app_service A = Some svc\<close> in \<open>auto simp: service_permits_def\<close>)
  qed simp_all
  have analyze: "obeys ?P (handle_tracked_async_analyze E A scope messages) ?Q escapes"
    by (rule obeys_weaken[OF obeys_tracked[OF create]], simp_all)
       (auto simp: analyze_answer_def x402_statuses_def elim!: answer_mono split: if_splits)
  have jobs: "obeys ?P (handle_job_get E svc scope job_id) ?Q escapes"
    "obeys ?P (handle_job_resume E svc scope job_id) ?Q escapes" for svc job_id
    by (rule obeys_weaken[OF obeys_job_routes(1)] obeys_weaken[OF obeys_job_routes(2)],
        assumption, erule up, simp add: x402_statuses_def, simp)+
  have missing: "?Q missing_service" "?Q (unknown_route path)" for path
    by (auto intro!: not_found_answers simp: x402_statuses_def)
  show ?thesis
    using assms missing unfolding x402_call_def handled_def Let_def
    by (auto intro!: price analyze jobs obeys_return split: option.split)
qed


text \<open>Through the bridge the body is there, so the answer is never missing.\<close>

lemma starts_with_take:
  assumes "starts_with p s"
  shows "starts_with (take n p) s"
proof -
  from assms have "s = p @ drop (length p) s" unfolding starts_with_def by (metis append_take_drop_id)
  then have "take (length (take n p)) s = take (length (take n p)) (p @ drop (length p) s)" by simp
  then show ?thesis by (simp add: starts_with_def min_def)
qed

lemma obeys_envelope_app:
  assumes "validate_request envelope expected = Inr request"
  shows "obeys (service_guarantee (service_permits E A)) (x402_envelope_app E A request)
    (answer x402_statuses) escapes"
proof -
  have "handled (envelope_scope request)"
  proof -
    from assms have "is_allowed_route (env_method request) (env_path request)"
      by (auto simp: validate_request_def sum_bind_Inr split: json.splits if_splits)
    then have "starts_with ''/x402'' (env_path request)"
      by (auto simp: is_allowed_route_def ROUTES_def job_route_def dest: starts_with_take[of _ _ 5]
          split: if_splits)
    then show ?thesis by (simp add: handled_def envelope_scope_def)
  qed
  from obeys_x402_call[OF this] show ?thesis
    unfolding x402_envelope_app_def envelope_messages_def
    by (rule obeys_weaken) (auto simp: Let_def split: if_splits)
qed

text \<open>The bridge encodes every such answer whose body is not too large.\<close>

definition valid_name :: "string \<Rightarrow> bool" where
  "valid_name n \<longleftrightarrow> list_all is_ascii n \<and> header_name_re n \<and> n = py_lower n"

lemma response_headers_names:
  "list_all (\<lambda>(n, v). valid_name n) hs \<Longrightarrow> \<exists>d. response_headers acc (map Some hs) = Inr d"
  by (induction hs arbitrary: acc) (auto simp: valid_name_def simp del: split_paired_Ex)

lemma names_valid: "list_all valid_name (''content-type'' # ''content-length'' # response_names)"
  by code_simp

lemma answer_encoded:
  assumes "answer S sent" "S \<subseteq> {100..599}"
  shows "\<exists>st\<in>S. \<exists>body. (length body \<le> MAX_RESPONSE_BYTES \<longrightarrow> (\<exists>headers. validate_and_encode_response rid sent
      = Inr [(''requestId'', JStr rid), (''status'', JInt st), (''headers'', JDict headers),
          (''bodyBase64'', JStr (b64encode body))]))
    \<and> (length body > MAX_RESPONSE_BYTES \<longrightarrow> validate_and_encode_response rid sent = Inl ''response_too_large'')"
proof -
  from assms(1) obtain st body extra where sent: "sent = send_body st body extra" "st \<in> S" "admitted_names extra"
    by (auto simp: answer_def)
  have "\<exists>d. response_headers [] (map Some ([(''content-type'', ''application/json''),
      (''content-length'', dec_of_nat (length body))] @ extra)) = Inr d"
    using sent(3) names_valid
    by (intro response_headers_names) (fastforce simp: admitted_names_def list_all_iff)
  then obtain headers where headers: "response_headers [] (map Some ([(''content-type'', ''application/json''),
      (''content-length'', dec_of_nat (length body))] @ extra)) = Inr headers" ..
  have "100 \<le> st" "st \<le> 599" using sent(2) assms(2) by auto
  then show ?thesis using sent(2) headers
    by (intro bexI[of _ st] exI[of _ body])
       (auto simp: sent(1) send_body_def validate_and_encode_response_def is_start_def Let_def)
qed


section \<open>Request bodies\<close>

fun chunk_of :: "http_message \<Rightarrow> bytes" where
  "chunk_of (RequestMessage (Some c) more_body) = c"
| "chunk_of _ = []"

text \<open>The messages before the last one of the request: nothing that ends the reading.\<close>

definition continues :: "http_message \<Rightarrow> bool" where
  "continues m \<longleftrightarrow> m \<noteq> Disconnect \<and> (\<forall>c. m \<noteq> RequestMessage c False)"

definition whole_body :: "bytes \<Rightarrow> http_message list \<Rightarrow> bytes \<Rightarrow> bool" where
  "whole_body body messages b \<longleftrightarrow>
     (\<exists>pre c post. messages = pre @ RequestMessage c False # post \<and> list_all continues pre
        \<and> b = body @ concat (map chunk_of pre) @ chunk_of (RequestMessage c False))"

lemma whole_body_step:
  assumes "continues m"
  shows "whole_body body (m # messages) b \<longleftrightarrow> whole_body (body @ chunk_of m) messages b"
proof
  assume "whole_body body (m # messages) b"
  with assms show "whole_body (body @ chunk_of m) messages b"
    by (auto simp: whole_body_def Cons_eq_append_conv continues_def) blast
next
  assume "whole_body (body @ chunk_of m) messages b"
  then obtain pre c post where w: "messages = pre @ RequestMessage c False # post" "list_all continues pre"
    "b = (body @ chunk_of m) @ concat (map chunk_of pre) @ chunk_of (RequestMessage c False)"
    unfolding whole_body_def by blast
  then show "whole_body body (m # messages) b" unfolding whole_body_def
    by (intro exI[of _ "m # pre"] exI[of _ c] exI[of _ post]) (simp add: assms)
qed

lemma whole_body_end:
  "\<not> whole_body body [] b" "\<not> whole_body body (Disconnect # messages) b"
  "whole_body body (RequestMessage c False # messages) b \<longleftrightarrow> b = body @ chunk_of (RequestMessage c False)"
  by (auto simp: whole_body_def Cons_eq_append_conv continues_def)
     (intro exI[of _ "[]"] exI[of _ c], simp)

lemma whole_body_extends: "whole_body body messages b \<Longrightarrow> length body \<le> length b"
  by (auto simp: whole_body_def)

lemma read_body_exact: "read_body n body messages = BodyRead b \<longleftrightarrow> whole_body body messages b \<and> length b \<le> n"
proof (induction n body messages rule: read_body.induct)
  case (3 n body messages)
  then show ?case using whole_body_step[of OtherMessage] by (simp add: continues_def)
next
  case (4 n body chunk more messages)
  let ?m = "RequestMessage chunk more"
  have chunk: "(case chunk of None \<Rightarrow> [] | Some c \<Rightarrow> c) = chunk_of ?m" by (cases chunk) auto
  show ?case
  proof (cases more)
    case True
    then have "continues ?m" by (simp add: continues_def)
    from whole_body_step[OF this] 4[OF refl] True whole_body_extends[of "body @ chunk_of ?m" messages b]
    show ?thesis unfolding read_body.simps chunk Let_def by auto
  next
    case False
    then show ?thesis unfolding read_body.simps chunk Let_def by (auto simp: whole_body_end)
  qed
qed (auto simp: whole_body_end)

end
