(* ===== verification/Py_Ip.thy ===== *)
theory Py_Ip
  imports Py_Net
begin

text \<open>
  Address objects of \<open>ipaddress\<close> (CPython 3.12): their text, membership in networks, and the
  classification properties with the tables of special-purpose networks they are computed from.
\<close>

section \<open>Address objects\<close>

fun ip_ok :: "ip \<Rightarrow> bool" where
  "ip_ok (IPv4 octets) \<longleftrightarrow> length octets = 4 \<and> list_all (\<lambda>n. n \<le> 255) octets"
| "ip_ok (IPv6 hextets scope) \<longleftrightarrow> length hextets = 8 \<and> list_all (\<lambda>n. n < 65536) hextets"

lemma ip_parse_ok: "ip_parse s = Some a \<Longrightarrow> ip_ok a"
  by (auto simp: ip_parse_def dest!: ipv4_octets_ok ipv6_hextets_ok split: option.splits prod.splits if_splits)

section \<open>Networks\<close>

definition from_digits :: "nat \<Rightarrow> nat list \<Rightarrow> nat" where
  "from_digits b ds = foldl (\<lambda>n d. n * b + d) 0 ds"

definition in_net4 :: "nat list \<Rightarrow> nat list \<times> nat \<Rightarrow> bool" where
  "in_net4 octets = (\<lambda>(net, len). from_digits 256 octets div 2 ^ (32 - len) = from_digits 256 net div 2 ^ (32 - len))"

definition in_net6 :: "nat list \<Rightarrow> nat list \<times> nat \<Rightarrow> bool" where
  "in_net6 hextets =
     (\<lambda>(net, len). from_digits 65536 hextets div 2 ^ (128 - len) = from_digits 65536 (net @ replicate (8 - length net) 0) div 2 ^ (128 - len))"

definition PRIVATE4 :: "(nat list \<times> nat) list" where
  "PRIVATE4 = [([0, 0, 0, 0], 8), ([10, 0, 0, 0], 8), ([127, 0, 0, 0], 8), ([169, 254, 0, 0], 16),
     ([172, 16, 0, 0], 12), ([192, 0, 0, 0], 24), ([192, 0, 0, 170], 31), ([192, 0, 2, 0], 24),
     ([192, 168, 0, 0], 16), ([198, 18, 0, 0], 15), ([198, 51, 100, 0], 24), ([203, 0, 113, 0], 24),
     ([240, 0, 0, 0], 4), ([255, 255, 255, 255], 32)]"

definition PRIVATE4_EXCEPTIONS :: "(nat list \<times> nat) list" where
  "PRIVATE4_EXCEPTIONS = [([192, 0, 0, 9], 32), ([192, 0, 0, 10], 32)]"

definition PRIVATE6 :: "(nat list \<times> nat) list" where
  "PRIVATE6 = [([0, 0, 0, 0, 0, 0, 0, 1], 128), ([0], 128), ([0, 0, 0, 0, 0, 65535], 96), ([100, 65435, 1], 48),
     ([256], 64), ([8193], 23), ([8193, 3512], 32), ([8194], 16), ([16383], 20), ([64512], 7), ([65152], 10)]"

definition PRIVATE6_EXCEPTIONS :: "(nat list \<times> nat) list" where
  "PRIVATE6_EXCEPTIONS = [([8193, 1, 0, 0, 0, 0, 0, 1], 128), ([8193, 1, 0, 0, 0, 0, 0, 2], 128), ([8193, 3], 32),
     ([8193, 4, 274], 48), ([8193, 32], 28), ([8193, 48], 28)]"

definition RESERVED6 :: "(nat list \<times> nat) list" where
  "RESERVED6 = [([0], 8), ([256], 8), ([512], 7), ([1024], 6), ([2048], 5), ([4096], 4), ([16384], 3), ([24576], 3),
     ([32768], 3), ([40960], 3), ([49152], 3), ([57344], 4), ([61440], 5), ([63488], 6), ([65024], 9)]"

section \<open>Embedded IPv4 addresses\<close>

text \<open>The address of the two hextets; \<open>ipv4_mapped\<close> and \<open>teredo\<close> (server, then the inverted client).\<close>

definition v4_of_hextets :: "nat \<Rightarrow> nat \<Rightarrow> ip" where
  "v4_of_hextets a b = IPv4 [a div 256, a mod 256, b div 256, b mod 256]"

definition low_v4 :: "nat list \<Rightarrow> ip" where
  "low_v4 hs = v4_of_hextets (hs ! 6) (hs ! 7)"

definition ipv4_mapped :: "nat list \<Rightarrow> ip option" where
  "ipv4_mapped hs = (if take 6 hs = [0, 0, 0, 0, 0, 65535] then Some (low_v4 hs) else None)"

definition teredo :: "nat list \<Rightarrow> (ip \<times> ip) option" where
  "teredo hs = (if take 2 hs = [8193, 0]
     then Some (v4_of_hextets (hs ! 2) (hs ! 3), v4_of_hextets (65535 - hs ! 6) (65535 - hs ! 7)) else None)"

section \<open>Classification\<close>

definition private4 :: "nat list \<Rightarrow> bool" where
  "private4 os \<longleftrightarrow> list_ex (in_net4 os) PRIVATE4 \<and> \<not> list_ex (in_net4 os) PRIVATE4_EXCEPTIONS"

fun is_private :: "ip \<Rightarrow> bool" where
  "is_private (IPv4 os) = private4 os"
| "is_private (IPv6 hs scope) =
     (case ipv4_mapped hs of
        Some (IPv4 os) \<Rightarrow> private4 os
      | _ \<Rightarrow> list_ex (in_net6 hs) PRIVATE6 \<and> \<not> list_ex (in_net6 hs) PRIVATE6_EXCEPTIONS)"

fun is_global :: "ip \<Rightarrow> bool" where
  "is_global (IPv4 os) \<longleftrightarrow> \<not> in_net4 os ([100, 64, 0, 0], 10) \<and> \<not> is_private (IPv4 os)"
| "is_global (IPv6 hs scope) \<longleftrightarrow> \<not> is_private (IPv6 hs scope)"

fun is_loopback :: "ip \<Rightarrow> bool" where
  "is_loopback (IPv4 os) = in_net4 os ([127, 0, 0, 0], 8)"
| "is_loopback (IPv6 hs scope) \<longleftrightarrow> hs = [0, 0, 0, 0, 0, 0, 0, 1]"

fun is_link_local :: "ip \<Rightarrow> bool" where
  "is_link_local (IPv4 os) = in_net4 os ([169, 254, 0, 0], 16)"
| "is_link_local (IPv6 hs scope) = in_net6 hs ([65152], 10)"

fun is_multicast :: "ip \<Rightarrow> bool" where
  "is_multicast (IPv4 os) = in_net4 os ([224, 0, 0, 0], 4)"
| "is_multicast (IPv6 hs scope) = in_net6 hs ([65280], 8)"

fun is_unspecified :: "ip \<Rightarrow> bool" where
  "is_unspecified (IPv4 os) \<longleftrightarrow> os = [0, 0, 0, 0]"
| "is_unspecified (IPv6 hs scope) \<longleftrightarrow> hs = replicate 8 0"

fun is_reserved :: "ip \<Rightarrow> bool" where
  "is_reserved (IPv4 os) = in_net4 os ([240, 0, 0, 0], 4)"
| "is_reserved (IPv6 hs scope) = list_ex (in_net6 hs) RESERVED6"

fun is_site_local :: "ip \<Rightarrow> bool" where
  "is_site_local (IPv6 hs scope) = in_net6 hs ([65216], 10)"
| "is_site_local (IPv4 os) = False"

section \<open>Laws\<close>

lemma ipv4_text_no_colon: "CHR '':'' \<notin> set (ip_text (IPv4 os))"
proof -
  have "CHR '':'' \<notin> set (py_join ''.'' ss)" if "\<forall>s\<in>set ss. CHR '':'' \<notin> set s" for ss
    using that by (induction "''.''" ss rule: py_join.induct) auto
  moreover have "CHR '':'' \<notin> set (dec_of_nat n)" for n by (rule dec_of_nat_no) (simp add: is_digit_def)
  ultimately show ?thesis by simp
qed

lemma ip_parse_v4_text: "ip_parse (ip_text (IPv4 os)) = Some a \<Longrightarrow> \<not> is_ipv6 a"
proof -
  let ?addr = "fst (py_partition (CHR ''%'') (ip_text (IPv4 os)))"
  have "CHR '':'' \<notin> set ?addr" using ipv4_text_no_colon[of os]
    by (auto simp: py_partition_def dest: set_takeWhileD)
  then have "ipv6_hextets ?addr = None"
    by (simp add: ipv6_hextets_def ipv6_parts_def py_split_simple)
  then show "ip_parse (ip_text (IPv4 os)) = Some a \<Longrightarrow> \<not> is_ipv6 a"
    by (auto simp: ip_parse_def split: option.splits prod.splits if_splits)
qed

text \<open>Membership in a network looks at the leading digits only.\<close>

lemma foldl_digits: "foldl (\<lambda>n d. n * b + d) a ds = a * b ^ length ds + foldl (\<lambda>n d. n * b + d) 0 ds" for a b :: nat
proof (induction ds arbitrary: a)
  case (Cons d ds)
  show ?case using Cons[of "a * b + d"] Cons[of d] by (simp add: algebra_simps)
qed simp

lemma from_digits_append: "from_digits b (xs @ ys) = from_digits b xs * b ^ length ys + from_digits b ys"
  unfolding from_digits_def foldl_append by (rule foldl_digits)

lemma from_digits_bound: "list_all (\<lambda>d. d < b) ds \<Longrightarrow> from_digits b ds < b ^ length ds"
proof (induction ds rule: rev_induct)
  case (snoc d ds)
  then have "from_digits b ds < b ^ length ds" "d < b" by simp_all
  then have "from_digits b ds * b + d < (from_digits b ds + 1) * b" by simp
  also have "\<dots> \<le> b ^ length ds * b" using \<open>from_digits b ds < b ^ length ds\<close> by (intro mult_le_mono1) simp
  finally show ?case by (simp add: from_digits_append from_digits_def mult.commute)
qed (simp add: from_digits_def)

lemma from_digits_cut:
  assumes "list_all (\<lambda>d. d < b) ds" "0 < b"
  shows "from_digits b ds div b ^ (length ds - k) = from_digits b (take k ds)"
proof (cases "k \<le> length ds")
  case True
  have "list_all (\<lambda>d. d < b) (drop k ds)" using assms(1) by (auto simp: list_all_iff dest: in_set_dropD)
  from from_digits_bound[OF this] have rest: "from_digits b (drop k ds) < b ^ (length ds - k)" by simp
  have "from_digits b ds = from_digits b (take k ds) * b ^ (length ds - k) + from_digits b (drop k ds)"
    using from_digits_append[of b "take k ds" "drop k ds"] True by simp
  with rest assms(2) show ?thesis by simp
qed (use assms in simp)

lemma net_prefix:
  assumes "list_all (\<lambda>d. d < 2 ^ w) ds" "list_all (\<lambda>d. d < 2 ^ w) net" "length net = length ds"
    "k \<le> length ds" "len \<le> w * k"
  shows "from_digits (2 ^ w) ds div 2 ^ (w * length ds - len) = from_digits (2 ^ w) net div 2 ^ (w * length ds - len)
    \<longleftrightarrow> from_digits (2 ^ w) (take k ds) div 2 ^ (w * k - len) = from_digits (2 ^ w) (take k net) div 2 ^ (w * k - len)"
proof -
  have split: "w * length ds - len = w * (length ds - k) + (w * k - len)"
    using assms(4,5) by (simp add: diff_mult_distrib2 mult_le_mono2)
  have "from_digits (2 ^ w) xs div 2 ^ (w * length ds - len)
      = from_digits (2 ^ w) (take k xs) div 2 ^ (w * k - len)"
    if "list_all (\<lambda>d. d < 2 ^ w) xs" "length xs = length ds" for xs
    unfolding split power_add div_mult2_eq[symmetric] power_mult
    using from_digits_cut[OF that(1), of k] that(2) by (simp add: div_mult2_eq)
  with assms(1-3) show ?thesis by simp
qed

lemma in_net4_prefix:
  assumes "ip_ok (IPv4 os)" "length net = 4" "list_all (\<lambda>n. n \<le> 255) net" "len \<le> 8 * k" "k \<le> 4"
  shows "in_net4 os (net, len) \<longleftrightarrow>
    from_digits 256 (take k os) div 2 ^ (8 * k - len) = from_digits 256 (take k net) div 2 ^ (8 * k - len)"
proof -
  have "list_all (\<lambda>d. d < 2 ^ 8) os" "list_all (\<lambda>d. d < 2 ^ 8) net" "length net = length os" "k \<le> length os"
    using assms by (auto simp: list_all_iff less_Suc_eq_le)
  from net_prefix[OF this assms(4)] assms(1) show ?thesis by (simp add: in_net4_def)
qed

lemma in_net6_prefix:
  assumes "ip_ok (IPv6 hs scope)" "length net \<le> 8" "list_all (\<lambda>n. n < 65536) net" "len \<le> 16 * k" "k \<le> 8"
  shows "in_net6 hs (net, len) \<longleftrightarrow>
    from_digits 65536 (take k hs) div 2 ^ (16 * k - len)
      = from_digits 65536 (take k (net @ replicate (8 - length net) 0)) div 2 ^ (16 * k - len)"
proof -
  let ?net = "net @ replicate (8 - length net) 0"
  have "list_all (\<lambda>d. d < 2 ^ 16) hs" "list_all (\<lambda>d. d < 2 ^ 16) ?net" "length ?net = length hs" "k \<le> length hs"
    using assms by (auto simp: list_all_iff)
  from net_prefix[OF this assms(4)] assms(1) show ?thesis by (simp add: in_net6_def)
qed

lemma net_leading:
  assumes "list_all (\<lambda>d. d < 2 ^ w) ds" "list_all (\<lambda>d. d < 2 ^ w) net" "length net = length ds"
    "k \<le> length ds" "w * k \<le> len" "len \<le> w * length ds"
    and "from_digits (2 ^ w) ds div 2 ^ (w * length ds - len) = from_digits (2 ^ w) net div 2 ^ (w * length ds - len)"
  shows "from_digits (2 ^ w) (take k ds) = from_digits (2 ^ w) (take k net)"
proof -
  have "from_digits (2 ^ w) ds div 2 ^ (w * length ds - len) div 2 ^ (len - w * k)
      = from_digits (2 ^ w) net div 2 ^ (w * length ds - len) div 2 ^ (len - w * k)"
    using assms(7) by simp
  then have "from_digits (2 ^ w) ds div 2 ^ (w * length ds - w * k)
      = from_digits (2 ^ w) net div 2 ^ (w * length ds - w * k)"
    using assms(5,6) by (simp flip: div_mult2_eq power_add)
  with net_prefix[OF assms(1-4), of "w * k"] show ?thesis by simp
qed

lemma in_net4_leading:
  assumes "ip_ok (IPv4 os)" "length net = 4" "list_all (\<lambda>n. n \<le> 255) net" "8 * k \<le> len" "len \<le> 32" "k \<le> 4"
    and "in_net4 os (net, len)"
  shows "from_digits 256 (take k os) = from_digits 256 (take k net)"
proof -
  have "list_all (\<lambda>d. d < 2 ^ 8) os" "list_all (\<lambda>d. d < 2 ^ 8) net" "length net = length os" "k \<le> length os"
    using assms by (auto simp: list_all_iff less_Suc_eq_le)
  from net_leading[OF this assms(4)] assms show ?thesis by (simp add: in_net4_def)
qed

lemma in_net6_leading:
  assumes "ip_ok (IPv6 hs scope)" "length net \<le> 8" "list_all (\<lambda>n. n < 65536) net" "16 * k \<le> len" "len \<le> 128" "k \<le> 8"
    and "in_net6 hs (net, len)"
  shows "from_digits 65536 (take k hs) = from_digits 65536 (take k (net @ replicate (8 - length net) 0))"
proof -
  let ?net = "net @ replicate (8 - length net) 0"
  have "list_all (\<lambda>d. d < 2 ^ 16) hs" "list_all (\<lambda>d. d < 2 ^ 16) ?net" "length ?net = length hs" "k \<le> length hs"
    using assms by (auto simp: list_all_iff)
  from net_leading[OF this assms(4)] assms show ?thesis by (simp add: in_net6_def)
qed

lemma div_range: "0 < k \<Longrightarrow> a div k = n \<longleftrightarrow> n * k \<le> a \<and> a < Suc n * k" for a k n :: nat
  by (metis div_nat_eqI dividend_less_div_times div_times_less_eq_dividend mult.commute add.commute mult_Suc)

end
