(* ===== verification/Notify_Security.thy ===== *)
theory Notify_Security
  imports Py_Ip X402_Effects
begin

text \<open>
  Validation and authorization of \<open>notify_funded\<close> (\<open>notify_security.py\<close>): the delivery gateway a
  buyer names, the signed context of a job, and the EIP-712 authorization of the job's client. The
  error of a check is the code of the \<open>NotifySecurityError\<close>. The environment, the resolver, SHA-256
  and the Ethereum libraries are parameters.
\<close>

section \<open>Delivery gateways\<close>

definition MAX_CONTEXT_BYTES :: nat where "MAX_CONTEXT_BYTES = 65536"
definition MAX_GATEWAY_URL_LENGTH :: nat where "MAX_GATEWAY_URL_LENGTH = 2048"
definition MAX_GATEWAY_TOKEN_LENGTH :: nat where "MAX_GATEWAY_TOKEN_LENGTH = 2048"
definition MAX_HOLDINGS :: nat where "MAX_HOLDINGS = 50"
definition MAX_VALUE :: int where "MAX_VALUE = 10 ^ 12"
definition MAX_UINT64 :: int where "MAX_UINT64 = 2 ^ 64 - 1"
definition MAX_UINT256 :: int where "MAX_UINT256 = 2 ^ 256 - 1"

definition DEFAULT_GATEWAY_HOST_RULES :: "string list" where
  "DEFAULT_GATEWAY_HOST_RULES = [''.trycloudflare.com'']"

definition TRUE_ENV_VALUES :: "string list" where
  "TRUE_ENV_VALUES = [''1'', ''true'', ''yes'', ''on'']"

definition DEFAULT_DNS_TIMEOUT_SECONDS :: pyfloat where
  "DEFAULT_DNS_TIMEOUT_SECONDS = Finite 5 1 ''5.0''"

text \<open>\<open>[a-z0-9](?:[a-z0-9-]{0,61}[a-z0-9])?\<close>\<close>

definition host_label_re :: "string \<Rightarrow> bool" where
  "host_label_re s \<longleftrightarrow> s \<noteq> [] \<and> length s \<le> 63 \<and> (is_lower_az (hd s) \<or> is_digit (hd s))
     \<and> (is_lower_az (last s) \<or> is_digit (last s))
     \<and> list_all (\<lambda>c. is_lower_az c \<or> is_digit c \<or> c = CHR ''-'') s"

definition canonical_ascii_hostname :: "string \<Rightarrow> string + string" where
  "canonical_ascii_hostname hostname =
     (if hostname = [] \<or> \<not> list_all is_ascii hostname \<or> ends_with ''.'' hostname then Inl ''invalid_gateway_url''
      else let lowered = py_lower hostname
      in case ip_parse lowered of
        Some a \<Rightarrow> Inr (ip_text a)
      | None \<Rightarrow>
          (if length lowered > 253 \<or> \<not> list_all host_label_re (py_split (CHR ''.'') lowered)
           then Inl ''invalid_gateway_url'' else Inr lowered))"

definition gateway_host_rule :: "string \<Rightarrow> string + string" where
  "gateway_host_rule raw_rule =
     (if \<not> list_all is_ascii raw_rule then Inl ''invalid_gateway_url''
      else let rule = py_lower (py_strip raw_rule); suffix = starts_with ''.'' rule
      in sum_bind (canonical_ascii_hostname (if suffix then drop 1 rule else rule)) (\<lambda>canonical.
         if suffix then (if ip_parse canonical \<noteq> None then Inl ''invalid_gateway_url'' else Inr (CHR ''.'' # canonical))
         else Inr canonical))"

fun sum_all :: "('e + 'a) list \<Rightarrow> 'e + 'a list" where
  "sum_all [] = Inr []"
| "sum_all (r # rs) = sum_bind r (\<lambda>a. sum_map ((#) a) (sum_all rs))"

definition parse_gateway_host_rules :: "string \<Rightarrow> string + string list" where
  "parse_gateway_host_rules configured =
     (let raw_rules = py_split (CHR '','') configured
      in if list_ex (\<lambda>item. py_strip item = []) raw_rules then Inl ''invalid_gateway_url''
         else sum_all (map gateway_host_rule raw_rules))"

definition rule_allows :: "string \<Rightarrow> string \<Rightarrow> bool" where
  "rule_allows hostname rule \<longleftrightarrow>
     (if starts_with ''.'' rule then ends_with rule hostname \<and> hostname \<noteq> drop 1 rule else hostname = rule)"

definition gateway_host_allowed :: "(string \<Rightarrow> string option) \<Rightarrow> string \<Rightarrow> string + bool" where
  "gateway_host_allowed env hostname =
     sum_map (list_ex (rule_allows hostname))
       (case env ''DELIVERY_GATEWAY_ALLOWED_HOSTS'' of
          None \<Rightarrow> Inr DEFAULT_GATEWAY_HOST_RULES
        | Some configured \<Rightarrow> parse_gateway_host_rules configured)"

definition EXPLICITLY_DENIED4 :: "(nat list \<times> nat) list" where
  "EXPLICITLY_DENIED4 = [([192, 0, 0, 0], 24)]"

definition EXPLICITLY_DENIED6 :: "(nat list \<times> nat) list" where
  "EXPLICITLY_DENIED6 = [([100, 65435, 1], 48), ([8194], 16)]"

text \<open>An address is in no network of the other version.\<close>

fun explicitly_denied :: "ip \<Rightarrow> bool" where
  "explicitly_denied (IPv4 os) = list_ex (in_net4 os) EXPLICITLY_DENIED4"
| "explicitly_denied (IPv6 hs scope) = list_ex (in_net6 hs) EXPLICITLY_DENIED6"

text \<open>Equality of addresses compares the scope too, so a scoped \<open>::\<close> is not the one that is excepted.\<close>

fun embedded_ipv4 :: "ip \<Rightarrow> ip list" where
  "embedded_ipv4 (IPv4 os) = []"
| "embedded_ipv4 (IPv6 hs scope) =
     (case ipv4_mapped hs of None \<Rightarrow> [] | Some mapped \<Rightarrow> [mapped])
     @ (if in_net6 hs ([100, 65435], 96) then [low_v4 hs] else [])
     @ (if in_net6 hs ([0], 96)
           \<and> IPv6 hs scope \<notin> {IPv6 (replicate 8 0) None, IPv6 [0, 0, 0, 0, 0, 0, 0, 1] None}
        then [low_v4 hs] else [])
     @ (if in_net6 hs ([0, 0, 0, 0, 65535], 96) then [low_v4 hs] else [])
     @ (case teredo hs of None \<Rightarrow> [] | Some (server, client) \<Rightarrow> [server, client])"

lemma embedded_is_v4: "a \<in> set (embedded_ipv4 b) \<Longrightarrow> \<not> is_ipv6 a"
  by (cases b) (auto simp: ipv4_mapped_def low_v4_def v4_of_hextets_def teredo_def split: option.splits if_splits)

definition publicly_routed :: "ip \<Rightarrow> bool" where
  "publicly_routed a \<longleftrightarrow> is_global a \<and> \<not> is_loopback a \<and> \<not> is_private a \<and> \<not> is_link_local a
     \<and> \<not> is_multicast a \<and> \<not> is_unspecified a \<and> \<not> is_reserved a \<and> \<not> is_site_local a"

text \<open>The recursion ends because only an IPv6 address embeds others, and those are IPv4.\<close>

function is_public_gateway_address :: "ip \<Rightarrow> bool" where
  "is_public_gateway_address a =
     (case ip_parse (ip_text a) of
        None \<Rightarrow> False
      | Some normalized \<Rightarrow>
          (if explicitly_denied normalized then False
           else if list_ex (\<lambda>v. \<not> is_public_gateway_address v) (embedded_ipv4 normalized) then False
           else publicly_routed a))"
  by pat_completeness auto
termination
proof (relation "measure (\<lambda>a. if is_ipv6 a then 1 else 0)")
  fix a normalized v
  assume "ip_parse (ip_text a) = Some normalized" "v \<in> set (embedded_ipv4 normalized)"
  then show "(v, a) \<in> measure (\<lambda>a. if is_ipv6 a then 1 else 0)"
    using embedded_is_v4[of v normalized] ip_parse_v4_text[of _ normalized]
    by (cases a; cases normalized) auto
qed simp

declare is_public_gateway_address.simps [simp del]

text \<open>
  \<open>float(raw)\<close> is a parameter; \<open>dns_lookup\<close> is the system resolver on its own thread with a deadline: it
  answers addresses, fails with one of the documented errors, or is still running at the deadline.
\<close>

datatype dns_outcome = Resolved "string list" | ResolverError | ResolverTimeout

definition positive_float :: "pyfloat \<Rightarrow> bool" where
  "positive_float f = (case f of Finite n d r \<Rightarrow> n > 0 | NaN \<Rightarrow> False | Infinity up \<Rightarrow> up)"

definition dns_timeout_seconds :: "(string \<Rightarrow> pyfloat option) \<Rightarrow> (string \<Rightarrow> string option) \<Rightarrow> pyfloat" where
  "dns_timeout_seconds flt env =
     (let raw = (case env ''GATEWAY_DNS_TIMEOUT_SECONDS'' of None \<Rightarrow> [] | Some r \<Rightarrow> r)
      in case (if raw = [] then Some DEFAULT_DNS_TIMEOUT_SECONDS else flt raw) of
        None \<Rightarrow> DEFAULT_DNS_TIMEOUT_SECONDS
      | Some v \<Rightarrow> if positive_float v then v else DEFAULT_DNS_TIMEOUT_SECONDS)"

record gateway_net =
  gateway_env :: "string \<Rightarrow> string option"
  parse_seconds :: "string \<Rightarrow> pyfloat option"
  dns_lookup :: "string \<Rightarrow> nat \<Rightarrow> pyfloat \<Rightarrow> dns_outcome"

definition resolve_addresses :: "gateway_net \<Rightarrow> string \<Rightarrow> nat \<Rightarrow> string list option" where
  "resolve_addresses N hostname port =
     (case dns_lookup N hostname port (dns_timeout_seconds (parse_seconds N) (gateway_env N)) of
        Resolved answers \<Rightarrow> Some answers | ResolverError \<Rightarrow> None | ResolverTimeout \<Rightarrow> None)"

record gateway_origin =
  origin :: string
  origin_scheme :: string
  origin_hostname :: string
  origin_port :: nat
  origin_addresses :: "string list"

text \<open>\<open>parsed.hostname\<close>: lower case up to a zone.\<close>

definition url_hostname :: "string \<Rightarrow> string option" where
  "url_hostname netloc =
     (let host = fst (url_host_port netloc)
      in if host = [] then None
         else case py_partition (CHR ''%'') host of (name, zoned, zone) \<Rightarrow>
           Some (py_lower name @ (if zoned then CHR ''%'' # zone else [])))"

definition private_gateways_allowed :: "(string \<Rightarrow> string option) \<Rightarrow> bool option \<Rightarrow> bool" where
  "private_gateways_allowed env allow_private =
     (case allow_private of
        Some b \<Rightarrow> b
      | None \<Rightarrow> py_lower (py_strip (case env ''ALLOW_PRIVATE_DELIVERY_GATEWAY'' of None \<Rightarrow> [] | Some v \<Rightarrow> v))
          \<in> set TRUE_ENV_VALUES)"

text \<open>The parts of the URL that the checks up to the resolution accept: scheme, canonical host, port.\<close>

definition gateway_url_parts ::
  "(string \<Rightarrow> string option) \<Rightarrow> bool \<Rightarrow> string \<Rightarrow> string + (string \<times> string \<times> nat option)" where
  "gateway_url_parts env allow url =
     (if url = [] \<or> \<not> list_all is_ascii url \<or> list_ex (\<lambda>c. ord c \<le> 32 \<or> ord c = 127) url
      then Inl ''invalid_gateway_url''
      else if CHR ''?'' \<in> set url \<or> CHR ''#'' \<in> set url \<or> chr 92 \<in> set url then Inl ''invalid_gateway_url''
      else case urlsplit url of
        None \<Rightarrow> Inl ''invalid_gateway_url''
      | Some parsed \<Rightarrow>
     (case url_port (url_netloc parsed) of
        None \<Rightarrow> Inl ''invalid_gateway_url''
      | Some port \<Rightarrow>
     (case url_hostname (url_netloc parsed) of
        None \<Rightarrow> Inl ''invalid_gateway_url''
      | Some hostname0 \<Rightarrow>
     (let scheme = py_lower (url_scheme parsed)
      in if url_netloc parsed = [] \<or> CHR ''@'' \<in> set (url_netloc parsed)
            \<or> (url_path parsed \<noteq> [] \<and> url_path parsed \<noteq> ''/'') \<or> url_query parsed \<noteq> [] \<or> url_fragment parsed \<noteq> []
            \<or> (scheme \<noteq> ''http'' \<and> scheme \<noteq> ''https'')
         then Inl ''invalid_gateway_url''
         else sum_bind (canonical_ascii_hostname hostname0) (\<lambda>hostname.
           if hostname = ''localhost'' \<or> ends_with ''.localhost'' hostname then Inl ''invalid_gateway_url''
           else if scheme = ''https'' \<and> port \<noteq> None \<and> port \<noteq> Some 443 then Inl ''invalid_gateway_url''
           else if scheme = ''http'' \<and> \<not> allow then Inl ''invalid_gateway_url''
           else sum_bind (if scheme = ''https'' then gateway_host_allowed env hostname else Inr True) (\<lambda>allowed.
             if \<not> allowed then Inl ''invalid_gateway_url'' else Inr (scheme, hostname, port)))))))"

definition default_port :: "string \<Rightarrow> nat" where
  "default_port scheme = (if scheme = ''https'' then 443 else 80)"

definition rendered_origin :: "string \<Rightarrow> string \<Rightarrow> nat option \<Rightarrow> string" where
  "rendered_origin scheme hostname port =
     scheme @ ''://'' @ (if CHR '':'' \<in> set hostname then ''['' @ hostname @ '']'' else hostname)
     @ (case port of None \<Rightarrow> [] | Some p \<Rightarrow> if p = default_port scheme then [] else CHR '':'' # dec_of_nat p)"

definition connect_port :: "string \<Rightarrow> nat option \<Rightarrow> nat" where
  "connect_port scheme port = (case port of None \<Rightarrow> default_port scheme | Some p \<Rightarrow> if p = 0 then default_port scheme else p)"

definition gateway_addresses :: "gateway_net \<Rightarrow> string \<Rightarrow> string \<Rightarrow> nat \<Rightarrow> ip list option" where
  "gateway_addresses N scheme hostname port =
     (case resolve_addresses N hostname port of
        None \<Rightarrow> None
      | Some answers \<Rightarrow>
          (case those_list (map ip_parse answers) of
             None \<Rightarrow> None
           | Some addresses \<Rightarrow>
               (if addresses = [] then None
                else if scheme = ''http'' \<and> \<not> list_all is_loopback addresses then None
                else if scheme = ''https'' \<and> \<not> list_all is_public_gateway_address addresses then None
                else Some addresses)))"

definition validate_gateway_origin :: "gateway_net \<Rightarrow> bool option \<Rightarrow> string \<Rightarrow> string + gateway_origin" where
  "validate_gateway_origin N allow_private url =
     (let allow = private_gateways_allowed (gateway_env N) allow_private
      in sum_bind (gateway_url_parts (gateway_env N) allow url) (\<lambda>(scheme, hostname, port).
         sum_map (\<lambda>addresses. \<lparr>origin = rendered_origin scheme hostname port, origin_scheme = scheme,
             origin_hostname = hostname, origin_port = connect_port scheme port,
             origin_addresses = rev (remdups (rev (map ip_text addresses)))\<rparr>)
           (or_error ''invalid_gateway_url'' (gateway_addresses N scheme hostname (connect_port scheme port)))))"

definition validate_gateway_url :: "gateway_net \<Rightarrow> bool option \<Rightarrow> string \<Rightarrow> string + string" where
  "validate_gateway_url N allow_private url = sum_map origin (validate_gateway_origin N allow_private url)"

section \<open>Signed contexts\<close>

text \<open>\<open>[A-Z][A-Z0-9.-]{0,9}\<close> and \<open>[A-Z]{3,8}\<close>\<close>

definition holding_symbol_re :: "string \<Rightarrow> bool" where
  "holding_symbol_re s \<longleftrightarrow> s \<noteq> [] \<and> length s \<le> 10 \<and> is_upper_az (hd s)
     \<and> list_all (\<lambda>c. is_upper_az c \<or> is_digit c \<or> c = CHR ''.'' \<or> c = CHR ''-'') s"

definition currency_re :: "string \<Rightarrow> bool" where
  "currency_re s \<longleftrightarrow> 3 \<le> length s \<and> length s \<le> 8 \<and> list_all is_upper_az s"

definition RISK_TOLERANCES :: "string list" where
  "RISK_TOLERANCES = [''conservative'', ''moderate'', ''aggressive'']"

definition SUPPORTED_INDICATORS :: "string list" where
  "SUPPORTED_INDICATORS = [''RSI-14'', ''MACD'', ''Bollinger Bands'', ''MA50/200'', ''ADX'', ''OBV'', ''ATR'', ''VaR'']"

definition ROOT_KEYS :: "string list" where
  "ROOT_KEYS = [''delivery_gateway_url'', ''delivery_gateway_token'', ''portfolio'', ''risk_profile'']"

definition HOLDING_KEYS :: "string list" where
  "HOLDING_KEYS = [''symbol'', ''shares'', ''avgCost'', ''currency'']"

definition RISK_PROFILE_KEYS :: "string list" where
  "RISK_PROFILE_KEYS = [''tolerance'', ''horizonMonths'', ''preferredIndicators'']"

record holding =
  holding_symbol :: string
  shares :: json
  avg_cost :: json
  currency :: string

record risk_profile =
  tolerance :: string
  horizon_months :: int
  preferred_indicators :: "string list"

record job_context =
  context_digest :: string
  gateway_url :: "string option"
  gateway_token :: "string option"
  context_portfolio :: "holding list"
  context_risk_profile :: "risk_profile option"

definition holding_json :: "holding \<Rightarrow> json" where
  "holding_json h = JDict [(''symbol'', JStr (holding_symbol h)), (''shares'', shares h),
     (''avgCost'', avg_cost h), (''currency'', JStr (currency h))]"

definition portfolio_for_prompt :: "job_context \<Rightarrow> json" where
  "portfolio_for_prompt ctx = JList (map holding_json (context_portfolio ctx))"

definition risk_profile_for_prompt :: "job_context \<Rightarrow> json" where
  "risk_profile_for_prompt ctx =
     (case context_risk_profile ctx of
        None \<Rightarrow> JNull
      | Some p \<Rightarrow> JDict [(''tolerance'', JStr (tolerance p)), (''horizonMonths'', JInt (horizon_months p)),
          (''preferredIndicators'', JList (map JStr (preferred_indicators p)))])"

text \<open>In what follows \<open>None\<close> is the \<open>ValueError\<close> that becomes \<open>invalid_context\<close>.\<close>

definition optional_string :: "dict \<Rightarrow> string \<Rightarrow> nat \<Rightarrow> nat \<Rightarrow> string option option" where
  "optional_string values key minimum_length maximum_length =
     (if \<not> dict_has values key then Some None
      else case dict_get values key of
        JStr s \<Rightarrow> if minimum_length \<le> length s \<and> length s \<le> maximum_length then Some (Some s) else None
      | _ \<Rightarrow> None)"

definition finite_number :: "json \<Rightarrow> (int \<times> nat) option" where
  "finite_number v = (case v of JBool b \<Rightarrow> None | JInt i \<Rightarrow> Some (i, 1) | JFloat (Finite n d r) \<Rightarrow> Some (n, d) | _ \<Rightarrow> None)"

definition parse_holding :: "json \<Rightarrow> holding option" where
  "parse_holding item =
     (case item of
        JDict d \<Rightarrow>
          (if \<not> keys_are d HOLDING_KEYS then None
           else case (finite_number (dict_get d ''shares''), finite_number (dict_get d ''avgCost''),
               dict_get d ''symbol'', dict_get d ''currency'') of
             (Some (n, dn), Some (m, dm), JStr ticker, JStr cur) \<Rightarrow>
               (if \<not> holding_symbol_re ticker \<or> \<not> currency_re cur
                   \<or> \<not> (0 < n \<and> n \<le> MAX_VALUE * int dn) \<or> \<not> (0 \<le> m \<and> m \<le> MAX_VALUE * int dm)
                then None
                else Some \<lparr>holding_symbol = ticker, shares = dict_get d ''shares'',
                  avg_cost = dict_get d ''avgCost'', currency = cur\<rparr>)
           | _ \<Rightarrow> None)
      | _ \<Rightarrow> None)"

definition parse_portfolio :: "json \<Rightarrow> holding list option" where
  "parse_portfolio v = (case v of
     JList items \<Rightarrow> if length items > MAX_HOLDINGS then None else those_list (map parse_holding items)
   | _ \<Rightarrow> None)"

definition parse_risk_profile :: "json \<Rightarrow> risk_profile option" where
  "parse_risk_profile v =
     (case v of
        JDict d \<Rightarrow>
          (if \<not> keys_are d RISK_PROFILE_KEYS then None
           else case (dict_get d ''tolerance'', dict_get d ''horizonMonths'', dict_get d ''preferredIndicators'') of
             (JStr tol, JInt months, JList xs) \<Rightarrow>
               (case those_list (map as_str xs) of
                  None \<Rightarrow> None
                | Some indicators \<Rightarrow>
                    (if tol \<notin> set RISK_TOLERANCES \<or> \<not> (1 \<le> months \<and> months \<le> 600)
                        \<or> \<not> list_all (\<lambda>i. i \<in> set SUPPORTED_INDICATORS) indicators \<or> \<not> distinct indicators
                     then None
                     else Some \<lparr>tolerance = tol, horizon_months = months, preferred_indicators = indicators\<rparr>))
           | _ \<Rightarrow> None)
      | _ \<Rightarrow> None)"

definition parse_signed_context ::
  "(bytes \<Rightarrow> bytes) \<Rightarrow> (string \<Rightarrow> pyfloat) \<Rightarrow> string \<Rightarrow> string + job_context" where
  "parse_signed_context sha flt raw =
     or_error ''invalid_context''
       (let encoded = utf8 raw
        in if length encoded > MAX_CONTEXT_BYTES then None
           else case json_parse ((default_hooks flt)\<lparr>unique_keys := True\<rparr>) raw of
             Some (JDict parsed) \<Rightarrow>
               (if \<not> set (map fst parsed) \<subseteq> set ROOT_KEYS then None
                else case (optional_string parsed ''delivery_gateway_url'' 0 MAX_GATEWAY_URL_LENGTH,
                    optional_string parsed ''delivery_gateway_token'' 1 MAX_GATEWAY_TOKEN_LENGTH) of
                  (Some url, Some token) \<Rightarrow>
                    (if (case token of None \<Rightarrow> False | Some t \<Rightarrow> chr 13 \<in> set t \<or> chr 10 \<in> set t) then None
                     else case (parse_portfolio (dict_get_or parsed ''portfolio'' (JList [])),
                         if dict_has parsed ''risk_profile''
                         then map_option Some (parse_risk_profile (dict_get parsed ''risk_profile'')) else Some None) of
                       (Some holdings, Some profile) \<Rightarrow>
                         Some \<lparr>context_digest = bytes_hex (sha encoded), gateway_url = url, gateway_token = token,
                           context_portfolio = holdings, context_risk_profile = profile\<rparr>
                     | _ \<Rightarrow> None)
                | _ \<Rightarrow> None)
           | _ \<Rightarrow> None)"

section \<open>Authorizations\<close>

definition AUTHORIZATION_KEYS :: "string list" where
  "AUTHORIZATION_KEYS = [''context'', ''expires_at'', ''nonce'', ''signature'']"

text \<open>\<open>0x[0-9a-fA-F]{64}\<close> and \<open>(?:0x)?[0-9a-fA-F]{130}\<close>\<close>

definition nonce_re :: "string \<Rightarrow> bool" where
  "nonce_re s \<longleftrightarrow> length s = 66 \<and> take 2 s = ''0x'' \<and> list_all is_hex (drop 2 s)"

definition notify_signature_re :: "string \<Rightarrow> bool" where
  "notify_signature_re s \<longleftrightarrow> (let body = (if starts_with ''0x'' s then drop 2 s else s) in
     length body = 130 \<and> list_all is_hex body)"

definition require_uint :: "json \<Rightarrow> int \<Rightarrow> string + int" where
  "require_uint v maximum = (case v of
     JInt i \<Rightarrow> if 0 \<le> i \<and> i \<le> maximum then Inr i else Inl ''invalid_authorization''
   | _ \<Rightarrow> Inl ''invalid_authorization'')"

text \<open>The typed data that is signed.\<close>

record notify_message =
  msg_chain_id :: int
  msg_contract :: string
  msg_job_id :: int
  msg_context :: string
  msg_expires_at :: int
  msg_nonce :: string

definition typed_field :: "string \<times> string \<Rightarrow> json" where
  "typed_field f = JDict [(''name'', JStr (fst f)), (''type'', JStr (snd f))]"

definition notify_typed_data :: "notify_message \<Rightarrow> dict" where
  "notify_typed_data m =
     [(''types'', JDict
        [(''EIP712Domain'', JList (map typed_field [(''name'', ''string''), (''version'', ''string''),
            (''chainId'', ''uint256''), (''verifyingContract'', ''address'')])),
         (''NotifyFunded'', JList (map typed_field [(''jobId'', ''uint256''), (''context'', ''string''),
            (''expiresAt'', ''uint64''), (''nonce'', ''bytes32'')]))]),
      (''primaryType'', JStr ''NotifyFunded''),
      (''domain'', JDict [(''name'', JStr ''stockanalyst-notify-funded''), (''version'', JStr ''1''),
         (''chainId'', JInt (msg_chain_id m)), (''verifyingContract'', JStr (msg_contract m))]),
      (''message'', JDict [(''jobId'', JInt (msg_job_id m)), (''context'', JStr (msg_context m)),
         (''expiresAt'', JInt (msg_expires_at m)), (''nonce'', JStr (msg_nonce m))])]"

text \<open>
  \<open>checksum\<close> is \<open>eth_utils.to_checksum_address\<close> and \<open>recover_typed\<close> the recovery of the signer of typed
  data, where \<open>Inl\<close> is an exception; only \<open>TypeError\<close> and \<open>ValueError\<close> are caught.
\<close>

record notify_eth =
  checksum :: "string \<Rightarrow> exn + string"
  recover_typed :: "dict \<Rightarrow> string \<Rightarrow> exn + string"
  notify_sha :: "bytes \<Rightarrow> bytes"
  notify_float :: "string \<Rightarrow> pyfloat"

datatype notify_error = NotifySecurityError string | NotifyRaised exn

definition notify_guard :: "exn + 'a \<Rightarrow> notify_error + 'a" where
  "notify_guard r = (case r of
     Inr a \<Rightarrow> Inr a
   | Inl e \<Rightarrow> Inl (if e = TypeError \<or> e = ValueError then NotifySecurityError ''invalid_authorization''
       else NotifyRaised e))"

definition notify_unguarded :: "exn + 'a \<Rightarrow> notify_error + 'a" where
  "notify_unguarded r = (case r of Inr a \<Rightarrow> Inr a | Inl e \<Rightarrow> Inl (NotifyRaised e))"

definition notify_code :: "string + 'a \<Rightarrow> notify_error + 'a" where
  "notify_code r = (case r of Inr a \<Rightarrow> Inr a | Inl code \<Rightarrow> Inl (NotifySecurityError code))"

definition build_notify_typed_data ::
  "notify_eth \<Rightarrow> json \<Rightarrow> json \<Rightarrow> json \<Rightarrow> json \<Rightarrow> json \<Rightarrow> string \<Rightarrow> notify_error + dict" where
  "build_notify_typed_data L job_id ctx expires_at nonce chain_id verifying_contract =
     sum_bind (notify_code (require_uint job_id MAX_UINT256)) (\<lambda>jid.
     sum_bind (notify_code (require_uint expires_at MAX_UINT64)) (\<lambda>expires.
     sum_bind (notify_code (require_uint chain_id MAX_UINT256)) (\<lambda>chain.
       case (ctx, nonce) of
         (JStr c, JStr n) \<Rightarrow>
           (if \<not> nonce_re n then Inl (NotifySecurityError ''invalid_authorization'')
            else sum_bind (notify_guard (checksum L verifying_contract)) (\<lambda>contract.
              Inr (notify_typed_data \<lparr>msg_chain_id = chain, msg_contract = contract, msg_job_id = jid,
                msg_context = c, msg_expires_at = expires, msg_nonce = n\<rparr>)))
       | _ \<Rightarrow> Inl (NotifySecurityError ''invalid_authorization''))))"

text \<open>The checks before any chain access; the accepted fields are context, expiry, nonce and signature.\<close>

definition preflight_notify_authorization :: "json \<Rightarrow> int \<Rightarrow> string + (string \<times> int \<times> string \<times> string)" where
  "preflight_notify_authorization authorization now =
     (case authorization of
        JDict d \<Rightarrow>
          (if \<not> list_all (dict_has d) AUTHORIZATION_KEYS then Inl ''authorization_required''
           else if \<not> keys_are d AUTHORIZATION_KEYS then Inl ''invalid_authorization''
           else case (dict_get d ''context'', dict_get d ''expires_at'', dict_get d ''nonce'', dict_get d ''signature'') of
             (JStr ctx, JInt expires_at, JStr nonce, JStr signature) \<Rightarrow>
               (if \<not> (0 \<le> expires_at \<and> expires_at \<le> MAX_UINT64) \<or> \<not> nonce_re nonce
                   \<or> \<not> notify_signature_re signature
                then Inl ''invalid_authorization''
                else if length (utf8 ctx) > MAX_CONTEXT_BYTES then Inl ''invalid_context''
                else if expires_at < now - 30 then Inl ''authorization_expired''
                else if expires_at > now + 600 then Inl ''invalid_authorization''
                else Inr (ctx, expires_at, nonce, signature))
           | _ \<Rightarrow> Inl ''invalid_authorization'')
      | _ \<Rightarrow> Inl ''authorization_required'')"

definition verify_notify_authorization ::
  "notify_eth \<Rightarrow> json \<Rightarrow> json \<Rightarrow> string \<Rightarrow> json \<Rightarrow> string \<Rightarrow> int \<Rightarrow> notify_error + job_context" where
  "verify_notify_authorization L authorization job_id expected_client chain_id verifying_contract now =
     sum_bind (notify_code (preflight_notify_authorization authorization now)) (\<lambda>(ctx, expires_at, nonce, signature).
     sum_bind (notify_guard (checksum L expected_client)) (\<lambda>expected.
     sum_bind (build_notify_typed_data L job_id (JStr ctx) (JInt expires_at) (JStr nonce) chain_id verifying_contract) (\<lambda>typed_data.
     sum_bind (notify_guard (recover_typed L typed_data signature)) (\<lambda>recovered.
     sum_bind (notify_unguarded (checksum L recovered)) (\<lambda>signer.
       if signer \<noteq> expected then Inl (NotifySecurityError ''caller_not_job_client'')
       else notify_code (parse_signed_context (notify_sha L) (notify_float L) ctx))))))"

end
