(* ===== verification/Uomp_Storage.thy ===== *)
theory Uomp_Storage
  imports Notify_Security X402_Handler
begin

text \<open>
  The storage of a buyer's payload relay (\<open>uomp_storage.py\<close>): connections pinned to the validated
  addresses, a deadline over all reads, bounded JSON responses, and payload URLs of the same origin.
  Sockets, TLS, the URL opener and the clock are parameters that act on a world.
\<close>

section \<open>Sockets with a deadline\<close>

text \<open>
  \<open>raw_closes\<close> counts the calls of \<open>close\<close> on the socket below. The streams of a socket are its open
  \<open>_DeadlineSocketIO\<close> objects.
\<close>

record deadline_socket =
  sock_closed :: bool
  raw_closed :: bool
  makefile_refs :: nat
  raw_closes :: nat

definition new_deadline_socket :: deadline_socket where
  "new_deadline_socket = \<lparr>sock_closed = False, raw_closed = False, makefile_refs = 0, raw_closes = 0\<rparr>"

definition close_raw :: "deadline_socket \<Rightarrow> deadline_socket" where
  "close_raw d = (if raw_closed d then d else d\<lparr>raw_closed := True, raw_closes := raw_closes d + 1\<rparr>)"

definition abort_socket :: "deadline_socket \<Rightarrow> deadline_socket" where
  "abort_socket d = close_raw (d\<lparr>sock_closed := True\<rparr>)"

definition acquire_makefile :: "deadline_socket \<Rightarrow> exn + deadline_socket" where
  "acquire_makefile d = (if sock_closed d then Inl OtherException else Inr (d\<lparr>makefile_refs := makefile_refs d + 1\<rparr>))"

definition release_makefile :: "deadline_socket \<Rightarrow> deadline_socket" where
  "release_makefile d =
     (let d1 = d\<lparr>makefile_refs := makefile_refs d - 1\<rparr>
      in if sock_closed d1 \<and> makefile_refs d1 = 0 then close_raw d1 else d1)"

definition close_socket :: "deadline_socket \<Rightarrow> deadline_socket" where
  "close_socket d =
     (if sock_closed d then d
      else let d1 = d\<lparr>sock_closed := True\<rparr> in if makefile_refs d1 = 0 then close_raw d1 else d1)"

text \<open>Before every transfer: the timeout left, or the end of the socket.\<close>

definition prepare_operation :: "int \<Rightarrow> int \<Rightarrow> deadline_socket \<Rightarrow> (exn + int) \<times> deadline_socket" where
  "prepare_operation deadline now d =
     (if deadline - now \<le> 0 then (Inl TimeoutError, abort_socket d) else (Inr (deadline - now), d))"

text \<open>\<open>recv\<close>, \<open>recv_into\<close>, \<open>send\<close> and \<open>sendall\<close>: the transfer of the socket below, within the time left.\<close>

definition deadline_transfer ::
  "(int \<Rightarrow> 'w \<Rightarrow> (exn + 'a) \<times> 'w) \<Rightarrow> int \<Rightarrow> int \<Rightarrow> deadline_socket \<Rightarrow> 'w \<Rightarrow> (exn + 'a) \<times> deadline_socket \<times> 'w" where
  "deadline_transfer raw deadline now d w =
     (case prepare_operation deadline now d of
        (Inl e, d') \<Rightarrow> (Inl e, d', w)
      | (Inr remaining, d') \<Rightarrow> (case raw remaining w of (r, w') \<Rightarrow> (r, d', w')))"

text \<open>\<open>_DeadlineSocketIO\<close>; \<open>makefile\<close> makes one for reading, other modes are the socket's own (\<open>None\<close>).\<close>

record deadline_socket_io =
  io_released :: bool
  io_closed :: bool

definition new_socket_io :: deadline_socket_io where
  "new_socket_io = \<lparr>io_released = False, io_closed = False\<rparr>"

definition makefile_socket :: "string \<Rightarrow> deadline_socket \<Rightarrow> exn + deadline_socket_io option \<times> deadline_socket" where
  "makefile_socket mode d =
     (if mode \<noteq> ''r'' \<and> mode \<noteq> ''rb'' then Inr (None, d)
      else sum_map (\<lambda>d'. (Some new_socket_io, d')) (acquire_makefile d))"

definition close_socket_io :: "deadline_socket_io \<Rightarrow> deadline_socket \<Rightarrow> deadline_socket_io \<times> deadline_socket" where
  "close_socket_io io d =
     (if io_closed io then (io, d)
      else if io_released io then (io\<lparr>io_closed := True\<rparr>, d)
      else (io\<lparr>io_released := True, io_closed := True\<rparr>, release_makefile d))"

section \<open>Pinned connections\<close>

text \<open>
  One network: the clock, a new socket of a family, connecting it to an address and port within a
  time, the TLS handshake with the name of the host, and closing. A time of \<open>None\<close> is no limit.
\<close>

record 'w pinned_net =
  mono_clock :: "'w \<Rightarrow> int \<times> 'w"
  open_socket :: "bool \<Rightarrow> 'w \<Rightarrow> (exn + unit) \<times> 'w"
  connect_socket :: "string \<Rightarrow> nat \<Rightarrow> int option \<Rightarrow> 'w \<Rightarrow> (exn + unit) \<times> 'w"
  wrap_tls :: "string \<Rightarrow> int option \<Rightarrow> 'w \<Rightarrow> (exn + unit) \<times> 'w"
  drop_socket :: "'w \<Rightarrow> 'w"

definition remaining_timeout :: "('w, 'z) pinned_net_scheme \<Rightarrow> int option \<Rightarrow> 'w \<Rightarrow> (exn + int option) \<times> 'w" where
  "remaining_timeout P deadline w =
     (case deadline of
        None \<Rightarrow> (Inr None, w)
      | Some d \<Rightarrow> (case mono_clock P w of (now, w') \<Rightarrow>
          ((if d - now \<le> 0 then Inl TimeoutError else Inr (Some (d - now))), w')))"

text \<open>The steps of one attempt; the flag says whether there is a socket to close.\<close>

definition then_step ::
  "(exn + 'a) \<times> 'w \<Rightarrow> ('a \<Rightarrow> 'w \<Rightarrow> (exn + 'b) \<times> 'w) \<Rightarrow> (exn + 'b) \<times> 'w" where
  "then_step r f = (case r of (Inl e, w) \<Rightarrow> (Inl e, w) | (Inr a, w) \<Rightarrow> f a w)"

definition connect_pinned ::
  "('w, 'z) pinned_net_scheme \<Rightarrow> string option \<Rightarrow> int option \<Rightarrow> string \<Rightarrow> nat \<Rightarrow> 'w \<Rightarrow> (exn + unit) \<times> 'w" where
  "connect_pinned P tls deadline peer port w =
     then_step (remaining_timeout P deadline w) (\<lambda>t w.
     then_step (connect_socket P peer port t w) (\<lambda>_ w.
     then_step (case tls of
         None \<Rightarrow> (Inr (), w)
       | Some host \<Rightarrow> then_step (remaining_timeout P deadline w) (\<lambda>t w. wrap_tls P host t w)) (\<lambda>_ w.
     then_step (remaining_timeout P deadline w) (\<lambda>_ w. (Inr (), w)))))"

definition attempt_pinned ::
  "('w, 'z) pinned_net_scheme \<Rightarrow> string option \<Rightarrow> int option \<Rightarrow> string \<Rightarrow> nat \<Rightarrow> 'w \<Rightarrow> (exn + unit) \<times> 'w" where
  "attempt_pinned P tls deadline peer port w =
     (case ip_parse peer of
        None \<Rightarrow> (Inl ValueError, w)
      | Some a \<Rightarrow>
          then_step (open_socket P (is_ipv6 a) w) (\<lambda>_ w.
            case connect_pinned P tls deadline peer port w of
              (Inr u, w) \<Rightarrow> (Inr u, w)
            | (Inl e, w) \<Rightarrow> (Inl e, drop_socket P w)))"

text \<open>The address that was connected to. The first failure that is no timeout is the one that is raised.\<close>

fun try_addresses ::
  "('w, 'z) pinned_net_scheme \<Rightarrow> string option \<Rightarrow> int option \<Rightarrow> nat \<Rightarrow> exn option \<Rightarrow> string list \<Rightarrow> 'w \<Rightarrow> (exn + string) \<times> 'w" where
  "try_addresses P tls deadline port first_error [] w =
     (Inl (case first_error of None \<Rightarrow> OtherException | Some e \<Rightarrow> e), w)"
| "try_addresses P tls deadline port first_error (peer # addresses) w =
     (case attempt_pinned P tls deadline peer port w of
        (Inr _, w') \<Rightarrow> (Inr peer, w')
      | (Inl e, w') \<Rightarrow>
          (if e = TimeoutError then (Inl e, w')
           else try_addresses P tls deadline port (case first_error of None \<Rightarrow> Some e | Some f \<Rightarrow> Some f) addresses w'))"

definition open_pinned_socket ::
  "('w, 'z) pinned_net_scheme \<Rightarrow> string option \<Rightarrow> string list \<Rightarrow> nat \<Rightarrow> int option \<Rightarrow> int option \<Rightarrow> 'w \<Rightarrow> (exn + string) \<times> 'w" where
  "open_pinned_socket P tls addresses port timeout deadline w =
     (case (deadline, timeout) of
        (None, Some t) \<Rightarrow> (case mono_clock P w of (now, w') \<Rightarrow> try_addresses P tls (Some (now + t)) port None addresses w')
      | _ \<Rightarrow> try_addresses P tls deadline port None addresses w)"

text \<open>
  The connection of a handler: to the validated addresses and port, whatever the host of the request.
  \<open>request_deadline\<close> is the value of the thread; the clock is read for the default in any case.
\<close>

definition pinned_connect ::
  "('w, 'z) pinned_net_scheme \<Rightarrow> gateway_origin \<Rightarrow> string \<Rightarrow> int \<Rightarrow> int option \<Rightarrow> 'w \<Rightarrow> (exn + string) \<times> 'w" where
  "pinned_connect P validated host timeout request_deadline w =
     (case mono_clock P w of (now, w') \<Rightarrow>
        open_pinned_socket P (if origin_scheme validated = ''https'' then Some host else None)
          (origin_addresses validated) (origin_port validated) (Some timeout)
          (Some (case request_deadline of Some d \<Rightarrow> d | None \<Rightarrow> now + timeout)) w')"

section \<open>The provider\<close>

definition TIMEOUT_UPLOAD :: int where "TIMEOUT_UPLOAD = 30"
definition TIMEOUT_DOWNLOAD :: int where "TIMEOUT_DOWNLOAD = 30"
definition TIMEOUT_EXISTS :: int where "TIMEOUT_EXISTS = 10"
definition MAX_UPLOAD_RESPONSE_BYTES :: nat where "MAX_UPLOAD_RESPONSE_BYTES = 65536"
definition MAX_DOWNLOAD_RESPONSE_BYTES :: nat where "MAX_DOWNLOAD_RESPONSE_BYTES = 2 * 1024 * 1024"
definition READ_CHUNK_BYTES :: nat where "READ_CHUNK_BYTES = 8192"

text \<open>\<open>pay_[0-9a-f]{32}\<close> and \<open>/v1/payload/(pay_[0-9a-f]{32})\<close>\<close>

definition payload_id_re :: "string \<Rightarrow> bool" where
  "payload_id_re s \<longleftrightarrow> length s = 36 \<and> take 4 s = ''pay_'' \<and> list_all is_lower_hex (drop 4 s)"

definition payload_path_re :: "string \<Rightarrow> bool" where
  "payload_path_re s \<longleftrightarrow> take 12 s = ''/v1/payload/'' \<and> payload_id_re (drop 12 s)"

record uomp_provider =
  provider_base :: string
  provider_origin :: split_url
  provider_token :: string
  provider_validated :: gateway_origin

text \<open>The constructor: \<open>Inl\<close> is the code of the \<open>NotifySecurityError\<close>; the base of a validated origin splits.\<close>

definition uomp_gateway_storage_provider :: "gateway_net \<Rightarrow> string \<Rightarrow> string \<Rightarrow> string + uomp_provider" where
  "uomp_gateway_storage_provider N url token =
     sum_bind (validate_gateway_origin N None url) (\<lambda>validated.
       case urlsplit (origin validated) of
         None \<Rightarrow> Inl ''ValueError''
       | Some parsed \<Rightarrow> Inr \<lparr>provider_base = origin validated, provider_origin = parsed,
           provider_token = token, provider_validated = validated\<rparr>)"

definition port_or_default :: "split_url \<Rightarrow> string \<Rightarrow> nat option" where
  "port_or_default u scheme =
     (case url_port (url_netloc u) of
        None \<Rightarrow> None
      | Some None \<Rightarrow> Some (default_port scheme)
      | Some (Some p) \<Rightarrow> Some p)"

text \<open>\<open>None\<close> is the \<open>ValueError\<close>. The text after a zone of the host keeps its case only until it is lowered here.\<close>

definition validate_payload_url :: "uomp_provider \<Rightarrow> string \<Rightarrow> string option" where
  "validate_payload_url p url =
     (if url = [] \<or> \<not> list_all is_ascii url \<or> CHR ''?'' \<in> set url \<or> CHR ''#'' \<in> set url \<or> chr 92 \<in> set url
         \<or> list_ex (\<lambda>c. ord c \<le> 32 \<or> ord c = 127) url
      then None
      else case urlsplit url of
        None \<Rightarrow> None
      | Some parsed \<Rightarrow>
          (let scheme = py_lower (url_scheme parsed)
           in if port_or_default parsed scheme = None then None
              else if scheme \<noteq> url_scheme (provider_origin p)
                  \<or> url_hostname (url_netloc parsed) = None
                  \<or> map_option py_lower (url_hostname (url_netloc parsed)) \<noteq> url_hostname (url_netloc (provider_origin p))
                  \<or> port_or_default parsed scheme
                      \<noteq> port_or_default (provider_origin p) (url_scheme (provider_origin p))
                  \<or> CHR ''@'' \<in> set (url_netloc parsed) \<or> url_query parsed \<noteq> [] \<or> url_fragment parsed \<noteq> []
                  \<or> \<not> payload_path_re (url_path parsed)
              then None else Some (provider_base p @ url_path parsed)))"

section \<open>Requests and responses\<close>

record uomp_request =
  req_method :: string
  req_url :: string
  req_headers :: "(string \<times> string) list"
  req_body :: "bytes option"

text \<open>
  \<open>open_url\<close> is the opener with the pinned handlers, no proxies and no redirects, given the timeout and
  the deadline that the thread holds while it runs; a response is read with \<open>read1\<close> and closed. The hypothesis \<open>reads_at_most\<close> of the laws is the contract of \<open>read1\<close>.
\<close>

record 'w uomp_net =
  uomp_clock :: "'w \<Rightarrow> int \<times> 'w"
  open_url :: "uomp_request \<Rightarrow> int \<Rightarrow> int \<Rightarrow> 'w \<Rightarrow> (exn + unit) \<times> 'w"
  read1 :: "nat \<Rightarrow> 'w \<Rightarrow> (exn + bytes) \<times> 'w"
  close_response :: "'w \<Rightarrow> 'w"
  uomp_float :: "string \<Rightarrow> pyfloat"

definition ensure_before_deadline :: "('w, 'z) uomp_net_scheme \<Rightarrow> int \<Rightarrow> 'w \<Rightarrow> (exn + unit) \<times> 'w" where
  "ensure_before_deadline U deadline w =
     (case uomp_clock U w of (now, w') \<Rightarrow>
        if now \<ge> deadline then (Inl TimeoutError, close_response U w') else (Inr (), w'))"

lemma room_shrinks: "xs \<noteq> [] \<Longrightarrow> \<not> m < n + length xs \<Longrightarrow> Suc m - (n + length xs) < Suc m - n"
  by (cases xs) auto

text \<open>
  The loop over the chunks: a chunk that is not empty brings the size closer to the limit, and the
  loop ends beyond it.
\<close>

function read_chunks ::
  "('w, 'z) uomp_net_scheme \<Rightarrow> int \<Rightarrow> nat \<Rightarrow> bytes \<Rightarrow> 'w \<Rightarrow> (exn + bytes) \<times> 'w" where
  "read_chunks U deadline max_bytes body w =
     then_step (ensure_before_deadline U deadline w) (\<lambda>_ w.
     then_step (read1 U (min READ_CHUNK_BYTES (max_bytes + 1 - length body)) w) (\<lambda>chunk w.
     then_step (ensure_before_deadline U deadline w) (\<lambda>_ w.
       if chunk = [] then (Inr body, w)
       else if length (body @ chunk) > max_bytes then (Inr (body @ chunk), w)
       else read_chunks U deadline max_bytes (body @ chunk) w)))"
  by pat_completeness auto
termination
  by (relation "measure (\<lambda>(U, deadline, max_bytes, body, w). Suc max_bytes - length body)")
    (auto intro: room_shrinks)

declare read_chunks.simps [simp del]

text \<open>\<open>json.loads\<close> of bytes; integers beyond the digit limit raise \<open>ValueError\<close> like every other error.\<close>

definition read_bounded_json ::
  "('w, 'z) uomp_net_scheme \<Rightarrow> int \<Rightarrow> nat \<Rightarrow> 'w \<Rightarrow> (exn + json) \<times> 'w" where
  "read_bounded_json U deadline max_bytes w =
     then_step (read_chunks U deadline max_bytes [] w) (\<lambda>body w.
       if length body > max_bytes then (Inl ValueError, w)
       else (case json_text body of
           None \<Rightarrow> Inl ValueError
         | Some text \<Rightarrow> or_error ValueError (json_parse (default_hooks (uomp_float U)) text), w))"

definition open_response ::
  "('w, 'z) uomp_net_scheme \<Rightarrow> uomp_request \<Rightarrow> int \<Rightarrow> 'w \<Rightarrow> (exn + int) \<times> 'w" where
  "open_response U request timeout w =
     (case uomp_clock U w of (now, w) \<Rightarrow>
        then_step (open_url U request timeout (now + timeout) w) (\<lambda>_ w.
        then_step (ensure_before_deadline U (now + timeout) w) (\<lambda>_ w. (Inr (now + timeout), w))))"

text \<open>\<open>with response:\<close> closes the response however its block ends.\<close>

definition with_response ::
  "('w, 'z) uomp_net_scheme \<Rightarrow> uomp_request \<Rightarrow> int \<Rightarrow> (int \<Rightarrow> 'w \<Rightarrow> (exn + 'a) \<times> 'w) \<Rightarrow> 'w \<Rightarrow> (exn + 'a) \<times> 'w" where
  "with_response U request timeout block w =
     then_step (open_response U request timeout w) (\<lambda>deadline w.
       case block deadline w of (r, w') \<Rightarrow> (r, close_response U w'))"

definition bearer :: "uomp_provider \<Rightarrow> string \<times> string" where
  "bearer p = (''Authorization'', ''Bearer '' @ provider_token p)"

definition upload_request :: "uomp_provider \<Rightarrow> dict \<Rightarrow> uomp_request" where
  "upload_request p data = \<lparr>req_method = ''POST'', req_url = provider_base p @ ''/v1/payload/upload'',
     req_headers = [bearer p, (''Content-Type'', ''application/json'')],
     req_body = Some (utf8 (json_dumps compact_sorted (JDict data)))\<rparr>"

definition payload_url :: "uomp_provider \<Rightarrow> json \<Rightarrow> exn + string" where
  "payload_url p result =
     (case result of
        JDict d \<Rightarrow>
          (case dict_get d ''payload_id'' of
             JStr payload_id \<Rightarrow>
               (if payload_id_re payload_id then Inr (provider_base p @ ''/v1/payload/'' @ payload_id) else Inl ValueError)
           | _ \<Rightarrow> Inl ValueError)
      | _ \<Rightarrow> Inl ValueError)"

definition uomp_upload :: "('w, 'z) uomp_net_scheme \<Rightarrow> uomp_provider \<Rightarrow> dict \<Rightarrow> 'w \<Rightarrow> (exn + string) \<times> 'w" where
  "uomp_upload U p data w =
     then_step (with_response U (upload_request p data) TIMEOUT_UPLOAD
       (\<lambda>deadline. read_bounded_json U deadline MAX_UPLOAD_RESPONSE_BYTES) w) (\<lambda>result w. (payload_url p result, w))"

definition read_request :: "uomp_provider \<Rightarrow> string \<Rightarrow> string \<Rightarrow> uomp_request" where
  "read_request p method target = \<lparr>req_method = method, req_url = target, req_headers = [bearer p], req_body = None\<rparr>"

definition uomp_download :: "('w, 'z) uomp_net_scheme \<Rightarrow> uomp_provider \<Rightarrow> string \<Rightarrow> 'w \<Rightarrow> (exn + dict) \<times> 'w" where
  "uomp_download U p url w =
     (case validate_payload_url p url of
        None \<Rightarrow> (Inl ValueError, w)
      | Some target \<Rightarrow>
          then_step (with_response U (read_request p ''GET'' target) TIMEOUT_DOWNLOAD
            (\<lambda>deadline. read_bounded_json U deadline MAX_DOWNLOAD_RESPONSE_BYTES) w) (\<lambda>result w.
            ((case result of JDict d \<Rightarrow> Inr d | _ \<Rightarrow> Inl ValueError), w)))"

text \<open>Every \<open>Exception\<close> of the request means that the payload does not exist; cancellation passes.\<close>

definition uomp_exists :: "('w, 'z) uomp_net_scheme \<Rightarrow> uomp_provider \<Rightarrow> string \<Rightarrow> 'w \<Rightarrow> (exn + bool) \<times> 'w" where
  "uomp_exists U p url w =
     (case validate_payload_url p url of
        None \<Rightarrow> (Inl ValueError, w)
      | Some target \<Rightarrow>
          (case with_response U (read_request p ''HEAD'' target) TIMEOUT_EXISTS (ensure_before_deadline U) w of
             (Inr _, w') \<Rightarrow> (Inr True, w')
           | (Inl e, w') \<Rightarrow> ((if e = Cancelled then Inl e else Inr False), w')))"

end
