(* ===== verification/Notify_Laws.thy ===== *)
theory Notify_Laws
  imports Notify_Security
begin

text \<open>
  What the checks of \<open>notify_security.py\<close> give: an accepted gateway resolves to addresses of the
  public Internet only, an accepted authorization was signed by the client of the job for exactly
  this job, contract and context, and an accepted context is within its limits.
\<close>

section \<open>Addresses of the public Internet\<close>

text \<open>
  The ranges a request must never reach: this network, private, shared, loopback, link-local,
  multicast and reserved addresses. Only unicast addresses of \<open>2000::/3\<close> are public in IPv6, and
  neither the 6to4 nor the Teredo range, which embed IPv4 addresses, is.
\<close>

fun internal_v4 :: "nat list \<Rightarrow> bool" where
  "internal_v4 (a # b # _) \<longleftrightarrow> a = 0 \<or> a = 10 \<or> a = 127 \<or> a = 169 \<and> b = 254 \<or> a = 172 \<and> 16 \<le> b \<and> b \<le> 31
     \<or> a = 192 \<and> b = 168 \<or> a = 100 \<and> 64 \<le> b \<and> b \<le> 127 \<or> 224 \<le> a"
| "internal_v4 _ = True"

fun internet_address :: "ip \<Rightarrow> bool" where
  "internet_address (IPv4 os) \<longleftrightarrow> \<not> internal_v4 os"
| "internet_address (IPv6 hs scope) \<longleftrightarrow> 8192 \<le> hs ! 0 \<and> hs ! 0 < 16384 \<and> hs ! 0 \<noteq> 8194
     \<and> \<not> (hs ! 0 = 8193 \<and> hs ! 1 = 0) \<and> \<not> (hs ! 0 = 8193 \<and> hs ! 1 = 3512)"

lemma list4: "length xs = 4 \<Longrightarrow> \<exists>a b c d. xs = [a, b, c, d]"
  by (auto simp: length_Suc_conv numeral_eq_Suc)

lemma list8: "length xs = 8 \<Longrightarrow> \<exists>a b c d e f g h. xs = [a, b, c, d, e, f, g, h]"
  by (auto simp: length_Suc_conv numeral_eq_Suc)

lemma public_v4:
  assumes "ip_ok (IPv4 os)" "publicly_routed (IPv4 os)"
  shows "\<not> internal_v4 os"
proof -
  obtain a b c d where os: "os = [a, b, c, d]" using assms(1) list4[of os] by auto
  have ok: "ip_ok (IPv4 [a, b, c, d])" and bounds: "a \<le> 255" "b \<le> 255" "c \<le> 255" "d \<le> 255"
    using assms(1) os by auto
  note octet = in_net4_prefix[OF ok, where k = 1] and two = in_net4_prefix[OF ok, where k = 2]
    and leading = in_net4_leading[OF ok, where k = 2 and len = 32]
  have exceptions: "a * 256 + b = 49152" if "list_ex (in_net4 os) PRIVATE4_EXCEPTIONS"
    using that leading[of "[192, 0, 0, 9]"] leading[of "[192, 0, 0, 10]"]
    by (auto simp: os PRIVATE4_EXCEPTIONS_def from_digits_def)
  have nets: "in_net4 [a, b, c, d] ([0, 0, 0, 0], 8) \<longleftrightarrow> a = 0" "in_net4 [a, b, c, d] ([10, 0, 0, 0], 8) \<longleftrightarrow> a = 10"
    "in_net4 [a, b, c, d] ([127, 0, 0, 0], 8) \<longleftrightarrow> a = 127"
    "in_net4 [a, b, c, d] ([224, 0, 0, 0], 4) \<longleftrightarrow> a div 16 = 14" "in_net4 [a, b, c, d] ([240, 0, 0, 0], 4) \<longleftrightarrow> a div 16 = 15"
    "in_net4 [a, b, c, d] ([169, 254, 0, 0], 16) \<longleftrightarrow> a * 256 + b = 43518"
    "in_net4 [a, b, c, d] ([172, 16, 0, 0], 12) \<longleftrightarrow> (a * 256 + b) div 16 = 2753"
    "in_net4 [a, b, c, d] ([192, 168, 0, 0], 16) \<longleftrightarrow> a * 256 + b = 49320"
    "in_net4 [a, b, c, d] ([100, 64, 0, 0], 10) \<longleftrightarrow> (a * 256 + b) div 64 = 401"
    by (simp_all add: octet two from_digits_def)
  from assms(2) have "\<not> private4 os" "\<not> in_net4 os ([224, 0, 0, 0], 4)" "\<not> in_net4 os ([240, 0, 0, 0], 4)"
    "\<not> in_net4 os ([100, 64, 0, 0], 10)"
    by (auto simp: publicly_routed_def)
  then have out: "a div 16 \<noteq> 14" "a div 16 \<noteq> 15" "(a * 256 + b) div 64 \<noteq> 401"
    and priv: "list_ex (in_net4 os) PRIVATE4 \<Longrightarrow> a * 256 + b = 49152"
    using exceptions by (auto simp: os nets private4_def)
  have "\<not> (a = 0 \<or> a = 10 \<or> a = 127 \<or> a * 256 + b = 43518
      \<or> (a * 256 + b) div 16 = 2753 \<or> a * 256 + b = 49320)" (is "\<not> ?private")
  proof
    assume p: ?private
    then have "a * 256 + b = 49152" by (intro priv) (auto simp: os PRIVATE4_def nets)
    with p bounds show False by auto
  qed
  then have no: "a \<noteq> 0" "a \<noteq> 10" "a \<noteq> 127" "a * 256 + b \<noteq> 43518" "(a * 256 + b) div 16 \<noteq> 2753" "a * 256 + b \<noteq> 49320"
    by auto
  show ?thesis
  proof
    assume "internal_v4 os"
    then consider "a = 169 \<and> b = 254" | "a = 172 \<and> 16 \<le> b \<and> b \<le> 31" | "a = 192 \<and> b = 168"
      | "a = 100 \<and> 64 \<le> b \<and> b \<le> 127" | "224 \<le> a" using no(1-3) by (auto simp: os)
    then show False using no out bounds(1) by cases (auto simp: div_range)
  qed
qed


lemma split_two: "a = N div 65536 \<and> b = N mod 65536" if "b < 65536" "a * 65536 + b = N" for a b N :: nat
  using that by auto

lemma split_div: "a = M div 4096 \<and> b div 16 = M mod 4096" if "b < 65536" "(a * 65536 + b) div 16 = M" for a b M :: nat
proof -
  have "(a * 65536 + b) div 16 = a * 4096 + b div 16"
    using div_mult_self1[of 16 b "a * 4096"] by (simp add: algebra_simps)
  moreover have "b div 16 < 4096" using that(1) by (simp add: div_less_iff_less_mult)
  ultimately show ?thesis using that(2) by auto
qed

lemma public_v6:
  assumes ok: "ip_ok (IPv6 hs scope)" and routed: "publicly_routed (IPv6 hs scope)"
  shows "internet_address (IPv6 hs scope)"
proof -
  obtain a b c d e f g h where hs: "hs = [a, b, c, d, e, f, g, h]" using ok list8[of hs] by auto
  note ok = ok[unfolded hs]
  have bounds: "a < 65536" "b < 65536" using ok by auto
  note one = in_net6_prefix[OF ok, where k = 1] and two = in_net6_prefix[OF ok, where k = 2]
    and leading = in_net6_leading[OF ok, where k = 2]
  have "\<not> is_reserved (IPv6 hs scope)" "\<not> is_link_local (IPv6 hs scope)" "\<not> is_site_local (IPv6 hs scope)"
    "\<not> is_multicast (IPv6 hs scope)" "\<not> is_private (IPv6 hs scope)"
    using routed by (simp_all add: publicly_routed_def)
  then have res: "\<not> a div 256 = 0" "\<not> a div 256 = 1" "\<not> a div 512 = 1" "\<not> a div 1024 = 1" "\<not> a div 2048 = 1"
      "\<not> a div 4096 = 1" "a div 8192 \<notin> {2, 3, 4, 5, 6}" "\<not> a div 4096 = 14" "\<not> a div 2048 = 30" "\<not> a div 1024 = 62"
      "\<not> a div 128 = 508" "\<not> a div 64 = 1018" "\<not> a div 64 = 1019" "\<not> a div 256 = 255"
    and priv: "\<not> is_private (IPv6 hs scope)"
    by (simp_all add: hs RESERVED6_def one from_digits_def)
  have "a \<noteq> 0" using res(1) by auto
  then have mapped: "ipv4_mapped hs = None" by (simp add: hs ipv4_mapped_def)
  have exceptions: "a = 8193 \<and> (b = 1 \<or> b = 3 \<or> b = 4 \<or> b div 16 = 2 \<or> b div 16 = 3)"
    if "list_ex (in_net6 hs) PRIVATE6_EXCEPTIONS"
  proof -
    from that consider "in_net6 hs ([8193, 1, 0, 0, 0, 0, 0, 1], 128)" | "in_net6 hs ([8193, 1, 0, 0, 0, 0, 0, 2], 128)"
      | "in_net6 hs ([8193, 3], 32)" | "in_net6 hs ([8193, 4, 274], 48)" | "in_net6 hs ([8193, 32], 28)"
      | "in_net6 hs ([8193, 48], 28)"
      by (auto simp: PRIVATE6_EXCEPTIONS_def)
    moreover have "a * 65536 + b = 536936449" if "in_net6 hs ([8193, 1, 0, 0, 0, 0, 0, z], 128)" "z < 65536" for z
      using leading[of "[8193, 1, 0, 0, 0, 0, 0, z]" 128] that by (simp add: hs from_digits_def)
    moreover have "a * 65536 + b = 536936452" if "in_net6 hs ([8193, 4, 274], 48)"
      using leading[of "[8193, 4, 274]" 48] that by (simp add: hs from_digits_def)
    moreover have "in_net6 hs ([8193, 3], 32) \<longleftrightarrow> a * 65536 + b = 536936451"
      "in_net6 hs ([8193, 32], 28) \<longleftrightarrow> (a * 65536 + b) div 16 = 33558530"
      "in_net6 hs ([8193, 48], 28) \<longleftrightarrow> (a * 65536 + b) div 16 = 33558531"
      by (simp_all add: hs two from_digits_def)
    ultimately consider "a * 65536 + b = 536936449" | "a * 65536 + b = 536936451" | "a * 65536 + b = 536936452"
      | "(a * 65536 + b) div 16 = 33558530" | "(a * 65536 + b) div 16 = 33558531" by cases auto
    then show ?thesis
      by cases (drule split_two[OF bounds(2)] split_div[OF bounds(2)], simp)+
  qed
  from priv mapped have table: "list_ex (in_net6 hs) PRIVATE6 \<longrightarrow> list_ex (in_net6 hs) PRIVATE6_EXCEPTIONS" by auto
  have nets: "in_net6 hs ([8194], 16) \<longleftrightarrow> a = 8194" "in_net6 hs ([64512], 7) \<longleftrightarrow> a div 512 = 126"
    "in_net6 hs ([8193, 3512], 32) \<longleftrightarrow> a * 65536 + b = 536939960"
    "in_net6 hs ([8193], 23) \<longleftrightarrow> (a * 65536 + b) div 512 = 1048704"
    by (simp_all add: hs one two from_digits_def)
  have special: "a = 8193 \<and> (b = 1 \<or> b = 3 \<or> b = 4 \<or> b div 16 = 2 \<or> b div 16 = 3)"
    if "a = 8194 \<or> a div 512 = 126 \<or> a * 65536 + b = 536939960 \<or> (a * 65536 + b) div 512 = 1048704"
  proof -
    from that have "list_ex (in_net6 hs) PRIVATE6" unfolding nets[symmetric] by (auto simp: PRIVATE6_def)
    with table exceptions show ?thesis by blast
  qed
  have "a \<noteq> 8194"
  proof
    assume "a = 8194"
    with special have "a = 8193" by blast
    with \<open>a = 8194\<close> show False by simp
  qed
  moreover have "a div 512 \<noteq> 126"
  proof
    assume "a div 512 = 126"
    with special have "a = 8193" by blast
    with \<open>a div 512 = 126\<close> show False by simp
  qed
  moreover have "\<not> (a = 8193 \<and> b = 0)"
  proof
    assume ab: "a = 8193 \<and> b = 0"
    then have "(a * 65536 + b) div 512 = 1048704" by simp
    from special[OF disjI2[OF disjI2[OF disjI2[OF this]]]] ab show False by simp
  qed
  moreover have "\<not> (a = 8193 \<and> b = 3512)"
  proof
    assume ab: "a = 8193 \<and> b = 3512"
    then have "a * 65536 + b = 536939960" by simp
    from special[OF disjI2[OF disjI2[OF disjI1[OF this]]]] ab show False by simp
  qed
  moreover have "8192 \<le> a \<and> a < 16384"
  proof -
    note ranges = res \<open>a div 512 \<noteq> 126\<close> bounds(1)
    have "256 \<le> a" using ranges(1) by (simp add: div_range)
    then have "512 \<le> a" using ranges(2) by (simp add: div_range)
    then have "1024 \<le> a" using ranges(3) by (simp add: div_range)
    then have "2048 \<le> a" using ranges(4) by (simp add: div_range)
    then have "4096 \<le> a" using ranges(5) by (simp add: div_range)
    then have low: "8192 \<le> a" using ranges(6) by (simp add: div_range)
    have "a < 65280" using ranges(14,16) by (simp add: div_range)
    then have "a < 65216" using ranges(13) by (simp add: div_range)
    then have "a < 65152" using ranges(12) by (simp add: div_range)
    then have "a < 65024" using ranges(11) by (simp add: div_range)
    then have "a < 64512" using ranges(15) by (simp add: div_range)
    then have "a < 63488" using ranges(10) by (simp add: div_range)
    then have "a < 61440" using ranges(9) by (simp add: div_range)
    then have "a < 57344" using ranges(8) by (simp add: div_range)
    moreover have "a div 8192 \<noteq> 6" "a div 8192 \<noteq> 5" "a div 8192 \<noteq> 4" "a div 8192 \<noteq> 3" "a div 8192 \<noteq> 2"
      using ranges(7) by auto
    ultimately have "a < 16384" by (simp add: div_range)
    with low show ?thesis ..
  qed
  ultimately show ?thesis by (simp add: hs)
qed

lemma public_is_internet:
  assumes "is_public_gateway_address a" "ip_ok a"
  shows "internet_address a"
proof -
  from assms(1) have "publicly_routed a"
    by (subst (asm) is_public_gateway_address.simps) (auto split: option.splits if_splits)
  with assms(2) public_v4 public_v6 show ?thesis by (cases a) auto
qed

lemma public_gateway_addressI:
  assumes "ip_parse (ip_text a) = Some a" "\<not> explicitly_denied a" "embedded_ipv4 a = []" "publicly_routed a"
  shows "is_public_gateway_address a"
  using assms by (subst is_public_gateway_address.simps) simp

lemma public_embeds_public:
  assumes "is_public_gateway_address a" "ip_parse (ip_text a) = Some n" "v \<in> set (embedded_ipv4 n)"
  shows "is_public_gateway_address v"
  using assms by (subst (asm) is_public_gateway_address.simps) (auto simp: list_ex_iff split: if_splits)

lemma embedded_ok:
  assumes "v \<in> set (embedded_ipv4 a)" "ip_ok a"
  shows "ip_ok v"
proof (cases a)
  case (IPv6 hs scope)
  obtain h0 h1 h2 h3 h4 h5 h6 h7 where hs: "hs = [h0, h1, h2, h3, h4, h5, h6, h7]"
    using assms(2) list8[of hs] IPv6 by auto
  have bounds: "h2 < 65536" "h3 < 65536" "h6 < 65536" "h7 < 65536" using assms(2) by (auto simp: IPv6 hs)
  have half: "n div 256 \<le> 255" "n mod 256 \<le> 255" if "n < 65536" for n :: nat
    using that by (auto simp: less_Suc_eq_le[symmetric] div_less_iff_less_mult)
  have ok: "ip_ok (v4_of_hextets x y)" if "x < 65536" "y < 65536" for x y
    using half[OF that(1)] half[OF that(2)] by (simp add: v4_of_hextets_def)
  have "ip_ok (low_v4 hs)" "ip_ok (v4_of_hextets h2 h3)" "ip_ok (v4_of_hextets (65535 - h6) (65535 - h7))"
    using ok bounds by (auto simp: low_v4_def hs)
  with assms(1) show ?thesis
    by (auto simp: IPv6 ipv4_mapped_def teredo_def hs split: option.splits if_splits)
qed (use assms in simp)

section \<open>Gateway origins\<close>


lemma those_parsed:
  "those_list (map ip_parse answers) = Some as \<Longrightarrow> a \<in> set as \<Longrightarrow> ip_parse (ip_text a) = Some a \<and> ip_ok a"
proof -
  assume "those_list (map ip_parse answers) = Some as" "a \<in> set as"
  then have "Some a \<in> set (map ip_parse answers)" unfolding those_list_Some by auto
  then obtain s where "ip_parse s = Some a" by auto
  then show ?thesis using ip_parse_text ip_parse_ok by blast
qed

lemma set_first_occurrences: "set (rev (remdups (rev xs))) = set xs"
  by simp

text \<open>
  An origin that is accepted over HTTPS is on the allow list and on port 443, and every address
  its name resolved to is one of the public Internet; the only other origins are loopback ones, and
  those only where they are enabled.
\<close>

lemma gateway_parts_ok:
  assumes "gateway_url_parts env allow url = Inr (scheme, hostname, port)"
  shows "scheme = ''https'' \<and> (port = None \<or> port = Some 443) \<and> gateway_host_allowed env hostname = Inr True
    \<or> scheme = ''http'' \<and> allow"
  using assms
  by (auto simp: gateway_url_parts_def Let_def sum_bind_Inr split: if_splits option.splits)

lemma gateway_origin_safe:
  assumes "validate_gateway_origin N allow_private url = Inr r"
  shows "origin_addresses r \<noteq> [] \<and>
    (origin_scheme r = ''https'' \<and> origin_port r = 443
       \<and> gateway_host_allowed (gateway_env N) (origin_hostname r) = Inr True
       \<and> (\<forall>t\<in>set (origin_addresses r). \<exists>a. ip_parse t = Some a \<and> internet_address a
            \<and> (\<forall>v\<in>set (embedded_ipv4 a). internet_address v))
     \<or> origin_scheme r = ''http'' \<and> private_gateways_allowed (gateway_env N) allow_private
       \<and> (\<forall>t\<in>set (origin_addresses r). \<exists>a. ip_parse t = Some a \<and> is_loopback a))"
proof -
  from assms obtain scheme hostname port answers addresses where
    parts: "gateway_url_parts (gateway_env N) (private_gateways_allowed (gateway_env N) allow_private) url
      = Inr (scheme, hostname, port)"
    and addresses: "those_list (map ip_parse answers) = Some addresses" "addresses \<noteq> []"
    and http: "scheme = ''http'' \<Longrightarrow> list_all is_loopback addresses"
    and https: "scheme = ''https'' \<Longrightarrow> list_all is_public_gateway_address addresses"
    and r: "r = \<lparr>origin = rendered_origin scheme hostname port, origin_scheme = scheme,
      origin_hostname = hostname, origin_port = connect_port scheme port,
      origin_addresses = rev (remdups (rev (map ip_text addresses)))\<rparr>"
    by (auto simp: validate_gateway_origin_def Let_def sum_bind_Inr sum_map_def or_error_def gateway_addresses_def
        split: option.splits if_splits)
  have parsed: "ip_parse (ip_text a) = Some a \<and> ip_ok a" if "a \<in> set addresses" for a
    using those_parsed[OF addresses(1) that] .
  have public: "internet_address a \<and> (\<forall>v\<in>set (embedded_ipv4 a). internet_address v)"
    if "scheme = ''https''" "a \<in> set addresses" for a
  proof -
    from https[OF that(1)] that(2) have a: "is_public_gateway_address a" by (simp add: list_all_iff)
    have "internet_address v" if v: "v \<in> set (embedded_ipv4 a)" for v
    proof -
      from public_embeds_public[OF a _ v] parsed[OF \<open>a \<in> set addresses\<close>] have p: "is_public_gateway_address v" by blast
      have "ip_ok v" using embedded_ok[OF v] parsed[OF \<open>a \<in> set addresses\<close>] by blast
      from public_is_internet[OF p this] show ?thesis .
    qed
    with public_is_internet[OF a] parsed[OF that(2)] show ?thesis by blast
  qed
  have texts: "(\<forall>t\<in>set (origin_addresses r). \<exists>a. ip_parse t = Some a \<and> Q a)"
    if "\<And>a. a \<in> set addresses \<Longrightarrow> Q a" for Q
  proof
    fix t assume "t \<in> set (origin_addresses r)"
    then obtain a where "a \<in> set addresses" "t = ip_text a" by (auto simp: r)
    with parsed that show "\<exists>a. ip_parse t = Some a \<and> Q a" by blast
  qed
  have some: "origin_addresses r \<noteq> []" using addresses(2) by (simp add: r)
  from gateway_parts_ok[OF parts] consider
      (https) "scheme = ''https''" "port = None \<or> port = Some 443"
        "gateway_host_allowed (gateway_env N) hostname = Inr True"
    | (http) "scheme = ''http''" "private_gateways_allowed (gateway_env N) allow_private" by blast
  then show ?thesis
  proof cases
    case https
    with texts[of "\<lambda>a. internet_address a \<and> (\<forall>v\<in>set (embedded_ipv4 a). internet_address v)"] public some
    show ?thesis by (auto simp: r connect_port_def default_port_def)
  next
    case http
    with texts[of is_loopback] \<open>scheme = ''http'' \<Longrightarrow> list_all is_loopback addresses\<close> some
    show ?thesis by (simp add: r list_all_iff)
  qed
qed

section \<open>Contexts\<close>

definition holding_ok :: "holding \<Rightarrow> bool" where
  "holding_ok h \<longleftrightarrow> holding_symbol_re (holding_symbol h) \<and> currency_re (currency h)
     \<and> (case finite_number (shares h) of None \<Rightarrow> False | Some (n, d) \<Rightarrow> 0 < n \<and> n \<le> 10 ^ 12 * int d)
     \<and> (case finite_number (avg_cost h) of None \<Rightarrow> False | Some (n, d) \<Rightarrow> 0 \<le> n \<and> n \<le> 10 ^ 12 * int d)"

definition risk_profile_ok :: "risk_profile \<Rightarrow> bool" where
  "risk_profile_ok p \<longleftrightarrow> tolerance p \<in> set RISK_TOLERANCES \<and> 1 \<le> horizon_months p \<and> horizon_months p \<le> 600
     \<and> distinct (preferred_indicators p) \<and> set (preferred_indicators p) \<subseteq> set SUPPORTED_INDICATORS"

definition context_ok :: "job_context \<Rightarrow> bool" where
  "context_ok ctx \<longleftrightarrow>
     (case gateway_url ctx of None \<Rightarrow> True | Some u \<Rightarrow> length u \<le> 2048)
     \<and> (case gateway_token ctx of None \<Rightarrow> True
        | Some t \<Rightarrow> 1 \<le> length t \<and> length t \<le> 2048 \<and> chr 13 \<notin> set t \<and> chr 10 \<notin> set t)
     \<and> length (context_portfolio ctx) \<le> 50 \<and> list_all holding_ok (context_portfolio ctx)
     \<and> (case context_risk_profile ctx of None \<Rightarrow> True | Some p \<Rightarrow> risk_profile_ok p)"

lemma parse_holding_ok: "parse_holding v = Some h \<Longrightarrow> holding_ok h"
  by (auto simp: parse_holding_def holding_ok_def MAX_VALUE_def split: json.splits if_splits option.splits)

lemma holding_json_back: "holding_ok h \<Longrightarrow> parse_holding (holding_json h) = Some h"
  by (cases h) (auto simp: holding_json_def parse_holding_def holding_ok_def MAX_VALUE_def keys_are_def
      HOLDING_KEYS_def dict_get_def split: option.splits)

lemma those_list_set: "those_list (map f xs) = Some ys \<Longrightarrow> y \<in> set ys \<Longrightarrow> \<exists>x. f x = Some y"
proof -
  assume "those_list (map f xs) = Some ys" "y \<in> set ys"
  then have "Some y \<in> set (map f xs)" unfolding those_list_Some by auto
  then show ?thesis by auto
qed

lemma parse_portfolio_ok:
  assumes "parse_portfolio v = Some hs"
  shows "length hs \<le> 50 \<and> list_all holding_ok hs"
proof -
  from assms obtain items where "v = JList items" "length items \<le> 50" and hs: "those_list (map parse_holding items) = Some hs"
    by (auto simp: parse_portfolio_def MAX_HOLDINGS_def split: json.splits if_splits)
  moreover have "length hs = length items" using hs unfolding those_list_Some by (metis length_map)
  ultimately show ?thesis using those_list_set[OF hs] parse_holding_ok by (fastforce simp: list_all_iff)
qed

lemma parse_risk_profile_ok: "parse_risk_profile v = Some p \<Longrightarrow> risk_profile_ok p"
  by (auto simp: parse_risk_profile_def risk_profile_ok_def list_all_iff split: json.splits if_splits option.splits)

lemma optional_string_ok:
  "optional_string d k lo hi = Some (Some s) \<Longrightarrow> lo \<le> length s \<and> length s \<le> hi"
  by (auto simp: optional_string_def split: json.splits if_splits)

lemma parse_context_parts:
  assumes "parse_signed_context sha flt raw = Inr ctx"
  obtains parsed where "length (utf8 raw) \<le> 65536" "context_digest ctx = bytes_hex (sha (utf8 raw))"
    "optional_string parsed ''delivery_gateway_url'' 0 2048 = Some (gateway_url ctx)"
    "optional_string parsed ''delivery_gateway_token'' 1 2048 = Some (gateway_token ctx)"
    "case gateway_token ctx of None \<Rightarrow> True | Some t \<Rightarrow> chr 13 \<notin> set t \<and> chr 10 \<notin> set t"
    "parse_portfolio (dict_get_or parsed ''portfolio'' (JList [])) = Some (context_portfolio ctx)"
    "case context_risk_profile ctx of None \<Rightarrow> True | Some p \<Rightarrow> parse_risk_profile (dict_get parsed ''risk_profile'') = Some p"
  using assms
  by (auto simp: parse_signed_context_def or_error_def Let_def MAX_CONTEXT_BYTES_def MAX_GATEWAY_URL_LENGTH_def
      MAX_GATEWAY_TOKEN_LENGTH_def split: option.splits json.splits if_splits)

lemma parse_context_ok:
  assumes "parse_signed_context sha flt raw = Inr ctx"
  shows "context_ok ctx \<and> length (utf8 raw) \<le> 65536 \<and> context_digest ctx = bytes_hex (sha (utf8 raw))"
proof -
  from parse_context_parts[OF assms] obtain parsed where parts: "length (utf8 raw) \<le> 65536"
    "context_digest ctx = bytes_hex (sha (utf8 raw))"
    "optional_string parsed ''delivery_gateway_url'' 0 2048 = Some (gateway_url ctx)"
    "optional_string parsed ''delivery_gateway_token'' 1 2048 = Some (gateway_token ctx)"
    "case gateway_token ctx of None \<Rightarrow> True | Some t \<Rightarrow> chr 13 \<notin> set t \<and> chr 10 \<notin> set t"
    "parse_portfolio (dict_get_or parsed ''portfolio'' (JList [])) = Some (context_portfolio ctx)"
    "case context_risk_profile ctx of None \<Rightarrow> True | Some p \<Rightarrow> parse_risk_profile (dict_get parsed ''risk_profile'') = Some p"
    by blast
  show ?thesis unfolding context_ok_def
    using parts parse_portfolio_ok[OF parts(6)]
    by (auto dest: optional_string_ok parse_risk_profile_ok split: option.splits)
qed

text \<open>What is put into the prompt reads back as what was signed.\<close>

lemma prompt_portfolio_back:
  assumes "context_ok ctx"
  shows "parse_portfolio (portfolio_for_prompt ctx) = Some (context_portfolio ctx)"
proof -
  have "\<forall>h\<in>set (context_portfolio ctx). parse_holding (holding_json h) = Some h"
    using assms by (auto simp: context_ok_def list_all_iff holding_json_back)
  with assms show ?thesis
    by (simp add: context_ok_def portfolio_for_prompt_def parse_portfolio_def MAX_HOLDINGS_def those_list_Some)
qed

section \<open>Authorizations\<close>

lemma typed_data_injective: "notify_typed_data m = notify_typed_data m' \<longleftrightarrow> m = m'"
  by (cases m; cases m') (auto simp: notify_typed_data_def)

lemma notify_code_Inr: "notify_code r = Inr a \<longleftrightarrow> r = Inr a"
  by (cases r) (auto simp: notify_code_def)

lemma notify_unguarded_Inr: "notify_unguarded r = Inr a \<longleftrightarrow> r = Inr a"
  by (cases r) (auto simp: notify_unguarded_def)

lemma notify_guard_Inr: "notify_guard r = Inr a \<longleftrightarrow> r = Inr a"
  by (cases r) (auto simp: notify_guard_def)

lemma preflight_ok:
  assumes "preflight_notify_authorization authorization now = Inr (ctx, expires_at, nonce, signature)"
  shows "\<exists>d. authorization = JDict d \<and> keys_are d AUTHORIZATION_KEYS
    \<and> dict_get d ''context'' = JStr ctx \<and> dict_get d ''expires_at'' = JInt expires_at
    \<and> dict_get d ''nonce'' = JStr nonce \<and> dict_get d ''signature'' = JStr signature
    \<and> now - 30 \<le> expires_at \<and> expires_at \<le> now + 600"
  using assms by (auto simp: preflight_notify_authorization_def split: json.splits if_splits)

lemma require_uint_Inr: "require_uint v n = Inr i \<longleftrightarrow> v = JInt i \<and> 0 \<le> i \<and> i \<le> n"
  by (auto simp: require_uint_def split: json.splits)

lemma authorization_sound:
  assumes "verify_notify_authorization L authorization job_id client chain_id contract now = Inr ctx"
  shows "\<exists>m signature recovered signer d.
      authorization = JDict d \<and> dict_get d ''signature'' = JStr signature
      \<and> dict_get d ''context'' = JStr (msg_context m) \<and> dict_get d ''expires_at'' = JInt (msg_expires_at m)
      \<and> dict_get d ''nonce'' = JStr (msg_nonce m)
      \<and> job_id = JInt (msg_job_id m) \<and> chain_id = JInt (msg_chain_id m) \<and> checksum L contract = Inr (msg_contract m)
      \<and> now - 30 \<le> msg_expires_at m \<and> msg_expires_at m \<le> now + 600
      \<and> recover_typed L (notify_typed_data m) signature = Inr recovered
      \<and> checksum L recovered = Inr signer \<and> checksum L client = Inr signer
      \<and> parse_signed_context (notify_sha L) (notify_float L) (msg_context m) = Inr ctx"
proof -
  from assms obtain c e n sig where pre: "preflight_notify_authorization authorization now = Inr (c, e, n, sig)"
    and rest: "sum_bind (notify_guard (checksum L client)) (\<lambda>expected.
     sum_bind (build_notify_typed_data L job_id (JStr c) (JInt e) (JStr n) chain_id contract) (\<lambda>typed_data.
     sum_bind (notify_guard (recover_typed L typed_data sig)) (\<lambda>recovered.
     sum_bind (notify_unguarded (checksum L recovered)) (\<lambda>signer.
       if signer \<noteq> expected then Inl (NotifySecurityError ''caller_not_job_client'')
       else notify_code (parse_signed_context (notify_sha L) (notify_float L) c))))) = Inr ctx"
    by (auto simp: verify_notify_authorization_def sum_bind_Inr notify_code_Inr)
  from rest obtain expected typed recovered where
    *: "checksum L client = Inr expected" "recover_typed L typed sig = Inr recovered" "checksum L recovered = Inr expected"
      "parse_signed_context (notify_sha L) (notify_float L) c = Inr ctx"
    and typed: "build_notify_typed_data L job_id (JStr c) (JInt e) (JStr n) chain_id contract = Inr typed"
    by (auto simp: sum_bind_Inr notify_guard_Inr notify_unguarded_Inr notify_code_Inr split: if_splits)
  from typed obtain jid chain con where "job_id = JInt jid" "chain_id = JInt chain" "checksum L contract = Inr con"
    "typed = notify_typed_data \<lparr>msg_chain_id = chain, msg_contract = con, msg_job_id = jid,
       msg_context = c, msg_expires_at = e, msg_nonce = n\<rparr>"
    by (auto simp: build_notify_typed_data_def sum_bind_Inr notify_code_Inr notify_guard_Inr require_uint_Inr
        split: if_splits)
  with * preflight_ok[OF pre] show ?thesis
    by (intro exI[of _ "\<lparr>msg_chain_id = chain, msg_contract = con, msg_job_id = jid, msg_context = c,
         msg_expires_at = e, msg_nonce = n\<rparr>"] exI[of _ sig] exI[of _ recovered] exI[of _ expected]) auto
qed

end
