(* ===== verification/Uomp_Laws.thy ===== *)
theory Uomp_Laws
  imports Uomp_Storage Notify_Laws
begin

text \<open>What the payload storage guarantees: one close of every socket, bounded responses, one confined request per operation.\<close>

section \<open>Sockets\<close>

text \<open>
  A socket with the streams made from it: streams are made and closed, the socket is closed, and
  transfers run on it or end it at the deadline. The flag says whether a deadline ended it.
\<close>

inductive socket_run :: "deadline_socket \<Rightarrow> deadline_socket_io list \<Rightarrow> bool \<Rightarrow> bool" where
  opened: "socket_run new_deadline_socket [] False"
| streamed: "socket_run d ios late \<Longrightarrow> makefile_socket mode d = Inr (Some io, d') \<Longrightarrow> socket_run d' (io # ios) late"
| stream_closed: "socket_run d ios late \<Longrightarrow> i < length ios \<Longrightarrow> close_socket_io (ios ! i) d = (io, d') \<Longrightarrow>
    socket_run d' (ios[i := io]) late"
| socket_closed: "socket_run d ios late \<Longrightarrow> socket_run (close_socket d) ios late"
| transferred: "socket_run d ios late \<Longrightarrow> prepare_operation deadline now d = (r, d') \<Longrightarrow>
    socket_run d' ios (late \<or> deadline \<le> now)"

lemma transfer_socket:
  "deadline_transfer raw deadline now d w = (r, d', w') \<Longrightarrow> d' = snd (prepare_operation deadline now d)"
  by (auto simp: deadline_transfer_def split: prod.splits sum.splits)

definition open_streams :: "deadline_socket_io list \<Rightarrow> nat" where
  "open_streams ios = length (filter (\<lambda>io. \<not> io_released io) ios)"

definition socket_inv :: "deadline_socket \<Rightarrow> deadline_socket_io list \<Rightarrow> bool \<Rightarrow> bool" where
  "socket_inv d ios late \<longleftrightarrow> makefile_refs d = open_streams ios \<and> list_all (\<lambda>io. io_released io = io_closed io) ios
     \<and> raw_closes d = (if raw_closed d then 1 else 0)
     \<and> raw_closed d = (late \<or> sock_closed d \<and> makefile_refs d = 0) \<and> (late \<longrightarrow> sock_closed d)"

lemma open_streams_release:
  "i < length ios \<Longrightarrow> \<not> io_released (ios ! i) \<Longrightarrow> io_released io \<Longrightarrow> open_streams (ios[i := io]) = open_streams ios - 1
     \<and> 0 < open_streams ios"
proof -
  assume i: "i < length ios" and o: "\<not> io_released (ios ! i)" and r: "io_released io"
  have "open_streams ios = open_streams (take i ios @ ios ! i # drop (Suc i) ios)"
    by (rule arg_cong[OF id_take_nth_drop[OF i]])
  also have "\<dots> = Suc (open_streams (take i ios) + open_streams (drop (Suc i) ios))"
    using o by (simp add: open_streams_def)
  finally have "open_streams ios = Suc (open_streams (take i ios) + open_streams (drop (Suc i) ios))" .
  then show ?thesis using i r by (simp add: open_streams_def upd_conv_take_nth_drop)
qed

lemma socket_inv_close: "socket_inv d ios late \<Longrightarrow> socket_inv (close_socket d) ios late"
  by (auto simp: socket_inv_def close_socket_def close_raw_def Let_def)

lemma socket_inv_transfer:
  "socket_inv d ios late \<Longrightarrow> prepare_operation deadline now d = (r, d') \<Longrightarrow>
   socket_inv d' ios (late \<or> deadline \<le> now)"
  by (auto simp: socket_inv_def prepare_operation_def abort_socket_def close_raw_def
      split: if_splits)

lemma socket_inv_stream:
  "socket_inv d ios late \<Longrightarrow> makefile_socket mode d = Inr (Some io, d') \<Longrightarrow> socket_inv d' (io # ios) late"
  by (auto simp: socket_inv_def makefile_socket_def acquire_makefile_def new_socket_io_def open_streams_def split: if_splits)

lemma socket_inv_stream_close:
  assumes "socket_inv d ios late" "i < length ios" "close_socket_io (ios ! i) d = (io, d')"
  shows "socket_inv d' (ios[i := io]) late"
proof (cases "io_closed (ios ! i)")
  case True
  then show ?thesis using assms by (auto simp: close_socket_io_def)
next
  case False
  then have o: "\<not> io_released (ios ! i)" using assms(1,2) by (simp add: socket_inv_def list_all_length)
  then have io: "io_released io" "io_closed io" and d': "d' = release_makefile d"
    using assms(3) False by (auto simp: close_socket_io_def)
  have "list_all (\<lambda>io. io_released io = io_closed io) (ios[i := io])"
    using assms(1,2) io by (simp add: socket_inv_def list_all_length nth_list_update)
  then show ?thesis using assms(1) open_streams_release[OF assms(2) o io(1)]
    by (auto simp: socket_inv_def d' release_makefile_def close_raw_def Let_def)
qed

lemma socket_run_inv: "socket_run d ios late \<Longrightarrow> socket_inv d ios late"
proof (induction rule: socket_run.induct)
  case opened
  show ?case by (simp add: socket_inv_def new_deadline_socket_def open_streams_def)
qed (rule socket_inv_stream socket_inv_stream_close socket_inv_close socket_inv_transfer; assumption)+

section \<open>Pinned addresses\<close>

text \<open>A property of the world that survives everything but connecting elsewhere survives the whole attempt.\<close>

definition keeps :: "('w \<Rightarrow> bool) \<Rightarrow> ('w \<Rightarrow> 'a \<times> 'w) \<Rightarrow> bool" where
  "keeps I f \<longleftrightarrow> (\<forall>w. I w \<longrightarrow> I (snd (f w)))"

lemma keepsI: "(\<And>w. I w \<Longrightarrow> I (snd (f w))) \<Longrightarrow> keeps I f"
  by (simp add: keeps_def)

lemma keepsD: "keeps I f \<Longrightarrow> I w \<Longrightarrow> I (snd (f w))"
  by (simp add: keeps_def)

lemma keeps_return: "keeps I (\<lambda>w. (r, w))"
  by (simp add: keeps_def)

lemma keeps_then:
  assumes "keeps I f" "\<And>a. keeps I (g a)"
  shows "keeps I (\<lambda>w. then_step (f w) g)"
proof (rule keepsI)
  fix w assume "I w"
  obtain r w' where f: "f w = (r, w')" by fastforce
  have "I w'" using keepsD[OF assms(1) \<open>I w\<close>] f by simp
  then show "I (snd (then_step (f w) g))"
    using keepsD[OF assms(2)] by (cases r) (simp_all add: f then_step_def)
qed

lemma keeps_remaining: "keeps I (mono_clock P) \<Longrightarrow> keeps I (remaining_timeout P deadline)"
  by (cases deadline) (simp_all add: keeps_def remaining_timeout_def split_def)

lemma keeps_attempt:
  assumes "keeps I (mono_clock P)" "\<And>v6. keeps I (open_socket P v6)" "\<And>host t. keeps I (wrap_tls P host t)"
    "\<And>w. I w \<Longrightarrow> I (drop_socket P w)" "\<And>t. keeps I (connect_socket P peer port t)"
  shows "keeps I (attempt_pinned P tls deadline peer port)"
proof -
  have "keeps I (\<lambda>w. case tls of None \<Rightarrow> (Inr (), w)
      | Some host \<Rightarrow> then_step (remaining_timeout P deadline w) (\<lambda>t w. wrap_tls P host t w))"
    by (cases tls) (simp_all add: keeps_return keeps_then keeps_remaining assms(1,3))
  then have con: "keeps I (connect_pinned P tls deadline peer port)"
    unfolding connect_pinned_def by (intro keeps_then keeps_remaining assms(1,5) keeps_return)
  have "keeps I (\<lambda>w. case connect_pinned P tls deadline peer port w of
      (Inr u, w) \<Rightarrow> (Inr u, w) | (Inl e, w) \<Rightarrow> (Inl e, drop_socket P w))"
  proof (rule keepsI)
    fix w assume "I w"
    obtain r w' where c: "connect_pinned P tls deadline peer port w = (r, w')" by fastforce
    then have "I w'" using keepsD[OF con \<open>I w\<close>] by simp
    then show "I (snd (case connect_pinned P tls deadline peer port w of
        (Inr u, w) \<Rightarrow> (Inr u, w) | (Inl e, w) \<Rightarrow> (Inl e, drop_socket P w)))"
      using assms(4) by (cases r) (simp_all add: c)
  qed
  then show ?thesis unfolding attempt_pinned_def
    by (cases "ip_parse peer") (simp_all add: keeps_return keeps_then assms(2))
qed

lemma keeps_addresses:
  assumes "keeps I (mono_clock P)" "\<And>v6. keeps I (open_socket P v6)" "\<And>host t. keeps I (wrap_tls P host t)"
    "\<And>w. I w \<Longrightarrow> I (drop_socket P w)" "\<And>peer t. peer \<in> set addresses \<Longrightarrow> keeps I (connect_socket P peer port t)"
  shows "keeps I (try_addresses P tls deadline port first_error addresses)"
  using assms(5)
proof (induction addresses arbitrary: first_error)
  case (Cons peer addresses)
  show ?case
  proof (rule keepsI)
    fix w assume "I w"
    obtain r w' where a: "attempt_pinned P tls deadline peer port w = (r, w')" by fastforce
    have "keeps I (attempt_pinned P tls deadline peer port)" using keeps_attempt[OF assms(1-4)] Cons.prems by simp
    from keepsD[OF this \<open>I w\<close>] have "I w'" using a by simp
    moreover have "keeps I (try_addresses P tls deadline port f addresses)" for f using Cons by simp
    from keepsD[OF this \<open>I w'\<close>] have "I (snd (try_addresses P tls deadline port f addresses w'))" for f .
    ultimately show "I (snd (try_addresses P tls deadline port first_error (peer # addresses) w))"
      by (cases r) (simp_all add: a)
  qed
qed (simp add: keeps_def)

lemma keeps_pinned_connect:
  assumes clock: "keeps I (mono_clock P)" and "\<And>v6. keeps I (open_socket P v6)" "\<And>host t. keeps I (wrap_tls P host t)"
    "\<And>w. I w \<Longrightarrow> I (drop_socket P w)"
    "\<And>peer t. peer \<in> set (origin_addresses validated) \<Longrightarrow> keeps I (connect_socket P peer (origin_port validated) t)"
  shows "keeps I (pinned_connect P validated host timeout deadline)"
proof -
  have tries: "keeps I (try_addresses P tls d (origin_port validated) e (origin_addresses validated))" for tls d e
    by (rule keeps_addresses[OF assms])
  have "keeps I (open_pinned_socket P tls (origin_addresses validated) (origin_port validated) t (Some d))" for tls t d
    using tries by (simp add: open_pinned_socket_def keeps_def)
  then show ?thesis using clock by (simp add: keeps_def pinned_connect_def split_def)
qed

text \<open>The network that also records whom it connects to.\<close>

definition recorded :: "('w, 'z) pinned_net_scheme \<Rightarrow> ('w \<times> (string \<times> nat) list) pinned_net" where
  "recorded P = \<lparr>mono_clock = (\<lambda>(w, l). map_prod id (\<lambda>w. (w, l)) (mono_clock P w)),
     open_socket = (\<lambda>v6 (w, l). map_prod id (\<lambda>w. (w, l)) (open_socket P v6 w)),
     connect_socket = (\<lambda>a p t (w, l). map_prod id (\<lambda>w. (w, (a, p) # l)) (connect_socket P a p t w)),
     wrap_tls = (\<lambda>host t (w, l). map_prod id (\<lambda>w. (w, l)) (wrap_tls P host t w)),
     drop_socket = (\<lambda>(w, l). (drop_socket P w, l))\<rparr>"

lemma pinned_connections:
  assumes "pinned_connect (recorded P) validated host timeout deadline (w, []) = (r, (w', l))"
  shows "set l \<subseteq> (\<lambda>a. (a, origin_port validated)) ` set (origin_addresses validated)"
proof -
  let ?P = "recorded P"
  let ?I = "\<lambda>(w, l). set l \<subseteq> (\<lambda>a. (a, origin_port validated)) ` set (origin_addresses validated)"
  have clock: "keeps ?I (mono_clock ?P)" by (auto simp: keeps_def recorded_def)
  have "keeps ?I (pinned_connect ?P validated host timeout deadline)"
    by (rule keeps_pinned_connect[OF clock]) (auto simp: keeps_def recorded_def)
  then show ?thesis using keepsD[of ?I "pinned_connect ?P validated host timeout deadline" "(w, [])"] assms by simp
qed

section \<open>Bounded responses\<close>

definition reads_at_most :: "('w, 'z) uomp_net_scheme \<Rightarrow> bool" where
  "reads_at_most U \<longleftrightarrow> (\<forall>n w b w'. read1 U n w = (Inr b, w') \<longrightarrow> length b \<le> n)"

lemma then_step_Inr: "then_step r f = (Inr b, w') \<longleftrightarrow> (\<exists>a w. r = (Inr a, w) \<and> f a w = (Inr b, w'))"
  by (auto simp: then_step_def split: prod.splits sum.splits)

lemma read_chunks_bound:
  "read_chunks U deadline max_bytes body w = (Inr all, w') \<Longrightarrow> reads_at_most U \<Longrightarrow> length body \<le> max_bytes \<Longrightarrow>
   length all \<le> max_bytes + 1"
proof (induction U deadline max_bytes body w arbitrary: all w' rule: read_chunks.induct)
  case (1 U deadline max_bytes body w)
  from 1(2) obtain w1 chunk w2 w3 where steps:
    "ensure_before_deadline U deadline w = (Inr (), w1)"
    "read1 U (min READ_CHUNK_BYTES (max_bytes + 1 - length body)) w1 = (Inr chunk, w2)"
    "ensure_before_deadline U deadline w2 = (Inr (), w3)"
    and result: "(if chunk = [] then (Inr body, w3)
       else if length (body @ chunk) > max_bytes then (Inr (body @ chunk), w3)
       else read_chunks U deadline max_bytes (body @ chunk) w3) = (Inr all, w')"
    by (subst (asm) read_chunks.simps) (auto simp: then_step_Inr)
  have len: "length chunk \<le> max_bytes + 1 - length body" using steps(2) 1(3) by (fastforce simp: reads_at_most_def)
  show ?case
  proof (cases "chunk \<noteq> [] \<and> \<not> length (body @ chunk) > max_bytes")
    case True
    then have "read_chunks U deadline max_bytes (body @ chunk) w3 = (Inr all, w')" using result by simp
    then show ?thesis using 1(1) True 1(3) by (metis leI)
  next
    case False
    then show ?thesis using result len 1(4) by (auto split: if_splits)
  qed
qed

lemma bounded_json:
  "read_bounded_json U deadline max_bytes w = (Inr v, w') \<Longrightarrow>
   \<exists>body text. read_chunks U deadline max_bytes [] w = (Inr body, w') \<and> length body \<le> max_bytes
     \<and> json_text body = Some text \<and> json_parse (default_hooks (uomp_float U)) text = Some v"
  by (auto simp: read_bounded_json_def then_step_Inr or_error_def split: if_splits option.splits)

section \<open>Confined requests\<close>

text \<open>The net that also records the requests it is given.\<close>

definition logged :: "('w, 'z) uomp_net_scheme \<Rightarrow> ('w \<times> uomp_request list) uomp_net" where
  "logged U = \<lparr>uomp_clock = (\<lambda>(w, l). map_prod id (\<lambda>w. (w, l)) (uomp_clock U w)),
     open_url = (\<lambda>q t d (w, l). map_prod id (\<lambda>w. (w, l @ [q])) (open_url U q t d w)),
     read1 = (\<lambda>n (w, l). map_prod id (\<lambda>w. (w, l)) (read1 U n w)),
     close_response = (\<lambda>(w, l). (close_response U w, l)), uomp_float = uomp_float U\<rparr>"

lemma keeps_deadline:
  assumes "keeps I (uomp_clock U)" "\<And>w. I w \<Longrightarrow> I (close_response U w)"
  shows "keeps I (ensure_before_deadline U deadline)"
  using assms by (simp add: keeps_def ensure_before_deadline_def split_def)

lemma keeps_read_chunks:
  assumes "keeps I (uomp_clock U)" "\<And>w. I w \<Longrightarrow> I (close_response U w)" "\<And>n. keeps I (read1 U n)"
  shows "I w \<Longrightarrow> I (snd (read_chunks U deadline max_bytes body w))"
  using assms
proof (induction U deadline max_bytes body w rule: read_chunks.induct)
  case (1 U deadline max_bytes body w)
  note dl = keeps_deadline[OF 1(3,4)]
  obtain r1 w1 where r1: "ensure_before_deadline U deadline w = (r1, w1)" by fastforce
  have I1: "I w1" using keepsD[OF dl 1(2)] r1 by (metis snd_conv)
  obtain r2 w2 where r2: "read1 U (min READ_CHUNK_BYTES (Suc max_bytes - length body)) w1 = (r2, w2)" by fastforce
  have I2: "I w2" using keepsD[OF 1(5) I1] r2 by (metis snd_conv)
  obtain r3 w3 where r3: "ensure_before_deadline U deadline w2 = (r3, w3)" by fastforce
  have I3: "I w3" using keepsD[OF dl I2] r3 by (metis snd_conv)
  have rest: "I (snd (read_chunks U deadline max_bytes (body @ chunk) w3))"
    if "chunk \<noteq> []" "\<not> length (body @ chunk) > max_bytes" for chunk using 1(1) that I3 1(3-5) by blast
  show ?case
    by (subst read_chunks.simps; cases r1; cases r2; cases r3) (simp_all add: then_step_def r1 r2 r3 I1 I2 I3 rest)
qed

lemma keeps_bounded_json:
  assumes "keeps I (uomp_clock U)" "\<And>w. I w \<Longrightarrow> I (close_response U w)" "\<And>n. keeps I (read1 U n)"
  shows "keeps I (read_bounded_json U deadline max_bytes)"
proof -
  have "keeps I (read_chunks U deadline max_bytes [])" using keeps_read_chunks[OF assms] by (simp add: keeps_def)
  then show ?thesis unfolding read_bounded_json_def
    by (rule keeps_then) (simp add: keeps_def)
qed

lemma logged_keeps:
  "keeps (\<lambda>(w, l). l = m) (uomp_clock (logged U))" "keeps (\<lambda>(w, l). l = m) (read1 (logged U) n)"
  "(\<lambda>(w, l). l = m) w \<Longrightarrow> (\<lambda>(w, l). l = m) (close_response (logged U) w)"
  by (auto simp: keeps_def logged_def)

lemma one_request:
  assumes "\<And>d m. keeps (\<lambda>(w, l). l = m) (block d)"
  shows "snd (snd (with_response (logged U) q timeout block (w, []))) = [q]"
proof -
  obtain now w0 where clock: "uomp_clock (logged U) (w, []) = (now, (w0, []))" by (cases "uomp_clock U w") (auto simp: logged_def)
  obtain r1 w1 where r1: "open_url (logged U) q timeout (now + timeout) (w0, []) = (r1, (w1, [q]))"
    by (cases "open_url U q timeout (now + timeout) w0") (auto simp: logged_def)
  obtain r2 w2 where r2: "ensure_before_deadline (logged U) (now + timeout) (w1, [q]) = (r2, (w2, [q]))"
  proof -
    have "(\<lambda>(w, l). l = [q]) (snd (ensure_before_deadline (logged U) (now + timeout) (w1, [q])))"
      by (rule keepsD[OF keeps_deadline[OF logged_keeps(1,3)]]) simp_all
    then show ?thesis using that by (cases "ensure_before_deadline (logged U) (now + timeout) (w1, [q])") auto
  qed
  obtain r3 w3 where r3: "block (now + timeout) (w2, [q]) = (r3, (w3, [q]))"
  proof -
    have "(\<lambda>(w, l). l = [q]) (snd (block (now + timeout) (w2, [q])))" by (rule keepsD[OF assms]) simp
    then show ?thesis using that by (cases "block (now + timeout) (w2, [q])") auto
  qed
  show ?thesis unfolding with_response_def open_response_def
    by (cases r1; cases r2) (simp_all add: clock then_step_def r1 r2 r3, simp_all add: logged_def)
qed

lemma payload_url_target:
  "validate_payload_url p url = Some target \<Longrightarrow>
   \<exists>path. payload_path_re path \<and> target = provider_base p @ path"
  by (auto simp: validate_payload_url_def Let_def split: if_splits option.splits)

lemma then_step_world: "(\<And>a w. snd (f a w) = w) \<Longrightarrow> snd (then_step r f) = snd r"
  by (cases r; cases "fst r") (auto simp: then_step_def)

lemma upload_request_only: "snd (snd (uomp_upload (logged U) p data (w, []))) = [upload_request p data]"
  unfolding uomp_upload_def
  by (subst then_step_world, simp, rule one_request) (rule keeps_bounded_json[OF logged_keeps(1,3,2)])

lemma download_requests:
  "snd (snd (uomp_download (logged U) p url (w, []))) =
     (case validate_payload_url p url of None \<Rightarrow> [] | Some target \<Rightarrow> [read_request p ''GET'' target])"
  unfolding uomp_download_def
  by (cases "validate_payload_url p url")
    (simp_all add: then_step_world one_request keeps_bounded_json[OF logged_keeps(1,3,2)])

lemma exists_requests:
  "snd (snd (uomp_exists (logged U) p url (w, []))) =
     (case validate_payload_url p url of None \<Rightarrow> [] | Some target \<Rightarrow> [read_request p ''HEAD'' target])"
proof (cases "validate_payload_url p url")
  case (Some target)
  let ?r = "with_response (logged U) (read_request p ''HEAD'' target) TIMEOUT_EXISTS (ensure_before_deadline (logged U)) (w, [])"
  have "snd (snd ?r) = [read_request p ''HEAD'' target]"
    by (rule one_request) (rule keeps_deadline[OF logged_keeps(1,3)])
  then show ?thesis using Some by (cases ?r; cases "fst ?r") (auto simp: uomp_exists_def)
qed (simp add: uomp_exists_def)

text \<open>The net that also counts the bytes and the calls of \<open>read1\<close>: whatever the outcome, both are bounded.\<close>

definition metered :: "('w, 'z) uomp_net_scheme \<Rightarrow> ('w \<times> nat \<times> nat) uomp_net" where
  "metered U = \<lparr>uomp_clock = (\<lambda>(w, m). map_prod id (\<lambda>w. (w, m)) (uomp_clock U w)),
     open_url = (\<lambda>q t d (w, m). map_prod id (\<lambda>w. (w, m)) (open_url U q t d w)),
     read1 = (\<lambda>n (w, b, c). case read1 U n w of
         (Inr chunk, w') \<Rightarrow> (Inr chunk, (w', b + length chunk, c + 1))
       | (Inl e, w') \<Rightarrow> (Inl e, (w', b, c + 1))),
     close_response = (\<lambda>(w, m). (close_response U w, m)), uomp_float = uomp_float U\<rparr>"

definition meter_within :: "nat \<times> nat \<Rightarrow> nat \<Rightarrow> 'w \<times> nat \<times> nat \<Rightarrow> bool" where
  "meter_within m n w = (fst (snd w) \<le> fst m + n \<and> snd (snd w) \<le> snd m + Suc n)"

lemma metered_deadline: "snd (snd (ensure_before_deadline (metered U) deadline (w, m))) = m"
  by (cases "uomp_clock U w") (simp add: ensure_before_deadline_def metered_def)

lemma read_chunks_metered:
  "reads_at_most U \<Longrightarrow> length body \<le> max_bytes \<Longrightarrow> 
   meter_within m (Suc max_bytes - length body) (snd (read_chunks (metered U) deadline max_bytes body (w, m)))"
proof (induction "metered U" deadline max_bytes body "(w, m)" arbitrary: w m rule: read_chunks.induct)
  case (1 deadline max_bytes body w m)
  obtain r1 w1 where r1: "ensure_before_deadline (metered U) deadline (w, m) = (r1, (w1, m))"
    using metered_deadline[of U deadline w m] by (metis prod.collapse)
  obtain r2 w2 where r2: "read1 U (min READ_CHUNK_BYTES (Suc max_bytes - length body)) w1 = (r2, w2)" by fastforce
  show ?case
  proof (cases r1)
    case (Inl e)
    then show ?thesis by (subst read_chunks.simps) (simp add: r1 then_step_def meter_within_def)
  next
    case go: (Inr u)
    show ?thesis
    proof (cases r2)
      case (Inl e)
      then have "read1 (metered U) (min READ_CHUNK_BYTES (Suc max_bytes - length body)) (w1, m) = (Inl e, (w2, fst m, Suc (snd m)))"
        using r2 by (simp add: metered_def split_def)
      then show ?thesis by (subst read_chunks.simps) (simp add: r1 go then_step_def meter_within_def)
    next
      case (Inr chunk)
      let ?m = "(fst m + length chunk, Suc (snd m))"
      have read: "read1 (metered U) (min READ_CHUNK_BYTES (Suc max_bytes - length body)) (w1, m) = (Inr chunk, (w2, ?m))"
        using r2 Inr by (simp add: metered_def split_def)
      obtain r3 w3 where r3: "ensure_before_deadline (metered U) deadline (w2, ?m) = (r3, (w3, ?m))"
        using metered_deadline[of U deadline w2 ?m] by (metis prod.collapse)
      have len: "length chunk \<le> Suc max_bytes - length body" using r2 Inr 1(2) by (fastforce simp: reads_at_most_def)
      have rest: "meter_within ?m (Suc max_bytes - length (body @ chunk))
          (snd (read_chunks (metered U) deadline max_bytes (body @ chunk) (w3, ?m)))"
        if "chunk \<noteq> []" "\<not> length (body @ chunk) > max_bytes" using 1(1) that 1(2) by (metis leI)
      have "meter_within m (Suc max_bytes - length body) (snd (read_chunks (metered U) deadline max_bytes (body @ chunk) (w3, ?m)))"
        if c: "chunk \<noteq> []" "\<not> length (body @ chunk) > max_bytes"
        using rest[OF c] len c by (cases chunk) (auto simp: meter_within_def)
      then show ?thesis using len
        by (subst read_chunks.simps; cases r3) (simp_all add: r1 go read r3 then_step_def meter_within_def)
    qed
  qed
qed

lemma bounded_json_metered:
  assumes "reads_at_most U"
  shows "meter_within m (Suc max_bytes) (snd (read_bounded_json (metered U) deadline max_bytes (w, m)))"
proof -
  have "meter_within m (Suc max_bytes) (snd (read_chunks (metered U) deadline max_bytes [] (w, m)))"
    using read_chunks_metered[OF assms, of "[]" max_bytes m deadline w] by simp
  then show ?thesis unfolding read_bounded_json_def by (subst then_step_world) auto
qed

lemma with_response_metered:
  assumes "\<And>d w. meter_within m n (snd (block d (w, m)))"
  shows "meter_within m n (snd (with_response (metered U) q timeout block (w, m)))"
proof -
  obtain now w0 where clock: "uomp_clock (metered U) (w, m) = (now, (w0, m))"
    by (cases "uomp_clock U w") (auto simp: metered_def)
  obtain r1 w1 where r1: "open_url (metered U) q timeout (now + timeout) (w0, m) = (r1, (w1, m))"
    by (cases "open_url U q timeout (now + timeout) w0") (auto simp: metered_def)
  obtain r2 w2 where r2: "ensure_before_deadline (metered U) (now + timeout) (w1, m) = (r2, (w2, m))"
    using metered_deadline[of U "now + timeout" w1 m] by (metis prod.collapse)
  obtain r3 w3 m3 where r3: "block (now + timeout) (w2, m) = (r3, (w3, m3))" by (metis prod_cases3)
  have "meter_within m n (w3, m3)" using assms[of "now + timeout" w2] r3 by simp
  then show ?thesis unfolding with_response_def open_response_def
    by (cases r1; cases r2)
      (simp_all add: clock then_step_def r1 r2 r3 meter_within_def, simp add: metered_def split_def meter_within_def)
qed

lemma upload_metered:
  "reads_at_most U \<Longrightarrow> meter_within m (Suc MAX_UPLOAD_RESPONSE_BYTES) (snd (uomp_upload (metered U) p data (w, m)))"
  unfolding uomp_upload_def by (subst then_step_world) (auto intro: with_response_metered bounded_json_metered)

lemma download_metered:
  "reads_at_most U \<Longrightarrow> meter_within m (Suc MAX_DOWNLOAD_RESPONSE_BYTES) (snd (uomp_download (metered U) p url (w, m)))"
  by (cases "validate_payload_url p url")
    (auto simp: uomp_download_def then_step_world meter_within_def[of m _ "(w, m)"] intro: with_response_metered bounded_json_metered)

section \<open>Payload URLs\<close>

text \<open>The characters of a canonical host.\<close>

definition host_char :: "char \<Rightarrow> bool" where
  "host_char c \<longleftrightarrow> is_ascii c \<and> 32 < ord c \<and> ord c \<noteq> 127 \<and> lower_char c = c
     \<and> c \<notin> {CHR ''/'', CHR ''?'', CHR ''#'', CHR ''@'', chr 92, CHR '']''}"

lemma host_char_lower:
  assumes "is_ascii c" "32 < ord c" "ord c \<noteq> 127" "c \<notin> {CHR ''/'', CHR ''?'', CHR ''#'', CHR ''@'', chr 92, CHR '']''}"
  shows "host_char (lower_char c)"
proof (cases "is_upper_az c")
  case True
  then have "65 \<le> ord c" "ord c \<le> 90" "lower_char c = chr (ord c + 32)"
    by (auto simp: is_upper_az_def lower_char_def)
  then have o: "ord (lower_char c) = ord c + 32" by simp
  have "lower_char c \<notin> {CHR ''/'', CHR ''?'', CHR ''#'', CHR ''@'', chr 92, CHR '']''}"
    using o \<open>65 \<le> ord c\<close> \<open>ord c \<le> 90\<close> by auto
  then show ?thesis using o \<open>65 \<le> ord c\<close> \<open>ord c \<le> 90\<close> by (simp add: host_char_def is_ascii_def)
next
  case False
  then have "lower_char c = c" using assms(1) by (simp add: lower_char_def is_ascii_def)
  then show ?thesis using assms by (simp add: host_char_def)
qed

lemma host_char_hex: "is_lower_hex c \<Longrightarrow> host_char c"
  by (auto simp: host_char_def is_lower_hex_def is_digit_def is_ascii_def lower_char_def is_upper_az_def)

lemma host_char_digit: "is_digit c \<Longrightarrow> host_char c"
  by (auto simp: host_char_def is_digit_def is_ascii_def lower_char_def is_upper_az_def)

lemma host_char_punct: "host_char (CHR ''.'')" "host_char (CHR '':'')" "host_char (CHR ''%'')"
  by code_simp+

lemma ipv6_text_chars: "set (ipv6_text hs) \<subseteq> insert (CHR '':'') {c. is_lower_hex c}"
proof -
  have "set (compress_hextets (map hex_of_nat hs)) \<subseteq> insert [] (hex_of_nat ` set hs)"
    by (auto simp: compress_hextets_def Let_def split: prod.splits if_splits dest: in_set_takeD in_set_dropD)
  then have "\<Union> (set ` set (compress_hextets (map hex_of_nat hs))) \<subseteq> {c. is_lower_hex c}"
    using hex_of_nat_hex by (fastforce simp: list_all_iff)
  then show ?thesis
    unfolding ipv6_text_def using set_join[of "'':''" "compress_hextets (map hex_of_nat hs)"] by simp blast
qed

lemma ip_text_chars:
  assumes "ip_parse s = Some a" "list_all host_char s"
  shows "list_all host_char (ip_text a)"
proof (cases a)
  case (IPv4 os)
  have "set (ip_text a) \<subseteq> {CHR ''.''} \<union> \<Union> (set ` set (map dec_of_nat os))" unfolding IPv4 using set_join by fastforce
  moreover have "list_all is_digit (dec_of_nat n)" for n using dec_of_nat_digits by blast
  ultimately show ?thesis using host_char_digit host_char_punct by (fastforce simp: list_all_iff)
next
  case (IPv6 hs scope)
  have "set (ipv6_text hs) \<subseteq> insert (CHR '':'') {c. is_lower_hex c}" by (rule ipv6_text_chars)
  moreover have "set z \<subseteq> set s" if "scope = Some z" for z
    using assms(1) that unfolding IPv6
    by (auto simp: ip_parse_def py_partition_def split: option.splits if_splits dest: in_set_dropD set_dropWhileD)
  ultimately show ?thesis using assms(2) host_char_hex host_char_punct
    by (auto simp: IPv6 list_all_iff split: option.splits)
qed

lemma ipv6_hextets_colon: "ipv6_hextets addr = Some hs \<Longrightarrow> CHR '':'' \<in> set addr"
proof (rule ccontr)
  assume "ipv6_hextets addr = Some hs" "CHR '':'' \<notin> set addr"
  then show False by (auto simp: ipv6_hextets_def ipv6_parts_def py_split_simple split: option.splits if_splits)
qed

lemma ipv6_colon: "ip_parse t = Some (IPv6 hs scope) \<Longrightarrow> CHR '':'' \<in> set t"
  by (auto simp: ip_parse_def py_partition_def split: option.splits if_splits dest!: ipv6_hextets_colon set_takeWhileD)

lemma ip_parse_Nil: "ip_parse [] = None"
  by code_simp

lemma ip_text_bracket:
  assumes "ip_parse s = Some a" "CHR '':'' \<notin> set (ip_text a)"
  shows "CHR ''['' \<notin> set (ip_text a)"
proof (cases a)
  case (IPv4 os)
  have "set (ip_text a) \<subseteq> {CHR ''.''} \<union> \<Union> (set ` set (map dec_of_nat os))" unfolding IPv4 using set_join by fastforce
  moreover have "list_all is_digit (dec_of_nat n)" for n using dec_of_nat_digits by blast
  ultimately show ?thesis by (fastforce simp: list_all_iff is_digit_def)
next
  case (IPv6 hs scope)
  have "ip_parse (ip_text a) = Some (IPv6 hs scope)" using ip_parse_text[OF assms(1)] IPv6 by simp
  then show ?thesis using ipv6_colon assms(2) by blast
qed

lemma host_label_chars: "host_label_re l \<Longrightarrow> list_all (\<lambda>c. is_lower_az c \<or> is_digit c \<or> c = CHR ''-'') l"
  by (simp add: host_label_re_def)

lemma py_split_chars: "c \<in> set s \<Longrightarrow> c = d \<or> (\<exists>l\<in>set (py_split d s). c \<in> set l)"
  by (induction d s rule: py_split.induct) (auto split: list.splits)

text \<open>A canonical host is made of such characters, and is bracketed if it needs to be.\<close>

lemma canonical_host:
  assumes "canonical_ascii_hostname h = Inr c" "list_all host_char (py_lower h)"
  shows "c \<noteq> [] \<and> list_all host_char c \<and> (CHR '':'' \<in> set c \<or> CHR ''['' \<notin> set c)"
proof (cases "ip_parse (py_lower h)")
  case (Some a)
  then have c: "c = ip_text a" using assms(1) by (auto simp: canonical_ascii_hostname_def Let_def split: if_splits)
  have "ip_text a \<noteq> []" using ip_parse_text[OF Some] ip_parse_Nil by auto
  then show ?thesis using c ip_text_chars[OF Some assms(2)] ip_text_bracket[OF Some] by auto
next
  case None
  then have c: "c = py_lower h" "c \<noteq> []" "list_all host_label_re (py_split (CHR ''.'') c)"
    using assms(1) by (auto simp: canonical_ascii_hostname_def Let_def py_lower_def split: if_splits)
  have "CHR ''['' \<notin> set c"
  proof
    assume "CHR ''['' \<in> set c"
    then obtain l where "l \<in> set (py_split (CHR ''.'') c)" "CHR ''['' \<in> set l" using py_split_chars[of "CHR ''[''" c "CHR ''.''"] by auto
    then show False using c(3) host_label_chars[of l] by (auto simp: list_all_iff is_lower_az_def is_digit_def)
  qed
  then show ?thesis using c assms(2) by simp
qed

lemma canonical_host_v6:
  assumes "canonical_ascii_hostname h = Inr c" "CHR '':'' \<in> set c"
  shows "bracketed_host_ok c"
proof (cases "ip_parse (py_lower h)")
  case (Some a)
  then have c: "c = ip_text a" using assms(1) by (auto simp: canonical_ascii_hostname_def Let_def split: if_splits)
  have again: "ip_parse c = Some a" using ip_parse_text[OF Some] c by simp
  show ?thesis
  proof (cases a)
    case (IPv4 os)
    have "set c \<subseteq> {CHR ''.''} \<union> \<Union> (set ` set (map dec_of_nat os))" unfolding c IPv4 using set_join by fastforce
    moreover have "CHR '':'' \<notin> set (dec_of_nat n)" for n by (rule dec_of_nat_no) (simp add: is_digit_def)
    ultimately show ?thesis using assms(2) by auto
  next
    case (IPv6 hs scope)
    have chars: "set (ipv6_text hs) \<subseteq> insert (CHR '':'') {c. is_lower_hex c}" by (rule ipv6_text_chars)
    have "\<not> starts_with ''v'' c"
    proof (cases "ipv6_text hs")
      case Nil
      then show ?thesis by (auto simp: c IPv6 starts_with_def split: option.splits)
    next
      case (Cons x xs)
      then have "x \<noteq> CHR ''v''" using chars by (auto simp: is_lower_hex_def is_digit_def)
      then show ?thesis using Cons by (auto simp: c IPv6 starts_with_def)
    qed
    then show ?thesis using again by (simp add: bracketed_host_ok_def ip_address_def IPv6)
  qed
next
  case None
  then have c: "c = py_lower h" "list_all host_label_re (py_split (CHR ''.'') c)"
    using assms(1) by (auto simp: canonical_ascii_hostname_def Let_def py_lower_def split: if_splits)
  obtain l where "l \<in> set (py_split (CHR ''.'') c)" "CHR '':'' \<in> set l"
    using py_split_chars[OF assms(2), of "CHR ''.''"] by auto
  then show ?thesis using c(2) host_label_chars[of l] by (auto simp: list_all_iff is_lower_az_def is_digit_def)
qed

text \<open>The host of an accepted URL has only characters of hosts once it is lowered.\<close>

lemma set_py_partition:
  "set (fst (py_partition c s)) \<subseteq> set s - {c}" "set (snd (snd (py_partition c s))) \<subseteq> set s"
  by (auto simp: py_partition_def dest: set_takeWhileD in_set_dropD set_dropWhileD)

lemma no_userinfo: "CHR ''@'' \<notin> set n \<Longrightarrow> rev (takeWhile (\<lambda>c. c \<noteq> CHR ''@'') (rev n)) = n"
  by (induction n rule: rev_induct) auto

lemma host_port_chars:
  assumes "CHR ''@'' \<notin> set n" "netloc_brackets_ok n"
  shows "set (fst (url_host_port n)) \<subseteq> set n - {CHR '']''}"
proof -
  note info = no_userinfo[OF assms(1)]
  show ?thesis
  proof (cases "CHR ''['' \<in> set n")
    case True
    then show ?thesis
      using set_py_partition(1)[of "CHR '']''" "snd (snd (py_partition (CHR ''['') n))"] set_py_partition(2)[of "CHR ''[''" n]
      unfolding url_host_port_def Let_def info by (auto split: prod.splits)
  next
    case False
    then have "CHR '']'' \<notin> set n" using assms(2) by (simp add: netloc_brackets_ok_def)
    then show ?thesis using set_py_partition(1)[of "CHR '':''" n] False
      unfolding url_host_port_def Let_def info by (auto split: prod.splits)
  qed
qed

lemma urlsplit_parts:
  assumes "urlsplit url = Some u"
  shows "netloc_brackets_ok (url_netloc u)" "set (url_netloc u) \<subseteq> {c \<in> set url. \<not> netloc_end c}"
proof -
  define v where "v = filter (\<lambda>c. ord c \<noteq> 9 \<and> ord c \<noteq> 10 \<and> ord c \<noteq> 13) (dropWhile (\<lambda>c. ord c \<le> 32) url)"
  have v: "set v \<subseteq> set url" by (auto simp: v_def dest: set_dropWhileD)
  have "netloc_brackets_ok (url_netloc u) \<and> (\<exists>rest. set rest \<subseteq> set v
      \<and> (url_netloc u = [] \<or> url_netloc u = takeWhile (\<lambda>c. \<not> netloc_end c) rest))"
    using assms unfolding urlsplit_def Let_def v_def[symmetric]
    by (auto split: if_splits prod.splits intro!: exI[of _ "drop _ _"] dest: in_set_dropD)
  then show "netloc_brackets_ok (url_netloc u)" "set (url_netloc u) \<subseteq> {c \<in> set url. \<not> netloc_end c}"
    using v by (auto dest!: set_takeWhileD)
qed

lemma hostname_chars:
  assumes "url_hostname n = Some h" "CHR ''@'' \<notin> set n" "netloc_brackets_ok n"
    "list_all (\<lambda>c. is_ascii c \<and> 32 < ord c \<and> ord c \<noteq> 127 \<and> \<not> netloc_end c \<and> c \<noteq> chr 92) n"
  shows "list_all host_char (py_lower h)"
proof -
  let ?host = "fst (url_host_port n)"
  have ok: "list_all (\<lambda>c. host_char (lower_char c)) ?host"
    using host_port_chars[OF assms(2,3)] assms(2,4)
    by (auto simp: list_all_iff netloc_end_def intro!: host_char_lower)
  have low: "lower_char (lower_char c) = lower_char c" for c by (auto simp: lower_char_def is_upper_az_def)
  have parts: "host_char (lower_char c)"
    if "c \<in> set (takeWhile (\<lambda>x. x \<noteq> CHR ''%'') ?host) \<or> c \<in> set (drop (Suc 0) (dropWhile (\<lambda>x. x \<noteq> CHR ''%'') ?host))" for c
    using that ok by (meson in_set_dropD list_all_iff set_dropWhileD set_takeWhileD)
  have "lower_char (CHR ''%'') = CHR ''%''" by code_simp
  then show ?thesis using assms(1) host_char_punct(3)
    by (auto simp: url_hostname_def Let_def py_partition_def py_lower_def list_all_iff low parts split: if_splits)
qed

lemma accepted_host:
  assumes "gateway_url_parts env allow url = Inr (scheme, hostname, port)"
  shows "scheme \<in> {''http'', ''https''}" "hostname \<noteq> []" "list_all host_char hostname"
    "CHR '':'' \<in> set hostname \<Longrightarrow> bracketed_host_ok hostname" "CHR '':'' \<notin> set hostname \<Longrightarrow> CHR ''['' \<notin> set hostname"
    "case port of None \<Rightarrow> True | Some p \<Rightarrow> p \<le> 65535"
proof -
  from assms obtain u h where u: "urlsplit url = Some u" "url_port (url_netloc u) = Some port"
      "url_hostname (url_netloc u) = Some h" "CHR ''@'' \<notin> set (url_netloc u)" "canonical_ascii_hostname h = Inr hostname"
    and scheme: "scheme \<in> {''http'', ''https''}"
    and chars: "list_all is_ascii url" "\<not> list_ex (\<lambda>c. ord c \<le> 32 \<or> ord c = 127) url" "chr 92 \<notin> set url"
    by (auto simp: gateway_url_parts_def Let_def sum_bind_Inr split: if_splits option.splits)
  have "list_all (\<lambda>c. is_ascii c \<and> 32 < ord c \<and> ord c \<noteq> 127 \<and> \<not> netloc_end c \<and> c \<noteq> chr 92) (url_netloc u)"
    using urlsplit_parts(2)[OF u(1)] chars by (auto simp: list_all_iff list_ex_iff not_le)
  from hostname_chars[OF u(3,4) urlsplit_parts(1)[OF u(1)] this]
  have "hostname \<noteq> [] \<and> list_all host_char hostname \<and> (CHR '':'' \<in> set hostname \<or> CHR ''['' \<notin> set hostname)"
    by (rule canonical_host[OF u(5)])
  then show "scheme \<in> {''http'', ''https''}" "hostname \<noteq> []" "list_all host_char hostname"
    "CHR '':'' \<in> set hostname \<Longrightarrow> bracketed_host_ok hostname" "CHR '':'' \<notin> set hostname \<Longrightarrow> CHR ''['' \<notin> set hostname"
    "case port of None \<Rightarrow> True | Some p \<Rightarrow> p \<le> 65535"
    using scheme canonical_host_v6[OF u(5)] u(2) by (auto simp: url_port_def Let_def split: if_splits)
qed

text \<open>The network location of a rendered origin, and what it is taken apart to.\<close>

definition port_text :: "string \<Rightarrow> nat option \<Rightarrow> string" where
  "port_text scheme port = (case port of None \<Rightarrow> [] | Some p \<Rightarrow> if p = default_port scheme then [] else dec_of_nat p)"

definition rendered_netloc :: "string \<Rightarrow> string \<Rightarrow> nat option \<Rightarrow> string" where
  "rendered_netloc scheme hostname port =
     (if CHR '':'' \<in> set hostname then ''['' @ hostname @ '']'' else hostname)
     @ (if port_text scheme port = [] then [] else CHR '':'' # port_text scheme port)"

lemma rendered_origin_netloc:
  "rendered_origin scheme hostname port = scheme @ ''://'' @ rendered_netloc scheme hostname port"
  using dec_of_nat_digits by (auto simp: rendered_origin_def rendered_netloc_def port_text_def split: option.splits)

lemma port_text_digits: "list_all is_digit (port_text scheme port)"
  using dec_of_nat_digits by (auto simp: port_text_def split: option.splits)

lemma host_char_not: "list_all host_char s \<Longrightarrow> \<not> host_char c \<Longrightarrow> c \<notin> set s"
  by (auto simp: list_all_iff)

lemma not_host_chars: "\<not> host_char (CHR ''@'')" "\<not> host_char (CHR '']'')" "\<not> host_char (CHR ''/'')"
  "\<not> host_char (CHR ''?'')" "\<not> host_char (CHR ''#'')" "\<not> host_char (chr 92)"
  by (simp_all add: host_char_def)

lemma scheme_host_chars: "list_all host_char ''http''" "list_all host_char ''https''"
  by code_simp+

lemma backslash: "CHR '']'' \<noteq> chr 92" "CHR ''/'' \<noteq> chr 92" "CHR '':'' \<noteq> chr 92"
  by code_simp+

lemma host_char_printable: "host_char c \<Longrightarrow> 32 < ord c \<and> is_ascii c \<and> ord c \<noteq> 127"
  by (simp add: host_char_def)

lemma port_text_no: "\<not> is_digit c \<Longrightarrow> c \<notin> set (port_text scheme port)"
  using port_text_digits[of scheme port] by (auto simp: list_all_iff)

lemma rendered_netloc_chars:
  assumes "list_all host_char hostname"
  shows "list_all (\<lambda>c. host_char c \<or> c = CHR '']'') (rendered_netloc scheme hostname port)"
proof -
  have "list_all host_char (port_text scheme port)"
    using port_text_digits[of scheme port] host_char_digit by (auto simp: list_all_iff)
  moreover have "host_char (CHR ''['')" by code_simp
  ultimately show ?thesis using assms host_char_punct(2) by (auto simp: rendered_netloc_def list_all_iff)
qed

lemma rendered_host_port:
  assumes "list_all host_char hostname" "CHR '':'' \<notin> set hostname \<Longrightarrow> CHR ''['' \<notin> set hostname"
  shows "url_host_port (rendered_netloc scheme hostname port) = (hostname, port_text scheme port)"
proof -
  let ?n = "rendered_netloc scheme hostname port"
  have at: "CHR ''@'' \<notin> set ?n"
    using rendered_netloc_chars[OF assms(1)] not_host_chars(1) by (fastforce simp: list_all_iff)
  have no: "CHR '']'' \<notin> set hostname" by (rule host_char_not[OF assms(1) not_host_chars(2)])
  have digits: "CHR ''['' \<notin> set (port_text scheme port)" "CHR '':'' \<notin> set (port_text scheme port)"
    by (rule port_text_no, simp add: is_digit_def)+
  show ?thesis
  proof (cases "CHR '':'' \<in> set hostname")
    case True
    then have n: "?n = [] @ CHR ''['' # hostname @ CHR '']'' # (if port_text scheme port = [] then [] else [] @ CHR '':'' # port_text scheme port)"
      by (simp add: rendered_netloc_def)
    have "py_partition (CHR ''['') ?n = ([], True, hostname @ CHR '']'' # (if port_text scheme port = [] then [] else [] @ CHR '':'' # port_text scheme port))"
      unfolding n by (rule py_partition_simps(2)) simp
    moreover have "CHR ''['' \<in> set ?n" by (simp add: n)
    moreover have "py_partition (CHR '':'') (CHR '':'' # t) = ([], True, t)" for t
      using py_partition_simps(2)[of "CHR '':''" "[]" t] by simp
    ultimately show ?thesis using no unfolding url_host_port_def Let_def no_userinfo[OF at]
      by (auto simp: py_partition_simps)
  next
    case False
    then have n: "?n = (if port_text scheme port = [] then hostname else hostname @ CHR '':'' # port_text scheme port)"
      by (simp add: rendered_netloc_def)
    then have "CHR ''['' \<notin> set ?n" using assms(2)[OF False] digits by simp
    then show ?thesis using False unfolding url_host_port_def Let_def no_userinfo[OF at]
      by (simp add: n py_partition_simps)
  qed
qed

lemma partition_join: "py_partition c s = (a, found, b) \<Longrightarrow> a @ (if found then c # b else []) = s"
proof (cases "c \<in> set s")
  case True
  then obtain a b where "s = a @ c # b" "c \<notin> set a" by (metis split_list_first)
  then show "py_partition c s = (a', found, b') \<Longrightarrow> a' @ (if found then c # b' else []) = s" for a' found b'
    by (auto simp: py_partition_simps)
qed (auto simp: py_partition_simps)

lemma rendered_hostname:
  assumes "list_all host_char hostname" "hostname \<noteq> []" "CHR '':'' \<notin> set hostname \<Longrightarrow> CHR ''['' \<notin> set hostname"
  shows "url_hostname (rendered_netloc scheme hostname port) = Some hostname"
    "py_lower hostname = hostname"
proof -
  have fixed: "map lower_char s = s" if "set s \<subseteq> set hostname" for s
  proof (rule map_idI)
    fix c assume "c \<in> set s"
    then show "lower_char c = c" using that assms(1) by (auto simp: list_all_iff host_char_def)
  qed
  then show "py_lower hostname = hostname" by (simp add: py_lower_def)
  obtain a found b where p: "py_partition (CHR ''%'') hostname = (a, found, b)" by (metis prod_cases3)
  then have "set a \<subseteq> set hostname" using set_py_partition(1)[of "CHR ''%''" hostname] by auto
  then show "url_hostname (rendered_netloc scheme hostname port) = Some hostname"
    using assms(2) partition_join[OF p] by (simp add: url_hostname_def rendered_host_port[OF assms(1,3)] p py_lower_def fixed)
qed

lemma rendered_port:
  assumes "list_all host_char hostname" "CHR '':'' \<notin> set hostname \<Longrightarrow> CHR ''['' \<notin> set hostname"
    "case port of None \<Rightarrow> True | Some p \<Rightarrow> p \<le> 65535"
  shows "url_port (rendered_netloc scheme hostname port) \<noteq> None"
proof -
  have "port_text scheme port = [] \<or> (\<exists>p\<le>65535. port_text scheme port = dec_of_nat p)"
    using assms(3) by (auto simp: port_text_def split: option.splits)
  moreover have "length (dec_of_nat p) \<le> 4300" if "p \<le> 65535" for p using length_dec_of_nat[of p 4] that by simp
  ultimately show ?thesis using port_text_digits[of scheme port]
    by (auto simp: url_port_def Let_def rendered_host_port[OF assms(1,2)])
qed

lemma rendered_brackets:
  assumes "list_all host_char hostname" "CHR '':'' \<in> set hostname \<Longrightarrow> bracketed_host_ok hostname"
    "CHR '':'' \<notin> set hostname \<Longrightarrow> CHR ''['' \<notin> set hostname"
  shows "netloc_brackets_ok (rendered_netloc scheme hostname port)"
proof -
  let ?p = "if port_text scheme port = [] then [] else CHR '':'' # port_text scheme port"
  have no: "CHR '']'' \<notin> set hostname" by (rule host_char_not[OF assms(1) not_host_chars(2)])
  have digits: "CHR ''['' \<notin> set (port_text scheme port)" "CHR '']'' \<notin> set (port_text scheme port)"
    by (rule port_text_no, simp add: is_digit_def)+
  show ?thesis
  proof (cases "CHR '':'' \<in> set hostname")
    case True
    then have n: "rendered_netloc scheme hostname port = [] @ CHR ''['' # hostname @ CHR '']'' # ?p"
      by (simp add: rendered_netloc_def)
    have "py_partition (CHR ''['') ([] @ CHR ''['' # hostname @ CHR '']'' # ?p) = ([], True, hostname @ CHR '']'' # ?p)"
      by (rule py_partition_simps(2)) simp
    then show ?thesis using no assms(2)[OF True] unfolding n netloc_brackets_ok_def
      by (simp add: py_partition_simps)
  next
    case False
    then show ?thesis using no digits assms(3) by (simp add: netloc_brackets_ok_def rendered_netloc_def)
  qed
qed

lemma payload_path_chars: "payload_path_re path \<Longrightarrow> list_all (\<lambda>c. host_char c \<or> c = CHR ''/'') path \<and> hd path = CHR ''/'' \<and> path \<noteq> []"
proof -
  assume re: "payload_path_re path"
  define i where "i = drop 16 path"
  have "path = take 12 path @ take 4 (drop 12 path) @ drop 4 (drop 12 path)" by (metis append_take_drop_id)
  then have path: "path = ''/v1/payload/'' @ ''pay_'' @ i" and i: "list_all is_lower_hex i"
    using re by (simp_all add: payload_path_re_def payload_id_re_def i_def)
  have "list_all (\<lambda>c. host_char c \<or> c = CHR ''/'') (''/v1/payload/'' @ ''pay_'')" by code_simp
  then show ?thesis using i host_char_hex by (auto simp: path list_all_iff)
qed

lemma rendered_url_split:
  assumes "scheme \<in> {''http'', ''https''}" "list_all host_char hostname"
    "netloc_brackets_ok (rendered_netloc scheme hostname port)" "path = [] \<or> payload_path_re path"
  shows "urlsplit (rendered_origin scheme hostname port @ path) =
    Some \<lparr>url_scheme = scheme, url_netloc = rendered_netloc scheme hostname port, url_path = path, url_query = [], url_fragment = []\<rparr>"
proof -
  let ?n = "rendered_netloc scheme hostname port"
  have path: "list_all (\<lambda>c. host_char c \<or> c = CHR ''/'') path" "path = [] \<or> hd path = CHR ''/''"
    using assms(4) payload_path_chars by auto
  have n: "list_all (\<lambda>c. \<not> netloc_end c) ?n" "list_all (\<lambda>c. 32 < ord c) ?n"
  proof -
    have "\<not> netloc_end c \<and> 32 < ord c" if "c \<in> set ?n" for c
    proof -
      have "host_char c \<or> c = CHR '']''" using rendered_netloc_chars[OF assms(2), of scheme port] that by (auto simp: list_all_iff)
      then show ?thesis using not_host_chars(3-5) host_char_printable by (auto simp: netloc_end_def)
    qed
    then show "list_all (\<lambda>c. \<not> netloc_end c) ?n" "list_all (\<lambda>c. 32 < ord c) ?n" by (simp_all add: list_all_iff)
  qed
  have p: "CHR ''?'' \<notin> set path" "CHR ''#'' \<notin> set path" using path(1) not_host_chars(4,5) by (auto simp: list_all_iff)
  have "32 < ord c" if "c \<in> set path" for c
  proof -
    have "host_char c \<or> c = CHR ''/''" using path(1) that by (simp add: list_all_iff)
    then show ?thesis by (rule disjE) (simp_all add: host_char_printable)
  qed
  then have q: "list_all (\<lambda>c. 32 < ord c) path" by (simp add: list_all_iff)
  have "list_all (\<lambda>c. 32 < ord c) scheme" "url_form scheme [] []" using assms(1) by (auto simp: url_form_def scheme_char_def py_defs)
  then have "url_form scheme ?n path" using n q path(2) by (auto simp: url_form_def netloc_end_def)
  moreover have "py_lower scheme = scheme" using assms(1) by (auto simp: py_lower_def lower_char_def is_upper_az_def)
  moreover have "path_part path = path" using p by (auto simp: path_part_def takeWhile_eq_all_conv)
  moreover have "query_fragment path = ([], [])" using p by (simp add: query_fragment_def py_partition_simps)
  ultimately show ?thesis using urlsplit_form[of scheme ?n path] assms(3) by (simp add: rendered_origin_netloc)
qed

text \<open>The constructor never fails on a validated origin, and the URLs that \<open>upload\<close> answers are accepted unchanged.\<close>

lemma provider_origin_form:
  assumes "validate_gateway_origin N allow_private url = Inr r"
  obtains scheme hostname port where "origin r = rendered_origin scheme hostname port"
    "gateway_url_parts (gateway_env N) (private_gateways_allowed (gateway_env N) allow_private) url = Inr (scheme, hostname, port)"
  using assms by (auto simp: validate_gateway_origin_def Let_def sum_bind_Inr sum_map_def)

lemma provider_of_origin:
  assumes "uomp_gateway_storage_provider N url token = Inr p"
  obtains scheme hostname port where "gateway_url_parts (gateway_env N) (private_gateways_allowed (gateway_env N) None) url
      = Inr (scheme, hostname, port)" "provider_base p = rendered_origin scheme hostname port"
    "urlsplit (rendered_origin scheme hostname port) = Some (provider_origin p)"
    "validate_gateway_origin N None url = Inr (provider_validated p)" "provider_token p = token"
proof -
  from assms obtain r where r: "validate_gateway_origin N None url = Inr r" "urlsplit (origin r) = Some (provider_origin p)"
    "provider_base p = origin r" "provider_validated p = r" "provider_token p = token"
    by (auto simp: uomp_gateway_storage_provider_def sum_bind_Inr split: option.splits)
  from provider_origin_form[OF r(1)] obtain scheme hostname port where "origin r = rendered_origin scheme hostname port"
    "gateway_url_parts (gateway_env N) (private_gateways_allowed (gateway_env N) None) url = Inr (scheme, hostname, port)" .
  then show thesis using that r by metis
qed

lemma provider_base_origin:
  "uomp_gateway_storage_provider N url token = Inr p \<Longrightarrow> provider_base p = origin (provider_validated p)
     \<and> validate_gateway_origin N None url = Inr (provider_validated p)"
  by (auto simp: uomp_gateway_storage_provider_def sum_bind_Inr split: option.splits)

lemma provider_made: "validate_gateway_origin N None url = Inr r \<Longrightarrow> \<exists>p. uomp_gateway_storage_provider N url token = Inr p"
proof -
  assume r: "validate_gateway_origin N None url = Inr r"
  from provider_origin_form[OF r] obtain scheme hostname port where o: "origin r = rendered_origin scheme hostname port"
    and parts: "gateway_url_parts (gateway_env N) (private_gateways_allowed (gateway_env N) None) url = Inr (scheme, hostname, port)" .
  note h = accepted_host[OF parts]
  from rendered_url_split[OF h(1,3) rendered_brackets[OF h(3-5)], of "[]"] show ?thesis
    by (simp add: uomp_gateway_storage_provider_def r o)
qed

lemma payload_url_accepted:
  assumes "uomp_gateway_storage_provider N url token = Inr p" "payload_path_re path"
  shows "validate_payload_url p (provider_base p @ path) = Some (provider_base p @ path)"
proof -
  from provider_of_origin[OF assms(1)] obtain scheme hostname port where
    parts: "gateway_url_parts (gateway_env N) (private_gateways_allowed (gateway_env N) None) url = Inr (scheme, hostname, port)"
    and base: "provider_base p = rendered_origin scheme hostname port"
    and split: "urlsplit (rendered_origin scheme hostname port) = Some (provider_origin p)" .
  note h = accepted_host[OF parts]
  let ?n = "rendered_netloc scheme hostname port"
  note br = rendered_brackets[OF h(3-5)]
  have own: "provider_origin p = \<lparr>url_scheme = scheme, url_netloc = ?n, url_path = [], url_query = [], url_fragment = []\<rparr>"
    using rendered_url_split[OF h(1,3) br, of "[]"] split by simp
  have ext: "urlsplit (provider_base p @ path) =
      Some \<lparr>url_scheme = scheme, url_netloc = ?n, url_path = path, url_query = [], url_fragment = []\<rparr>"
    unfolding base using rendered_url_split[OF h(1,3) br, of path] assms(2) by simp
  have low: "py_lower scheme = scheme" using h(1) by (auto simp: py_lower_def lower_char_def is_upper_az_def)
  have good: "host_char c \<or> c = CHR '']'' \<or> c = CHR ''/'' \<or> c = CHR '':''" if "c \<in> set (provider_base p @ path)" for c
  proof -
    have "list_all host_char scheme" using h(1) scheme_host_chars by auto
    then show ?thesis using that rendered_netloc_chars[OF h(3), of scheme port] payload_path_chars[OF assms(2)]
      by (auto simp: base rendered_origin_netloc list_all_iff)
  qed
  have chars: "is_ascii c \<and> 32 < ord c \<and> ord c \<noteq> 127 \<and> c \<noteq> CHR ''?'' \<and> c \<noteq> CHR ''#'' \<and> c \<noteq> chr 92"
    if "c \<in> set (provider_base p @ path)" for c
    using good[OF that] not_host_chars(4-6) host_char_printable[of c] backslash by (auto simp: is_ascii_def)
  have at: "CHR ''@'' \<notin> set ?n"
    using rendered_netloc_chars[OF h(3), of scheme port] not_host_chars(1) by (fastforce simp: list_all_iff)
  have "port_or_default (provider_origin p) scheme \<noteq> None"
    using rendered_port[OF h(3,5,6), of scheme] by (auto simp: port_or_default_def own split: option.splits)
  moreover have "\<not> (provider_base p @ path = [] \<or> \<not> list_all is_ascii (provider_base p @ path)
      \<or> CHR ''?'' \<in> set (provider_base p @ path) \<or> CHR ''#'' \<in> set (provider_base p @ path)
      \<or> chr 92 \<in> set (provider_base p @ path) \<or> list_ex (\<lambda>c. ord c \<le> 32 \<or> ord c = 127) (provider_base p @ path))"
    using chars payload_path_chars[OF assms(2)] unfolding list_all_iff list_ex_iff by fastforce
  ultimately show ?thesis using ext at assms(2) rendered_hostname[OF h(3,2,5)]
    by (simp add: validate_payload_url_def own low port_or_default_def)
qed

lemma payload_url_path:
  "payload_url p result = Inr u \<Longrightarrow> \<exists>path. payload_path_re path \<and> u = provider_base p @ path"
  by (auto simp: payload_url_def payload_path_re_def split: json.splits if_splits
      intro!: exI[of _ "''/v1/payload/'' @ _"])

end
