(* ===== verification/Uomp_World.thy ===== *)
theory Uomp_World
  imports Uomp_Laws "HOL-Library.Code_Target_Nat"
begin

text \<open>
  A relay: a name that resolves to one public address, a server that answers every upload with one
  payload id, and a network that connects. The world of the server is the rest of the response.
\<close>

definition relay_dns :: gateway_net where
  "relay_dns = \<lparr>gateway_env = (\<lambda>_. None), parse_seconds = (\<lambda>_. None),
     dns_lookup = (\<lambda>host port deadline. Resolved [''104.16.3.2''])\<rparr>"

definition relay_url :: string where "relay_url = ''https://a-b.trycloudflare.com/''"

definition relay_origin :: gateway_origin where
  "relay_origin = \<lparr>origin = ''https://a-b.trycloudflare.com'', origin_scheme = ''https'',
     origin_hostname = ''a-b.trycloudflare.com'', origin_port = 443, origin_addresses = [''104.16.3.2'']\<rparr>"

definition relay_response :: bytes where
  "relay_response = ''{\"payload_id\":\"pay_'' @ replicate 32 (CHR ''a'') @ ''\"}''"

definition relay_server :: "bytes uomp_net" where
  "relay_server = \<lparr>uomp_clock = (\<lambda>w. (0, w)), open_url = (\<lambda>q t d w. (Inr (), w)),
     read1 = (\<lambda>n w. (Inr (take n w), drop n w)), close_response = (\<lambda>w. w), uomp_float = (\<lambda>t. NaN)\<rparr>"

definition relay_network :: "unit pinned_net" where
  "relay_network = \<lparr>mono_clock = (\<lambda>w. (0, w)), open_socket = (\<lambda>v6 w. (Inr (), w)),
     connect_socket = (\<lambda>a p t w. (Inr (), w)), wrap_tls = (\<lambda>host t w. (Inr (), w)), drop_socket = (\<lambda>w. w)\<rparr>"

lemma relay_validated: "validate_gateway_origin relay_dns None relay_url = Inr relay_origin"
proof -
  have parts: "gateway_url_parts (\<lambda>_. None) False relay_url = Inr (''https'', ''a-b.trycloudflare.com'', None)"
    unfolding relay_url_def by code_simp
  have v4: "ip_parse ''104.16.3.2'' = Some (IPv4 [104, 16, 3, 2])" by code_simp
  have t4: "ip_text (IPv4 [104, 16, 3, 2]) = ''104.16.3.2''" by code_simp
  have public: "is_public_gateway_address (IPv4 [104, 16, 3, 2])"
    by (rule public_gateway_addressI; code_simp)
  have no_loopback: "\<not> private_gateways_allowed (\<lambda>_. None) None" by code_simp
  have shown: "rendered_origin ''https'' ''a-b.trycloudflare.com'' None = ''https://a-b.trycloudflare.com''"
    "connect_port ''https'' None = 443" by code_simp+
  show ?thesis
    by (simp add: validate_gateway_origin_def no_loopback parts gateway_addresses_def resolve_addresses_def
        v4 t4[simplified] public or_error_def relay_dns_def shown relay_origin_def)
qed

lemma relay_reads: "reads_at_most relay_server"
  by (simp add: reads_at_most_def relay_server_def)

lemma relay_chunks:
  "0 < d \<Longrightarrow> w \<noteq> [] \<Longrightarrow> length w \<le> n \<Longrightarrow> length w \<le> READ_CHUNK_BYTES \<Longrightarrow>
   read_chunks relay_server d n [] w = (Inr w, [])"
  by (subst read_chunks.simps, simp add: ensure_before_deadline_def relay_server_def then_step_def,
      subst read_chunks.simps, simp add: ensure_before_deadline_def then_step_def READ_CHUNK_BYTES_def)

lemma relay_answer:
  "read_bounded_json relay_server 30 MAX_UPLOAD_RESPONSE_BYTES relay_response =
     (Inr (JDict [(''payload_id'', JStr (''pay_'' @ replicate 32 (CHR ''a'')))]), [])"
proof -
  have len: "length relay_response = 53" by (simp add: relay_response_def)
  have "json_text relay_response = Some relay_response" by code_simp
  moreover have "json_parse (default_hooks (\<lambda>t. NaN)) relay_response
      = Some (JDict [(''payload_id'', JStr (''pay_'' @ replicate 32 (CHR ''a'')))])" by code_simp
  moreover have "read_chunks relay_server 30 MAX_UPLOAD_RESPONSE_BYTES [] relay_response = (Inr relay_response, [])"
    using len by (intro relay_chunks) (auto simp: MAX_UPLOAD_RESPONSE_BYTES_def READ_CHUNK_BYTES_def)
  ultimately show ?thesis
    by (simp add: read_bounded_json_def then_step_def len MAX_UPLOAD_RESPONSE_BYTES_def or_error_def, simp add: relay_server_def)
qed

lemma relay_upload:
  "uomp_upload relay_server p data relay_response
     = (Inr (provider_base p @ ''/v1/payload/pay_'' @ replicate 32 (CHR ''a'')), [])"
proof -
  have id: "payload_id_re (''pay_'' @ replicate 32 (CHR ''a''))" by code_simp
  have "with_response relay_server q TIMEOUT_UPLOAD (\<lambda>d. read_bounded_json relay_server d MAX_UPLOAD_RESPONSE_BYTES) relay_response
      = (Inr (JDict [(''payload_id'', JStr (''pay_'' @ replicate 32 (CHR ''a'')))]), [])" for q
    unfolding with_response_def open_response_def
    using relay_answer by (simp add: then_step_def ensure_before_deadline_def TIMEOUT_UPLOAD_def, simp add: relay_server_def then_step_def)
  then show ?thesis by (simp add: uomp_upload_def then_step_def payload_url_def id[simplified] dict_get_def)
qed

text \<open>A socket whose stream outlives it: the socket below is closed with the stream.\<close>

definition closed_io :: deadline_socket_io where
  "closed_io = \<lparr>io_released = True, io_closed = True\<rparr>"

definition finished_socket :: deadline_socket where
  "finished_socket = \<lparr>sock_closed = True, raw_closed = True, makefile_refs = 0, raw_closes = 1\<rparr>"

lemma finished_socket_run: "socket_run finished_socket [closed_io] False"
proof -
  have "socket_run (new_deadline_socket\<lparr>makefile_refs := 1\<rparr>) [new_socket_io] False"
    by (rule streamed[OF opened, of "''rb''"]) (simp add: makefile_socket_def acquire_makefile_def new_deadline_socket_def)
  from socket_closed[OF this]
  have "socket_run \<lparr>sock_closed = True, raw_closed = False, makefile_refs = 1, raw_closes = 0\<rparr> [new_socket_io] False"
    by (simp add: close_socket_def new_deadline_socket_def)
  from stream_closed[OF this, of 0 closed_io finished_socket] show ?thesis
    by (simp add: close_socket_io_def new_socket_io_def closed_io_def finished_socket_def release_makefile_def close_raw_def)
qed

end
