(* ===== verification/Signing.thy ===== *)
theory Signing
  imports X402_Effects
begin

text \<open>
  The signing operations of the on-chain seller (\<open>signing.py\<close>): recovery of the signer of a quote,
  verification of a funded job, pricing, quotes, and submission through the storage of the job. The
  ERC-8183 SDK, the chain, the wallet, the configuration file and the clock are parameters.
\<close>

section \<open>The parties outside\<close>

text \<open>
  What \<open>JobDescription.from_str\<close> gives the agent (\<open>getattr(spec, "terms", None)\<close> reads \<open>spec_terms\<close>), and
  one job of the contract. The expiry is zero when the job has no expiry.
\<close>

record job_spec =
  spec_task :: json
  spec_terms :: json
  spec_price :: json

record chain_job =
  chain_status :: string
  chain_provider :: string
  chain_client :: string
  chain_expired_at :: int
  chain_description :: string
  chain_budget :: int

text \<open>
  The SDK: \<open>recover_quote\<close> is \<open>recover_quote_signer\<close>, \<open>keccak_hex\<close> is \<open>Web3.keccak(text=...).hex()\<close>,
  \<open>recover_text\<close> the recovery of the signer of an EIP-191 text, \<open>parse_description\<close> is
  \<open>JobDescription.from_str\<close>; \<open>Inl\<close> is an exception. The last fields are the answers of one
  verification: the client with its chain and contract, the wallet, the job (\<open>Inl\<close> the text of the
  exception) and the clock at its two reads.
\<close>

record seller_sdk =
  recover_quote :: "string \<Rightarrow> exn + string option"
  keccak_hex :: "string \<Rightarrow> string"
  is_address :: "string \<Rightarrow> bool"
  to_checksum :: "string \<Rightarrow> exn + string"
  recover_text :: "string \<Rightarrow> string \<Rightarrow> exn + string"
  parse_description :: "string \<Rightarrow> exn + job_spec option"
  sdk_float :: "string \<Rightarrow> pyfloat"

record chain_read = seller_sdk +
  active_client :: "exn + int \<times> string"
  wallet_address :: "exn + string"
  get_chain_job :: "int \<Rightarrow> string + chain_job"
  expiry_clock :: int
  quote_clock :: int

section \<open>Signers of quotes\<close>

definition CONTEXT_REQUIRED_CRITERION :: string where
  "CONTEXT_REQUIRED_CRITERION = ''uomp_notify_context_required_v1''"

definition catches :: "exn list \<Rightarrow> 'a \<Rightarrow> exn + 'a \<Rightarrow> exn + 'a" where
  "catches es fallback r = (case r of Inr a \<Rightarrow> Inr a | Inl e \<Rightarrow> if e \<in> set es then Inr fallback else Inl e)"

text \<open>
  The content over which a legacy quote was hashed: without hash and signature, and with the
  criterion as the list of its characters.
\<close>

definition legacy_content :: "dict \<Rightarrow> dict \<Rightarrow> dict" where
  "legacy_content parsed terms =
     dict_put (filter (\<lambda>(k, v). k \<noteq> ''negotiation_hash'' \<and> k \<noteq> ''provider_sig'') parsed) ''terms''
       (JDict (dict_put terms ''success_criteria'' (JList (map (\<lambda>c. JStr [c]) CONTEXT_REQUIRED_CRITERION))))"

definition content_hash :: "('z seller_sdk_scheme) \<Rightarrow> dict \<Rightarrow> string" where
  "content_hash S content =
     (let h = keccak_hex S (json_dumps compact_sorted (JDict content))
      in if starts_with ''0x'' h then h else ''0x'' @ h)"

text \<open>The hash and the signature of a legacy quote whose hash is the hash of its content.\<close>

definition legacy_quote :: "('z seller_sdk_scheme) \<Rightarrow> string \<Rightarrow> (string \<times> string) option" where
  "legacy_quote S text =
     (case json_parse (default_hooks (sdk_float S)) text of
        Some (JDict parsed) \<Rightarrow>
          (case dict_get parsed ''terms'' of
             JDict terms \<Rightarrow>
               (if dict_get terms ''success_criteria'' \<noteq> JStr CONTEXT_REQUIRED_CRITERION then None
                else case (dict_get parsed ''negotiation_hash'', dict_get parsed ''provider_sig'') of
                  (JStr negotiation_hash, JStr provider_sig) \<Rightarrow>
                    (if py_lower (content_hash S (legacy_content parsed terms)) \<noteq> py_lower negotiation_hash
                     then None else Some (negotiation_hash, provider_sig))
                | _ \<Rightarrow> None)
           | _ \<Rightarrow> None)
      | _ \<Rightarrow> None)"

definition recover_quote_signer_compat_with_mode ::
  "('z seller_sdk_scheme) \<Rightarrow> string \<Rightarrow> exn + (string option \<times> bool)" where
  "recover_quote_signer_compat_with_mode S text =
     sum_bind (catches [TypeError, ValueError] None (recover_quote S text)) (\<lambda>recovered.
       case recovered of
         Some signer \<Rightarrow> Inr (Some signer, False)
       | None \<Rightarrow>
           (case legacy_quote S text of
              None \<Rightarrow> Inr (None, True)
            | Some (negotiation_hash, provider_sig) \<Rightarrow>
                catches [TypeError, ValueError] (None, True)
                  (sum_map (\<lambda>signer. (Some signer, True)) (recover_text S negotiation_hash provider_sig))))"

definition recover_quote_signer_compat :: "('z seller_sdk_scheme) \<Rightarrow> string \<Rightarrow> exn + string option" where
  "recover_quote_signer_compat S text = sum_map fst (recover_quote_signer_compat_with_mode S text)"

text \<open>The quote, when it names the chain and the contract expected of it.\<close>

definition bound_quote :: "('z seller_sdk_scheme) \<Rightarrow> string \<Rightarrow> int \<Rightarrow> string \<Rightarrow> exn + dict option" where
  "bound_quote S text expected_chain_id expected_contract =
     (case json_parse (default_hooks (sdk_float S)) text of
        Some (JDict parsed) \<Rightarrow>
          (if dict_get parsed ''chain_id'' \<noteq> JInt expected_chain_id then Inr None
           else case dict_get parsed ''verifying_contract'' of
             JStr contract \<Rightarrow>
               (if \<not> is_address S contract \<or> \<not> is_address S expected_contract then Inr None
                else catches [TypeError, ValueError] None
                  (sum_bind (to_checksum S contract) (\<lambda>signed.
                   sum_bind (to_checksum S expected_contract) (\<lambda>expected.
                     Inr (if signed \<noteq> expected then None else Some parsed)))))
           | _ \<Rightarrow> Inr None)
      | _ \<Rightarrow> Inr None)"

definition recover_bound_quote_signer_compat ::
  "('z seller_sdk_scheme) \<Rightarrow> string \<Rightarrow> int \<Rightarrow> string \<Rightarrow> int \<Rightarrow> exn + string option" where
  "recover_bound_quote_signer_compat S text expected_chain_id expected_contract now =
     sum_bind (bound_quote S text expected_chain_id expected_contract) (\<lambda>bound.
       case bound of
         None \<Rightarrow> Inr None
       | Some parsed \<Rightarrow>
           sum_bind (recover_quote_signer_compat_with_mode S text) (\<lambda>(signer, legacy).
             if signer = None then Inr None
             else if legacy then
               (case dict_get parsed ''quote_expires_at'' of
                  JInt expires \<Rightarrow> Inr (if expires \<le> now then None else signer)
                | _ \<Rightarrow> Inr None)
             else Inr signer))"

section \<open>Verification of funded jobs\<close>

record verified_job_snapshot =
  snapshot_client :: string
  snapshot_chain_id :: int
  snapshot_contract :: string
  snapshot_spec :: job_spec

text \<open>The failure is its reason and whether it is permanent.\<close>

type_synonym snapshot_result = "(string \<times> bool) + verified_job_snapshot"

definition described_spec :: "('z seller_sdk_scheme) \<Rightarrow> string \<Rightarrow> job_spec option" where
  "described_spec S text = (case parse_description S text of Inr (Some spec) \<Rightarrow> Some spec | _ \<Rightarrow> None)"

definition quote_signer :: "('z seller_sdk_scheme) \<Rightarrow> string \<Rightarrow> int \<Rightarrow> string \<Rightarrow> int \<Rightarrow> string option" where
  "quote_signer S text chain_id contract now =
     (case recover_bound_quote_signer_compat S text chain_id contract now of Inr signer \<Rightarrow> signer | Inl e \<Rightarrow> None)"

definition verify_signed_job_snapshot :: "('z chain_read_scheme) \<Rightarrow> int \<Rightarrow> exn + snapshot_result" where
  "verify_signed_job_snapshot R job_id =
     sum_bind (active_client R) (\<lambda>(chain_id, contract).
       case get_chain_job R job_id of
         Inl text \<Rightarrow> Inr (Inl (''chain read failed: '' @ text, False))
       | Inr job \<Rightarrow>
           (if chain_status job \<noteq> ''FUNDED''
            then Inr (Inl (''job status '' @ chain_status job @ '', expected FUNDED'', False))
            else sum_bind (wallet_address R) (\<lambda>expected_signer.
              if py_lower (chain_provider job) \<noteq> py_lower expected_signer
              then Inr (Inl (''job is not assigned to this provider'', True))
              else if chain_expired_at job \<noteq> 0 \<and> chain_expired_at job \<le> expiry_clock R
              then Inr (Inl (''job has expired'', True))
              else case described_spec R (chain_description job) of
                None \<Rightarrow> Inr (Inl (''no signed quote anchored in job description'', True))
              | Some spec \<Rightarrow>
                  (if map_option py_lower (quote_signer R (chain_description job) chain_id contract (quote_clock R))
                      \<noteq> Some (py_lower expected_signer)
                   then Inr (Inl (''quote signature does not match this provider (or terms were tampered)'', True))
                   else case py_int (spec_price spec) of
                     Inl OverflowErr \<Rightarrow> Inl OverflowError
                   | Inl _ \<Rightarrow> Inr (Inl (''unparseable agreed price '' @ py_repr (spec_price spec), True))
                   | Inr price \<Rightarrow>
                       (if chain_budget job < price
                        then Inr (Inl (''funded budget '' @ dec_of_int (chain_budget job)
                          @ '' is below the agreed price '' @ py_str (spec_price spec), True))
                        else Inr (Inr \<lparr>snapshot_client = chain_client job, snapshot_chain_id = chain_id,
                          snapshot_contract = contract, snapshot_spec = spec\<rparr>))))))"

definition verify_signed_job :: "('z chain_read_scheme) \<Rightarrow> int \<Rightarrow> exn + (bool \<times> string \<times> bool)" where
  "verify_signed_job R job_id =
     sum_map (\<lambda>r. case r of Inr snapshot \<Rightarrow> (True, [], False) | Inl (why, permanent) \<Rightarrow> (False, why, permanent))
       (verify_signed_job_snapshot R job_id)"

definition job_spec_of :: "('z chain_read_scheme) \<Rightarrow> int \<Rightarrow> exn + job_spec option" where
  "job_spec_of R job_id =
     sum_bind (active_client R) (\<lambda>_.
       case get_chain_job R job_id of Inl text \<Rightarrow> Inl OtherException | Inr job \<Rightarrow> parse_description R (chain_description job))"

definition job_authorization_target :: "('z chain_read_scheme) \<Rightarrow> int \<Rightarrow> exn + (string \<times> int \<times> string)" where
  "job_authorization_target R job_id =
     sum_bind (active_client R) (\<lambda>(chain_id, contract).
       case get_chain_job R job_id of
         Inl text \<Rightarrow> Inl OtherException | Inr job \<Rightarrow> Inr (chain_client job, chain_id, contract))"

section \<open>Prices and quotes\<close>

text \<open>
  \<open>load_studio_toml\<close> gives a dictionary, nothing when the file is missing, or another exception. A
  section that is not a table makes the first \<open>get\<close> on it raise.
\<close>

type_synonym studio_toml = "exn + dict option"

definition section_of :: "json \<Rightarrow> exn + dict" where
  "section_of v = (case v of JDict d \<Rightarrow> Inr d | _ \<Rightarrow> Inl OtherException)"

definition erc8183_cfg :: "studio_toml \<Rightarrow> exn + dict" where
  "erc8183_cfg toml =
     sum_bind toml (\<lambda>loaded.
     sum_bind (section_of (dict_get_or (case loaded of None \<Rightarrow> [] | Some d \<Rightarrow> d) ''payments'' (JDict []))) (\<lambda>payments.
       section_of (py_or (dict_get_or payments ''erc8183'' (JDict [])) (JDict []))))"

definition int_or_raise :: "json \<Rightarrow> exn + int" where
  "int_or_raise v = (case py_int v of Inr i \<Rightarrow> Inr i | Inl e \<Rightarrow> Inl (conversion_exn e))"

definition raw_price :: "dict \<Rightarrow> string \<Rightarrow> int \<Rightarrow> exn + int" where
  "raw_price cfg k fallback =
     (let s = py_strip (py_str (dict_get_or cfg k (JStr [])))
      in if s = [] then Inr fallback else int_or_raise (JStr s))"

definition price_bounds :: "studio_toml \<Rightarrow> exn + (int \<times> int)" where
  "price_bounds toml =
     sum_bind (erc8183_cfg toml) (\<lambda>cfg.
     sum_bind (raw_price cfg ''min_price'' 0) (\<lambda>lo.
     sum_bind (raw_price cfg ''max_price'' (2 ^ 256 - 1)) (\<lambda>hi. Inr (lo, hi))))"

definition list_price :: "studio_toml \<Rightarrow> exn + int" where
  "list_price toml = sum_bind (erc8183_cfg toml) (\<lambda>cfg. raw_price cfg ''price'' 0)"

definition clamp_price :: "studio_toml \<Rightarrow> int \<Rightarrow> exn + int" where
  "clamp_price toml proposed = sum_map (\<lambda>(lo, hi). max lo (min proposed hi)) (price_bounds toml)"

text \<open>
  \<open>NegotiationHandler\<close> with the arguments of its constructor; \<open>negotiate_sdk\<close> is its method. The
  handler is built once per process.
\<close>

record negotiation_handler =
  handler_price :: string
  handler_currency :: json
  handler_completion_seconds :: int
  handler_ttl_seconds :: int
  handler_chain_id :: int
  handler_contract :: string

record negotiation_result =
  result_accepted :: bool
  result_hash :: string
  result_signature :: string
  result_dict :: json

record quote_services =
  studio_config :: studio_toml
  quote_client :: "exn + int \<times> string"
  quote_wallet :: "exn + string"
  negotiate_sdk :: "negotiation_handler \<Rightarrow> json \<Rightarrow> string \<Rightarrow> int \<Rightarrow> exn + negotiation_result"

definition completion_seconds :: "dict \<Rightarrow> exn + int" where
  "completion_seconds cfg = int_or_raise (dict_get_or cfg ''default_estimated_completion_seconds'' (JInt 600))"

definition get_handler ::
  "quote_services \<Rightarrow> negotiation_handler option \<Rightarrow> exn + negotiation_handler" where
  "get_handler Q cached =
     (case cached of
        Some h \<Rightarrow> Inr h
      | None \<Rightarrow>
          sum_bind (erc8183_cfg (studio_config Q)) (\<lambda>cfg.
          sum_bind (int_or_raise (dict_get_or cfg ''quote_ttl_seconds'' (JInt 900))) (\<lambda>ttl.
          sum_bind (completion_seconds cfg) (\<lambda>est.
          sum_bind (quote_client Q) (\<lambda>(chain_id, contract).
          sum_bind (quote_wallet Q) (\<lambda>wallet.
            Inr \<lparr>handler_price = ''0'', handler_currency = dict_get_or cfg ''currency'' (JStr []),
              handler_completion_seconds = est, handler_ttl_seconds = ttl,
              handler_chain_id = chain_id, handler_contract = contract\<rparr>))))))"

text \<open>The result and the handler that is cached from then on.\<close>

definition sign_quote ::
  "quote_services \<Rightarrow> negotiation_handler option \<Rightarrow> json \<Rightarrow> int \<Rightarrow> (exn + json) \<times> negotiation_handler option" where
  "sign_quote Q cached request price =
     (case sum_bind (erc8183_cfg (studio_config Q)) completion_seconds of
        Inl e \<Rightarrow> (Inl e, cached)
      | Inr est \<Rightarrow>
          (case get_handler Q cached of
             Inl e \<Rightarrow> (Inl e, cached)
           | Inr h \<Rightarrow>
               (sum_bind (negotiate_sdk Q h request (dec_of_int price) est) (\<lambda>result.
                  if result_accepted result \<and> (result_hash result = [] \<or> result_signature result = [])
                  then Inl OtherException else Inr (result_dict result)), Some h)))"

text \<open>\<open>SellerCore.negotiate\<close>: the request is the named one or the known keys of the data.\<close>

definition quote_request :: "dict \<Rightarrow> json" where
  "quote_request data =
     (case dict_get data ''request'' of
        JDict d \<Rightarrow> JDict d
      | _ \<Rightarrow> JDict (map (\<lambda>k. (k, dict_get data k)) (filter (dict_has data) [''task_description'', ''terms''])))"

definition negotiate ::
  "quote_services \<Rightarrow> negotiation_handler option \<Rightarrow> dict \<Rightarrow> (exn + json) \<times> negotiation_handler option" where
  "negotiate Q cached data =
     (case sum_bind (list_price (studio_config Q)) (clamp_price (studio_config Q)) of
        Inl e \<Rightarrow> (Inl e, cached)
      | Inr price \<Rightarrow> sign_quote Q cached (quote_request data) price)"

section \<open>Submission\<close>

text \<open>
  The storage the SDK builds for a submission: the one of the configuration, or the gateway of the
  buyer. The factory is a global of the SDK, held under \<open>submit_lock\<close>; \<open>workflow\<close> is \<open>submit_workflow\<close>
  on the storage the factory gives it.
\<close>

datatype storage = ConfiguredStorage | GatewayStorage string string

definition submit_result ::
  "(storage \<Rightarrow> int \<Rightarrow> string \<Rightarrow> json \<Rightarrow> 'r) \<Rightarrow> int \<Rightarrow> string \<Rightarrow> json \<Rightarrow> string option \<Rightarrow> string option
    \<Rightarrow> storage \<Rightarrow> 'r \<times> storage" where
  "submit_result workflow job_id content metadata url token factory =
     (case (url, token) of
        (Some u, Some t) \<Rightarrow>
          (if u \<noteq> [] \<and> t \<noteq> []
           then (workflow (GatewayStorage u t) job_id content metadata, factory)
           else (workflow factory job_id content metadata, factory))
      | _ \<Rightarrow> (workflow factory job_id content metadata, factory))"

definition settle_job :: "(int \<Rightarrow> string \<Rightarrow> 'r) \<Rightarrow> int \<Rightarrow> 'r" where
  "settle_job workflow job_id = workflow job_id ''approve''"

section \<open>What a verified job guarantees\<close>

text \<open>
  The quote in \<open>text\<close> names this chain and contract, and \<open>signer\<close> signed it: by the rules of the SDK, or
  as a legacy quote whose hash is the hash of its own content and which has not expired.
\<close>

definition quote_signed_by :: "('z seller_sdk_scheme) \<Rightarrow> string \<Rightarrow> int \<Rightarrow> string \<Rightarrow> int \<Rightarrow> string \<Rightarrow> bool" where
  "quote_signed_by S text chain_id contract now signer \<longleftrightarrow>
     (\<exists>parsed named checked.
        json_parse (default_hooks (sdk_float S)) text = Some (JDict parsed)
        \<and> dict_get parsed ''chain_id'' = JInt chain_id
        \<and> dict_get parsed ''verifying_contract'' = JStr named
        \<and> to_checksum S named = Inr checked \<and> to_checksum S contract = Inr checked
        \<and> (recover_quote S text = Inr (Some signer)
           \<or> (\<exists>terms h h' sig expires.
                dict_get parsed ''terms'' = JDict terms
                \<and> dict_get terms ''success_criteria'' = JStr CONTEXT_REQUIRED_CRITERION
                \<and> dict_get parsed ''negotiation_hash'' = JStr h \<and> dict_get parsed ''provider_sig'' = JStr sig
                \<and> h' = content_hash S (legacy_content parsed terms) \<and> py_lower h' = py_lower h
                \<and> recover_text S h sig = Inr signer
                \<and> dict_get parsed ''quote_expires_at'' = JInt expires \<and> now < expires)))"

lemma catches_Inr: "catches es d r = Inr a \<Longrightarrow> r = Inr a \<or> a = d"
  by (auto simp: catches_def split: sum.splits if_splits)

lemma bound_quote_names:
  assumes "bound_quote S text chain_id contract = Inr (Some parsed)"
  obtains named checked where "json_parse (default_hooks (sdk_float S)) text = Some (JDict parsed)"
    "dict_get parsed ''chain_id'' = JInt chain_id" "dict_get parsed ''verifying_contract'' = JStr named"
    "to_checksum S named = Inr checked" "to_checksum S contract = Inr checked"
  using assms
  by (auto simp: bound_quote_def catches_def sum_bind_def split: option.splits json.splits sum.splits if_splits)

lemma legacy_quote_hashed:
  assumes "legacy_quote S text = Some (h, sig)"
  obtains parsed terms where "json_parse (default_hooks (sdk_float S)) text = Some (JDict parsed)"
    "dict_get parsed ''terms'' = JDict terms"
    "dict_get terms ''success_criteria'' = JStr CONTEXT_REQUIRED_CRITERION"
    "dict_get parsed ''negotiation_hash'' = JStr h" "dict_get parsed ''provider_sig'' = JStr sig"
    "py_lower (content_hash S (legacy_content parsed terms)) = py_lower h"
  using assms by (auto simp: legacy_quote_def split: option.splits json.splits if_splits)

lemma signer_with_mode:
  assumes "recover_quote_signer_compat_with_mode S text = Inr (Some signer, legacy)"
  shows "(\<not> legacy \<and> recover_quote S text = Inr (Some signer)) \<or>
    (legacy \<and> (\<exists>h sig. legacy_quote S text = Some (h, sig) \<and> recover_text S h sig = Inr signer))"
  using assms
  by (auto simp: recover_quote_signer_compat_with_mode_def sum_bind_def sum_map_def catches_def
      split: sum.splits option.splits if_splits)

lemma bound_signer_signed:
  assumes "recover_bound_quote_signer_compat S text chain_id contract now = Inr (Some signer)"
  shows "quote_signed_by S text chain_id contract now signer"
proof -
  from assms obtain parsed legacy where bound: "bound_quote S text chain_id contract = Inr (Some parsed)"
    and mode: "recover_quote_signer_compat_with_mode S text = Inr (Some signer, legacy)"
    and fresh: "legacy \<Longrightarrow> \<exists>expires. dict_get parsed ''quote_expires_at'' = JInt expires \<and> now < expires"
    by (auto simp: recover_bound_quote_signer_compat_def sum_bind_def
        split: sum.splits option.splits if_splits json.splits)
  from bound obtain named checked where names: "json_parse (default_hooks (sdk_float S)) text = Some (JDict parsed)"
    "dict_get parsed ''chain_id'' = JInt chain_id" "dict_get parsed ''verifying_contract'' = JStr named"
    "to_checksum S named = Inr checked" "to_checksum S contract = Inr checked" by (rule bound_quote_names)
  from signer_with_mode[OF mode] show ?thesis
  proof
    assume "\<not> legacy \<and> recover_quote S text = Inr (Some signer)"
    with names show ?thesis unfolding quote_signed_by_def by blast
  next
    assume "legacy \<and> (\<exists>h sig. legacy_quote S text = Some (h, sig) \<and> recover_text S h sig = Inr signer)"
    then obtain h sig where legacy: legacy "legacy_quote S text = Some (h, sig)" "recover_text S h sig = Inr signer"
      by blast
    from legacy(2) obtain terms where "dict_get parsed ''terms'' = JDict terms"
      "dict_get terms ''success_criteria'' = JStr CONTEXT_REQUIRED_CRITERION"
      "dict_get parsed ''negotiation_hash'' = JStr h" "dict_get parsed ''provider_sig'' = JStr sig"
      "py_lower (content_hash S (legacy_content parsed terms)) = py_lower h"
      using names(1) by (auto elim: legacy_quote_hashed)
    with names fresh[OF legacy(1)] legacy(3) show ?thesis unfolding quote_signed_by_def by blast
  qed
qed

definition job_verified :: "('z chain_read_scheme) \<Rightarrow> int \<Rightarrow> verified_job_snapshot \<Rightarrow> bool" where
  "job_verified R job_id snapshot \<longleftrightarrow>
     (\<exists>job wallet signer price. get_chain_job R job_id = Inr job \<and> wallet_address R = Inr wallet
        \<and> chain_status job = ''FUNDED'' \<and> py_lower (chain_provider job) = py_lower wallet
        \<and> (chain_expired_at job = 0 \<or> expiry_clock R < chain_expired_at job)
        \<and> active_client R = Inr (snapshot_chain_id snapshot, snapshot_contract snapshot)
        \<and> quote_signed_by R (chain_description job) (snapshot_chain_id snapshot) (snapshot_contract snapshot)
            (quote_clock R) signer
        \<and> py_lower signer = py_lower wallet
        \<and> parse_description R (chain_description job) = Inr (Some (snapshot_spec snapshot))
        \<and> py_int (spec_price (snapshot_spec snapshot)) = Inr price \<and> price \<le> chain_budget job
        \<and> snapshot_client snapshot = chain_client job)"

lemma snapshot_verified:
  assumes "verify_signed_job_snapshot R job_id = Inr (Inr snapshot)"
  shows "job_verified R job_id snapshot"
proof -
  from assms obtain chain_id contract job wallet spec price where
    parts: "active_client R = Inr (chain_id, contract)" "get_chain_job R job_id = Inr job"
      "chain_status job = ''FUNDED''" "wallet_address R = Inr wallet" "py_lower (chain_provider job) = py_lower wallet"
      "chain_expired_at job = 0 \<or> expiry_clock R < chain_expired_at job" "described_spec R (chain_description job) = Some spec"
      "map_option py_lower (quote_signer R (chain_description job) chain_id contract (quote_clock R)) = Some (py_lower wallet)"
      "py_int (spec_price spec) = Inr price" "price \<le> chain_budget job"
      "snapshot = \<lparr>snapshot_client = chain_client job, snapshot_chain_id = chain_id,
         snapshot_contract = contract, snapshot_spec = spec\<rparr>"
    unfolding verify_signed_job_snapshot_def
    by (auto simp: sum_bind_def not_le split: sum.splits if_splits option.splits conversion_error.splits)
  from parts(8) obtain signer where "recover_bound_quote_signer_compat R (chain_description job) chain_id contract
      (quote_clock R) = Inr (Some signer)" "py_lower signer = py_lower wallet"
    by (auto simp: quote_signer_def split: sum.splits)
  with bound_signer_signed[OF this(1)] parts show ?thesis
    by (auto simp: job_verified_def described_spec_def split: sum.splits option.splits)
qed

section \<open>Prices of quotes\<close>

lemma clamp_within:
  "clamp_price toml p = Inr q \<Longrightarrow> price_bounds toml = Inr (lo, hi) \<Longrightarrow> lo \<le> hi \<Longrightarrow> lo \<le> q \<and> q \<le> hi"
  by (auto simp: clamp_price_def)

text \<open>A relayed quote is the SDK's answer at the clamped list price, and signed when it is accepted.\<close>

lemma negotiated_quote:
  assumes "negotiate Q cached data = (Inr quote, cached')"
  obtains h price est result where "cached' = Some h"
    "sum_bind (list_price (studio_config Q)) (clamp_price (studio_config Q)) = Inr price"
    "negotiate_sdk Q h (quote_request data) (dec_of_int price) est = Inr result" "quote = result_dict result"
    "result_accepted result \<longrightarrow> result_hash result \<noteq> [] \<and> result_signature result \<noteq> []"
    "cached = None \<or> cached = Some h"
  using assms unfolding negotiate_def sign_quote_def
  by (auto simp: get_handler_def sum_bind_def[of "negotiate_sdk _ _ _ _ _"] split: sum.splits if_splits option.splits)

end
