(* ===== verification/Seller_Core.thy ===== *)
theory Seller_Core
  imports Notify_Security Signing "HOL-Library.Multiset"
begin

text \<open>
  The on-chain seller (\<open>seller_core.py\<close>): the notification \<open>notify_funded\<close> and the background delivery
  of funded jobs. Every stretch of code between two awaits is one function on the state of the core;
  the coroutines are phases that name the await a coroutine is suspended at, and \<open>Seller_Steps\<close> puts
  them together. Chain, resolver, model and clock answer arbitrarily.
\<close>

section \<open>Settings\<close>

definition env_seconds ::
  "(string \<Rightarrow> pyfloat option) \<Rightarrow> (string \<Rightarrow> string option) \<Rightarrow> string \<Rightarrow> int \<Rightarrow> pyfloat" where
  "env_seconds flt env name fallback =
     (let d = Finite fallback 1 (dec_of_int fallback @ ''.0'');
          raw = (case env name of None \<Rightarrow> [] | Some r \<Rightarrow> r)
      in case (if raw = [] then Some d else flt raw) of
        None \<Rightarrow> d | Some v \<Rightarrow> if positive_float v then v else d)"

definition MAX_NOTIFY_VALIDATION_WORKERS :: nat where "MAX_NOTIFY_VALIDATION_WORKERS = 4"
definition MAX_CHAIN_READ_WORKERS :: nat where "MAX_CHAIN_READ_WORKERS = 4"
definition MAX_TRACKED_JOBS :: nat where "MAX_TRACKED_JOBS = 1024"
definition MAX_JOB_ID :: int where "MAX_JOB_ID = 2 ^ 256 - 1"
definition SWEEP_CONTEXT_GRACE_SECONDS :: int where "SWEEP_CONTEXT_GRACE_SECONDS = 60"

definition requires_notify_context :: "job_spec \<Rightarrow> bool" where
  "requires_notify_context spec =
     (case spec_terms spec of
        JDict terms \<Rightarrow> dict_get terms ''success_criteria'' = JStr CONTEXT_REQUIRED_CRITERION
      | _ \<Rightarrow> False)"

section \<open>Job ids\<close>

text \<open>\<open>int(text, 16)\<close> of a text with the prefix: hexadecimal digits, single underscores between them and after the prefix.\<close>

fun hex_groups :: "bool \<Rightarrow> string \<Rightarrow> string option" where
  "hex_groups prev [] = (if prev then Some [] else None)"
| "hex_groups prev (c # cs) =
     (if is_hex c then map_option ((#) c) (hex_groups True cs)
      else if c = CHR ''_'' \<and> prev then hex_groups False cs
      else None)"

definition prefixed_hex :: "string \<Rightarrow> int option" where
  "prefixed_hex s =
     (let body = drop 2 s
      in map_option (\<lambda>ds. int (nat_of_hex ds))
           (hex_groups False (if starts_with ''_'' body then tl body else body)))"

text \<open>\<open>None\<close> is the \<open>TypeError\<close> or \<open>ValueError\<close> that the caller catches.\<close>

definition parse_job_id :: "json \<Rightarrow> int option" where
  "parse_job_id raw =
     (case (case raw of
        JInt i \<Rightarrow> Some i
      | JStr t \<Rightarrow> (let s = py_strip t in if starts_with ''0x'' (py_lower s) then prefixed_hex s else py_int_of_str s)
      | _ \<Rightarrow> None) of
        None \<Rightarrow> None
      | Some job_id \<Rightarrow> if 0 \<le> job_id \<and> job_id \<le> MAX_JOB_ID then Some job_id else None)"

section \<open>Checks of a notification\<close>

definition verify_and_validate_notify_context ::
  "notify_eth \<Rightarrow> gateway_net \<Rightarrow> json \<Rightarrow> int \<Rightarrow> verified_job_snapshot \<Rightarrow> int \<Rightarrow> notify_error + job_context" where
  "verify_and_validate_notify_context L N authorization job_id snapshot now =
     sum_bind (verify_notify_authorization L authorization (JInt job_id) (snapshot_client snapshot)
         (JInt (snapshot_chain_id snapshot)) (snapshot_contract snapshot) now) (\<lambda>ctx.
       case gateway_url ctx of
         None \<Rightarrow> Inr ctx
       | Some url \<Rightarrow> sum_map (\<lambda>checked. ctx\<lparr>gateway_url := Some checked\<rparr>) (notify_code (validate_gateway_url N None url)))"

text \<open>The replies, with the texts of their notes left out; \<open>RetryJob\<close> is \<open>verification_unavailable\<close>, retryable.\<close>

datatype notify_reply =
    AcceptedScan
  | AcceptedJob int
  | InvalidJobId json
  | RejectedJob int string
  | RetryJob int

definition LEGACY_CONTEXT_KEYS :: "string list" where
  "LEGACY_CONTEXT_KEYS = [''delivery_gateway_url'', ''delivery_gateway_token'', ''portfolio'', ''risk_profile'']"

text \<open>The checks before the chain is read: a reply, or the job with its authorization.\<close>

definition notify_entry :: "dict \<Rightarrow> int \<Rightarrow> notify_reply + int \<times> json" where
  "notify_entry data now =
     (let raw = dict_get data ''job_id''
      in if raw = JNull \<or> py_str raw = [] then Inl AcceptedScan
         else case parse_job_id raw of
           None \<Rightarrow> Inl (InvalidJobId raw)
         | Some job_id \<Rightarrow>
             (if list_ex (dict_has data) LEGACY_CONTEXT_KEYS
              then Inl (RejectedJob job_id
                (if dict_has data ''authorization'' then ''invalid_authorization'' else ''authorization_required''))
              else if \<not> is_dict (dict_get data ''authorization'')
              then Inl (RejectedJob job_id ''authorization_required'')
              else case preflight_notify_authorization (dict_get data ''authorization'') now of
                Inl code \<Rightarrow> Inl (RejectedJob job_id code)
              | Inr _ \<Rightarrow> Inr (job_id, dict_get data ''authorization'')))"

definition snapshot_reply :: "int \<Rightarrow> exn + snapshot_result \<Rightarrow> notify_reply + verified_job_snapshot" where
  "snapshot_reply job_id r =
     (case r of
        Inr (Inr snapshot) \<Rightarrow> Inr snapshot
      | Inr (Inl (why, permanent)) \<Rightarrow> Inl (if permanent then RejectedJob job_id why else RetryJob job_id)
      | Inl e \<Rightarrow> Inl (RetryJob job_id))"

definition context_reply :: "int \<Rightarrow> notify_error + job_context \<Rightarrow> notify_reply + job_context" where
  "context_reply job_id r =
     (case r of
        Inr ctx \<Rightarrow> Inr ctx
      | Inl (NotifySecurityError code) \<Rightarrow>
          Inl (RejectedJob job_id (if code = ''invalid_gateway_url'' then ''unsafe_gateway'' else code))
      | Inl (NotifyRaised e) \<Rightarrow> Inl (RetryJob job_id))"

section \<open>The state of the core\<close>

text \<open>
  The fields of \<open>SellerCore\<close> except the tasks, which are the phases below. An event is whether it is
  set; a deadline is a time of the loop's clock.
\<close>

record seller_state =
  inflight :: "int set"
  inflight_verified :: "int \<rightharpoonup> bool"
  pending_verified_handoffs :: "int set"
  late_submit_successes :: "int set"
  handled_jobs :: "int set"
  contextless_started :: "int set"
  sweep_active :: bool
  job_contexts :: "int \<rightharpoonup> job_context"
  job_specs :: "int \<rightharpoonup> job_spec"
  context_deadlines :: "int \<rightharpoonup> int"
  context_events :: "int \<rightharpoonup> bool"
  notify_validation_slots :: nat
  chain_read_slots :: nat

definition seller_init :: seller_state where
  "seller_init = \<lparr>inflight = {}, inflight_verified = Map.empty, pending_verified_handoffs = {},
     late_submit_successes = {}, handled_jobs = {}, contextless_started = {}, sweep_active = False,
     job_contexts = Map.empty, job_specs = Map.empty, context_deadlines = Map.empty, context_events = Map.empty,
     notify_validation_slots = MAX_NOTIFY_VALIDATION_WORKERS, chain_read_slots = MAX_CHAIN_READ_WORKERS\<rparr>"

definition tracked_jobs :: "seller_state \<Rightarrow> int set" where
  "tracked_jobs s = dom (job_contexts s) \<union> dom (job_specs s) \<union> dom (context_deadlines s) \<union> dom (context_events s)"

text \<open>
  \<open>tracked\<close> is the iteration order of the set of tracked jobs, which the language leaves open. Jobs
  without a deadline sort last; the sort is stable.
\<close>

definition evictable_jobs :: "int list \<Rightarrow> int option \<Rightarrow> seller_state \<Rightarrow> int list" where
  "evictable_jobs tracked protect s =
     (let protected = inflight s \<union> pending_verified_handoffs s \<union> set_option protect;
          free = filter (\<lambda>job. job \<notin> protected) tracked
      in sort_key (\<lambda>job. the (context_deadlines s job)) (filter (\<lambda>job. context_deadlines s job \<noteq> None) free)
         @ filter (\<lambda>job. context_deadlines s job = None) free)"

definition forget_jobs :: "int set \<Rightarrow> seller_state \<Rightarrow> seller_state" where
  "forget_jobs J s = s\<lparr>job_contexts := (\<lambda>j. if j \<in> J then None else job_contexts s j),
     job_specs := (\<lambda>j. if j \<in> J then None else job_specs s j),
     context_deadlines := (\<lambda>j. if j \<in> J then None else context_deadlines s j),
     context_events := (\<lambda>j. if j \<in> J then None else context_events s j)\<rparr>"

definition prune_tracked_state :: "int list \<Rightarrow> int option \<Rightarrow> seller_state \<Rightarrow> seller_state" where
  "prune_tracked_state tracked protect s =
     (let overflow = length tracked - MAX_TRACKED_JOBS
      in if overflow = 0 then s
         else forget_jobs (set (take overflow (evictable_jobs tracked protect s))) s)"

section \<open>Background work\<close>

text \<open>Results of a delivery: \<open>ok\<close>, \<open>skip\<close>, neither, an exception, or the timeout of the whole delivery.\<close>

datatype delivery_result =
    Delivered string string
  | Skipped string
  | Transient string
  | DeliveryRaised
  | DeliveryTimedOut

fun terminal_result :: "delivery_result \<Rightarrow> bool" where
  "terminal_result (Delivered tx url) = True"
| "terminal_result (Skipped why) = True"
| "terminal_result _ = False"

text \<open>
  The await a delivery is suspended at. \<open>Scheduled\<close> has not run yet; \<open>EnteringWork\<close> and \<open>EnteringSweep\<close> are
  the start of the delivery inside \<open>wait_for\<close>, which is a task of its own before Python 3.12, as
  \<open>Ended\<close> is its end. The context is the one the worker read.
\<close>

datatype job_phase =
    Scheduled
  | EnteringWork "job_spec option"
  | EnteringSweep
  | Verifying
  | ReportingFunded verified_job_snapshot
  | AwaitingContext job_spec
  | ReadingSpec "job_context option"
  | Working "job_context option" "job_spec option"
  | Submitting "job_context option" "job_spec option" string
  | SubmitAbandoned "job_context option" "job_spec option"
  | Ended delivery_result

type_synonym worker = "int \<times> bool \<times> job_phase"

definition spawn_sweep :: "seller_state \<Rightarrow> seller_state \<times> bool" where
  "spawn_sweep s = (if sweep_active s then (s, False) else (s\<lparr>sweep_active := True\<rparr>, True))"

definition spawn_job :: "int \<Rightarrow> bool \<Rightarrow> seller_state \<Rightarrow> seller_state \<times> worker list" where
  "spawn_job j verified s =
     (if j \<in> handled_jobs s \<or> j \<in> late_submit_successes s then (s, [])
      else if j \<in> inflight s then
        ((if verified \<and> inflight_verified s j = Some False
          then s\<lparr>pending_verified_handoffs := insert j (pending_verified_handoffs s)\<rparr> else s), [])
      else (s\<lparr>inflight := insert j (inflight s), inflight_verified := (inflight_verified s)(j \<mapsto> verified)\<rparr>,
        [(j, verified, Scheduled)]))"

fun spawn_jobs :: "int list \<Rightarrow> seller_state \<Rightarrow> seller_state \<times> worker list" where
  "spawn_jobs [] s = (s, [])"
| "spawn_jobs (j # js) s =
     (case spawn_job j False s of (s1, ws) \<Rightarrow> case spawn_jobs js s1 of (s2, ws') \<Rightarrow> (s2, ws @ ws'))"

text \<open>
  The ids of a scan: entries without an id and ids that are no integers are left out, and an infinite
  number ends the loop with an exception that nothing catches, as does an answer without a list.
\<close>

fun sweep_ids :: "json list \<Rightarrow> int list" where
  "sweep_ids [] = []"
| "sweep_ids (job # jobs) =
     (case job of
        JDict d \<Rightarrow>
          (if dict_get d ''jobId'' = JNull then sweep_ids jobs
           else case py_int (dict_get d ''jobId'') of
             Inr j \<Rightarrow> j # sweep_ids jobs
           | Inl OverflowErr \<Rightarrow> []
           | Inl _ \<Rightarrow> sweep_ids jobs)
      | _ \<Rightarrow> sweep_ids jobs)"

definition pending_ids :: "json \<Rightarrow> int list" where
  "pending_ids pending =
     (case py_or pending (JDict []) of
        JDict d \<Rightarrow> (case dict_get_or d ''jobs'' (JList []) of JList jobs \<Rightarrow> sweep_ids jobs | _ \<Rightarrow> [])
      | _ \<Rightarrow> [])"

text \<open>\<open>None\<close> is a scan that failed or ran out of time.\<close>

definition finish_sweep :: "json option \<Rightarrow> seller_state \<Rightarrow> seller_state \<times> worker list" where
  "finish_sweep found s =
     (case spawn_jobs (case found of None \<Rightarrow> [] | Some pending \<Rightarrow> pending_ids pending) s of
        (s', ws) \<Rightarrow> (s'\<lparr>sweep_active := False\<rparr>, ws))"

definition run_job_start :: "int \<Rightarrow> bool \<Rightarrow> seller_state \<Rightarrow> seller_state \<times> job_phase" where
  "run_job_start j verified s =
     (s\<lparr>inflight_verified := (case inflight_verified s j of
          None \<Rightarrow> (inflight_verified s)(j \<mapsto> verified) | Some v \<Rightarrow> inflight_verified s)\<rparr>,
      if verified then EnteringWork (job_specs s j) else EnteringSweep)"

text \<open>The \<open>finally\<close> block of \<open>_run_job\<close>.\<close>

definition run_job_end :: "int \<Rightarrow> bool \<Rightarrow> bool \<Rightarrow> seller_state \<Rightarrow> seller_state \<times> worker list" where
  "run_job_end j verified terminal s =
     (let late = (j \<in> late_submit_successes s)
      in if terminal \<or> late
         then (s\<lparr>handled_jobs := insert j (handled_jobs s), late_submit_successes := late_submit_successes s - {j},
             pending_verified_handoffs := pending_verified_handoffs s - {j},
             job_contexts := (job_contexts s)(j := None), job_specs := (job_specs s)(j := None),
             context_deadlines := (context_deadlines s)(j := None), context_events := (context_events s)(j := None),
             contextless_started := contextless_started s - {j},
             inflight_verified := (inflight_verified s)(j := None), inflight := inflight s - {j}\<rparr>, [])
         else let handoff_verified = (\<not> verified \<and> \<not> late \<and> j \<in> pending_verified_handoffs s \<and> job_contexts s j \<noteq> None);
                  s1 = s\<lparr>inflight := inflight s - {j}, inflight_verified := (inflight_verified s)(j := None),
                    contextless_started := contextless_started s - {j},
                    pending_verified_handoffs := pending_verified_handoffs s - {j}\<rparr>
              in if handoff_verified then spawn_job j True s1 else (s1, []))"

text \<open>The end of the wait for a context: whether the delivery goes on.\<close>

definition await_context_end :: "int \<Rightarrow> bool \<Rightarrow> seller_state \<Rightarrow> seller_state \<times> bool" where
  "await_context_end j required s =
     (if job_contexts s j \<noteq> None then (s, True)
      else if required then (s, False)
      else (s\<lparr>contextless_started := insert j (contextless_started s)\<rparr>, True))"

text \<open>\<open>None\<close> is that the worker waits for the event of the job. The clock is read twice.\<close>

definition await_sweep_context ::
  "int list \<Rightarrow> int \<Rightarrow> int \<Rightarrow> int \<Rightarrow> bool \<Rightarrow> seller_state \<Rightarrow> seller_state \<times> bool option" where
  "await_sweep_context tracked now1 now2 j required s =
     (let s1 = prune_tracked_state tracked (Some j) s
      in if job_contexts s1 j \<noteq> None then (s1, Some True)
         else let deadline = (case context_deadlines s1 j of None \<Rightarrow> now1 + SWEEP_CONTEXT_GRACE_SECONDS | Some d \<Rightarrow> d);
                  event = (case context_events s1 j of None \<Rightarrow> False | Some b \<Rightarrow> b);
                  s2 = s1\<lparr>context_deadlines := (context_deadlines s1)(j \<mapsto> deadline),
                    context_events := (context_events s1)(j \<mapsto> event)\<rparr>
              in if max 0 (deadline - now2) > 0 \<and> \<not> event then (s2, None)
                 else case await_context_end j required s2 of (s3, ready) \<Rightarrow> (s3, Some ready))"

text \<open>The start of \<open>_do_work_and_submit\<close>: the context it reads, and its next await.\<close>

definition do_work_start :: "int \<Rightarrow> job_spec option \<Rightarrow> seller_state \<Rightarrow> seller_state \<times> job_phase" where
  "do_work_start j spec s =
     (let ctx = job_contexts s j
      in (if ctx = None then s\<lparr>contextless_started := insert j (contextless_started s)\<rparr> else s,
          case spec of None \<Rightarrow> ReadingSpec ctx | Some sp \<Rightarrow> Working ctx (Some sp)))"

text \<open>What the prompt is built from, and what is handed to the model and to the submission.\<close>

definition spaced_json :: "json \<Rightarrow> string" where
  "spaced_json v = json_dumps \<lparr>ensure_ascii = False, item_separator = '', '', key_separator = '': '', sort_keys = False\<rparr> v"

definition work_task :: "int \<Rightarrow> job_spec option \<Rightarrow> string" where
  "work_task j spec = (case spec of
     Some sp \<Rightarrow> spaced_json (JDict [(''task'', spec_task sp), (''terms'', spec_terms sp)])
   | None \<Rightarrow> ''job '' @ dec_of_int j)"

definition work_portfolio :: "job_context option \<Rightarrow> json" where
  "work_portfolio ctx = (case ctx of None \<Rightarrow> JList [] | Some c \<Rightarrow> portfolio_for_prompt c)"

definition work_risk_profile :: "job_context option \<Rightarrow> json" where
  "work_risk_profile ctx = (case ctx of None \<Rightarrow> JNull | Some c \<Rightarrow> risk_profile_for_prompt c)"

definition submit_gateway :: "job_context option \<Rightarrow> string option \<times> string option" where
  "submit_gateway ctx = (case ctx of None \<Rightarrow> (None, None) | Some c \<Rightarrow> (gateway_url c, gateway_token c))"

definition submit_metadata :: "int \<Rightarrow> string \<Rightarrow> json" where
  "submit_metadata j generator = JDict [(''job_id'', JInt j), (''generator'', JStr generator),
     (''built_with'', JStr ''https://github.com/bnb-chain/bnbagent-studio'')]"

text \<open>The outcome of the submission: landed, or one of the exceptions of the SDK; the others are \<open>SubmitRaised\<close>.\<close>

datatype submit_outcome =
    SubmitLanded string string
  | SubmitPermanentlyUnsupported string
  | SdkCallFailed bool "string option"
  | SubmitRaised

fun submission_result :: "submit_outcome \<Rightarrow> delivery_result" where
  "submission_result (SubmitLanded tx url) = Delivered tx url"
| "submission_result (SubmitPermanentlyUnsupported text) = Skipped text"
| "submission_result (SdkCallFailed retryable code) =
     (if retryable then DeliveryRaised
      else Skipped (case code of None \<Rightarrow> ''submission_failed'' | Some c \<Rightarrow> if c = [] then ''submission_failed'' else c))"
| "submission_result SubmitRaised = DeliveryRaised"

fun landed :: "submit_outcome \<Rightarrow> bool" where
  "landed (SubmitLanded tx url) = True"
| "landed _ = False"

section \<open>The commit of a notification\<close>

text \<open>The section of \<open>notify_funded\<close> after the validation: the reason of a rejection, or the installed context.\<close>

definition notify_commit ::
  "int list \<Rightarrow> int \<Rightarrow> verified_job_snapshot \<Rightarrow> job_context \<Rightarrow> seller_state \<Rightarrow> seller_state \<times> string option" where
  "notify_commit tracked j snapshot ctx s =
     (if j \<in> handled_jobs s \<or> j \<in> late_submit_successes s \<or> j \<in> contextless_started s
      then (s, Some ''delivery_already_started'')
      else let s1 = prune_tracked_state tracked (Some j) s
           in case job_contexts s1 j of
             Some existing \<Rightarrow>
               (if context_digest existing \<noteq> context_digest ctx then (s1, Some ''context_conflict'')
                else (s1\<lparr>job_specs := (job_specs s1)(j \<mapsto> snapshot_spec snapshot),
                  context_events := (if context_events s1 j = None then context_events s1
                    else (context_events s1)(j \<mapsto> True))\<rparr>, None))
           | None \<Rightarrow>
               (s1\<lparr>job_contexts := (job_contexts s1)(j \<mapsto> ctx), job_specs := (job_specs s1)(j \<mapsto> snapshot_spec snapshot),
                  context_events := (if context_events s1 j = None then context_events s1
                    else (context_events s1)(j \<mapsto> True))\<rparr>, None))"

end
