(* ===== verification/Seller_Steps.thy ===== *)
theory Seller_Steps
  imports Seller_Core
begin

text \<open>
  The seller as a concurrent system: notifications, background workers, scans and the threads that
  outlive their callers, interleaved at every await. One step runs one coroutine from an await to the
  next; what it awaited answers arbitrarily, and every wait may time out.
\<close>

section \<open>Configurations\<close>

text \<open>
  The await a notification is suspended at: a slot for the chain read, the read, a slot for the
  validation, the validation, the report of the call.
\<close>

datatype notify_phase =
    AwaitingReadSlot int json
  | ReadingChain int json
  | AwaitingCheckSlot int json verified_job_snapshot
  | CheckingContext int json verified_job_snapshot
  | ReportingCall int

text \<open>\<open>Landed\<close> is a submission that reached the chain, with the context and the description it was made from.\<close>

datatype seller_event =
    Replied notify_reply
  | SubmitStarted int bool "job_context option" "job_spec option" string
  | Landed int bool "job_context option" "job_spec option"

record seller =
  seller_core :: seller_state
  workers :: "worker multiset"
  sweeps :: nat
  notifications :: "notify_phase multiset"
  detached_reads :: nat
  detached_validations :: nat
  seller_log :: "seller_event list"

definition seller_start :: seller where
  "seller_start = \<lparr>seller_core = seller_init, workers = {#}, sweeps = 0, notifications = {#},
     detached_reads = 0, detached_validations = 0, seller_log = []\<rparr>"

definition seller_busy :: "seller \<Rightarrow> bool" where
  "seller_busy c \<longleftrightarrow> workers c \<noteq> {#} \<or> sweeps c > 0"

definition with_sweep :: "seller \<Rightarrow> seller" where
  "with_sweep c = (case spawn_sweep (seller_core c) of
     (s, started) \<Rightarrow> c\<lparr>seller_core := s, sweeps := sweeps c + (if started then 1 else 0)\<rparr>)"

definition with_reply :: "notify_reply \<Rightarrow> seller \<Rightarrow> seller" where
  "with_reply r c = c\<lparr>seller_log := seller_log c @ [Replied r]\<rparr>"

section \<open>Notifications\<close>

definition notify_arrives :: "dict \<Rightarrow> int \<Rightarrow> seller \<Rightarrow> seller" where
  "notify_arrives data now c =
     (case notify_entry data now of
        Inl AcceptedScan \<Rightarrow> with_reply AcceptedScan (with_sweep c)
      | Inl r \<Rightarrow> with_reply r c
      | Inr (j, authorization) \<Rightarrow> c\<lparr>notifications := add_mset (AwaitingReadSlot j authorization) (notifications c)\<rparr>)"

text \<open>The read ends: its slot is free again.\<close>

definition chain_read_ends :: "int \<Rightarrow> json \<Rightarrow> exn + snapshot_result \<Rightarrow> seller \<Rightarrow> seller" where
  "chain_read_ends j authorization r c =
     (let c1 = c\<lparr>seller_core := (seller_core c)\<lparr>chain_read_slots := chain_read_slots (seller_core c) + 1\<rparr>\<rparr>
      in case snapshot_reply j r of
        Inl reply \<Rightarrow> with_reply reply c1
      | Inr snapshot \<Rightarrow> c1\<lparr>notifications := add_mset (AwaitingCheckSlot j authorization snapshot) (notifications c1)\<rparr>)"

definition context_check_ends ::
  "int list \<Rightarrow> int \<Rightarrow> verified_job_snapshot \<Rightarrow> notify_error + job_context \<Rightarrow> seller \<Rightarrow> seller" where
  "context_check_ends tracked j snapshot r c =
     (let s = (seller_core c)\<lparr>notify_validation_slots := notify_validation_slots (seller_core c) + 1\<rparr>
      in case context_reply j r of
        Inl reply \<Rightarrow> with_reply reply (c\<lparr>seller_core := s\<rparr>)
      | Inr ctx \<Rightarrow>
          (case notify_commit tracked j snapshot ctx s of
             (s', Some why) \<Rightarrow> with_reply (RejectedJob j why) (c\<lparr>seller_core := s'\<rparr>)
           | (s', None) \<Rightarrow> c\<lparr>seller_core := s', notifications := add_mset (ReportingCall j) (notifications c)\<rparr>))"

definition notify_accepts :: "int \<Rightarrow> seller \<Rightarrow> seller" where
  "notify_accepts j c =
     (case spawn_job j True (seller_core c) of
        (s, ws) \<Rightarrow> with_reply (AcceptedJob j) (with_sweep (c\<lparr>seller_core := s, workers := workers c + mset ws\<rparr>)))"

text \<open>
  A timeout while waiting for a slot takes none; one while the thread runs leaves the thread behind,
  which frees its slot when it ends.
\<close>

inductive notify_step :: "seller \<Rightarrow> seller \<Rightarrow> bool" where
  read_slot:
    "notifications c = add_mset (AwaitingReadSlot j a) M \<Longrightarrow> chain_read_slots (seller_core c) > 0 \<Longrightarrow>
     notify_step c (c\<lparr>notifications := add_mset (ReadingChain j a) M,
       seller_core := (seller_core c)\<lparr>chain_read_slots := chain_read_slots (seller_core c) - 1\<rparr>\<rparr>)"
| read_slot_timeout:
    "notifications c = add_mset (AwaitingReadSlot j a) M \<Longrightarrow>
     notify_step c (with_reply (RetryJob j) (c\<lparr>notifications := M\<rparr>))"
| chain_read:
    "notifications c = add_mset (ReadingChain j a) M \<Longrightarrow>
     notify_step c (chain_read_ends j a (verify_signed_job_snapshot (R :: chain_read) j) (c\<lparr>notifications := M\<rparr>))"
| chain_read_timeout:
    "notifications c = add_mset (ReadingChain j a) M \<Longrightarrow>
     notify_step c (with_reply (RetryJob j) (c\<lparr>notifications := M, detached_reads := detached_reads c + 1\<rparr>))"
| check_slot:
    "notifications c = add_mset (AwaitingCheckSlot j a snapshot) M \<Longrightarrow> notify_validation_slots (seller_core c) > 0 \<Longrightarrow>
     notify_step c (c\<lparr>notifications := add_mset (CheckingContext j a snapshot) M,
       seller_core := (seller_core c)\<lparr>notify_validation_slots := notify_validation_slots (seller_core c) - 1\<rparr>\<rparr>)"
| check_slot_timeout:
    "notifications c = add_mset (AwaitingCheckSlot j a snapshot) M \<Longrightarrow>
     notify_step c (with_reply (RetryJob j) (c\<lparr>notifications := M\<rparr>))"
| context_check:
    "notifications c = add_mset (CheckingContext j a snapshot) M \<Longrightarrow>
     distinct tracked \<Longrightarrow> set tracked = tracked_jobs (seller_core c) \<Longrightarrow>
     notify_step c (context_check_ends tracked j snapshot
       (verify_and_validate_notify_context L N a j snapshot now) (c\<lparr>notifications := M\<rparr>))"
| context_check_timeout:
    "notifications c = add_mset (CheckingContext j a snapshot) M \<Longrightarrow>
     notify_step c (with_reply (RetryJob j) (c\<lparr>notifications := M, detached_validations := detached_validations c + 1\<rparr>))"
| reported:
    "notifications c = add_mset (ReportingCall j) M \<Longrightarrow> notify_step c (notify_accepts j (c\<lparr>notifications := M\<rparr>))"
| detached_read_ends:
    "detached_reads c > 0 \<Longrightarrow>
     notify_step c (c\<lparr>detached_reads := detached_reads c - 1,
       seller_core := (seller_core c)\<lparr>chain_read_slots := chain_read_slots (seller_core c) + 1\<rparr>\<rparr>)"
| detached_validation_ends:
    "detached_validations c > 0 \<Longrightarrow>
     notify_step c (c\<lparr>detached_validations := detached_validations c - 1,
       seller_core := (seller_core c)\<lparr>notify_validation_slots := notify_validation_slots (seller_core c) + 1\<rparr>\<rparr>)"

section \<open>Workers\<close>

text \<open>The awaits at which the timeout of the delivery cancels it at once.\<close>

fun cancellable :: "job_phase \<Rightarrow> bool" where
  "cancellable Scheduled = False"
| "cancellable (Submitting ctx spec work) = False"
| "cancellable (SubmitAbandoned ctx spec) = False"
| "cancellable (Ended r) = False"
| "cancellable _ = True"

definition verified_phase :: "exn + snapshot_result \<Rightarrow> job_phase" where
  "verified_phase r =
     (case r of
        Inl e \<Rightarrow> Ended DeliveryRaised
      | Inr (Inl (why, permanent)) \<Rightarrow> Ended (if permanent then Skipped why else Transient why)
      | Inr (Inr snapshot) \<Rightarrow> ReportingFunded snapshot)"

text \<open>The rest of \<open>_fulfill_job\<close> once it is known whether the context is there.\<close>

definition context_known :: "int \<Rightarrow> job_spec \<Rightarrow> seller_state \<times> bool option \<Rightarrow> seller_state \<times> job_phase" where
  "context_known j spec r =
     (case r of
        (s, None) \<Rightarrow> (s, AwaitingContext spec)
      | (s, Some False) \<Rightarrow> (s, Ended (Transient ''notify_context_required''))
      | (s, Some True) \<Rightarrow> do_work_start j (Some spec) s)"

definition funded_reported ::
  "int list \<Rightarrow> int \<Rightarrow> int \<Rightarrow> int \<Rightarrow> verified_job_snapshot \<Rightarrow> seller_state \<Rightarrow> seller_state \<times> job_phase" where
  "funded_reported tracked now1 now2 j snapshot s =
     (let spec = snapshot_spec snapshot
      in context_known j spec (await_sweep_context tracked now1 now2 j (requires_notify_context spec)
           (s\<lparr>job_specs := (job_specs s)(j \<mapsto> spec)\<rparr>)))"

definition context_waited :: "int \<Rightarrow> job_spec \<Rightarrow> seller_state \<Rightarrow> seller_state \<times> job_phase" where
  "context_waited j spec s =
     (case await_context_end j (requires_notify_context spec) s of (s', ready) \<Rightarrow> context_known j spec (s', Some ready))"

definition read_spec_phase :: "job_context option \<Rightarrow> exn + job_spec option \<Rightarrow> job_phase" where
  "read_spec_phase ctx r = (case r of Inl e \<Rightarrow> Ended DeliveryRaised | Inr spec \<Rightarrow> Working ctx spec)"

definition landing :: "worker \<Rightarrow> job_context option \<Rightarrow> job_spec option \<Rightarrow> submit_outcome \<Rightarrow> seller_event list" where
  "landing w ctx spec out = (case w of (j, v, p) \<Rightarrow> if landed out then [Landed j v ctx spec] else [])"

text \<open>
  One step of a worker on the state: the state after it, the workers that take its place and what is
  logged. A cancelled submission keeps its worker until the thread ends.
\<close>

inductive worker_step :: "seller_state \<Rightarrow> worker \<Rightarrow> seller_state \<Rightarrow> worker list \<Rightarrow> seller_event list \<Rightarrow> bool" where
  start: "run_job_start j v s = (s', p) \<Longrightarrow> worker_step s (j, v, Scheduled) s' [(j, v, p)] []"
| enter_work: "do_work_start j spec s = (s', p) \<Longrightarrow> worker_step s (j, v, EnteringWork spec) s' [(j, v, p)] []"
| enter_sweep: "worker_step s (j, v, EnteringSweep) s [(j, v, Verifying)] []"
| verified: "worker_step s (j, v, Verifying) s [(j, v, verified_phase (verify_signed_job_snapshot (R :: chain_read) j))] []"
| funded: "distinct tracked \<Longrightarrow> set tracked = tracked_jobs (s\<lparr>job_specs := (job_specs s)(j \<mapsto> snapshot_spec snapshot)\<rparr>) \<Longrightarrow>
    now1 \<le> now2 \<Longrightarrow> funded_reported tracked now1 now2 j snapshot s = (s', p) \<Longrightarrow>
    worker_step s (j, v, ReportingFunded snapshot) s' [(j, v, p)] []"
| waited: "context_waited j spec s = (s', p) \<Longrightarrow> worker_step s (j, v, AwaitingContext spec) s' [(j, v, p)] []"
| spec_read: "worker_step s (j, v, ReadingSpec ctx) s [(j, v, read_spec_phase ctx (job_spec_of (R :: chain_read) j))] []"
| work_raised: "worker_step s (j, v, Working ctx spec) s [(j, v, Ended DeliveryRaised)] []"
| worked: "worker_step s (j, v, Working ctx spec) s [(j, v, Submitting ctx spec work)] [SubmitStarted j v ctx spec work]"
| submitted: "worker_step s (j, v, Submitting ctx spec work) s [(j, v, Ended (submission_result out))]
    (landing (j, v, Scheduled) ctx spec out)"
| cancelled: "cancellable p \<Longrightarrow> worker_step s (j, v, p) s [(j, v, Ended DeliveryTimedOut)] []"
| submit_cancelled: "worker_step s (j, v, Submitting ctx spec work) s [(j, v, SubmitAbandoned ctx spec)] []"
| submit_late: "worker_step s (j, v, SubmitAbandoned ctx spec)
    (if landed out then s\<lparr>late_submit_successes := insert j (late_submit_successes s)\<rparr> else s)
    [(j, v, Ended DeliveryTimedOut)] (landing (j, v, Scheduled) ctx spec out)"
| finished: "run_job_end j v (terminal_result r) s = (s', ws) \<Longrightarrow> worker_step s (j, v, Ended r) s' ws []"

section \<open>Runs\<close>

text \<open>A step of what is under way, and a step of the seller: that, or a notification arrives.\<close>

inductive task_step :: "seller \<Rightarrow> seller \<Rightarrow> bool" where
  notify: "notify_step c c' \<Longrightarrow> task_step c c'"
| work: "workers c = add_mset w W \<Longrightarrow> worker_step (seller_core c) w s' ws es \<Longrightarrow>
    task_step c (c\<lparr>seller_core := s', workers := W + mset ws, seller_log := seller_log c @ es\<rparr>)"
| sweep: "sweeps c = Suc n \<Longrightarrow> finish_sweep found (seller_core c) = (s', ws) \<Longrightarrow>
    task_step c (c\<lparr>seller_core := s', sweeps := n, workers := workers c + mset ws\<rparr>)"

inductive seller_step :: "seller \<Rightarrow> seller \<Rightarrow> bool" where
  task: "task_step c c' \<Longrightarrow> seller_step c c'"
| arrival: "seller_step c (notify_arrives data now c)"

inductive reachable :: "seller \<Rightarrow> bool" where
  initially: "reachable seller_start"
| step: "reachable c \<Longrightarrow> seller_step c c' \<Longrightarrow> reachable c'"

inductive_cases worker_step_cases: "worker_step s (j, v, p) s' ws es"
inductive_cases task_step_cases: "task_step c c'"
inductive_cases notify_step_cases: "notify_step c c'"
inductive_cases seller_step_cases: "seller_step c c'"

end
