(* ===== verification/Seller_Laws.thy ===== *)
theory Seller_Laws
  imports Seller_Steps
begin

text \<open>
  The invariants of the seller over every interleaving: one worker for each job in flight, at most one
  landed submission per job, and the context a worker holds is the one that is installed.
\<close>

section \<open>The invariant\<close>

text \<open>What a worker that read the context holds on to until it ends.\<close>

definition held :: "seller_state \<Rightarrow> int \<Rightarrow> job_context option \<Rightarrow> bool" where
  "held s j ctx \<longleftrightarrow> job_contexts s j = ctx \<and> (ctx = None \<longrightarrow> j \<in> contextless_started s)"

text \<open>A sweep never works without a context on a job that requires one.\<close>

definition context_enough :: "bool \<Rightarrow> job_context option \<Rightarrow> job_spec option \<Rightarrow> bool" where
  "context_enough v ctx spec \<longleftrightarrow> v \<or> ctx \<noteq> None \<or> (\<exists>sp. spec = Some sp \<and> \<not> requires_notify_context sp)"

fun phase_ok :: "seller_state \<Rightarrow> int \<Rightarrow> bool \<Rightarrow> job_phase \<Rightarrow> bool" where
  "phase_ok s j v (EnteringWork spec) = v"
| "phase_ok s j v EnteringSweep = (\<not> v)"
| "phase_ok s j v Verifying = (\<not> v)"
| "phase_ok s j v (ReportingFunded snapshot) = (\<not> v)"
| "phase_ok s j v (AwaitingContext spec) = (\<not> v)"
| "phase_ok s j v (ReadingSpec ctx) = (v \<and> held s j ctx)"
| "phase_ok s j v (Working ctx spec) = (held s j ctx \<and> context_enough v ctx spec)"
| "phase_ok s j v (Submitting ctx spec work) = (held s j ctx \<and> context_enough v ctx spec)"
| "phase_ok s j v (SubmitAbandoned ctx spec) = (held s j ctx \<and> context_enough v ctx spec)"
| "phase_ok s j v p = True"

text \<open>\<open>L\<close> are the jobs with a landed submission, in order.\<close>

definition worker_ok :: "int list \<Rightarrow> seller_state \<Rightarrow> worker \<Rightarrow> bool" where
  "worker_ok L s w = (case w of (j, v, p) \<Rightarrow>
     inflight_verified s j = Some v \<and> phase_ok s j v p
     \<and> (j \<in> late_submit_successes s \<longrightarrow> p = Ended DeliveryTimedOut)
     \<and> (j \<in> set L \<longrightarrow> j \<in> late_submit_successes s \<or> (\<exists>tx url. p = Ended (Delivered tx url))))"

definition core_ok :: "int list \<Rightarrow> seller_state \<Rightarrow> bool" where
  "core_ok L s \<longleftrightarrow> finite (inflight s) \<and> dom (inflight_verified s) = inflight s
     \<and> handled_jobs s \<inter> inflight s = {} \<and> handled_jobs s \<inter> tracked_jobs s = {}
     \<and> late_submit_successes s \<subseteq> inflight s
     \<and> (\<forall>j\<in>pending_verified_handoffs s. inflight_verified s j = Some False)
     \<and> contextless_started s \<subseteq> inflight s \<and> contextless_started s \<inter> dom (job_contexts s) = {}
     \<and> set L \<subseteq> handled_jobs s \<union> inflight s \<and> distinct L"

fun landed_jobs :: "seller_event list \<Rightarrow> int list" where
  "landed_jobs [] = []"
| "landed_jobs (Landed j v ctx spec # es) = j # landed_jobs es"
| "landed_jobs (_ # es) = landed_jobs es"

lemma landed_jobs_append [simp]: "landed_jobs (es @ fs) = landed_jobs es @ landed_jobs fs"
  by (induction es rule: landed_jobs.induct) auto

definition seller_inv :: "seller \<Rightarrow> bool" where
  "seller_inv c \<longleftrightarrow>
     core_ok (landed_jobs (seller_log c)) (seller_core c)
     \<and> image_mset fst (workers c) = mset_set (inflight (seller_core c))
     \<and> (\<forall>w\<in>#workers c. worker_ok (landed_jobs (seller_log c)) (seller_core c) w)
     \<and> sweeps c = (if sweep_active (seller_core c) then 1 else 0)"

section \<open>What one stretch of code changes\<close>

text \<open>What another worker of job \<open>k\<close> relies on.\<close>

definition kept :: "int \<Rightarrow> seller_state \<Rightarrow> seller_state \<Rightarrow> bool" where
  "kept k s s' \<longleftrightarrow> inflight_verified s' k = inflight_verified s k \<and> job_contexts s' k = job_contexts s k
     \<and> (k \<in> contextless_started s \<longrightarrow> k \<in> contextless_started s')
     \<and> (k \<in> late_submit_successes s' \<longleftrightarrow> k \<in> late_submit_successes s)"

lemma phase_ok_kept: "phase_ok s k v p \<Longrightarrow> kept k s s' \<Longrightarrow> phase_ok s' k v p"
  by (cases p) (auto simp: kept_def held_def)

lemma worker_ok_kept:
  "worker_ok L s (k, v, p) \<Longrightarrow> kept k s s' \<Longrightarrow> (k \<in> set L' \<Longrightarrow> k \<in> set L) \<Longrightarrow> worker_ok L' s' (k, v, p)"
  unfolding worker_ok_def using phase_ok_kept[of s k v p s'] by (auto simp: kept_def)

text \<open>
  A stretch on job \<open>j\<close> whose worker is replaced by \<open>ws\<close>: it keeps the invariant of the core, touches no
  other worker, and leaves exactly the workers that are in flight.
\<close>

definition good_stretch ::
  "int \<Rightarrow> int list \<Rightarrow> seller_state \<Rightarrow> int list \<Rightarrow> seller_state \<Rightarrow> worker list \<Rightarrow> bool" where
  "good_stretch j L s L' s' ws \<longleftrightarrow> core_ok L' s' \<and> (\<forall>k\<in>inflight s. k \<noteq> j \<longrightarrow> kept k s s')
     \<and> set L' \<subseteq> insert j (set L) \<and> inflight s' - {j} = inflight s - {j} \<and> map fst ws = (if j \<in> inflight s' then [j] else [])
     \<and> (\<forall>w\<in>set ws. worker_ok L' s' w) \<and> sweep_active s' = sweep_active s"

subsection \<open>Pruning\<close>

lemma set_evictable: "set (evictable_jobs tracked protect s) =
  {j \<in> set tracked. j \<notin> inflight s \<union> pending_verified_handoffs s \<union> set_option protect}"
  by (auto simp: evictable_jobs_def Let_def)

lemma distinct_evictable: "distinct tracked \<Longrightarrow> distinct (evictable_jobs tracked protect s)"
  by (auto simp: evictable_jobs_def Let_def)

definition pruned :: "int set \<Rightarrow> seller_state \<Rightarrow> seller_state \<Rightarrow> bool" where
  "pruned P s s' \<longleftrightarrow> (\<exists>J. J \<inter> (inflight s \<union> pending_verified_handoffs s \<union> P) = {} \<and> s' = forget_jobs J s)"

lemma forget_none [simp]: "forget_jobs {} s = s"
  by (simp add: forget_jobs_def)

lemma prune_pruned: "pruned (set_option protect) s (prune_tracked_state tracked protect s)"
proof -
  let ?J = "set (take (length tracked - MAX_TRACKED_JOBS) (evictable_jobs tracked protect s))"
  have "?J \<subseteq> set (evictable_jobs tracked protect s)" by (rule set_take_subset)
  then have "?J \<inter> (inflight s \<union> pending_verified_handoffs s \<union> set_option protect) = {}"
    unfolding set_evictable by blast
  moreover have "prune_tracked_state tracked protect s = forget_jobs ?J s"
    by (simp add: prune_tracked_state_def Let_def)
  ultimately show ?thesis unfolding pruned_def by blast
qed

lemma pruned_fields:
  assumes "pruned P s s'"
  shows "inflight s' = inflight s" "inflight_verified s' = inflight_verified s" "handled_jobs s' = handled_jobs s"
    "pending_verified_handoffs s' = pending_verified_handoffs s" "late_submit_successes s' = late_submit_successes s"
    "contextless_started s' = contextless_started s" "sweep_active s' = sweep_active s"
    "notify_validation_slots s' = notify_validation_slots s" "chain_read_slots s' = chain_read_slots s"
  using assms by (auto simp: pruned_def forget_jobs_def)

lemma pruned_keeps:
  assumes "pruned P s s'" "j \<in> inflight s \<union> pending_verified_handoffs s \<union> P"
  shows "job_contexts s' j = job_contexts s j" "job_specs s' j = job_specs s j"
    "context_deadlines s' j = context_deadlines s j" "context_events s' j = context_events s j"
  using assms by (auto simp: pruned_def forget_jobs_def)

lemma pruned_less: "pruned P s s' \<Longrightarrow> tracked_jobs s' \<subseteq> tracked_jobs s"
  and pruned_contexts: "pruned P s s' \<Longrightarrow> job_contexts s' \<subseteq>\<^sub>m job_contexts s"
  by (auto simp: pruned_def forget_jobs_def tracked_jobs_def map_le_def split: if_splits)

lemma pruned_ok: "pruned P s s' \<Longrightarrow> core_ok L s \<Longrightarrow> core_ok L s'"
  using pruned_less[of P s s'] pruned_contexts[of P s s'] pruned_fields[of P s s']
  unfolding core_ok_def by (auto simp: map_le_def dom_def)

lemma pruned_kept: "pruned P s s' \<Longrightarrow> k \<in> inflight s \<Longrightarrow> kept k s s'"
  using pruned_keeps[of P s s' k] pruned_fields[of P s s'] by (auto simp: kept_def)

subsection \<open>The stretches of a worker\<close>

lemma core_okD:
  assumes "core_ok L s"
  shows "finite (inflight s)" "dom (inflight_verified s) = inflight s" "handled_jobs s \<inter> inflight s = {}"
    "handled_jobs s \<inter> tracked_jobs s = {}" "late_submit_successes s \<subseteq> inflight s"
    "\<And>j. j \<in> pending_verified_handoffs s \<Longrightarrow> inflight_verified s j = Some False"
    "contextless_started s \<subseteq> inflight s" "contextless_started s \<inter> dom (job_contexts s) = {}"
    "set L \<subseteq> handled_jobs s \<union> inflight s" "distinct L"
  using assms by (auto simp: core_ok_def)

lemma pending_inflight: "core_ok L s \<Longrightarrow> j \<in> pending_verified_handoffs s \<Longrightarrow> j \<in> inflight s"
  using core_okD(2,6) by blast

lemma kept_refl [simp]: "kept k s s"
  by (simp add: kept_def)

lemma kept_trans: "kept k s s' \<Longrightarrow> kept k s' s'' \<Longrightarrow> kept k s s''"
  by (auto simp: kept_def)

text \<open>The state is unchanged for the core, and only the phase of the worker moves on.\<close>

lemma phase_move:
  assumes "core_ok L s" "worker_ok L s (j, v, p)" "j \<in> inflight s" "phase_ok s j v q"
    and "j \<in> late_submit_successes s \<Longrightarrow> q = p" "j \<in> set L \<Longrightarrow> q = p"
  shows "good_stretch j L s L s [(j, v, q)]"
  using assms by (auto simp: good_stretch_def worker_ok_def)

text \<open>A worker that has not ended has no landed submission.\<close>

lemma not_landed: "worker_ok L s (j, v, p) \<Longrightarrow> (\<And>r. p \<noteq> Ended r) \<Longrightarrow> j \<notin> late_submit_successes s \<and> j \<notin> set L"
  by (auto simp: worker_ok_def)

text \<open>A worker that has not ended goes on, on a state in which only its own job may have changed.\<close>

definition own_change :: "int \<Rightarrow> seller_state \<Rightarrow> seller_state \<Rightarrow> bool" where
  "own_change j s s' \<longleftrightarrow> inflight s' = inflight s \<and> inflight_verified s' = inflight_verified s
     \<and> sweep_active s' = sweep_active s \<and> handled_jobs s' = handled_jobs s
     \<and> pending_verified_handoffs s' = pending_verified_handoffs s
     \<and> late_submit_successes s' = late_submit_successes s
     \<and> (contextless_started s' = contextless_started s
        \<or> job_contexts s j = None \<and> contextless_started s' = insert j (contextless_started s))
     \<and> job_contexts s' \<subseteq>\<^sub>m job_contexts s \<and> (\<forall>k\<in>inflight s. job_contexts s' k = job_contexts s k)
     \<and> tracked_jobs s' \<subseteq> insert j (tracked_jobs s)"

lemma own_change_refl [simp]: "own_change j s s"
  by (auto simp: own_change_def)

lemma own_change_trans:
  assumes "own_change j s s'" "own_change j s' s''" "j \<in> inflight s"
  shows "own_change j s s''"
  using assms unfolding own_change_def by (auto intro: map_le_trans)

lemma own_change_ok:
  assumes "own_change j s s'" "core_ok L s" "j \<in> inflight s"
  shows "core_ok L s'"
proof -
  have "dom (job_contexts s') \<subseteq> dom (job_contexts s)"
    using assms(1) by (simp add: own_change_def map_le_implies_dom_le)
  moreover have "contextless_started s' \<subseteq> contextless_started s \<union> {k. k = j \<and> job_contexts s j = None}"
    using assms(1) by (auto simp: own_change_def)
  ultimately have "contextless_started s' \<inter> dom (job_contexts s') = {}"
    using core_okD(8)[OF assms(2)] by blast
  moreover have "contextless_started s' \<subseteq> inflight s'"
    using assms(1,3) core_okD(7)[OF assms(2)] by (auto simp: own_change_def)
  moreover have "tracked_jobs s' \<subseteq> insert j (tracked_jobs s)" "handled_jobs s' = handled_jobs s"
    using assms(1) by (simp_all add: own_change_def)
  then have "handled_jobs s' \<inter> tracked_jobs s' = {}"
    using assms(3) core_okD(3,4)[OF assms(2)] by blast
  ultimately show ?thesis using assms unfolding own_change_def core_ok_def by simp
qed

lemma own_change_kept: "own_change j s s' \<Longrightarrow> k \<in> inflight s \<Longrightarrow> kept k s s'"
  by (auto simp: own_change_def kept_def)

lemma own_stretch:
  assumes "core_ok L s" "worker_ok L s (j, v, p)" "\<And>r. p \<noteq> Ended r" "j \<in> inflight s" "own_change j s s'"
    and "phase_ok s' j v q"
  shows "good_stretch j L s L s' [(j, v, q)]"
  unfolding good_stretch_def
proof (intro conjI)
  show "core_ok L s'" using assms own_change_ok by blast
  show "\<forall>k\<in>inflight s. k \<noteq> j \<longrightarrow> kept k s s'" using assms(5) own_change_kept by blast
  show "\<forall>w\<in>set [(j, v, q)]. worker_ok L s' w"
    using assms not_landed[OF assms(2,3)] by (auto simp: worker_ok_def own_change_def)
qed (use assms in \<open>auto simp: own_change_def\<close>)

lemma pruned_own: "pruned P s s' \<Longrightarrow> own_change j s s'"
  using pruned_fields[of P s s'] pruned_less[of P s s'] pruned_contexts[of P s s'] pruned_keeps[of P s s']
  unfolding own_change_def by auto

lemma do_work_start_own:
  assumes "do_work_start j spec s = (s', p)" "spec = None \<Longrightarrow> v"
    and "\<And>sp. spec = Some sp \<Longrightarrow> context_enough v (job_contexts s j) (Some sp)"
  shows "own_change j s s' \<and> phase_ok s' j v p"
  using assms by (auto simp: do_work_start_def Let_def own_change_def held_def tracked_jobs_def split: option.splits if_splits)

lemma await_context_end_own:
  assumes "await_context_end j required s = (s', ready)"
  shows "own_change j s s'" "ready \<Longrightarrow> job_contexts s' j \<noteq> None \<or> \<not> required"
  using assms by (auto simp: await_context_end_def own_change_def tracked_jobs_def split: if_splits)

lemma await_sweep_context_own:
  assumes "await_sweep_context tracked now1 now2 j required s = (s', r)" "j \<in> inflight s"
  shows "own_change j s s' \<and> (r = Some True \<longrightarrow> job_contexts s' j \<noteq> None \<or> \<not> required)"
proof -
  define s1 where "s1 = prune_tracked_state tracked (Some j) s"
  have own1: "own_change j s s1" unfolding s1_def by (rule pruned_own[OF prune_pruned])
  have in1: "j \<in> inflight s1" using own1 assms(2) by (simp add: own_change_def)
  define s2 where "s2 = s1\<lparr>context_deadlines := (context_deadlines s1)(j \<mapsto>
      (case context_deadlines s1 j of None \<Rightarrow> now1 + SWEEP_CONTEXT_GRACE_SECONDS | Some d \<Rightarrow> d)),
    context_events := (context_events s1)(j \<mapsto> (case context_events s1 j of None \<Rightarrow> False | Some b \<Rightarrow> b))\<rparr>"
  have own2: "own_change j s1 s2" by (auto simp: own_change_def s2_def tracked_jobs_def)
  have own: "own_change j s s2" by (rule own_change_trans[OF own1 own2 assms(2)])
  consider "job_contexts s1 j \<noteq> None" "s' = s1" "r = Some True" | "s' = s2" "r = None"
    | ready where "await_context_end j required s2 = (s', ready)" "r = Some ready"
    using assms(1) unfolding await_sweep_context_def Let_def s1_def[symmetric] s2_def[symmetric]
    by (auto split: if_splits prod.splits)
  then show ?thesis
  proof cases
    case 1
    then show ?thesis using own1 by simp
  next
    case 2
    then show ?thesis using own by simp
  next
    case 3
    have "j \<in> inflight s" by (rule assms(2))
    with own_change_trans[OF own await_context_end_own(1)[OF 3(1)]] await_context_end_own(2)[OF 3(1)] 3(2)
    show ?thesis by auto
  qed
qed

lemma context_known_own:
  assumes "context_known j spec (s, r) = (s', p)"
    and "r = Some True \<Longrightarrow> job_contexts s j \<noteq> None \<or> \<not> requires_notify_context spec"
  shows "own_change j s s' \<and> phase_ok s' j False p"
proof (cases "r = Some True")
  case True
  with assms have "do_work_start j (Some spec) s = (s', p)" by (simp add: context_known_def)
  then show ?thesis using True assms(2) by (intro do_work_start_own) (auto simp: context_enough_def)
qed (use assms in \<open>auto simp: context_known_def split: option.splits bool.splits\<close>)

lemma funded_reported_own:
  assumes "funded_reported tracked now1 now2 j snapshot s = (s', p)" "j \<in> inflight s"
  shows "own_change j s s' \<and> phase_ok s' j False p"
proof -
  let ?spec = "snapshot_spec snapshot"
  let ?s = "s\<lparr>job_specs := (job_specs s)(j \<mapsto> ?spec)\<rparr>"
  obtain s1 r where await: "await_sweep_context tracked now1 now2 j (requires_notify_context ?spec) ?s = (s1, r)"
    by fastforce
  with assms(1) have known: "context_known j ?spec (s1, r) = (s', p)" by (simp add: funded_reported_def Let_def)
  from await_sweep_context_own[OF await] assms(2)
  have a: "own_change j ?s s1" "r = Some True \<Longrightarrow> job_contexts s1 j \<noteq> None \<or> \<not> requires_notify_context ?spec" by auto
  have "own_change j s ?s" by (auto simp: own_change_def tracked_jobs_def)
  from own_change_trans[OF this a(1) assms(2)] have b: "own_change j s s1" .
  from context_known_own[OF known a(2)] own_change_trans[OF b _ assms(2)] show ?thesis by blast
qed

lemma context_waited_own:
  assumes "context_waited j spec s = (s', p)" "j \<in> inflight s"
  shows "own_change j s s' \<and> phase_ok s' j False p"
proof -
  obtain s1 ready where await: "await_context_end j (requires_notify_context spec) s = (s1, ready)" by fastforce
  with assms(1) have known: "context_known j spec (s1, Some ready) = (s', p)" by (simp add: context_waited_def)
  note own = await_context_end_own[OF await]
  from context_known_own[OF known] own(2) have "own_change j s1 s' \<and> phase_ok s' j False p" by blast
  with own_change_trans[OF own(1) _ assms(2)] show ?thesis by blast
qed

lemma run_job_start_own:
  assumes "run_job_start j v s = (s', p)" "inflight_verified s j = Some v"
  shows "own_change j s s' \<and> phase_ok s' j v p"
  using assms by (auto simp: run_job_start_def own_change_def tracked_jobs_def)

lemma spawn_fresh:
  "j \<notin> handled_jobs s \<Longrightarrow> j \<notin> late_submit_successes s \<Longrightarrow> j \<notin> inflight s \<Longrightarrow>
   spawn_job j v s = (s\<lparr>inflight := insert j (inflight s), inflight_verified := (inflight_verified s)(j \<mapsto> v)\<rparr>,
     [(j, v, Scheduled)])"
  by (simp add: spawn_job_def)

lemma end_terminal_good:
  assumes "core_ok L s" "j \<in> inflight s" "terminal \<or> j \<in> late_submit_successes s" "run_job_end j v terminal s = (s', ws)"
  shows "good_stretch j L s L s' ws"
proof -
  from assms(3,4) have ws: "ws = []" and s': "s' = s\<lparr>handled_jobs := insert j (handled_jobs s),
      late_submit_successes := late_submit_successes s - {j},
      pending_verified_handoffs := pending_verified_handoffs s - {j},
      job_contexts := (job_contexts s)(j := None), job_specs := (job_specs s)(j := None),
      context_deadlines := (context_deadlines s)(j := None), context_events := (context_events s)(j := None),
      contextless_started := contextless_started s - {j},
      inflight_verified := (inflight_verified s)(j := None), inflight := inflight s - {j}\<rparr>"
    by (auto simp: run_job_end_def)
  note ok = core_okD[OF assms(1)]
  have "tracked_jobs s' = tracked_jobs s - {j}" by (auto simp: s' tracked_jobs_def)
  then have "handled_jobs s' \<inter> tracked_jobs s' = {}" using ok(4) by (auto simp: s')
  moreover have "handled_jobs s' \<inter> inflight s' = {}" using ok(3) by (auto simp: s')
  moreover have "dom (inflight_verified s') = inflight s'" using ok(2) by (simp add: s')
  moreover have "late_submit_successes s' \<subseteq> inflight s'" using ok(5) by (auto simp: s')
  moreover have "contextless_started s' \<subseteq> inflight s'" using ok(7) by (auto simp: s')
  moreover have "contextless_started s' \<inter> dom (job_contexts s') = {}" using ok(8) by (auto simp: s')
  moreover have "\<forall>k\<in>pending_verified_handoffs s'. inflight_verified s' k = Some False" using ok(6) by (simp add: s')
  moreover have "set L \<subseteq> handled_jobs s' \<union> inflight s'" using ok(9) by (auto simp: s')
  ultimately have "core_ok L s'" unfolding core_ok_def using ok(1,10) by (simp add: s')
  then show ?thesis by (simp add: good_stretch_def kept_def ws s' subset_insertI)
qed

definition released :: "int \<Rightarrow> seller_state \<Rightarrow> seller_state" where
  "released j s = s\<lparr>inflight := inflight s - {j}, inflight_verified := (inflight_verified s)(j := None),
     contextless_started := contextless_started s - {j},
     pending_verified_handoffs := pending_verified_handoffs s - {j}\<rparr>"

lemma released_good:
  assumes "core_ok L s" "j \<in> inflight s" "j \<notin> late_submit_successes s" "j \<notin> set L"
  shows "good_stretch j L s L (released j s) []"
proof -
  note ok = core_okD[OF assms(1)]
  have "tracked_jobs (released j s) = tracked_jobs s" by (simp add: released_def tracked_jobs_def)
  then have "core_ok L (released j s)" unfolding core_ok_def using ok assms(2-4)
    by (intro conjI) (auto simp: released_def)
  then show ?thesis by (auto simp: good_stretch_def kept_def released_def)
qed

lemma end_transient:
  assumes "\<not> terminal" "j \<notin> late_submit_successes s" "j \<notin> handled_jobs s"
  shows "run_job_end j v terminal s =
    (if \<not> v \<and> j \<in> pending_verified_handoffs s \<and> job_contexts s j \<noteq> None
     then ((released j s)\<lparr>inflight := insert j (inflight s), inflight_verified := (inflight_verified s)(j \<mapsto> True)\<rparr>,
       [(j, True, Scheduled)])
     else (released j s, []))"
  using assms by (auto simp: run_job_end_def Let_def released_def spawn_job_def insert_Diff_if)

lemma end_transient_good:
  assumes "core_ok L s" "j \<in> inflight s" "\<not> terminal" "j \<notin> late_submit_successes s" "j \<notin> set L"
    and "run_job_end j v terminal s = (s', ws)"
  shows "good_stretch j L s L s' ws"
proof -
  note good = released_good[OF assms(1,2,4,5)]
  have "j \<notin> handled_jobs s" using core_okD(3)[OF assms(1)] assms(2) by blast
  note ends = end_transient[OF assms(3,4) this, of v]
  show ?thesis
  proof (cases "\<not> v \<and> j \<in> pending_verified_handoffs s \<and> job_contexts s j \<noteq> None")
    case True
    with ends assms(6) have "s' = (released j s)\<lparr>inflight := insert j (inflight s),
        inflight_verified := (inflight_verified s)(j \<mapsto> True)\<rparr>" "ws = [(j, True, Scheduled)]" by auto
    note this [simp]
    have "tracked_jobs s' = tracked_jobs s" by (simp add: released_def tracked_jobs_def)
    then have "core_ok L s'" unfolding core_ok_def using core_okD[OF assms(1)] assms(2,4,5) \<open>j \<notin> handled_jobs s\<close>
      by (intro conjI) (auto simp: released_def)
    then show ?thesis using assms(2,4,5) by (auto simp: good_stretch_def released_def kept_def worker_ok_def)
  next
    case False
    with ends assms(6) good show ?thesis by auto
  qed
qed

lemma context_enough_spec: "v \<Longrightarrow> context_enough v ctx spec"
  by (simp add: context_enough_def)

lemma landed_landing: "landed_jobs (landing (j, v, p) ctx spec out) = (if landed out then [j] else [])"
  by (simp add: landing_def)

lemma landed_delivered: "landed out \<Longrightarrow> \<exists>tx url. submission_result out = Delivered tx url"
  by (cases out) auto

lemma landing_good:
  assumes "core_ok L s" "worker_ok L s (j, v, p)" "\<And>r. p \<noteq> Ended r" "j \<in> inflight s"
  shows "landed out \<Longrightarrow> good_stretch j L s (L @ [j]) s [(j, v, Ended (submission_result out))]"
    and "landed out \<Longrightarrow> good_stretch j L s (L @ [j])
      (s\<lparr>late_submit_successes := insert j (late_submit_successes s)\<rparr>) [(j, v, Ended DeliveryTimedOut)]"
proof -
  note fresh = not_landed[OF assms(2,3)]
  have v: "inflight_verified s j = Some v" using assms(2) by (simp add: worker_ok_def)
  have ok: "core_ok (L @ [j]) s" "core_ok (L @ [j]) (s\<lparr>late_submit_successes := insert j (late_submit_successes s)\<rparr>)"
    using assms(1,4) fresh by (auto simp: core_ok_def tracked_jobs_def)
  show "landed out \<Longrightarrow> good_stretch j L s (L @ [j]) s [(j, v, Ended (submission_result out))]"
    using ok(1) v assms(4) landed_delivered[of out] fresh by (auto simp: good_stretch_def worker_ok_def)
  show "landed out \<Longrightarrow> good_stretch j L s (L @ [j])
      (s\<lparr>late_submit_successes := insert j (late_submit_successes s)\<rparr>) [(j, v, Ended DeliveryTimedOut)]"
    using ok(2) v assms(4) by (auto simp: good_stretch_def worker_ok_def kept_def)
qed

lemma worker_step_good:
  assumes "worker_step s (j, v, p) s' ws es" "core_ok L s" "worker_ok L s (j, v, p)" "j \<in> inflight s"
  shows "good_stretch j L s (L @ landed_jobs es) s' ws"
  using assms
proof (induction s "(j, v, p)" s' ws es rule: worker_step.induct)
  case (start s s' q)
  then have "inflight_verified s j = Some v" by (auto simp: worker_ok_def)
  from run_job_start_own[OF start(1) this] show ?case using own_stretch[OF start(3,4)] start(2,5) by auto
next
  case (enter_work spec s s' q)
  then have v by (auto simp: worker_ok_def)
  then have "own_change j s s' \<and> phase_ok s' j v q"
    using do_work_start_own[OF enter_work(1)] by (simp add: context_enough_spec)
  then show ?case using own_stretch[OF enter_work(3,4)] enter_work(2,5) by auto
next
  case (enter_sweep s)
  then show ?case using own_stretch[OF enter_sweep(2,3), of s Verifying] by (auto simp: worker_ok_def)
next
  case (verified s R)
  then have "\<not> v" by (auto simp: worker_ok_def)
  then have "phase_ok s j v (verified_phase (verify_signed_job_snapshot R j))"
    by (auto simp: verified_phase_def split: sum.splits)
  then show ?case using own_stretch[OF verified(2,3)] verified(1,4) by auto
next
  case (funded tracked s snapshot now1 now2 s' q)
  then have "\<not> v" by (auto simp: worker_ok_def)
  then show ?case using funded_reported_own[OF funded(4)] own_stretch[OF funded(6,7)] funded(5,8) by auto
next
  case (waited spec s s' q)
  then have "\<not> v" by (auto simp: worker_ok_def)
  then show ?case using context_waited_own[OF waited(1)] own_stretch[OF waited(3,4)] waited(2,5) by auto
next
  case (spec_read s ctx R)
  then have "v \<and> held s j ctx" by (auto simp: worker_ok_def)
  then have "phase_ok s j v (read_spec_phase ctx (job_spec_of R j))"
    by (auto simp: read_spec_phase_def context_enough_spec split: sum.splits)
  then show ?case using own_stretch[OF spec_read(2,3)] spec_read(1,4) by auto
next
  case (work_raised s ctx spec)
  then show ?case using own_stretch[OF work_raised(2,3), of s "Ended DeliveryRaised"] by auto
next
  case (worked s ctx spec work)
  then show ?case using own_stretch[OF worked(2,3), of s "Submitting ctx spec work"] by (auto simp: worker_ok_def)
next
  case (submitted s ctx spec work out)
  show ?case
  proof (cases "landed out")
    case True
    then show ?thesis using landing_good(1)[OF submitted(2,3) _ submitted(4)] submitted(1) by (auto simp: landed_landing)
  next
    case False
    then show ?thesis using own_stretch[OF submitted(2,3) _ submitted(4), of s "Ended (submission_result out)"]
        submitted(1) by (auto simp: landed_landing)
  qed
next
  case (cancelled s)
  have "p \<noteq> Ended r" for r using cancelled(1) by auto
  then show ?case using own_stretch[OF cancelled(2,3) _ cancelled(4), of s "Ended DeliveryTimedOut"] by simp
next
  case (submit_cancelled s ctx spec work)
  then show ?case using own_stretch[OF submit_cancelled(2,3), of s "SubmitAbandoned ctx spec"] by (auto simp: worker_ok_def)
next
  case (submit_late s ctx spec out)
  show ?case
  proof (cases "landed out")
    case True
    then show ?thesis using landing_good(2)[OF submit_late(2,3) _ submit_late(4)] submit_late(1) by (auto simp: landed_landing)
  next
    case False
    then show ?thesis using own_stretch[OF submit_late(2,3) _ submit_late(4), of s "Ended DeliveryTimedOut"]
        submit_late(1) by (auto simp: landed_landing)
  qed
next
  case (finished r s s' ws)
  show ?case
  proof (cases "terminal_result r \<or> j \<in> late_submit_successes s")
    case True
    with end_terminal_good[OF finished(3,5) _ finished(1)] show ?thesis by simp
  next
    case False
    then have "j \<notin> set L" using finished(2,4) by (auto simp: worker_ok_def)
    with False end_transient_good[OF finished(3,5) _ _ _ finished(1)] show ?thesis by simp
  qed
qed

section \<open>The invariant over runs\<close>

lemma seller_invD:
  assumes "seller_inv c"
  shows "core_ok (landed_jobs (seller_log c)) (seller_core c)"
    "image_mset fst (workers c) = mset_set (inflight (seller_core c))"
    "\<And>w. w \<in># workers c \<Longrightarrow> worker_ok (landed_jobs (seller_log c)) (seller_core c) w"
    "sweeps c = (if sweep_active (seller_core c) then 1 else 0)"
  using assms by (auto simp: seller_inv_def)

lemma worker_inflight: "seller_inv c \<Longrightarrow> (j, v, p) \<in># workers c \<Longrightarrow> j \<in> inflight (seller_core c)"
proof -
  assume inv: "seller_inv c" and w: "(j, v, p) \<in># workers c"
  then have "j \<in># image_mset fst (workers c)" by force
  then show ?thesis using seller_invD(2)[OF inv] core_okD(1)[OF seller_invD(1)[OF inv]] by simp
qed

lemma work_inv:
  assumes inv: "seller_inv c" and w: "workers c = add_mset w W" and step: "worker_step (seller_core c) w s' ws es"
  shows "seller_inv (c\<lparr>seller_core := s', workers := W + mset ws, seller_log := seller_log c @ es\<rparr>)"
proof -
  let ?s = "seller_core c" and ?L = "landed_jobs (seller_log c)"
  let ?L' = "?L @ landed_jobs es"
  obtain j v p where wjvp: "w = (j, v, p)" by (cases w)
  note inv_parts = seller_invD[OF inv]
  have fin: "finite (inflight ?s)" using core_okD(1)[OF inv_parts(1)] .
  have j: "j \<in> inflight ?s" using worker_inflight[OF inv, of j v p] w wjvp by simp
  have good: "good_stretch j ?L ?s ?L' s' ws"
    using worker_step_good step inv_parts(1,3) j w by (simp add: wjvp)
  have others: "image_mset fst W = mset_set (inflight ?s - {j})"
    using inv_parts(2) j fin by (simp add: w wjvp mset_set.remove)
  have core: "core_ok ?L' s'" using good by (simp add: good_stretch_def)
  have "inflight s' = inflight ?s - {j} \<union> (if j \<in> inflight s' then {j} else {})"
    using good by (auto simp: good_stretch_def)
  then have "mset_set (inflight s') = mset_set (inflight ?s - {j}) + mset (map fst ws)"
    using good fin by (cases "j \<in> inflight s'") (auto simp: good_stretch_def mset_set.insert_remove)
  then have owners: "image_mset fst (W + mset ws) = mset_set (inflight s')" using others by simp
  have "worker_ok ?L' s' w'" if "w' \<in># W" for w'
  proof -
    obtain k v' p' where k: "w' = (k, v', p')" by (cases w')
    then have "k \<in># image_mset fst W" using that by force
    then have "k \<in> inflight ?s" "k \<noteq> j" unfolding others using fin by auto
    moreover have "worker_ok ?L ?s (k, v', p')" using inv_parts(3) that w k by auto
    ultimately show ?thesis using good k
      by (auto simp: good_stretch_def intro!: worker_ok_kept[of ?L ?s k v' p'])
  qed
  then show ?thesis using core owners good inv_parts(4)
    by (auto simp: seller_inv_def good_stretch_def)
qed

subsection \<open>Spawning\<close>

lemma mset_set_extend: "finite B \<Longrightarrow> A \<subseteq> B \<Longrightarrow> mset_set B = mset_set A + mset_set (B - A)"
proof -
  assume "finite B" "A \<subseteq> B"
  then have "finite A" "finite (B - A)" "A \<inter> (B - A) = {}" "A \<union> (B - A) = B" by (auto intro: finite_subset)
  then show ?thesis using mset_set_Union[of A "B - A"] by simp
qed

text \<open>New workers for fresh jobs, nothing for the others.\<close>

definition good_spawn :: "int list \<Rightarrow> seller_state \<Rightarrow> seller_state \<Rightarrow> worker list \<Rightarrow> bool" where
  "good_spawn L s s' ws \<longleftrightarrow> core_ok L s' \<and> (\<forall>k\<in>inflight s. kept k s s') \<and> inflight s \<subseteq> inflight s'
     \<and> mset (map fst ws) = mset_set (inflight s' - inflight s) \<and> (\<forall>w\<in>set ws. worker_ok L s' w)
     \<and> sweep_active s' = sweep_active s"

lemma spawn_job_good:
  assumes ok: "core_ok L s" and "spawn_job j v s = (s', ws)"
  shows "good_spawn L s s' ws"
proof -
  note okD = core_okD[OF ok]
  show ?thesis
  proof (cases "j \<in> handled_jobs s \<or> j \<in> late_submit_successes s")
    case True
    then show ?thesis using assms by (simp add: spawn_job_def good_spawn_def)
  next
    case fresh: False
    show ?thesis
    proof (cases "j \<in> inflight s")
      case True
      let ?p = "s\<lparr>pending_verified_handoffs := insert j (pending_verified_handoffs s)\<rparr>"
      have "inflight_verified s j = Some False \<Longrightarrow> core_ok L ?p" using ok by (simp add: core_ok_def tracked_jobs_def)
      then have "inflight_verified s j = Some False \<Longrightarrow> good_spawn L s ?p []" by (simp add: good_spawn_def kept_def)
      moreover have "good_spawn L s s []" using ok by (simp add: good_spawn_def)
      ultimately show ?thesis using assms(2) fresh True by (simp add: spawn_job_def split: if_splits)
    next
      case False
      with assms(2) fresh have s': "s' = s\<lparr>inflight := insert j (inflight s), inflight_verified := (inflight_verified s)(j \<mapsto> v)\<rparr>"
        and ws: "ws = [(j, v, Scheduled)]" by (auto simp: spawn_fresh)
      have tracked: "tracked_jobs s' = tracked_jobs s" by (simp add: s' tracked_jobs_def)
      have "k \<noteq> j" if "k \<in> pending_verified_handoffs s" for k using pending_inflight[OF ok that] False by blast
      then have "core_ok L s'" unfolding core_ok_def tracked using okD fresh by (simp add: s') blast
      moreover have "inflight s' - inflight s = {j}" using False by (auto simp: s')
      moreover have "j \<notin> set L" using okD(9) fresh False by blast
      ultimately show ?thesis using False fresh by (auto simp: s' ws good_spawn_def kept_def worker_ok_def)
    qed
  qed
qed

lemma good_spawn_trans:
  assumes "good_spawn L s s1 ws" "good_spawn L s1 s2 ws'"
  shows "good_spawn L s s2 (ws @ ws')"
proof -
  have sub: "inflight s \<subseteq> inflight s1" "inflight s1 \<subseteq> inflight s2" and fin: "finite (inflight s2)"
    using assms core_okD(1) by (auto simp: good_spawn_def)
  have split: "mset_set (inflight s2 - inflight s) = mset_set (inflight s1 - inflight s) + mset_set (inflight s2 - inflight s1)"
  proof -
    have "inflight s1 - inflight s \<subseteq> inflight s2 - inflight s"
      "(inflight s2 - inflight s) - (inflight s1 - inflight s) = inflight s2 - inflight s1" using sub by blast+
    then show ?thesis using mset_set_extend[of "inflight s2 - inflight s" "inflight s1 - inflight s"] fin by simp
  qed
  have "worker_ok L s2 (k, v, p)" if "(k, v, p) \<in> set ws" for k v p
  proof -
    have "k \<in># mset (map fst ws)" using that by force
    moreover have "mset (map fst ws) = mset_set (inflight s1 - inflight s)" using assms(1) by (simp add: good_spawn_def)
    ultimately have "k \<in># mset_set (inflight s1 - inflight s)" by metis
    then have "k \<in> inflight s1" using finite_subset[OF sub(2) fin] by simp
    then have "kept k s1 s2" "worker_ok L s1 (k, v, p)" using assms that unfolding good_spawn_def by blast+
    then show ?thesis using worker_ok_kept[of L s1 k v p s2 L] by simp
  qed
  moreover have "worker_ok L s2 w" if "w \<in> set ws'" for w using assms(2) that by (simp add: good_spawn_def)
  ultimately have "\<forall>w\<in>set (ws @ ws'). worker_ok L s2 w" by auto
  moreover have "\<forall>k\<in>inflight s. kept k s s2"
    using assms sub(1) kept_trans[of _ s s1 s2] unfolding good_spawn_def by blast
  ultimately show ?thesis using assms split sub unfolding good_spawn_def by (simp del: mset_map)
qed

lemma spawn_jobs_good: "core_ok L s \<Longrightarrow> spawn_jobs js s = (s', ws) \<Longrightarrow> good_spawn L s s' ws"
proof (induction js arbitrary: s s' ws)
  case Nil
  then show ?case by (simp add: good_spawn_def)
next
  case (Cons j js)
  obtain s1 ws1 where first: "spawn_job j False s = (s1, ws1)" by fastforce
  obtain s2 ws2 where rest: "spawn_jobs js s1 = (s2, ws2)" by fastforce
  note good = spawn_job_good[OF Cons.prems(1) first]
  from Cons.IH[OF _ rest] good have "good_spawn L s1 s2 ws2" by (simp add: good_spawn_def)
  from good_spawn_trans[OF good this] Cons.prems(2) first rest show ?case by simp
qed

lemma spawn_inv:
  assumes inv: "seller_inv c" and good: "good_spawn (landed_jobs (seller_log c)) (seller_core c) s' ws"
  shows "seller_inv (c\<lparr>seller_core := s', workers := workers c + mset ws\<rparr>)"
proof -
  let ?s = "seller_core c" and ?L = "landed_jobs (seller_log c)"
  note parts = seller_invD[OF inv]
  have fin: "finite (inflight s')" and sub: "inflight ?s \<subseteq> inflight s'" using good core_okD(1) by (auto simp: good_spawn_def)
  have "mset_set (inflight s') = mset_set (inflight ?s) + mset_set (inflight s' - inflight ?s)"
    by (rule mset_set_extend[OF fin sub])
  then have "image_mset fst (workers c + mset ws) = mset_set (inflight s')"
    using parts(2) good by (simp add: good_spawn_def)
  moreover have "worker_ok ?L s' (k, v, p)" if "(k, v, p) \<in># workers c" for k v p
  proof (rule worker_ok_kept)
    show "worker_ok ?L ?s (k, v, p)" by (rule parts(3)[OF that])
    show "kept k ?s s'" using good worker_inflight[OF inv that] unfolding good_spawn_def by blast
  qed
  moreover have "worker_ok ?L s' w" if "w \<in> set ws" for w using good that by (simp add: good_spawn_def)
  ultimately have "image_mset fst (workers c + mset ws) = mset_set (inflight s')"
    "\<forall>w\<in>#workers c + mset ws. worker_ok ?L s' w" by auto
  then show ?thesis using good parts(4) unfolding seller_inv_def good_spawn_def by simp
qed

subsection \<open>Notifications\<close>

text \<open>The slots and the mark of the scan are no concern of the workers.\<close>

lemma phase_ok_irrelevant [simp]:
  "phase_ok (s\<lparr>chain_read_slots := n\<rparr>) j v p = phase_ok s j v p"
  "phase_ok (s\<lparr>notify_validation_slots := n\<rparr>) j v p = phase_ok s j v p"
  "phase_ok (s\<lparr>sweep_active := b\<rparr>) j v p = phase_ok s j v p"
  by (cases p; simp add: held_def)+

lemma worker_ok_irrelevant [simp]:
  "worker_ok L (s\<lparr>chain_read_slots := n\<rparr>) = worker_ok L s"
  "worker_ok L (s\<lparr>notify_validation_slots := n\<rparr>) = worker_ok L s"
  "worker_ok L (s\<lparr>sweep_active := b\<rparr>) = worker_ok L s"
  by (auto simp: worker_ok_def fun_eq_iff)

lemma core_ok_irrelevant [simp]:
  "core_ok L (s\<lparr>chain_read_slots := n\<rparr>) = core_ok L s"
  "core_ok L (s\<lparr>notify_validation_slots := n\<rparr>) = core_ok L s"
  "core_ok L (s\<lparr>sweep_active := b\<rparr>) = core_ok L s"
  by (simp_all add: core_ok_def tracked_jobs_def)

text \<open>A change of the core that leaves the workers alone.\<close>

definition undisturbed :: "int list \<Rightarrow> seller_state \<Rightarrow> seller_state \<Rightarrow> bool" where
  "undisturbed L s s' \<longleftrightarrow> core_ok L s' \<and> inflight s' = inflight s \<and> sweep_active s' = sweep_active s
     \<and> (\<forall>w. worker_ok L s w \<longrightarrow> fst w \<in> inflight s \<longrightarrow> worker_ok L s' w)"

lemma undisturbed_inv:
  assumes "seller_inv c" "undisturbed (landed_jobs (seller_log c)) (seller_core c) s'"
  shows "seller_inv (c\<lparr>seller_core := s'\<rparr>)"
proof -
  have "worker_ok (landed_jobs (seller_log c)) s' w" if "w \<in># workers c" for w
  proof -
    obtain k v p where "w = (k, v, p)" by (cases w)
    then show ?thesis using assms(2) seller_invD(3)[OF assms(1) that] worker_inflight[OF assms(1), of k v p] that
      by (simp add: undisturbed_def)
  qed
  then show ?thesis using assms seller_invD[OF assms(1)] by (simp add: seller_inv_def undisturbed_def)
qed

lemma undisturbed_trans: "undisturbed L s s1 \<Longrightarrow> undisturbed L s1 s2 \<Longrightarrow> undisturbed L s s2"
  by (simp add: undisturbed_def)

lemma pruned_undisturbed:
  assumes "pruned P s s'" "core_ok L s"
  shows "undisturbed L s s'"
  unfolding undisturbed_def
proof (intro conjI allI impI)
  fix w assume "worker_ok L s w" "fst w \<in> inflight s"
  then show "worker_ok L s' w"
    using pruned_kept[OF assms(1), of "fst w"] worker_ok_kept[of L s "fst w" "fst (snd w)" "snd (snd w)" s' L] by simp
qed (use assms pruned_ok pruned_fields[OF assms(1)] in auto)

text \<open>Only a job on which no worker has acted without a context gets one.\<close>

lemma install_undisturbed:
  assumes ok: "core_ok L s" and fresh: "j \<notin> handled_jobs s" "j \<notin> contextless_started s"
    and ctxs: "f = job_contexts s \<or> job_contexts s j = None \<and> f = (job_contexts s)(j \<mapsto> ctx)"
    and evs: "dom ev \<subseteq> insert j (dom (context_events s))"
  shows "undisturbed L s (s\<lparr>job_contexts := f, job_specs := (job_specs s)(j \<mapsto> spec), context_events := ev\<rparr>)" (is "undisturbed L s ?s")
  unfolding undisturbed_def
proof (intro conjI allI impI)
  have "tracked_jobs ?s \<subseteq> insert j (tracked_jobs s)" using ctxs evs by (auto simp: tracked_jobs_def)
  then have "handled_jobs ?s \<inter> tracked_jobs ?s = {}" using core_okD(4)[OF ok] fresh(1) by auto
  moreover have "dom f \<subseteq> insert j (dom (job_contexts s))" using ctxs by auto
  then have "contextless_started ?s \<inter> dom (job_contexts ?s) = {}" using fresh(2) core_okD(8)[OF ok] by auto
  ultimately show "core_ok L ?s" using core_okD[OF ok] by (simp add: core_ok_def)
next
  fix w assume w: "worker_ok L s w" "fst w \<in> inflight s"
  obtain k v p where k: "w = (k, v, p)" by (cases w)
  have "phase_ok s k v p" using w k by (simp add: worker_ok_def)
  then have "phase_ok ?s k v p" using ctxs fresh(2) by (cases p) (auto simp: held_def)
  then show "worker_ok L ?s w" using w k by (simp add: worker_ok_def)
qed auto

lemma notify_commit_undisturbed:
  assumes ok: "core_ok L s" and commit: "notify_commit tracked j snapshot ctx s = (s', r)"
  shows "undisturbed L s s'"
proof (cases "j \<in> handled_jobs s \<or> j \<in> late_submit_successes s \<or> j \<in> contextless_started s")
  case True
  with commit ok show ?thesis by (auto simp: notify_commit_def undisturbed_def)
next
  case False
  define s1 where "s1 = prune_tracked_state tracked (Some j) s"
  have p: "pruned {j} s s1" unfolding s1_def using prune_pruned[of "Some j"] by simp
  note q = pruned_undisturbed[OF p ok]
  have ok1: "core_ok L s1" using q by (simp add: undisturbed_def)
  have fresh: "j \<notin> handled_jobs s1" "j \<notin> contextless_started s1" using False pruned_fields[OF p] by auto
  define ev where "ev = (if context_events s1 j = None then context_events s1 else (context_events s1)(j \<mapsto> True))"
  have ev: "dom ev \<subseteq> insert j (dom (context_events s1))" by (auto simp: ev_def)
  note inst = install_undisturbed[OF ok1 fresh _ ev, where ctx = ctx and spec = "snapshot_spec snapshot"]
  show ?thesis
  proof (cases "job_contexts s1 j")
    case None
    with commit False have "s' = s1\<lparr>job_contexts := (job_contexts s1)(j \<mapsto> ctx),
        job_specs := (job_specs s1)(j \<mapsto> snapshot_spec snapshot), context_events := ev\<rparr>"
      unfolding notify_commit_def s1_def[symmetric] ev_def by simp
    with inst[of "(job_contexts s1)(j \<mapsto> ctx)"] None undisturbed_trans[OF q] show ?thesis by simp
  next
    case (Some existing)
    with commit False have "s' = s1 \<or> s' = s1\<lparr>job_specs := (job_specs s1)(j \<mapsto> snapshot_spec snapshot), context_events := ev\<rparr>"
      unfolding notify_commit_def s1_def[symmetric] ev_def by (auto split: if_splits)
    with inst[of "job_contexts s1"] q undisturbed_trans[OF q] show ?thesis by auto
  qed
qed

lemma inv_frame:
  "seller_inv (c\<lparr>notifications := M\<rparr>) = seller_inv c" "seller_inv (c\<lparr>detached_reads := n\<rparr>) = seller_inv c"
  "seller_inv (c\<lparr>detached_validations := n\<rparr>) = seller_inv c" "seller_inv (with_reply r c) = seller_inv c"
  by (simp_all add: seller_inv_def with_reply_def)

lemma sweep_inv:
  assumes "seller_inv c" shows "seller_inv (with_sweep c)"
  using assms by (simp add: with_sweep_def spawn_sweep_def seller_inv_def)

lemma finish_sweep_inv:
  assumes inv: "seller_inv c" and "sweeps c = Suc n" and fin: "finish_sweep found (seller_core c) = (s', ws)"
  shows "seller_inv (c\<lparr>seller_core := s', sweeps := n, workers := workers c + mset ws\<rparr>)"
proof -
  obtain js s1 where js: "spawn_jobs js (seller_core c) = (s1, ws)" "s' = s1\<lparr>sweep_active := False\<rparr>"
    using fin by (auto simp: finish_sweep_def split: prod.splits)
  from spawn_inv[OF inv spawn_jobs_good[OF seller_invD(1)[OF inv] js(1)]]
  have inv1: "seller_inv (c\<lparr>seller_core := s1, workers := workers c + mset ws\<rparr>)" .
  have "n = 0" using assms(2) seller_invD(4)[OF inv] by (simp split: if_splits)
  then show ?thesis using inv1 by (simp add: js(2) seller_inv_def)
qed

lemma notify_step_inv:
  assumes "notify_step c c'" "seller_inv c" shows "seller_inv c'"
  using assms
proof (induction rule: notify_step.induct)
  case (chain_read c j a M R)
  then show ?case by (auto simp: chain_read_ends_def Let_def seller_inv_def with_reply_def split: sum.splits)
next
  case (context_check c j a snapshot M tracked L N now)
  let ?s = "(seller_core c)\<lparr>notify_validation_slots := notify_validation_slots (seller_core c) + 1\<rparr>"
  have inv1: "seller_inv (c\<lparr>seller_core := ?s\<rparr>)" using context_check(4) by (simp add: seller_inv_def)
  have inv2: "seller_inv (c\<lparr>seller_core := s'\<rparr>)"
    if "notify_commit tracked j snapshot ctx ?s = (s', r)" for ctx s' r
    using undisturbed_inv[OF inv1] notify_commit_undisturbed[OF seller_invD(1)[OF inv1]] that by simp
  show ?case unfolding context_check_ends_def Let_def using inv1 inv2
    by (auto simp: seller_inv_def with_reply_def split: sum.splits prod.splits option.splits)
next
  case (reported c j M)
  obtain s ws where spawn: "spawn_job j True (seller_core c) = (s, ws)" by fastforce
  from spawn_inv[OF reported(2) spawn_job_good[OF seller_invD(1)[OF reported(2)] spawn]]
  have "seller_inv (c\<lparr>notifications := M, seller_core := s, workers := workers c + mset ws\<rparr>)" by (simp add: seller_inv_def)
  then show ?case by (simp add: notify_accepts_def spawn inv_frame sweep_inv)
qed (auto simp: seller_inv_def with_reply_def)

lemma seller_start_inv: "seller_inv seller_start"
  by (simp add: seller_inv_def seller_start_def seller_init_def core_ok_def tracked_jobs_def)

lemma task_step_inv: "task_step c c' \<Longrightarrow> seller_inv c \<Longrightarrow> seller_inv c'"
  by (induction rule: task_step.induct) (auto intro: notify_step_inv work_inv finish_sweep_inv)

lemma arrival_inv: "seller_inv c \<Longrightarrow> seller_inv (notify_arrives data now c)"
  by (auto simp: notify_arrives_def inv_frame sweep_inv split: sum.splits notify_reply.splits)

lemma reachable_inv: "reachable c \<Longrightarrow> seller_inv c"
  by (induction rule: reachable.induct) (auto simp: seller_start_inv elim!: seller_step.cases intro: task_step_inv arrival_inv)

end
