(* ===== verification/Seller_Runs.thy ===== *)
theory Seller_Runs
  imports Seller_Laws
begin

text \<open>
  What the runs of the seller guarantee beyond the bookkeeping: only authorized contexts are used, the
  threads are bounded, the retained state is bounded, and all work ends.
\<close>

section \<open>Authorized contexts\<close>

text \<open>
  A context of a job: some read of the chain verified the job, and its client signed the context, whose
  gateway was then validated.
\<close>

definition authorized_context :: "int \<Rightarrow> job_context \<Rightarrow> bool" where
  "authorized_context j ctx \<longleftrightarrow>
     (\<exists>(R :: chain_read) snapshot L N a now.
        verify_signed_job_snapshot R j = Inr (Inr snapshot)
        \<and> verify_and_validate_notify_context L N a j snapshot now = Inr ctx)"

fun notify_phase_ok :: "notify_phase \<Rightarrow> bool" where
  "notify_phase_ok (AwaitingCheckSlot j a snapshot) =
     (\<exists>R :: chain_read. verify_signed_job_snapshot R j = Inr (Inr snapshot))"
| "notify_phase_ok (CheckingContext j a snapshot) =
     (\<exists>R :: chain_read. verify_signed_job_snapshot R j = Inr (Inr snapshot))"
| "notify_phase_ok _ = True"

text \<open>What a submission may be made from.\<close>

definition submission_ok :: "int \<Rightarrow> bool \<Rightarrow> job_context option \<Rightarrow> job_spec option \<Rightarrow> bool" where
  "submission_ok j v ctx spec \<longleftrightarrow> (\<forall>c. ctx = Some c \<longrightarrow> authorized_context j c) \<and> context_enough v ctx spec"

fun event_ok :: "seller_event \<Rightarrow> bool" where
  "event_ok (SubmitStarted j v ctx spec work) = submission_ok j v ctx spec"
| "event_ok (Landed j v ctx spec) = submission_ok j v ctx spec"
| "event_ok (Replied r) = True"

definition contexts_ok :: "(int \<rightharpoonup> job_context) \<Rightarrow> bool" where
  "contexts_ok f \<longleftrightarrow> (\<forall>j c. f j = Some c \<longrightarrow> authorized_context j c)"

definition authorized_inv :: "seller \<Rightarrow> bool" where
  "authorized_inv c \<longleftrightarrow> contexts_ok (job_contexts (seller_core c))
     \<and> (\<forall>p\<in>#notifications c. notify_phase_ok p) \<and> (\<forall>e\<in>set (seller_log c). event_ok e)"

lemma contexts_ok_less: "contexts_ok f \<Longrightarrow> g \<subseteq>\<^sub>m f \<Longrightarrow> contexts_ok g"
  unfolding contexts_ok_def by (metis domI map_le_def)

lemma spawn_job_contexts: "spawn_job j v s = (s', ws) \<Longrightarrow> job_contexts s' = job_contexts s"
  by (auto simp: spawn_job_def split: if_splits)

lemma spawn_jobs_contexts: "spawn_jobs js s = (s', ws) \<Longrightarrow> job_contexts s' = job_contexts s"
  by (induction js arbitrary: s s' ws) (auto simp: spawn_job_contexts split: prod.splits)

lemma run_job_end_contexts: "run_job_end j v t s = (s', ws) \<Longrightarrow> job_contexts s' \<subseteq>\<^sub>m job_contexts s"
  by (auto simp: run_job_end_def Let_def map_le_def dest: spawn_job_contexts split: if_splits)

lemma own_change_contexts: "own_change j s s' \<Longrightarrow> job_contexts s' \<subseteq>\<^sub>m job_contexts s"
  by (simp add: own_change_def)

lemma worker_step_contexts:
  assumes "worker_step s (j, v, p) s' ws es" "j \<in> inflight s" "inflight_verified s j = Some v"
  shows "job_contexts s' \<subseteq>\<^sub>m job_contexts s"
  using assms
proof (induction s "(j, v, p)" s' ws es rule: worker_step.induct)
  case (start s s' q)
  then show ?case using run_job_start_own own_change_contexts by blast
next
  case (enter_work spec s s' q)
  then show ?case by (auto simp: do_work_start_def Let_def split: if_splits)
next
  case (funded tracked s snapshot now1 now2 s' q)
  then show ?case using funded_reported_own own_change_contexts by blast
next
  case (waited spec s s' q)
  then show ?case using context_waited_own own_change_contexts by blast
qed (auto dest: run_job_end_contexts)

lemma worker_step_events:
  assumes "worker_step s (j, v, p) s' ws es" "worker_ok L s (j, v, p)" "contexts_ok (job_contexts s)" "e \<in> set es"
  shows "event_ok e"
  using assms
  by (induction s "(j, v, p)" s' ws es rule: worker_step.induct)
    (auto simp: worker_ok_def held_def contexts_ok_def submission_ok_def landing_def split: if_splits)

lemma notify_commit_contexts:
  assumes "notify_commit tracked j snapshot ctx s = (s', r)" "contexts_ok (job_contexts s)" "authorized_context j ctx"
  shows "contexts_ok (job_contexts s')"
proof -
  let ?s1 = "prune_tracked_state tracked (Some j) s"
  have "contexts_ok (job_contexts ?s1)"
    by (rule contexts_ok_less[OF assms(2) pruned_contexts[OF prune_pruned]])
  with assms show ?thesis
    by (auto simp: notify_commit_def Let_def contexts_ok_def split: if_splits option.splits)
qed

lemma notify_step_authorized:
  assumes "notify_step c c'" "authorized_inv c" shows "authorized_inv c'"
  using assms
proof (induction rule: notify_step.induct)
  case (chain_read c j a M R)
  then show ?case
    by (auto simp: chain_read_ends_def Let_def snapshot_reply_def authorized_inv_def with_reply_def split: sum.splits prod.splits if_splits)
next
  case (context_check c j a snapshot M tracked L N now)
  let ?s = "(seller_core c)\<lparr>notify_validation_slots := notify_validation_slots (seller_core c) + 1\<rparr>"
  let ?r = "context_reply j (verify_and_validate_notify_context L N a j snapshot now)"
  have base: "contexts_ok (job_contexts ?s)" "\<forall>p\<in>#M. notify_phase_ok p" "\<forall>e\<in>set (seller_log c). event_ok e"
    using context_check(1,4) by (auto simp: authorized_inv_def)
  show ?case
  proof (cases ?r)
    case (Inl reply)
    then show ?thesis using base by (auto simp: context_check_ends_def Let_def authorized_inv_def with_reply_def)
  next
    case (Inr ctx)
    then have "verify_and_validate_notify_context L N a j snapshot now = Inr ctx"
      by (auto simp: context_reply_def split: sum.splits notify_error.splits)
    moreover obtain R :: chain_read where "verify_signed_job_snapshot R j = Inr (Inr snapshot)"
      using context_check(1,4) by (auto simp: authorized_inv_def)
    ultimately have "authorized_context j ctx" unfolding authorized_context_def by blast
    moreover obtain s' r where commit: "notify_commit tracked j snapshot ctx ?s = (s', r)" by fastforce
    ultimately have "contexts_ok (job_contexts s')" using notify_commit_contexts base(1) by blast
    then show ?thesis using base Inr commit
      by (auto simp: context_check_ends_def Let_def authorized_inv_def with_reply_def split: option.splits)
  qed
next
  case (reported c j M)
  obtain s ws where "spawn_job j True (seller_core c) = (s, ws)" by fastforce
  with reported spawn_job_contexts[OF this] show ?case
    by (auto simp: notify_accepts_def with_sweep_def spawn_sweep_def with_reply_def authorized_inv_def)
qed (auto simp: authorized_inv_def with_reply_def)

lemma task_step_authorized:
  assumes "task_step c c'" "seller_inv c" "authorized_inv c" shows "authorized_inv c'"
  using assms
proof (induction rule: task_step.induct)
  case (notify c c')
  then show ?case using notify_step_authorized by blast
next
  case (work c w W s' ws es)
  obtain j v p where w: "w = (j, v, p)" by (cases w)
  have ok: "worker_ok (landed_jobs (seller_log c)) (seller_core c) (j, v, p)" and j: "j \<in> inflight (seller_core c)"
    using work(1,3) w seller_invD(3) worker_inflight by fastforce+
  have "inflight_verified (seller_core c) j = Some v" using ok by (simp add: worker_ok_def)
  then have "contexts_ok (job_contexts s')"
    using worker_step_contexts j work(2,4) w contexts_ok_less by (fastforce simp: authorized_inv_def)
  moreover have "\<forall>e\<in>set es. event_ok e"
    using worker_step_events ok work(2,4) w by (fastforce simp: authorized_inv_def)
  ultimately show ?case using work(4) by (auto simp: authorized_inv_def)
next
  case (sweep c n found s' ws)
  then obtain js s1 where "spawn_jobs js (seller_core c) = (s1, ws)" "s' = s1\<lparr>sweep_active := False\<rparr>"
    by (auto simp: finish_sweep_def split: prod.splits)
  with spawn_jobs_contexts sweep(4) show ?case by (auto simp: authorized_inv_def)
qed

lemma arrival_authorized: "authorized_inv c \<Longrightarrow> authorized_inv (notify_arrives data now c)"
  by (auto simp: notify_arrives_def authorized_inv_def with_reply_def with_sweep_def spawn_sweep_def
      split: sum.splits notify_reply.splits)

lemma reachable_authorized: "reachable c \<Longrightarrow> authorized_inv c"
proof (induction rule: reachable.induct)
  case initially
  show ?case by (simp add: authorized_inv_def seller_start_def seller_init_def contexts_ok_def)
next
  case (step c c')
  from step(2) show ?case
    by cases (use step reachable_inv task_step_authorized arrival_authorized in blast)+
qed

section \<open>Bounded threads\<close>

fun reads_chain :: "notify_phase \<Rightarrow> bool" where
  "reads_chain (ReadingChain j a) = True"
| "reads_chain _ = False"

fun checks_context :: "notify_phase \<Rightarrow> bool" where
  "checks_context (CheckingContext j a snapshot) = True"
| "checks_context _ = False"

definition running_reads :: "seller \<Rightarrow> nat" where
  "running_reads c = size (filter_mset reads_chain (notifications c)) + detached_reads c"

definition running_validations :: "seller \<Rightarrow> nat" where
  "running_validations c = size (filter_mset checks_context (notifications c)) + detached_validations c"

definition slots_inv :: "seller \<Rightarrow> bool" where
  "slots_inv c \<longleftrightarrow> chain_read_slots (seller_core c) + running_reads c = MAX_CHAIN_READ_WORKERS
     \<and> notify_validation_slots (seller_core c) + running_validations c = MAX_NOTIFY_VALIDATION_WORKERS"

definition same_slots :: "seller_state \<Rightarrow> seller_state \<Rightarrow> bool" where
  "same_slots s s' \<longleftrightarrow> chain_read_slots s' = chain_read_slots s \<and> notify_validation_slots s' = notify_validation_slots s"

lemma spawn_job_slots: "spawn_job j v s = (s', ws) \<Longrightarrow> same_slots s s'"
  by (auto simp: spawn_job_def same_slots_def split: if_splits)

lemma spawn_jobs_slots: "spawn_jobs js s = (s', ws) \<Longrightarrow> same_slots s s'"
proof (induction js arbitrary: s s' ws)
  case (Cons j js)
  then show ?case by (auto simp: same_slots_def dest!: spawn_job_slots split: prod.splits)
qed (simp add: same_slots_def)

lemma prune_slots: "same_slots s (prune_tracked_state tracked protect s)"
  using pruned_fields(8,9)[OF prune_pruned] by (simp add: same_slots_def)

lemma worker_step_slots: "worker_step s w s' ws es \<Longrightarrow> same_slots s s'"
proof (induction rule: worker_step.induct)
  case (finished j v r s s' ws)
  then show ?case by (auto simp: run_job_end_def Let_def same_slots_def dest!: spawn_job_slots split: if_splits)
next
  case (funded tracked s j snapshot now1 now2 s' p v)
  then show ?case using prune_slots[of "s\<lparr>job_specs := (job_specs s)(j \<mapsto> snapshot_spec snapshot)\<rparr>" tracked "Some j"]
    by (auto simp: funded_reported_def context_known_def await_sweep_context_def await_context_end_def do_work_start_def
        Let_def same_slots_def split: if_splits prod.splits option.splits bool.splits)
qed (auto simp: same_slots_def run_job_start_def do_work_start_def context_waited_def context_known_def
    await_context_end_def Let_def split: if_splits prod.splits option.splits bool.splits)

lemma notify_commit_slots: "notify_commit tracked j snapshot ctx s = (s', r) \<Longrightarrow> same_slots s s'"
  using prune_slots[of s tracked "Some j"]
  by (auto simp: notify_commit_def Let_def same_slots_def split: if_splits option.splits)

lemma with_sweep_slots [simp]: "slots_inv (with_sweep c) = slots_inv c"
  by (simp add: with_sweep_def spawn_sweep_def slots_inv_def running_reads_def running_validations_def)

lemma with_reply_slots [simp]: "slots_inv (with_reply r c) = slots_inv c"
  by (simp add: with_reply_def slots_inv_def running_reads_def running_validations_def)

lemma notify_step_slots:
  assumes "notify_step c c'" "slots_inv c" shows "slots_inv c'"
  using assms
proof (induction rule: notify_step.induct)
  case (chain_read c j a M R)
  then show ?case
    by (auto simp: chain_read_ends_def Let_def with_reply_def slots_inv_def running_reads_def running_validations_def
        split: sum.splits)
next
  case (context_check c j a snapshot M tracked L N now)
  then show ?case
    by (auto simp: context_check_ends_def Let_def with_reply_def slots_inv_def running_reads_def running_validations_def
        same_slots_def dest!: notify_commit_slots split: sum.splits prod.splits option.splits)
next
  case (reported c j M)
  obtain s ws where spawn: "spawn_job j True (seller_core c) = (s, ws)" by fastforce
  from spawn_job_slots[OF spawn] reported show ?case
    by (simp add: notify_accepts_def spawn) (simp add: same_slots_def slots_inv_def running_reads_def running_validations_def)
qed (auto simp: slots_inv_def running_reads_def running_validations_def with_reply_def)

lemma core_slots:
  "slots_inv c \<Longrightarrow> same_slots (seller_core c) s' \<Longrightarrow>
   slots_inv (c\<lparr>seller_core := s', sweeps := n, workers := W, seller_log := l\<rparr>)"
  "slots_inv c \<Longrightarrow> same_slots (seller_core c) s' \<Longrightarrow>
   slots_inv (c\<lparr>seller_core := s', workers := W, seller_log := l\<rparr>)"
  "slots_inv c \<Longrightarrow> same_slots (seller_core c) s' \<Longrightarrow>
   slots_inv (c\<lparr>seller_core := s', sweeps := n, workers := W\<rparr>)"
  by (auto simp: same_slots_def slots_inv_def running_reads_def running_validations_def)

lemma finish_sweep_slots: "finish_sweep found s = (s', ws) \<Longrightarrow> same_slots s s'"
  by (auto simp: finish_sweep_def same_slots_def dest!: spawn_jobs_slots split: prod.splits)

lemma reachable_slots: "reachable c \<Longrightarrow> slots_inv c"
proof (induction rule: reachable.induct)
  case initially
  show ?case by (simp add: slots_inv_def running_reads_def running_validations_def seller_start_def seller_init_def)
next
  case (step c c')
  from step(2) show ?case
  proof cases
    case task
    then show ?thesis using step(3)
      by cases (auto intro: notify_step_slots core_slots worker_step_slots finish_sweep_slots)
  next
    case (arrival data now)
    then show ?thesis using step(3)
      by (auto simp: notify_arrives_def split: sum.splits notify_reply.splits)
        (simp_all add: slots_inv_def running_reads_def running_validations_def)
  qed
qed

section \<open>Bounded state\<close>

text \<open>Whether \<open>a\<close> goes stale no later than \<open>b\<close>: a missing deadline never does.\<close>

fun no_later :: "int option \<Rightarrow> int option \<Rightarrow> bool" where
  "no_later (Some a) (Some b) = (a \<le> b)"
| "no_later a None = True"
| "no_later None (Some b) = False"

lemma evictable_sorted:
  "sorted_wrt (\<lambda>a b. no_later (context_deadlines s a) (context_deadlines s b)) (evictable_jobs tracked protect s)"
proof -
  have stale: "sorted_wrt (\<lambda>a b. no_later (context_deadlines s a) (context_deadlines s b))
      (sort_key (\<lambda>job. the (context_deadlines s job)) (filter (\<lambda>job. context_deadlines s job \<noteq> None) free))" for free
  proof -
    let ?xs = "sort_key (\<lambda>job. the (context_deadlines s job)) (filter (\<lambda>job. context_deadlines s job \<noteq> None) free)"
    have "sorted_wrt (\<lambda>a b. the (context_deadlines s a) \<le> the (context_deadlines s b)) ?xs"
      using sorted_sort_key[of "\<lambda>job. the (context_deadlines s job)"] by (simp add: sorted_map)
    then show ?thesis by (rule sorted_wrt_mono_rel[rotated]) auto
  qed
  have rest: "sorted_wrt (\<lambda>a b. no_later (context_deadlines s a) (context_deadlines s b))
      (filter (\<lambda>job. context_deadlines s job = None) free)" for free
    by (induction free) auto
  show ?thesis unfolding evictable_jobs_def Let_def sorted_wrt_append by (intro conjI stale rest) auto
qed

lemma tracked_after_prune:
  fixes protect :: "int option"
  assumes "distinct tracked" "set tracked = tracked_jobs s"
  defines "V \<equiv> set (take (length tracked - MAX_TRACKED_JOBS) (evictable_jobs tracked protect s))"
  shows "tracked_jobs (prune_tracked_state tracked protect s) = tracked_jobs s - V"
proof -
  have "prune_tracked_state tracked protect s = forget_jobs V s"
    by (simp add: prune_tracked_state_def Let_def V_def)
  then show ?thesis by (auto simp: tracked_jobs_def forget_jobs_def split: if_splits)
qed

lemma prune_bounds:
  fixes protect :: "int option"
  assumes "distinct tracked" "set tracked = tracked_jobs s"
  defines "s' \<equiv> prune_tracked_state tracked protect s"
    and "P \<equiv> inflight s \<union> pending_verified_handoffs s \<union> set_option protect"
  shows "card (tracked_jobs s') \<le> max MAX_TRACKED_JOBS (card (tracked_jobs s \<inter> P))"
    and "a \<in> tracked_jobs s - tracked_jobs s' \<Longrightarrow> b \<in> tracked_jobs s' - P \<Longrightarrow>
      no_later (context_deadlines s a) (context_deadlines s b)"
proof -
  let ?n = "length tracked - MAX_TRACKED_JOBS" and ?E = "evictable_jobs tracked protect s"
  have fin: "finite (tracked_jobs s)" and len: "length tracked = card (tracked_jobs s)"
    using assms(1,2) by (metis List.finite_set, metis distinct_card)
  have E: "set ?E = tracked_jobs s - P" using assms(2) set_evictable[of tracked protect s] by (auto simp: P_def)
  have dist: "distinct ?E" using assms(1) by (rule distinct_evictable)
  have after: "tracked_jobs s' = tracked_jobs s - set (take ?n ?E)"
    unfolding s'_def by (rule tracked_after_prune[OF assms(1,2)])
  have cE: "length ?E = card (tracked_jobs s - P)" using distinct_card[OF dist] E by simp
  have "card (set (take ?n ?E)) = min ?n (length ?E)" using dist by (simp add: distinct_card)
  moreover have "set (take ?n ?E) \<subseteq> tracked_jobs s" using E set_take_subset[of ?n ?E] by blast
  ultimately have "card (tracked_jobs s') = card (tracked_jobs s) - min ?n (card (tracked_jobs s - P))"
    using fin by (simp add: after card_Diff_subset cE finite_subset)
  moreover have "card (tracked_jobs s) = card (tracked_jobs s - P) + card (tracked_jobs s \<inter> P)"
    using fin by (metis Diff_disjoint Un_Diff_Int card_Un_disjoint finite_Diff finite_Int inf.commute Diff_Int_distrib Int_Diff add.commute card_Diff_subset_Int)
  ultimately show "card (tracked_jobs s') \<le> max MAX_TRACKED_JOBS (card (tracked_jobs s \<inter> P))" using len by linarith
  assume a: "a \<in> tracked_jobs s - tracked_jobs s'" and b: "b \<in> tracked_jobs s' - P"
  have "a \<in> set (take ?n ?E)" using a after by blast
  moreover have "b \<in> set (drop ?n ?E)"
  proof -
    have "b \<in> set ?E" using b after E by blast
    then have "b \<in> set (take ?n ?E) \<union> set (drop ?n ?E)" by (metis append_take_drop_id set_append)
    then show ?thesis using b after by blast
  qed
  moreover have "sorted_wrt (\<lambda>a b. no_later (context_deadlines s a) (context_deadlines s b)) (take ?n ?E @ drop ?n ?E)"
    using evictable_sorted by simp
  ultimately show "no_later (context_deadlines s a) (context_deadlines s b)" unfolding sorted_wrt_append by blast
qed

section \<open>All work ends\<close>

fun phase_rank :: "job_phase \<Rightarrow> nat" where
  "phase_rank Scheduled = 9"
| "phase_rank (EnteringWork spec) = 8"
| "phase_rank EnteringSweep = 8"
| "phase_rank Verifying = 7"
| "phase_rank (ReportingFunded snapshot) = 6"
| "phase_rank (AwaitingContext spec) = 5"
| "phase_rank (ReadingSpec ctx) = 5"
| "phase_rank (Working ctx spec) = 4"
| "phase_rank (Submitting ctx spec work) = 3"
| "phase_rank (SubmitAbandoned ctx spec) = 2"
| "phase_rank (Ended r) = 1"

text \<open>A worker of a sweep may be followed by a verified one, and by nothing else.\<close>

definition worker_rank :: "worker \<Rightarrow> nat" where
  "worker_rank w = (case w of (j, v, p) \<Rightarrow> phase_rank p + (if v then 0 else 10))"

fun notify_rank :: "notify_phase \<Rightarrow> nat" where
  "notify_rank (AwaitingReadSlot j a) = 5"
| "notify_rank (ReadingChain j a) = 4"
| "notify_rank (AwaitingCheckSlot j a snapshot) = 3"
| "notify_rank (CheckingContext j a snapshot) = 2"
| "notify_rank (ReportingCall j) = 1"

definition notify_weight :: "seller \<Rightarrow> nat" where
  "notify_weight c = sum_mset (image_mset notify_rank (notifications c)) + detached_reads c + detached_validations c"

definition worker_weight :: "seller \<Rightarrow> nat" where
  "worker_weight c = sum_mset (image_mset worker_rank (workers c))"

lemma worker_step_rank:
  "worker_step s w s' ws es \<Longrightarrow> sum_list (map worker_rank ws) < worker_rank w"
proof (induction rule: worker_step.induct)
  case (finished j v r s s' ws)
  then show ?case
    by (auto simp: run_job_end_def Let_def spawn_job_def worker_rank_def split: if_splits)
next
  case (cancelled p s j v)
  then show ?case by (cases p) (auto simp: worker_rank_def)
qed (auto simp: worker_rank_def run_job_start_def do_work_start_def verified_phase_def funded_reported_def
    context_known_def context_waited_def await_context_end_def read_spec_phase_def Let_def
    split: if_splits prod.splits option.splits bool.splits sum.splits)

lemma with_sweep_weights [simp]: "notify_weight (with_sweep c) = notify_weight c" "worker_weight (with_sweep c) = worker_weight c"
  by (simp_all add: with_sweep_def notify_weight_def worker_weight_def split: prod.splits)

lemma with_reply_weights [simp]: "notify_weight (with_reply r c) = notify_weight c"
  by (simp add: with_reply_def notify_weight_def)

lemma notify_step_weight: "notify_step c c' \<Longrightarrow> notify_weight c' < notify_weight c"
proof (induction rule: notify_step.induct)
  case (context_check c j a snapshot M tracked L N now)
  then show ?case
    by (auto simp: context_check_ends_def Let_def split: sum.splits prod.splits option.splits)
      (auto simp: notify_weight_def)
next
  case (reported c j M)
  then show ?case by (auto simp: notify_accepts_def split: prod.splits) (auto simp: notify_weight_def)
next
  case (chain_read c j a M R)
  then show ?case by (auto simp: chain_read_ends_def Let_def split: sum.splits) (auto simp: notify_weight_def)
qed (auto simp: notify_weight_def with_reply_def)

lemma task_step_decreases:
  "task_step c c' \<Longrightarrow> (c', c) \<in> measures [notify_weight, sweeps, worker_weight]"
proof (induction rule: task_step.induct)
  case (notify c c')
  then show ?case using notify_step_weight by simp
next
  case (work c w W s' ws es)
  then show ?case using worker_step_rank[OF work(2)]
    by (simp add: notify_weight_def worker_weight_def sum_mset_sum_list[symmetric])
next
  case (sweep c n found s' ws)
  then show ?case by (simp add: notify_weight_def)
qed

lemma task_steps_end: "wfP (\<lambda>c' c. task_step c c')"
  unfolding wfp_def by (rule wf_subset[OF wf_measures[of "[notify_weight, sweeps, worker_weight]"]])
    (auto intro: task_step_decreases)

lemma worker_moves: "\<exists>s' ws es. worker_step s (j, v, p) s' ws es"
proof (cases "cancellable p")
  case True
  then show ?thesis by (blast intro: worker_step.cancelled)
next
  case False
  then consider "p = Scheduled" | ctx spec work where "p = Submitting ctx spec work"
    | ctx spec where "p = SubmitAbandoned ctx spec" | r where "p = Ended r" by (cases p) auto
  then show ?thesis
  proof cases
    case 1
    obtain s' q where "run_job_start j v s = (s', q)" by fastforce
    then show ?thesis using 1 worker_step.start by blast
  next
    case 2
    then show ?thesis using worker_step.submitted by blast
  next
    case 3
    then show ?thesis using worker_step.submit_late by blast
  next
    case 4
    obtain s' ws where "run_job_end j v (terminal_result r) s = (s', ws)" by fastforce
    then show ?thesis using 4 worker_step.finished by blast
  qed
qed

lemma notification_moves: "notifications c \<noteq> {#} \<Longrightarrow> \<exists>c'. notify_step c c'"
proof -
  assume "notifications c \<noteq> {#}"
  then obtain p M where "notifications c = add_mset p M" by (meson multiset_cases)
  then show ?thesis
    by (cases p) (blast intro: read_slot_timeout chain_read_timeout check_slot_timeout context_check_timeout reported)+
qed

lemma busy_moves: "seller_busy c \<or> notifications c \<noteq> {#} \<Longrightarrow> \<exists>c'. task_step c c'"
proof -
  assume "seller_busy c \<or> notifications c \<noteq> {#}"
  then consider "notifications c \<noteq> {#}" | "workers c \<noteq> {#}" | "sweeps c > 0" by (auto simp: seller_busy_def)
  then show ?thesis
  proof cases
    case 1
    then show ?thesis using notification_moves task_step.notify by blast
  next
    case 2
    then obtain j v p W where "workers c = add_mset (j, v, p) W" by (metis multiset_cases surj_pair)
    then show ?thesis using worker_moves[of "seller_core c" j v p] task_step.work by blast
  next
    case 3
    then obtain n where "sweeps c = Suc n" by (auto simp: gr0_conv_Suc)
    then show ?thesis using task_step.sweep[of c n None] by (cases "finish_sweep None (seller_core c)") blast
  qed
qed

section \<open>Consequences\<close>

lemma size_filter_count: "size (filter_mset (\<lambda>w. fst w = j) W) = count (image_mset fst W) j"
  by (induction W) auto

lemma worker_jobs: "seller_inv c \<Longrightarrow> fst ` set_mset (workers c) = inflight (seller_core c)"
  using arg_cong[OF seller_invD(2), of c set_mset] core_okD(1)[OF seller_invD(1), of c] by simp

lemma delivered_once:
  assumes "seller_inv c"
  shows "size (filter_mset (\<lambda>w. fst w = j) (workers c)) \<le> 1
    \<and> distinct (landed_jobs (seller_log c))
    \<and> set (landed_jobs (seller_log c)) \<subseteq> handled_jobs (seller_core c) \<union> fst ` set_mset (workers c)
    \<and> handled_jobs (seller_core c) \<inter> fst ` set_mset (workers c) = {}"
  unfolding worker_jobs[OF assms] size_filter_count seller_invD(2)[OF assms]
  using core_okD(3,9,10)[OF seller_invD(1)[OF assms]] by (simp add: count_mset_set')

lemma authorized_contextD:
  assumes "authorized_context j x"
  shows "\<exists>(R :: chain_read) snapshot L N a now signed.
        job_verified R j snapshot
        \<and> verify_notify_authorization L a (JInt j) (snapshot_client snapshot) (JInt (snapshot_chain_id snapshot))
            (snapshot_contract snapshot) now = Inr signed
        \<and> (case gateway_url signed of
             None \<Rightarrow> x = signed
           | Some url \<Rightarrow> \<exists>checked. validate_gateway_url N None url = Inr checked
               \<and> x = signed\<lparr>gateway_url := Some checked\<rparr>)"
proof -
  from assms obtain R :: chain_read and snapshot L N a now where
    verified: "verify_signed_job_snapshot R j = Inr (Inr snapshot)"
    and checked: "verify_and_validate_notify_context L N a j snapshot now = Inr x"
    unfolding authorized_context_def by blast
  from checked obtain signed where signed: "verify_notify_authorization L a (JInt j) (snapshot_client snapshot)
      (JInt (snapshot_chain_id snapshot)) (snapshot_contract snapshot) now = Inr signed"
    "case gateway_url signed of None \<Rightarrow> x = signed
     | Some url \<Rightarrow> \<exists>checked. validate_gateway_url N None url = Inr checked \<and> x = signed\<lparr>gateway_url := Some checked\<rparr>"
    by (auto simp: verify_and_validate_notify_context_def sum_bind_def sum_map_def notify_code_def
        split: sum.splits option.splits)
  from snapshot_verified[OF verified] signed show ?thesis by blast
qed

lemma accepted_kept:
  assumes inv: "seller_inv c"
  shows "j \<in> handled_jobs (seller_core (notify_accepts j c)) \<or> j \<in> late_submit_successes (seller_core (notify_accepts j c))
    \<or> (\<exists>v p. (j, v, p) \<in># workers (notify_accepts j c)
        \<and> (v \<or> j \<in> pending_verified_handoffs (seller_core (notify_accepts j c))))"
proof -
  let ?s = "seller_core c"
  have "\<exists>v p. (j, v, p) \<in># workers c \<and> inflight_verified ?s j = Some v" if j: "j \<in> inflight ?s"
  proof -
    from j obtain w where "w \<in># workers c" "fst w = j" using worker_jobs[OF inv] by fastforce
    then obtain v p where "(j, v, p) \<in># workers c" by (cases w) auto
    with seller_invD(3)[OF inv this] show ?thesis by (auto simp: worker_ok_def)
  qed
  then show ?thesis
    by (cases "j \<in> inflight ?s")
      (auto simp: notify_accepts_def spawn_job_def with_sweep_def spawn_sweep_def with_reply_def)
qed

lemma handoff_step:
  assumes inv: "seller_inv c"
  shows "\<forall>r x s' ws es. (j, False, Ended r) \<in># workers c \<and> j \<in> pending_verified_handoffs (seller_core c)
     \<and> j \<notin> late_submit_successes (seller_core c) \<and> terminal_result r = False
     \<and> job_contexts (seller_core c) j = Some x \<and> worker_step (seller_core c) (j, False, Ended r) s' ws es
     \<longrightarrow> ws = [(j, True, Scheduled)] \<and> job_contexts s' j = Some x"
proof (intro allI impI, elim conjE)
  fix r x s' ws es
  assume a: "(j, False, Ended r) \<in># workers c" "j \<in> pending_verified_handoffs (seller_core c)"
    "j \<notin> late_submit_successes (seller_core c)" "terminal_result r = False" "job_contexts (seller_core c) j = Some x"
    and step: "worker_step (seller_core c) (j, False, Ended r) s' ws es"
  have "j \<notin> handled_jobs (seller_core c)"
    using worker_inflight[OF inv a(1)] core_okD(3)[OF seller_invD(1)[OF inv]] by blast
  moreover have "run_job_end j False False (seller_core c) = (s', ws)"
    using step a(4) by (cases rule: worker_step.cases) auto
  ultimately show "ws = [(j, True, Scheduled)] \<and> job_contexts s' j = Some x"
    using end_transient[of False j "seller_core c" False] a by (auto simp: released_def)
qed

end
