(* ===== verification/Seller_World.thy ===== *)
theory Seller_World
  imports Seller_Runs "HOL-Library.Code_Target_Nat"
begin

text \<open>A concrete run of the seller: job 7 is notified with a signed context, worked on and submitted.\<close>

definition sale_spec :: job_spec where
  "sale_spec = \<lparr>spec_task = JStr ''Analyse ACME'', spec_terms = JDict [], spec_price = JStr ''5''\<rparr>"

definition sale_job :: chain_job where
  "sale_job = \<lparr>chain_status = ''FUNDED'', chain_provider = ''0xME'', chain_client = ''0xclient'', chain_expired_at = 0,
     chain_description = [CHR ''{'', chr 34] @ ''chain_id'' @ [chr 34] @ '':97,'' @ [chr 34] @ ''verifying_contract'' @ [chr 34]
       @ '':'' @ [chr 34] @ ''0xcontract'' @ [chr 34] @ ''}'', chain_budget = 6\<rparr>"

definition sale_chain :: chain_read where
  "sale_chain = \<lparr>recover_quote = (\<lambda>t. Inr (Some ''0xme'')), keccak_hex = (\<lambda>t. []), is_address = (\<lambda>a. True),
     to_checksum = Inr, recover_text = (\<lambda>t s. Inl ValueError), parse_description = (\<lambda>t. Inr (Some sale_spec)),
     sdk_float = (\<lambda>t. NaN), active_client = Inr (97, ''0xcontract''), wallet_address = Inr ''0xMe'',
     get_chain_job = (\<lambda>j. Inr sale_job), expiry_clock = 0, quote_clock = 0\<rparr>"

definition sale_snapshot :: verified_job_snapshot where
  "sale_snapshot = \<lparr>snapshot_client = ''0xclient'', snapshot_chain_id = 97, snapshot_contract = ''0xcontract'',
     snapshot_spec = sale_spec\<rparr>"

definition sale_eth :: notify_eth where
  "sale_eth = \<lparr>checksum = Inr, recover_typed = (\<lambda>typed signature. Inr ''0xclient''), notify_sha = (\<lambda>b. b),
     notify_float = (\<lambda>t. NaN)\<rparr>"

definition sale_authorization :: json where
  "sale_authorization = JDict [(''context'', JStr ''{}''), (''expires_at'', JInt 1000),
     (''nonce'', JStr (''0x'' @ replicate 64 (CHR ''0''))), (''signature'', JStr (replicate 130 (CHR ''0'')))]"

definition sale_context :: job_context where
  "sale_context = \<lparr>context_digest = ''7b7d'', gateway_url = None, gateway_token = None,
     context_portfolio = [], context_risk_profile = None\<rparr>"

lemma sale_verified: "verify_signed_job_snapshot sale_chain 7 = Inr (Inr sale_snapshot)"
  by code_simp

lemma sale_snapshot_spec [simp]: "snapshot_spec sale_snapshot = sale_spec"
  by (simp add: sale_snapshot_def)

lemma sale_entry:
  "notify_entry [(''job_id'', JInt 7), (''authorization'', sale_authorization)] 900 = Inr (7, sale_authorization)"
  by code_simp

lemma sale_authorized:
  "verify_and_validate_notify_context sale_eth N sale_authorization 7 sale_snapshot 900 = Inr sale_context"
proof -
  have "verify_notify_authorization sale_eth sale_authorization (JInt 7) (snapshot_client sale_snapshot)
      (JInt (snapshot_chain_id sale_snapshot)) (snapshot_contract sale_snapshot) 900 = Inr sale_context" by code_simp
  then show ?thesis by (simp add: verify_and_validate_notify_context_def sale_context_def)
qed

definition sale_state :: seller_state where
  "sale_state = seller_init\<lparr>job_contexts := [7 \<mapsto> sale_context], job_specs := [7 \<mapsto> sale_spec],
     inflight := {7}, inflight_verified := [7 \<mapsto> True], sweep_active := True\<rparr>"

definition sale_seller :: "job_phase \<Rightarrow> seller_event list \<Rightarrow> seller" where
  "sale_seller p log = \<lparr>seller_core = sale_state, workers = {#(7, True, p)#}, sweeps = 1, notifications = {#},
     detached_reads = 0, detached_validations = 0, seller_log = log\<rparr>"

lemma sale_accepted: "reachable (sale_seller Scheduled [Replied (AcceptedJob 7)])"
proof -
  let ?start = "\<lambda>p s. seller_start\<lparr>seller_core := s, notifications := {#p#}\<rparr>"
  have "reachable (?start (AwaitingReadSlot 7 sale_authorization) seller_init)"
    using reachable.step[OF reachable.initially arrival[of _ "[(''job_id'', JInt 7), (''authorization'', sale_authorization)]" 900]]
    by (simp add: notify_arrives_def sale_entry seller_start_def)
  then have "reachable (?start (ReadingChain 7 sale_authorization) (seller_init\<lparr>chain_read_slots := 3\<rparr>))"
    by (rule reachable.step[OF _ task[OF notify]])
      (use read_slot[of "?start (AwaitingReadSlot 7 sale_authorization) seller_init" 7 sale_authorization "{#}"] in
        \<open>simp add: seller_init_def seller_start_def MAX_CHAIN_READ_WORKERS_def\<close>)
  then have "reachable (?start (AwaitingCheckSlot 7 sale_authorization sale_snapshot) seller_init)"
    by (rule reachable.step[OF _ task[OF notify]])
      (use chain_read[of "?start (ReadingChain 7 sale_authorization) (seller_init\<lparr>chain_read_slots := 3\<rparr>)" 7
          sale_authorization "{#}" sale_chain] in
        \<open>simp add: chain_read_ends_def sale_verified snapshot_reply_def seller_init_def seller_start_def MAX_CHAIN_READ_WORKERS_def\<close>)
  then have "reachable (?start (CheckingContext 7 sale_authorization sale_snapshot) (seller_init\<lparr>notify_validation_slots := 3\<rparr>))"
    by (rule reachable.step[OF _ task[OF notify]])
      (use check_slot[of "?start (AwaitingCheckSlot 7 sale_authorization sale_snapshot) seller_init" 7 sale_authorization sale_snapshot "{#}"] in
        \<open>simp add: seller_init_def seller_start_def MAX_NOTIFY_VALIDATION_WORKERS_def\<close>)
  then have "reachable (?start (ReportingCall 7)
      (seller_init\<lparr>job_contexts := [7 \<mapsto> sale_context], job_specs := [7 \<mapsto> sale_spec]\<rparr>))"
    by (rule reachable.step[OF _ task[OF notify]])
      (use context_check[of "?start (CheckingContext 7 sale_authorization sale_snapshot) (seller_init\<lparr>notify_validation_slots := 3\<rparr>)" 7
          sale_authorization sale_snapshot "{#}" "[]" sale_eth undefined 900] in
        \<open>simp add: context_check_ends_def sale_authorized context_reply_def notify_commit_def prune_tracked_state_def
          seller_init_def seller_start_def tracked_jobs_def Let_def MAX_NOTIFY_VALIDATION_WORKERS_def\<close>)
  then show ?thesis
    by (rule reachable.step[OF _ task[OF notify]])
      (use reported[of "?start (ReportingCall 7) (seller_init\<lparr>job_contexts := [7 \<mapsto> sale_context], job_specs := [7 \<mapsto> sale_spec]\<rparr>)" 7 "{#}"] in
        \<open>simp add: notify_accepts_def spawn_job_def with_sweep_def spawn_sweep_def with_reply_def sale_seller_def sale_state_def
          seller_init_def seller_start_def\<close>)
qed

lemma sale_work:
  "reachable (sale_seller p l) \<Longrightarrow> worker_step sale_state (7, True, p) sale_state [(7, True, q)] es \<Longrightarrow>
   reachable (sale_seller q (l @ es))"
  using reachable.step[of "sale_seller p l", OF _ task[OF work[of _ "(7, True, p)" "{#}" sale_state "[(7, True, q)]" es]]]
  by (simp add: sale_seller_def)

lemma sale_landed:
  "reachable (sale_seller (Ended (Delivered ''0xtx'' ''url''))
     [Replied (AcceptedJob 7), SubmitStarted 7 True (Some sale_context) (Some sale_spec) ''report'',
      Landed 7 True (Some sale_context) (Some sale_spec)])"
proof -
  have "reachable (sale_seller (EnteringWork (Some sale_spec)) [Replied (AcceptedJob 7)])"
    using sale_work[OF sale_accepted start[of 7 True sale_state sale_state "EnteringWork (Some sale_spec)"]]
    by (simp add: run_job_start_def sale_state_def)
  from sale_work[OF this enter_work[of 7 "Some sale_spec" sale_state sale_state "Working (Some sale_context) (Some sale_spec)"]]
  have "reachable (sale_seller (Working (Some sale_context) (Some sale_spec)) [Replied (AcceptedJob 7)])"
    by (simp add: do_work_start_def Let_def sale_state_def)
  from sale_work[OF sale_work[OF this worked[of _ _ _ _ _ "''report''"]] submitted[of _ _ _ _ _ _ "SubmitLanded ''0xtx'' ''url''"]]
  show ?thesis by (simp add: landing_def)
qed

end
