(* ===== verification/S3_Storage.thy ===== *)
theory S3_Storage
  imports Store_Refinement Py_Net
begin

text \<open>
  The content-addressed storage of deliverables (\<open>s3_storage.py\<close>). The S3 client and SHA-256 are
  parameters; \<open>S3StorageError\<close> is the error of the module, everything else that is raised passes through.
\<close>

section \<open>Configuration\<close>

datatype s3_exn = S3StorageError | S3Raised exn

definition MAX_DOWNLOAD_BYTES :: nat where "MAX_DOWNLOAD_BYTES = 2 * 1024 * 1024"
definition DEFAULT_PREFIX :: string where "DEFAULT_PREFIX = ''deliverables''"

record s3_storage_config =
  s3_bucket :: string
  s3_public_base :: string
  s3_prefix :: string

definition s3_env :: "(string \<Rightarrow> string option) \<Rightarrow> string \<Rightarrow> string" where
  "s3_env env name = py_strip (case env name of None \<Rightarrow> [] | Some v \<Rightarrow> v)"

text \<open>\<open>urlsplit\<close> itself may raise a \<open>ValueError\<close>, which is not turned into the error of the module.\<close>

definition s3_config_from_env :: "(string \<Rightarrow> string option) \<Rightarrow> s3_exn + s3_storage_config" where
  "s3_config_from_env env =
     (let bkt = s3_env env ''DELIVERABLE_S3_BUCKET'';
          base = s3_env env ''DELIVERABLE_PUBLIC_BASE'';
          prefix = py_strip_char (CHR ''/'') (py_strip
            (case env ''DELIVERABLE_S3_PREFIX'' of None \<Rightarrow> DEFAULT_PREFIX | Some v \<Rightarrow> v))
      in if (bkt \<noteq> []) \<noteq> (base \<noteq> []) then Inl S3StorageError
         else if bkt = [] then Inl S3StorageError
         else if \<not> bucket_re bkt then Inl S3StorageError
         else case urlsplit base of
           None \<Rightarrow> Inl (S3Raised ValueError)
         | Some parsed \<Rightarrow>
             (if url_port (url_netloc parsed) = None then Inl S3StorageError
              else if url_scheme parsed \<noteq> ''https'' \<or> fst (url_host_port (url_netloc parsed)) = []
                  \<or> url_userinfo (url_netloc parsed) \<noteq> ([], []) \<or> url_query parsed \<noteq> [] \<or> url_fragment parsed \<noteq> []
                  \<or> (url_path parsed \<noteq> [] \<and> url_path parsed \<noteq> ''/'')
              then Inl S3StorageError
              else if prefix = [] \<or> \<not> list_all prefix_segment_re (py_split (CHR ''/'') prefix) then Inl S3StorageError
              else Inr \<lparr>s3_bucket = bkt, s3_public_base = py_rstrip_char (CHR ''/'') base,
                s3_prefix = py_join ''/'' (py_split (CHR ''/'') prefix)\<rparr>))"

text \<open>\<open>None\<close> when nothing is configured and the storage is left as it is.\<close>

definition install_s3_storage_from_env :: "(string \<Rightarrow> string option) \<Rightarrow> s3_exn + s3_storage_config option" where
  "install_s3_storage_from_env env =
     (if s3_env env ''DELIVERABLE_S3_BUCKET'' = [] \<and> s3_env env ''DELIVERABLE_PUBLIC_BASE'' = [] then Inr None
      else sum_map Some (s3_config_from_env env))"

section \<open>Keys\<close>

definition safe_stem :: "string option \<Rightarrow> s3_exn + string" where
  "safe_stem filename =
     (let v = (case filename of None \<Rightarrow> ''manifest.json'' | Some f \<Rightarrow> if f = [] then ''manifest.json'' else f)
      in if \<not> prefix_segment_re v then Inl S3StorageError
         else Inr (if ends_with ''.json'' v then take (length v - 5) v else v))"

text \<open>\<open>_OBJECT_RE\<close>: the digest of a name \<open>stem-digest.json\<close>; its parts have fixed places from the end.\<close>

definition object_digest :: "string \<Rightarrow> string option" where
  "object_digest name =
     (let n = length name
      in if n < 71 then None
         else let stem = take (n - 70) name; rest = drop (n - 70) name; digest = take 64 (drop 1 rest)
           in if prefix_segment_re stem \<and> hd rest = CHR ''-'' \<and> list_all is_lower_hex digest \<and> drop 65 rest = ''.json''
              then Some digest else None)"

definition key_from_url :: "s3_storage_config \<Rightarrow> string \<Rightarrow> s3_exn + string \<times> string" where
  "key_from_url cfg url =
     (case (urlsplit url, urlsplit (s3_public_base cfg)) of
        (Some parsed, Some base) \<Rightarrow>
          (if url_scheme parsed \<noteq> ''https'' \<or> url_netloc parsed \<noteq> url_netloc base
              \<or> url_query parsed \<noteq> [] \<or> url_fragment parsed \<noteq> [] then Inl S3StorageError
           else let path = py_lstrip_by (\<lambda>c. c = CHR ''/'') (url_path parsed); prefix = s3_prefix cfg @ ''/''
             in if \<not> starts_with prefix path \<or> path = prefix \<or> CHR ''%'' \<in> set path then Inl S3StorageError
                else let remainder = drop (length prefix) path
                  in if CHR ''/'' \<in> set remainder then Inl S3StorageError
                     else case object_digest remainder of
                       None \<Rightarrow> Inl S3StorageError
                     | Some digest \<Rightarrow> Inr (path, digest))
      | _ \<Rightarrow> Inl (S3Raised ValueError))"

section \<open>Operations\<close>

text \<open>A response of \<open>get_object\<close> is its \<open>ContentLength\<close> and the reader of its body.\<close>

record 'w s3_client =
  s3_put :: "put_request \<Rightarrow> 'w \<Rightarrow> (exn + unit) \<times> 'w"
  s3_get :: "string \<Rightarrow> string \<Rightarrow> 'w \<Rightarrow> (exn + int \<times> (nat \<Rightarrow> exn + bytes)) \<times> 'w"
  s3_head :: "string \<Rightarrow> string \<Rightarrow> 'w \<Rightarrow> (exn + unit) \<times> 'w"
  s3_sha :: "bytes \<Rightarrow> bytes"
  s3_float :: "string \<Rightarrow> pyfloat"

definition s3_request :: "s3_storage_config \<Rightarrow> string \<Rightarrow> bytes \<Rightarrow> put_request" where
  "s3_request cfg key body = \<lparr>put_bucket = s3_bucket cfg, put_key = key, put_body = body,
     put_content_type = ''application/json'', put_cache_control = ''public,max-age=31536000,immutable'',
     put_if_none_match = False, put_if_match = None\<rparr>"

definition object_key :: "s3_storage_config \<Rightarrow> string \<Rightarrow> string \<Rightarrow> string" where
  "object_key cfg stem digest = s3_prefix cfg @ ''/'' @ stem @ ''-'' @ digest @ ''.json''"

definition s3_upload ::
  "('w, 'z) s3_client_scheme \<Rightarrow> s3_storage_config \<Rightarrow> json \<Rightarrow> string option \<Rightarrow> 'w \<Rightarrow> (s3_exn + string) \<times> 'w" where
  "s3_upload S cfg data filename w =
     (if \<not> is_dict data then (Inl S3StorageError, w)
      else if \<not> finite_json data then (Inl S3StorageError, w)
      else let body = utf8 (json_dumps compact_sorted data)
        in case safe_stem filename of
             Inl e \<Rightarrow> (Inl e, w)
           | Inr stem \<Rightarrow>
               (let key = object_key cfg stem (bytes_hex (s3_sha S body))
                in case s3_put S (s3_request cfg key body) w of
                     (Inl e, w') \<Rightarrow> (Inl (S3Raised e), w')
                   | (Inr _, w') \<Rightarrow> (Inr (s3_public_base cfg @ ''/'' @ key), w')))"

definition reject_constants :: "json_hooks \<Rightarrow> json_hooks" where
  "reject_constants h = h\<lparr>parse_constant := (\<lambda>t. None)\<rparr>"

text \<open>The checks of a body that was read, against the digest of its key.\<close>

definition checked_deliverable ::
  "('w, 'z) s3_client_scheme \<Rightarrow> string \<Rightarrow> bytes \<Rightarrow> s3_exn + dict" where
  "checked_deliverable S digest body =
     (if length body > MAX_DOWNLOAD_BYTES then Inl S3StorageError
      else case utf8_decode body of
        None \<Rightarrow> Inl S3StorageError
      | Some text \<Rightarrow>
     (case json_parse (reject_constants (default_hooks (s3_float S))) text of
        None \<Rightarrow> Inl S3StorageError
      | Some v \<Rightarrow>
     (case v of
        JDict d \<Rightarrow>
          (if \<not> finite_json v then Inl S3StorageError
           else if utf8 (json_dumps compact_sorted v) \<noteq> body then Inl S3StorageError
           else if bytes_hex (s3_sha S (utf8 (json_dumps compact_sorted v))) \<noteq> digest then Inl S3StorageError
           else Inr d)
      | _ \<Rightarrow> Inl S3StorageError)))"

definition s3_download ::
  "('w, 'z) s3_client_scheme \<Rightarrow> s3_storage_config \<Rightarrow> string \<Rightarrow> 'w \<Rightarrow> (s3_exn + dict) \<times> 'w" where
  "s3_download S cfg url w =
     (case key_from_url cfg url of
        Inl e \<Rightarrow> (Inl e, w)
      | Inr (key, digest) \<Rightarrow>
          (case s3_get S (s3_bucket cfg) key w of
             (Inl e, w') \<Rightarrow> (Inl (S3Raised e), w')
           | (Inr (declared, read), w') \<Rightarrow>
               (if declared > int MAX_DOWNLOAD_BYTES then (Inl S3StorageError, w')
                else case read (MAX_DOWNLOAD_BYTES + 1) of
                  Inl e \<Rightarrow> (Inl (S3Raised e), w')
                | Inr body \<Rightarrow> (checked_deliverable S digest body, w'))))"

definition s3_exists ::
  "('w, 'z) s3_client_scheme \<Rightarrow> s3_storage_config \<Rightarrow> string \<Rightarrow> 'w \<Rightarrow> (s3_exn + bool) \<times> 'w" where
  "s3_exists S cfg url w =
     (case key_from_url cfg url of
        Inl e \<Rightarrow> (Inl e, w)
      | Inr (key, digest) \<Rightarrow>
          (case s3_head S (s3_bucket cfg) key w of
             (Inr _, w') \<Rightarrow> (Inr True, w')
           | (Inl e, w') \<Rightarrow> ((if no_such_key e then Inr False else Inl (S3Raised e)), w')))"

end
