(* ===== verification/S3_Laws.thy ===== *)
theory S3_Laws
  imports S3_Storage
begin

text \<open>
  What the storage of deliverables guarantees: what is uploaded is downloaded unchanged from the URL
  that was answered, and whatever is downloaded has the digest that its URL names.
\<close>

section \<open>Canonical text\<close>

lemma keys_mapped: "fst \<circ> (\<lambda>(k, v). (k, f v)) = fst"
  by auto

lemma printed_sorted:
  "sort_key fst (map (\<lambda>(k, v). (k, f v)) (sort_key fst d)) = map (\<lambda>(k, v). (k, f v)) (sort_key fst (d :: dict))"
  by (rule sort_key_id_if_sorted) (simp add: keys_mapped)

text \<open>Printing with sorted keys what was read back gives the same text.\<close>

lemma dumps_printed: "json_dumps compact_sorted (printed_json True v) = json_dumps compact_sorted v"
proof (induction "compact_sorted" v rule: json_dumps.induct)
  case (7 d)
  have "json_dumps compact_sorted (printed_json True v) = json_dumps compact_sorted v" if "(k, v) \<in> set d" for k v
    using 7 that by (auto simp: compact_sorted_def)
  then show ?case by (auto simp: printed_order_def printed_sorted intro!: arg_cong[of _ _ "py_join _"])
qed (auto intro!: arg_cong[of _ _ "py_join _"])

lemma wire_finite: "wire_json v \<Longrightarrow> finite_json v"
  by (induction v rule: finite_json.induct) (auto simp: list_all_iff)

lemma wire_printed: "wire_json v \<Longrightarrow> wire_json (printed_json True v)"
proof (induction v)
  case (JDict d)
  have "distinct (map fst (map (\<lambda>(k, v). (k, printed_json True v)) (printed_order True d)))"
    using JDict.prems by (simp add: keys_mapped)
  then show ?case using JDict by (auto simp: list_all_iff)
qed (auto simp: list_all_iff)

text \<open>A deliverable without floating-point numbers passes all checks of a download, in its stored form.\<close>

lemma deliverable_checked:
  assumes "wire_json (JDict data)" "length (utf8 (json_dumps compact_sorted (JDict data))) \<le> MAX_DOWNLOAD_BYTES"
  shows "checked_deliverable S (bytes_hex (s3_sha S (utf8 (json_dumps compact_sorted (JDict data)))))
      (utf8 (json_dumps compact_sorted (JDict data))) = Inr (stored_form data)"
proof -
  let ?body = "utf8 (json_dumps compact_sorted (JDict data))"
  have printed: "printed_json True (JDict data) = JDict (stored_form data)" by (simp add: stored_form_def)
  have "json_parse h (json_dumps compact_sorted (JDict data)) = Some (JDict (stored_form data))" for h
    using json_roundtrip[OF assms(1), of compact_sorted h] printed by simp
  moreover have "finite_json (JDict (stored_form data))"
    using wire_finite[OF wire_printed[OF assms(1)]] printed by simp
  moreover have "json_dumps compact_sorted (JDict (stored_form data)) = json_dumps compact_sorted (JDict data)"
    using dumps_printed[of "JDict data"] printed by simp
  ultimately show ?thesis using assms(2)
    by (simp add: checked_deliverable_def utf8_roundtrip del: json_dumps.simps finite_json.simps)
qed

lemma deliverable_integrity:
  "checked_deliverable S digest body = Inr d \<Longrightarrow>
   body = utf8 (json_dumps compact_sorted (JDict d)) \<and> length body \<le> MAX_DOWNLOAD_BYTES
     \<and> bytes_hex (s3_sha S body) = digest \<and> finite_json (JDict d)"
  by (auto simp: checked_deliverable_def simp del: json_dumps.simps finite_json.simps
      split: if_splits option.splits json.splits)

section \<open>Keys\<close>

lemma segment_chars:
  "prefix_segment_re s \<Longrightarrow> s \<noteq> [] \<and> segment_start (hd s)
     \<and> list_all (\<lambda>c. segment_start c \<or> c = CHR ''.'' \<or> c = CHR ''_'' \<or> c = CHR ''-'') s"
  by (auto simp: prefix_segment_re_def)

lemma safe_stem_segment: "safe_stem filename = Inr stem \<Longrightarrow> prefix_segment_re stem"
proof -
  assume stem: "safe_stem filename = Inr stem"
  define v where "v = (case filename of None \<Rightarrow> ''manifest.json'' | Some f \<Rightarrow> if f = [] then ''manifest.json'' else f)"
  have v: "prefix_segment_re v" "stem = (if ends_with ''.json'' v then take (length v - 5) v else v)"
    using stem by (auto simp: safe_stem_def v_def Let_def split: if_splits)
  show ?thesis
  proof (cases "ends_with ''.json'' v")
    case True
    then obtain u where u: "v = u @ ''.json''" by (auto simp: ends_with_def) (metis append_take_drop_id)
    have "u \<noteq> []" using v(1) by (auto simp: u prefix_segment_re_def segment_start_def is_lower_az_def is_upper_az_def is_digit_def)
    then show ?thesis using v u True by (cases u) (auto simp: prefix_segment_re_def)
  qed (use v in simp)
qed

lemma object_digest_name:
  assumes "prefix_segment_re stem" "length digest = 64" "list_all is_lower_hex digest"
  shows "object_digest (stem @ ''-'' @ digest @ ''.json'') = Some digest"
  using assms segment_chars[OF assms(1)] by (cases stem) (auto simp: object_digest_def Let_def)

section \<open>URLs of a configuration\<close>

text \<open>
  A base without blanks, controls, queries and fragments. The check of the configuration lets an empty
  query or fragment through, and then no URL under the base is accepted.
\<close>

definition plain_base :: "string \<Rightarrow> bool" where
  "plain_base base = list_all (\<lambda>c. 32 < ord c \<and> c \<noteq> CHR ''?'' \<and> c \<noteq> CHR ''#'') base"

lemma plain_rstrip: "plain_base (py_rstrip_char (CHR ''/'') v) \<Longrightarrow> plain_base v"
proof (induction v rule: rev_induct)
  case (snoc c v)
  then show ?case by (cases "c = CHR ''/''") (auto simp: plain_base_def py_rstrip_char_def py_rstrip_by_def)
qed (simp add: plain_base_def)

lemma config_base:
  assumes "s3_config_from_env env = Inr cfg" "plain_base (s3_public_base cfg)"
  obtains sch netloc where "s3_public_base cfg = sch @ ''://'' @ netloc" "url_form sch netloc []" "netloc_brackets_ok netloc"
    "py_lower sch = ''https''"
proof -
  define v where "v = s3_env env ''DELIVERABLE_PUBLIC_BASE''"
  from assms(1) obtain u where u: "urlsplit v = Some u" "url_scheme u = ''https''" "fst (url_host_port (url_netloc u)) \<noteq> []"
    "url_path u = [] \<or> url_path u = ''/''" and base: "s3_public_base cfg = py_rstrip_char (CHR ''/'') v"
    by (auto simp: s3_config_from_env_def v_def Let_def split: if_splits option.splits)
  have plain: "plain_base v" using plain_rstrip assms(2) base by simp
  have "url_netloc u \<noteq> []" using u(3) by (auto simp: url_host_port_def py_partition_def)
  with u plain obtain sch netloc tail where form: "v = sch @ ''://'' @ netloc @ tail" "url_form sch netloc tail" "netloc \<noteq> []"
  proof -
    have "list_all (\<lambda>c. 32 < ord c) v" using plain by (simp add: plain_base_def list_all_iff)
    moreover have "url_scheme u \<noteq> []" using u(2) by simp
    ultimately show thesis using url_form_split[OF _ u(1)] \<open>url_netloc u \<noteq> []\<close> that by metis
  qed
  have "path_part tail = tail" using plain by (auto simp: form(1) path_part_def plain_base_def list_all_iff takeWhile_eq_all_conv)
  then have split: "netloc_brackets_ok netloc" "py_lower sch = ''https''" "tail = [] \<or> tail = ''/''"
    using u urlsplit_form[OF form(2)] by (auto simp: form(1) split: if_splits)
  have last: "last netloc \<noteq> CHR ''/''"
    using form(2) last_in_set[OF form(3)] by (auto simp: url_form_def list_all_iff netloc_end_def)
  have "py_rstrip_char (CHR ''/'') tail = []" using split(3) by (auto simp: py_rstrip_char_def py_rstrip_by_def)
  then have "s3_public_base cfg = sch @ ''://'' @ netloc"
    using py_rstrip_append[of "sch @ ''://'' @ netloc" "CHR ''/''" tail] last form(3) by (simp add: base form(1))
  moreover have "url_form sch netloc []" using form(2) by (auto simp: url_form_def)
  ultimately show thesis using that split by blast
qed

lemma py_split_ne: "py_split c s \<noteq> []"
  by (induction s) (auto split: list.splits)

lemma config_prefix:
  assumes "s3_config_from_env env = Inr cfg"
  shows "s3_prefix cfg \<noteq> [] \<and> segment_start (hd (s3_prefix cfg))
    \<and> list_all (\<lambda>c. segment_start c \<or> c \<in> {CHR ''.'', CHR ''_'', CHR ''-'', CHR ''/''}) (s3_prefix cfg)"
proof -
  from assms obtain p where p: "list_all prefix_segment_re (py_split (CHR ''/'') p)"
    and prefix: "s3_prefix cfg = py_join ''/'' (py_split (CHR ''/'') p)"
    by (auto simp: s3_config_from_env_def Let_def split: if_splits option.splits)
  obtain x xs where xs: "py_split (CHR ''/'') p = x # xs" using py_split_ne by (metis neq_Nil_conv)
  have x: "x \<noteq> []" "segment_start (hd x)" using p xs segment_chars[of x] by auto
  have hd: "hd (s3_prefix cfg) = hd x" "s3_prefix cfg \<noteq> []" using x(1) by (cases xs; simp add: prefix xs)+
  have "c \<in> set (s3_prefix cfg) \<Longrightarrow> segment_start c \<or> c \<in> {CHR ''.'', CHR ''_'', CHR ''-'', CHR ''/''}" for c
    using set_join[of "''/''" "py_split (CHR ''/'') p"] p segment_chars unfolding prefix list_all_iff by fastforce
  then show ?thesis using hd x by (auto simp: list_all_iff)
qed

lemma segment_start_not: "segment_start c \<Longrightarrow> 32 < ord c \<and> c \<notin> {CHR ''/'', CHR ''?'', CHR ''#'', CHR ''%''}"
  by (auto simp: segment_start_def is_lower_az_def is_upper_az_def is_digit_def)

text \<open>The URL of an object leads back to its key and digest.\<close>

lemma key_of_url:
  assumes "s3_config_from_env env = Inr cfg" "plain_base (s3_public_base cfg)" "prefix_segment_re stem"
    "length digest = 64" "list_all is_lower_hex digest"
  defines "key \<equiv> object_key cfg stem digest"
  shows "key_from_url cfg (s3_public_base cfg @ ''/'' @ key) = Inr (key, digest)"
proof -
  from config_base[OF assms(1,2)] obtain sch netloc where base: "s3_public_base cfg = sch @ ''://'' @ netloc"
    and form: "url_form sch netloc []" and br: "netloc_brackets_ok netloc" and https: "py_lower sch = ''https''" .
  note prefix = config_prefix[OF assms(1)]
  have name: "list_all (\<lambda>c. segment_start c \<or> c \<in> {CHR ''.'', CHR ''_'', CHR ''-''}) (stem @ ''-'' @ digest @ ''.json'')"
    using segment_chars[OF assms(3)] assms(5) by (auto simp: list_all_iff segment_start_def is_lower_hex_def is_lower_az_def is_digit_def)
  have good: "32 < ord c \<and> c \<noteq> CHR ''?'' \<and> c \<noteq> CHR ''#'' \<and> c \<noteq> CHR ''%''" if "c \<in> set key" for c
  proof -
    have "segment_start c \<or> c \<in> {CHR ''.'', CHR ''_'', CHR ''-'', CHR ''/''}"
      using that prefix name by (auto simp: key_def object_key_def list_all_iff)
    then show ?thesis using segment_start_not[of c] by auto
  qed
  let ?tail = "CHR ''/'' # key"
  have "url_form sch netloc ?tail" using form good by (auto simp: url_form_def netloc_end_def list_all_iff)
  moreover have "path_part ?tail = ?tail" using good by (auto simp: path_part_def takeWhile_eq_all_conv)
  moreover have "query_fragment ?tail = ([], [])"
  proof -
    have "CHR ''?'' \<notin> set ?tail" "CHR ''#'' \<notin> set ?tail" using good by auto
    then show ?thesis by (simp add: query_fragment_def py_partition_simps del: set_simps)
  qed
  ultimately have url: "urlsplit (s3_public_base cfg @ ''/'' @ key) =
      Some \<lparr>url_scheme = ''https'', url_netloc = netloc, url_path = ?tail, url_query = [], url_fragment = []\<rparr>"
    using urlsplit_form[of sch netloc ?tail] br https by (simp add: base)
  have own: "urlsplit (s3_public_base cfg) =
      Some \<lparr>url_scheme = ''https'', url_netloc = netloc, url_path = [], url_query = [], url_fragment = []\<rparr>"
    using urlsplit_form[OF form] br https by (simp add: base path_part_def query_fragment_def py_partition_def)
  have "hd key \<noteq> CHR ''/''" "key \<noteq> []" using prefix segment_start_not[of "hd key"] by (auto simp: key_def object_key_def)
  then have strip: "py_lstrip_by (\<lambda>c. c = CHR ''/'') ?tail = key" by (cases key) (auto simp: py_lstrip_by_def)
  have slash: "CHR ''/'' \<notin> set (stem @ ''-'' @ digest @ ''.json'')"
    using name segment_start_not by (fastforce simp: list_all_iff)
  have pc: "CHR ''%'' \<notin> set key" using good by auto
  show ?thesis
    unfolding key_from_url_def using url own strip pc slash object_digest_name[OF assms(3-5)]
    by (simp add: Let_def) (simp add: key_def object_key_def starts_with_def)
qed

section \<open>A store that keeps what it is given\<close>

definition honest_s3 :: "('w, 'z) s3_client_scheme \<Rightarrow> ('w \<Rightarrow> string \<times> string \<rightharpoonup> bytes) \<Rightarrow> bool" where
  "honest_s3 S objs \<longleftrightarrow>
     (\<forall>req w. \<exists>w'. s3_put S req w = (Inr (), w') \<and> objs w' = (objs w)(put_location req \<mapsto> put_body req))
     \<and> (\<forall>b k w body. objs w (b, k) = Some body \<longrightarrow> (\<exists>read w'. s3_get S b k w = (Inr (int (length body), read), w')
          \<and> (\<forall>n. read n = Inr (take n body)) \<and> objs w' = objs w))"

lemma upload_stores:
  assumes "honest_s3 S objs" "finite_json (JDict data)" "safe_stem filename = Inr stem"
    "utf8 (json_dumps compact_sorted (JDict data)) = body" "object_key cfg stem (bytes_hex (s3_sha S body)) = key"
  shows "\<exists>w'. s3_upload S cfg (JDict data) filename w = (Inr (s3_public_base cfg @ ''/'' @ key), w')
    \<and> objs w' = (objs w)((s3_bucket cfg, key) \<mapsto> body)"
proof -
  have loc: "put_location (s3_request cfg key body) = (s3_bucket cfg, key)" "put_body (s3_request cfg key body) = body"
    by (simp_all add: put_location_def s3_request_def)
  from assms(1) loc obtain w' where "s3_put S (s3_request cfg key body) w = (Inr (), w')"
    "objs w' = (objs w)((s3_bucket cfg, key) \<mapsto> body)" unfolding honest_s3_def by metis
  then show ?thesis using assms(2-)
    by (simp add: s3_upload_def Let_def del: json_dumps.simps finite_json.simps)
qed

lemma download_finds:
  assumes "honest_s3 S objs" "key_from_url cfg url = Inr (key, digest)" "objs w (s3_bucket cfg, key) = Some body"
    "length body \<le> MAX_DOWNLOAD_BYTES"
  shows "\<exists>w'. s3_download S cfg url w = (checked_deliverable S digest body, w')"
proof -
  from assms(1,3) obtain read w' where "s3_get S (s3_bucket cfg) key w = (Inr (int (length body), read), w')"
    "\<forall>n. read n = Inr (take n body)" unfolding honest_s3_def by blast
  then show ?thesis using assms(2,4) by (simp add: s3_download_def)
qed

lemma upload_download:
  assumes "s3_config_from_env env = Inr cfg" "plain_base (s3_public_base cfg)" "honest_s3 S objs"
    "\<forall>bs. length (s3_sha S bs) = 32" "wire_json (JDict data)"
    "length (utf8 (json_dumps compact_sorted (JDict data))) \<le> MAX_DOWNLOAD_BYTES" "safe_stem filename = Inr stem"
  shows "\<exists>url w'. s3_upload S cfg (JDict data) filename w = (Inr url, w')
    \<and> (\<forall>v. objs w' \<subseteq>\<^sub>m objs v \<longrightarrow> fst (s3_download S cfg url v) = Inr (stored_form data))"
proof -
  define body where "body = utf8 (json_dumps compact_sorted (JDict data))"
  define digest where "digest = bytes_hex (s3_sha S body)"
  define key where "key = object_key cfg stem digest"
  have len: "length body \<le> MAX_DOWNLOAD_BYTES" using assms(6) by (simp add: body_def)
  have checked: "checked_deliverable S digest body = Inr (stored_form data)"
    unfolding digest_def body_def by (rule deliverable_checked[OF assms(5,6)])
  from upload_stores[OF assms(3) wire_finite[OF assms(5)] assms(7) body_def[symmetric]] obtain w' where
    up: "s3_upload S cfg (JDict data) filename w = (Inr (s3_public_base cfg @ ''/'' @ key), w')"
      "objs w' = (objs w)((s3_bucket cfg, key) \<mapsto> body)" unfolding key_def digest_def by blast
  have "length digest = 64" "list_all is_lower_hex digest" using assms(4) bytes_hex_lower by (simp_all add: digest_def)
  from key_of_url[OF assms(1,2) safe_stem_segment[OF assms(7)] this]
  have key: "key_from_url cfg (s3_public_base cfg @ ''/'' @ key) = Inr (key, digest)" by (simp add: key_def)
  have "fst (s3_download S cfg (s3_public_base cfg @ ''/'' @ key) v) = Inr (stored_form data)" if "objs w' \<subseteq>\<^sub>m objs v" for v
  proof -
    have "objs v (s3_bucket cfg, key) = Some body" using that up(2) by (auto simp: map_le_def)
    from download_finds[OF assms(3) key this len] checked show ?thesis by auto
  qed
  with up(1) show ?thesis by blast
qed

text \<open>Whatever is answered by a download was read under its key and has the digest of the URL.\<close>

lemma key_under_prefix: "key_from_url cfg url = Inr (key, digest) \<Longrightarrow> \<exists>name. key = s3_prefix cfg @ ''/'' @ name
    \<and> CHR ''/'' \<notin> set name \<and> object_digest name = Some digest"
proof -
  assume "key_from_url cfg url = Inr (key, digest)"
  then have k: "starts_with (s3_prefix cfg @ ''/'') key" "CHR ''/'' \<notin> set (drop (length (s3_prefix cfg @ ''/'')) key)"
    "object_digest (drop (length (s3_prefix cfg @ ''/'')) key) = Some digest"
    by (auto simp: key_from_url_def Let_def split: option.splits if_splits)
  then obtain name where "key = (s3_prefix cfg @ ''/'') @ name" by (metis append_take_drop_id starts_with_def)
  then show ?thesis using k by auto
qed

lemma download_checked:
  assumes "s3_download S cfg url w = (Inr d, w')"
  shows "\<exists>name digest declared read. object_digest name = Some digest \<and> CHR ''/'' \<notin> set name
    \<and> s3_get S (s3_bucket cfg) (s3_prefix cfg @ ''/'' @ name) w = (Inr (declared, read), w')
    \<and> read (MAX_DOWNLOAD_BYTES + 1) = Inr (utf8 (json_dumps compact_sorted (JDict d)))
    \<and> length (utf8 (json_dumps compact_sorted (JDict d))) \<le> MAX_DOWNLOAD_BYTES
    \<and> bytes_hex (s3_sha S (utf8 (json_dumps compact_sorted (JDict d)))) = digest"
proof -
  from assms obtain key digest declared read body where
    k: "key_from_url cfg url = Inr (key, digest)" "s3_get S (s3_bucket cfg) key w = (Inr (declared, read), w')"
      "read (MAX_DOWNLOAD_BYTES + 1) = Inr body" "checked_deliverable S digest body = Inr d"
    by (auto simp: s3_download_def split: sum.splits prod.splits if_splits)
  from key_under_prefix[OF k(1)] k(2,3) deliverable_integrity[OF k(4)] show ?thesis by blast
qed

section \<open>A concrete store\<close>

definition shelf_env :: "string \<Rightarrow> string option" where
  "shelf_env = map_of [(''DELIVERABLE_S3_BUCKET'', ''deliverables''), (''DELIVERABLE_PUBLIC_BASE'', ''https://files.example/'')]"

definition shelf_config :: s3_storage_config where
  "shelf_config = \<lparr>s3_bucket = ''deliverables'', s3_public_base = ''https://files.example'', s3_prefix = ''deliverables''\<rparr>"

definition shelf :: "(string \<times> string \<rightharpoonup> bytes) s3_client" where
  "shelf = \<lparr>s3_put = (\<lambda>req m. (Inr (), m(put_location req \<mapsto> put_body req))),
     s3_get = (\<lambda>b k m. ((case m (b, k) of None \<Rightarrow> Inl (ClientError ''NoSuchKey'' None)
       | Some body \<Rightarrow> Inr (int (length body), \<lambda>n. Inr (take n body))), m)),
     s3_head = (\<lambda>b k m. ((if m (b, k) = None then Inl (ClientError ''404'' None) else Inr ()), m)),
     s3_sha = (\<lambda>bs. replicate 32 (chr 171)), s3_float = (\<lambda>t. NaN)\<rparr>"

lemma shelf_configured: "s3_config_from_env shelf_env = Inr shelf_config"
  by code_simp

lemma shelf_plain: "plain_base (s3_public_base shelf_config)"
  by code_simp

lemma shelf_honest: "honest_s3 shelf id"
  by (simp add: honest_s3_def shelf_def)

text \<open>A base with an empty query is accepted, and the URL of an object under it is not.\<close>

lemma bare_query_base:
  "\<exists>cfg. s3_config_from_env (map_of [(''DELIVERABLE_S3_BUCKET'', ''deliverables''), (''DELIVERABLE_PUBLIC_BASE'', ''https://files.example/?'')])
      = Inr cfg
    \<and> key_from_url cfg (s3_public_base cfg @ ''/deliverables/a-'' @ replicate 64 (CHR ''0'') @ ''.json'') = Inl S3StorageError"
  by (rule exI[of _ "\<lparr>s3_bucket = ''deliverables'', s3_public_base = ''https://files.example/?'', s3_prefix = ''deliverables''\<rparr>"])
    code_simp

end
