(* ===== verification/Reporting.thy ===== *)
theory Reporting
  imports Job_Store Py_Net
begin

text \<open>
  The reporters of usage events (\<open>usage_reporting.py\<close>) and of competition calls
  (\<open>competition_reporting.py\<close>). HTTP, the pause between two attempts and \<open>to_checksum_address\<close> are
  parameters; an exception of HTTP that is no \<open>httpx.RequestError\<close> passes through.
\<close>

section \<open>Posting\<close>

record report_post =
  post_url :: string
  post_json :: dict
  post_token :: string

datatype post_outcome = Answered int | RequestFailed | PostRaised exn

record 'w poster =
  send_post :: "report_post \<Rightarrow> 'w \<Rightarrow> post_outcome \<times> 'w"
  retry_pause :: "'w \<Rightarrow> (exn + unit) \<times> 'w"

definition http_success :: "int \<Rightarrow> bool" where
  "http_success code \<longleftrightarrow> 200 \<le> code \<and> code < 300"

definition post_accepted :: "post_outcome \<Rightarrow> bool" where
  "post_accepted r = (case r of Answered code \<Rightarrow> http_success code | _ \<Rightarrow> False)"

section \<open>Usage events\<close>

definition MAX_ACTIVE_TASKS :: nat where "MAX_ACTIVE_TASKS = 32"
definition MAX_ATTEMPTS :: nat where "MAX_ATTEMPTS = 2"

definition attempt_event_id_re :: "string \<Rightarrow> bool" where
  "attempt_event_id_re s \<longleftrightarrow> length s = 46 \<and> take 14 s = ''usage-attempt:'' \<and> list_all is_lower_hex (drop 14 s)"

record usage_reporting_config =
  usage_base_url :: string
  usage_token :: string

definition usage_endpoint_url :: "usage_reporting_config \<Rightarrow> string" where
  "usage_endpoint_url cfg = py_rstrip_char (CHR ''/'') (usage_base_url cfg) @ ''/internal/x402/usage-events''"

record usage_attempt =
  attempt_event_id :: string
  attempt_timestamp :: json
  attempt_wallet :: "string option"

definition observe_verified_wallet :: "(string \<Rightarrow> exn + string) \<Rightarrow> string \<Rightarrow> usage_attempt \<Rightarrow> exn + usage_attempt" where
  "observe_verified_wallet checked adr a = sum_map (\<lambda>c. a\<lparr>attempt_wallet := Some (py_lower c)\<rparr>) (checked adr)"

text \<open>\<open>UsageReportingError\<close> is a \<open>ValueError\<close>, like the error of \<open>urlsplit\<close>.\<close>

definition reporting_env :: "(string \<Rightarrow> string option) \<Rightarrow> string \<Rightarrow> string" where
  "reporting_env env name = py_strip (case env name of None \<Rightarrow> [] | Some v \<Rightarrow> v)"

definition load_usage_reporting_config :: "(string \<Rightarrow> string option) \<Rightarrow> exn + usage_reporting_config option" where
  "load_usage_reporting_config env =
     (let base = reporting_env env ''API_BASE_URL''; token = reporting_env env ''COMPETITION_INTERNAL_TOKEN''
      in if base = [] \<and> token = [] then Inr None
         else if base = [] \<or> token = [] then Inl ValueError
         else case urlsplit base of
           None \<Rightarrow> Inl ValueError
         | Some parsed \<Rightarrow>
             (if url_scheme parsed \<noteq> ''https'' \<or> fst (url_host_port (url_netloc parsed)) = []
                 \<or> CHR ''@'' \<in> set (url_netloc parsed) \<or> url_query parsed \<noteq> [] \<or> url_fragment parsed \<noteq> []
              then Inl ValueError
              else Inr (Some \<lparr>usage_base_url = py_rstrip_char (CHR ''/'') base, usage_token = token\<rparr>)))"

text \<open>The state of the reporter: the deliveries that are running.\<close>

record usage_reporter =
  usage_config :: usage_reporting_config
  usage_tasks :: "dict list"

definition validated_timestamp :: "json \<Rightarrow> exn + int" where
  "validated_timestamp v = (case exact_int v of Some i \<Rightarrow> if i < 0 then Inl ValueError else Inr i | None \<Rightarrow> Inl ValueError)"

definition usage_start_attempt :: "json \<Rightarrow> string \<Rightarrow> exn + usage_attempt" where
  "usage_start_attempt now token =
     sum_map (\<lambda>_. \<lparr>attempt_event_id = ''usage-attempt:'' @ token, attempt_timestamp = now, attempt_wallet = None\<rparr>)
       (validated_timestamp now)"

definition normalized_optional_wallet :: "(string \<Rightarrow> exn + string) \<Rightarrow> string option \<Rightarrow> exn + json" where
  "normalized_optional_wallet checked v =
     (case v of None \<Rightarrow> Inr JNull | Some adr \<Rightarrow> sum_map (\<lambda>c. JStr (py_lower c)) (checked adr))"

text \<open>\<open>running\<close>: there is a running event loop.\<close>

definition schedule_usage :: "bool \<Rightarrow> dict \<Rightarrow> usage_reporter \<Rightarrow> bool \<times> usage_reporter" where
  "schedule_usage running payload s =
     (if length (usage_tasks s) \<ge> MAX_ACTIVE_TASKS then (False, s)
      else if \<not> running then (False, s)
      else (True, s\<lparr>usage_tasks := usage_tasks s @ [payload]\<rparr>))"

definition usage_payload :: "string \<Rightarrow> string \<Rightarrow> int \<Rightarrow> json \<Rightarrow> dict" where
  "usage_payload event_id event_type timestamp wallet =
     [(''version'', JInt 1), (''eventId'', JStr event_id), (''eventType'', JStr event_type),
      (''timestamp'', JInt timestamp), (''wallet'', wallet)]"

text \<open>\<open>TypeError\<close> and \<open>ValueError\<close> drop the event; anything else that is raised passes.\<close>

definition scheduled_or_dropped ::
  "bool \<Rightarrow> exn + dict \<Rightarrow> usage_reporter \<Rightarrow> (exn + bool) \<times> usage_reporter" where
  "scheduled_or_dropped running payload s =
     (case payload of
        Inl e \<Rightarrow> ((if e = TypeError \<or> e = ValueError then Inr False else Inl e), s)
      | Inr p \<Rightarrow> (case schedule_usage running p s of (b, s') \<Rightarrow> (Inr b, s')))"

definition usage_submit_attempt ::
  "(string \<Rightarrow> exn + string) \<Rightarrow> bool \<Rightarrow> usage_attempt \<Rightarrow> usage_reporter \<Rightarrow> (exn + bool) \<times> usage_reporter" where
  "usage_submit_attempt checked running a s =
     scheduled_or_dropped running
       (if \<not> attempt_event_id_re (attempt_event_id a) then Inl ValueError
        else sum_bind (validated_timestamp (attempt_timestamp a)) (\<lambda>timestamp.
          sum_map (usage_payload (attempt_event_id a) ''attempt'' timestamp)
            (normalized_optional_wallet checked (attempt_wallet a)))) s"

definition usage_submit_succeeded ::
  "(string \<Rightarrow> exn + string) \<Rightarrow> (bytes \<Rightarrow> bytes) \<Rightarrow> bool \<Rightarrow> string \<Rightarrow> string \<Rightarrow> json \<Rightarrow> usage_reporter \<Rightarrow> (exn + bool) \<times> usage_reporter" where
  "usage_submit_succeeded checked sha running job_id wallet timestamp s =
     scheduled_or_dropped running
       (if \<not> job_id_re job_id then Inl ValueError
        else sum_bind (checked wallet) (\<lambda>c.
          sum_map (\<lambda>t. usage_payload (''usage-succeeded:'' @ bytes_hex (sha job_id)) ''succeeded'' t (JStr (py_lower c)))
            (validated_timestamp timestamp))) s"

definition delivery_done :: "nat \<Rightarrow> usage_reporter \<Rightarrow> usage_reporter" where
  "delivery_done i s = s\<lparr>usage_tasks := take i (usage_tasks s) @ drop (Suc i) (usage_tasks s)\<rparr>"

definition usage_post :: "usage_reporting_config \<Rightarrow> dict \<Rightarrow> report_post" where
  "usage_post cfg payload = \<lparr>post_url = usage_endpoint_url cfg, post_json = payload, post_token = usage_token cfg\<rparr>"

definition usage_retryable :: "post_outcome \<Rightarrow> bool" where
  "usage_retryable r = (case r of
     Answered code \<Rightarrow> code = 429 \<or> (500 \<le> code \<and> code < 600) | RequestFailed \<Rightarrow> True | PostRaised e \<Rightarrow> False)"

text \<open>The attempts that are left; the last one ends the delivery however it is answered.\<close>

fun usage_attempts :: "('w, 'z) poster_scheme \<Rightarrow> report_post \<Rightarrow> nat \<Rightarrow> 'w \<Rightarrow> (exn + unit) \<times> 'w" where
  "usage_attempts P q 0 w = (Inr (), w)"
| "usage_attempts P q (Suc left) w =
     (case send_post P q w of (r, w1) \<Rightarrow>
        (case r of
           PostRaised e \<Rightarrow> (Inl e, w1)
         | _ \<Rightarrow>
             (if post_accepted r then (Inr (), w1)
              else if \<not> usage_retryable r \<or> left = 0 then (Inr (), w1)
              else case retry_pause P w1 of
                (Inl e, w2) \<Rightarrow> (Inl e, w2)
              | (Inr _, w2) \<Rightarrow> usage_attempts P q left w2)))"

definition deliver_usage :: "('w, 'z) poster_scheme \<Rightarrow> usage_reporting_config \<Rightarrow> dict \<Rightarrow> 'w \<Rightarrow> (exn + unit) \<times> 'w" where
  "deliver_usage P cfg payload = usage_attempts P (usage_post cfg payload) MAX_ATTEMPTS"

section \<open>Competition calls\<close>

record competition_reporting_config =
  competition_url :: string
  competition_token :: string

definition load_competition_reporting_config ::
  "(string \<Rightarrow> string option) \<Rightarrow> exn + competition_reporting_config option" where
  "load_competition_reporting_config env =
     (let url = reporting_env env ''COMPETITION_AI_CALLS_URL''; token = reporting_env env ''COMPETITION_INTERNAL_TOKEN''
      in if url = [] \<and> token = [] then Inr None
         else if url = [] \<or> token = [] then Inl ValueError
         else case urlsplit url of
           None \<Rightarrow> Inl ValueError
         | Some parsed \<Rightarrow>
             (if (url_scheme parsed \<noteq> ''http'' \<and> url_scheme parsed \<noteq> ''https'')
                 \<or> fst (url_host_port (url_netloc parsed)) = []
                 \<or> CHR ''@'' \<in> set (url_netloc parsed) \<or> url_fragment parsed \<noteq> []
              then Inl ValueError
              else Inr (Some \<lparr>competition_url = url, competition_token = token\<rparr>)))"

fun competition_attempts :: "('w, 'z) poster_scheme \<Rightarrow> report_post \<Rightarrow> nat \<Rightarrow> 'w \<Rightarrow> (exn + bool) \<times> 'w" where
  "competition_attempts P q 0 w = (Inr False, w)"
| "competition_attempts P q (Suc left) w =
     (case send_post P q w of (r, w1) \<Rightarrow>
        (case r of
           PostRaised e \<Rightarrow> (Inl e, w1)
         | _ \<Rightarrow>
             (if post_accepted r then (Inr True, w1)
              else if (case r of Answered code \<Rightarrow> code < 500 | _ \<Rightarrow> False) then (Inr False, w1)
              else if left = 0 then (Inr False, w1)
              else case retry_pause P w1 of
                (Inl e, w2) \<Rightarrow> (Inl e, w2)
              | (Inr _, w2) \<Rightarrow> competition_attempts P q left w2)))"

definition competition_payload :: "(string \<Rightarrow> exn + string) \<Rightarrow> string \<Rightarrow> string \<Rightarrow> int \<Rightarrow> exn + dict" where
  "competition_payload checked event_id adr called_at =
     (if py_strip event_id = [] then Inl ValueError
      else sum_bind (checked adr) (\<lambda>c.
        if called_at < 0 then Inl ValueError
        else Inr [(''eventId'', JStr (py_strip event_id)), (''address'', JStr (py_lower c)), (''calledAt'', JInt called_at)]))"

definition competition_report ::
  "('w, 'z) poster_scheme \<Rightarrow> (string \<Rightarrow> exn + string) \<Rightarrow> competition_reporting_config \<Rightarrow> nat
     \<Rightarrow> string \<Rightarrow> string \<Rightarrow> int \<Rightarrow> 'w \<Rightarrow> (exn + bool) \<times> 'w" where
  "competition_report P checked cfg max_attempts event_id adr called_at w =
     (case competition_payload checked event_id adr called_at of
        Inl e \<Rightarrow> ((if e = TypeError \<or> e = ValueError then Inr False else Inl e), w)
      | Inr payload \<Rightarrow>
          competition_attempts P \<lparr>post_url = competition_url cfg, post_json = payload, post_token = competition_token cfg\<rparr>
            max_attempts w)"

definition report_competition_call ::
  "('w, 'z) poster_scheme \<Rightarrow> (string \<Rightarrow> exn + string) \<Rightarrow> (string \<Rightarrow> string option) \<Rightarrow> int
     \<Rightarrow> string \<Rightarrow> string \<Rightarrow> int option \<Rightarrow> 'w \<Rightarrow> (exn + bool) \<times> 'w" where
  "report_competition_call P checked env now event_id adr called_at w =
     (case load_competition_reporting_config env of
        Inl e \<Rightarrow> (Inl e, w)
      | Inr None \<Rightarrow> (Inr False, w)
      | Inr (Some cfg) \<Rightarrow>
          competition_report P checked cfg 2 event_id adr (case called_at of None \<Rightarrow> now | Some t \<Rightarrow> t) w)"

end
