(* ===== verification/Reporting_Laws.thy ===== *)
theory Reporting_Laws
  imports Reporting
begin

text \<open>
  What the reporters guarantee: few attempts, to the configured endpoint only, with events of a fixed
  shape, and a bounded number of deliveries at a time.
\<close>

section \<open>Attempts\<close>

text \<open>HTTP that also records the posts it is given.\<close>

definition noted :: "('w, 'z) poster_scheme \<Rightarrow> ('w \<times> report_post list) poster" where
  "noted P = \<lparr>send_post = (\<lambda>q (w, l). map_prod id (\<lambda>w. (w, l @ [q])) (send_post P q w)),
     retry_pause = (\<lambda>(w, l). map_prod id (\<lambda>w. (w, l)) (retry_pause P w))\<rparr>"

lemma noted_post: "send_post P q w = (r, w') \<Longrightarrow> send_post (noted P) q (w, l) = (r, (w', l @ [q]))"
  by (simp add: noted_def)

lemma noted_pause: "retry_pause P w = (r, w') \<Longrightarrow> retry_pause (noted P) (w, l) = (r, (w', l))"
  by (simp add: noted_def)

lemma posts_one_more:
  "\<exists>k\<le>n. xs = (l @ [q]) @ replicate k q \<Longrightarrow> ys \<in> {l @ [q], xs} \<Longrightarrow> \<exists>k\<le>Suc n. ys = l @ replicate k q"
proof -
  assume "\<exists>k\<le>n. xs = (l @ [q]) @ replicate k q" "ys \<in> {l @ [q], xs}"
  then obtain k where "k \<le> n" "ys = l @ replicate 1 q \<or> ys = l @ replicate (Suc k) q" by auto
  then show ?thesis by (metis One_nat_def Suc_le_mono le0)
qed

lemma usage_posts: "\<exists>k\<le>n. snd (snd (usage_attempts (noted P) q n (w, l))) = l @ replicate k q"
proof (induction n arbitrary: w l)
  case (Suc n)
  obtain r w1 where r: "send_post P q w = (r, w1)" by fastforce
  obtain p w2 where p: "retry_pause P w1 = (p, w2)" by fastforce
  have "snd (snd (usage_attempts (noted P) q (Suc n) (w, l))) \<in> {l @ [q], snd (snd (usage_attempts (noted P) q n (w2, l @ [q])))}"
    by (cases r; cases p) (simp_all add: noted_post[OF r] noted_pause[OF p])
  with Suc[of w2 "l @ [q]"] show ?case by (rule posts_one_more)
qed simp

lemma competition_posts: "\<exists>k\<le>n. snd (snd (competition_attempts (noted P) q n (w, l))) = l @ replicate k q"
proof (induction n arbitrary: w l)
  case (Suc n)
  obtain r w1 where r: "send_post P q w = (r, w1)" by fastforce
  obtain p w2 where p: "retry_pause P w1 = (p, w2)" by fastforce
  have "snd (snd (competition_attempts (noted P) q (Suc n) (w, l))) \<in> {l @ [q], snd (snd (competition_attempts (noted P) q n (w2, l @ [q])))}"
    by (cases r; cases p) (simp_all add: noted_post[OF r] noted_pause[OF p])
  with Suc[of w2 "l @ [q]"] show ?case by (rule posts_one_more)
qed simp

text \<open>A competition event counts as accepted only after an answer of the 200s.\<close>

lemma competition_true:
  "competition_attempts P q n w = (Inr True, w') \<Longrightarrow> \<exists>v code. send_post P q v = (Answered code, w') \<and> http_success code"
  by (induction P q n w rule: competition_attempts.induct)
    (auto simp: post_accepted_def split: prod.splits post_outcome.splits if_splits sum.splits)

lemma competition_reports:
  "\<exists>k\<le>2. \<exists>q. snd (snd (competition_report (noted P) checked cfg 2 event_id adr called_at (w, []))) = replicate k q
     \<and> post_url q = competition_url cfg \<and> post_token q = competition_token cfg"
proof (cases "competition_payload checked event_id adr called_at")
  case (Inl e)
  then show ?thesis
    by (intro exI[of _ 0] conjI exI[of _ "\<lparr>post_url = competition_url cfg, post_json = [], post_token = competition_token cfg\<rparr>"])
      (simp_all add: competition_report_def)
next
  case (Inr payload)
  let ?q = "\<lparr>post_url = competition_url cfg, post_json = payload, post_token = competition_token cfg\<rparr>"
  from competition_posts[of 2 P ?q w "[]"] obtain k where "k \<le> 2"
    "snd (snd (competition_attempts (noted P) ?q 2 (w, []))) = replicate k ?q" by auto
  then have "k \<le> 2 \<and> snd (snd (competition_report (noted P) checked cfg 2 event_id adr called_at (w, []))) = replicate k ?q
      \<and> post_url ?q = competition_url cfg \<and> post_token ?q = competition_token cfg"
    using Inr by (simp add: competition_report_def del: competition_attempts.simps)
  then show ?thesis by blast
qed

lemma competition_accepted:
  "competition_report P checked cfg n event_id adr called_at v = (Inr True, v') \<Longrightarrow>
   \<exists>q v0 answer. post_url q = competition_url cfg \<and> send_post P q v0 = (Answered answer, v') \<and> http_success answer"
  by (auto simp: competition_report_def split: sum.splits if_splits dest!: competition_true)
    (metis report_post.select_convs(1))

section \<open>Events\<close>

definition usage_event_ok :: "dict \<Rightarrow> bool" where
  "usage_event_ok p \<longleftrightarrow> (\<exists>event_id event_type t wallet. p = usage_payload event_id event_type t wallet \<and> 0 \<le> t
     \<and> (event_type = ''attempt'' \<and> attempt_event_id_re event_id \<and> wallet = JNull
        \<or> event_type = ''attempt'' \<and> attempt_event_id_re event_id \<and> (\<exists>c. wallet = JStr (py_lower c))
        \<or> event_type = ''succeeded'' \<and> (\<exists>digest. event_id = ''usage-succeeded:'' @ bytes_hex digest) \<and> (\<exists>c. wallet = JStr (py_lower c))))"

inductive usage_run :: "usage_reporter \<Rightarrow> bool" where
  reporting: "usage_run \<lparr>usage_config = cfg, usage_tasks = []\<rparr>"
| attempted: "usage_run s \<Longrightarrow> usage_submit_attempt checked running a s = (r, s') \<Longrightarrow> usage_run s'"
| succeeded: "usage_run s \<Longrightarrow> usage_submit_succeeded checked sha running job_id wallet timestamp s = (r, s') \<Longrightarrow> usage_run s'"
| delivered: "usage_run s \<Longrightarrow> usage_run (delivery_done i s)"

definition usage_inv :: "usage_reporter \<Rightarrow> bool" where
  "usage_inv s \<longleftrightarrow> length (usage_tasks s) \<le> MAX_ACTIVE_TASKS \<and> list_all usage_event_ok (usage_tasks s)"

lemma scheduled_inv:
  "usage_inv s \<Longrightarrow> scheduled_or_dropped running payload s = (r, s') \<Longrightarrow>
   (\<And>p. payload = Inr p \<Longrightarrow> usage_event_ok p) \<Longrightarrow> usage_inv s'"
  by (auto simp: usage_inv_def scheduled_or_dropped_def schedule_usage_def split: sum.splits if_splits)

lemma validated_timestamp_Inr: "validated_timestamp v = Inr t \<longleftrightarrow> v = JInt t \<and> 0 \<le> t"
  by (cases v) (auto simp: validated_timestamp_def)

lemma usage_event_attempt:
  "0 \<le> t \<Longrightarrow> attempt_event_id_re i \<Longrightarrow> wallet = JNull \<or> (\<exists>c. wallet = JStr (py_lower c)) \<Longrightarrow>
   usage_event_ok (usage_payload i ''attempt'' t wallet)"
  unfolding usage_event_ok_def by blast

lemma usage_event_succeeded:
  "0 \<le> t \<Longrightarrow> usage_event_ok (usage_payload (''usage-succeeded:'' @ bytes_hex digest) ''succeeded'' t (JStr (py_lower c)))"
  unfolding usage_event_ok_def by blast

lemma attempt_event:
  assumes "(if \<not> attempt_event_id_re (attempt_event_id a) then Inl ValueError
        else sum_bind (validated_timestamp (attempt_timestamp a)) (\<lambda>timestamp.
          sum_map (usage_payload (attempt_event_id a) ''attempt'' timestamp)
            (normalized_optional_wallet checked (attempt_wallet a)))) = Inr p"
  shows "usage_event_ok p"
  using assms
  by (auto simp: sum_bind_Inr sum_map_def validated_timestamp_Inr normalized_optional_wallet_def
      split: if_splits option.splits intro!: usage_event_attempt)

lemma succeeded_event:
  assumes "(if \<not> job_id_re job_id then Inl ValueError
        else sum_bind (checked wallet) (\<lambda>c.
          sum_map (\<lambda>t. usage_payload (''usage-succeeded:'' @ bytes_hex (sha job_id)) ''succeeded'' t (JStr (py_lower c)))
            (validated_timestamp timestamp))) = Inr p"
  shows "usage_event_ok p"
proof -
  from assms obtain c t where "validated_timestamp timestamp = Inr t"
    "p = usage_payload (''usage-succeeded:'' @ bytes_hex (sha job_id)) ''succeeded'' t (JStr (py_lower c))"
    unfolding sum_map_def by (auto simp: sum_bind_Inr simp del: append_Cons split: if_splits)
  then show ?thesis using usage_event_succeeded by (simp only: validated_timestamp_Inr)
qed

lemma usage_run_inv: "usage_run s \<Longrightarrow> usage_inv s"
proof (induction rule: usage_run.induct)
  case (reporting cfg)
  show ?case by (simp add: usage_inv_def)
next
  case (attempted s checked running a r s')
  show ?case by (rule scheduled_inv[OF attempted.IH attempted.hyps(2)[unfolded usage_submit_attempt_def]]) (rule attempt_event)
next
  case (succeeded s checked sha running job_id wallet timestamp r s')
  show ?case by (rule scheduled_inv[OF succeeded.IH succeeded.hyps(2)[unfolded usage_submit_succeeded_def]]) (rule succeeded_event)
next
  case (delivered s i)
  have "set (take i (usage_tasks s) @ drop (Suc i) (usage_tasks s)) \<subseteq> set (usage_tasks s)"
    using set_take_subset set_drop_subset by force
  then show ?case using delivered.IH by (auto simp: usage_inv_def delivery_done_def list_all_iff subset_iff dest!: in_set_takeD in_set_dropD)
qed

section \<open>A concrete report\<close>

definition note_server :: "unit poster" where
  "note_server = \<lparr>send_post = (\<lambda>q w. (Answered 503, w)), retry_pause = (\<lambda>w. (Inr (), w))\<rparr>"

definition note_reporter :: usage_reporter where
  "note_reporter = \<lparr>usage_config = \<lparr>usage_base_url = ''https://api.example'', usage_token = ''secret''\<rparr>,
     usage_tasks = [usage_payload (''usage-attempt:'' @ replicate 32 (CHR ''0'')) ''attempt'' 5 JNull]\<rparr>"

lemma note_reporter_run: "usage_run note_reporter"
proof -
  let ?a = "\<lparr>attempt_event_id = ''usage-attempt:'' @ replicate 32 (CHR ''0''), attempt_timestamp = JInt 5, attempt_wallet = None\<rparr>"
  have "usage_submit_attempt Inr True ?a \<lparr>usage_config = usage_config note_reporter, usage_tasks = []\<rparr> = (Inr True, note_reporter)"
    by code_simp
  then show ?thesis using attempted[OF reporting] by blast
qed

end
