(* ===== verification/Prompt_Fields.thy ===== *)
theory Prompt_Fields
  imports Notify_Security
begin

text \<open>
  The prompt of an analysis (\<open>prompt_builder.py\<close>): the normalised fields of a job and of its context, and
  the texts that are put into the fixed template. The template itself, which is written with
  characters beyond Latin-1, is the parameter \<open>template\<close>; \<open>fixed2\<close> is the format \<open>.2f\<close>.
\<close>

section \<open>Tickers\<close>

text \<open>\<open>[A-Z]{1,5}(?:\.[A-Z]{1,2})?\<close> on the whole text\<close>

definition ticker_re :: "string \<Rightarrow> bool" where
  "ticker_re s =
     (let front = takeWhile is_upper_az s; rest = dropWhile is_upper_az s
      in 1 \<le> length front \<and> length front \<le> 5
         \<and> (rest = [] \<or> (hd rest = CHR ''.'' \<and> 1 \<le> length (tl rest) \<and> length (tl rest) \<le> 2 \<and> list_all is_upper_az (tl rest))))"

text \<open>\<open>\w\<close> on the modelled code points, and the word boundary between two places.\<close>

definition is_word :: "char \<Rightarrow> bool" where
  "is_word c \<longleftrightarrow> is_lower_az c \<or> is_upper_az c \<or> is_digit c \<or> c = CHR ''_''
     \<or> ord c \<in> {170, 178, 179, 181, 185, 186, 188, 189, 190} \<or> (192 \<le> ord c \<and> ord c \<noteq> 215 \<and> ord c \<noteq> 247)"

definition word_boundary :: "char option \<Rightarrow> char option \<Rightarrow> bool" where
  "word_boundary before behind =
     ((case before of None \<Rightarrow> False | Some c \<Rightarrow> is_word c) \<noteq> (case behind of None \<Rightarrow> False | Some c \<Rightarrow> is_word c))"

definition char_at :: "string \<Rightarrow> nat \<Rightarrow> char option" where
  "char_at s i = (if i < length s then Some (s ! i) else None)"

text \<open>
  \<open>\b[A-Z]{1,5}(?:\.[A-Z]{1,2})?\b\<close> at one place, after the character before it: the length of the match, with
  the choices in the order of the matcher.
\<close>

definition ticker_choice :: "string \<Rightarrow> nat \<times> nat \<Rightarrow> bool" where
  "ticker_choice s choice =
     (case choice of (n, g) \<Rightarrow>
        n + g \<le> length s \<and> list_all is_upper_az (take n s)
        \<and> (g = 0 \<or> (s ! n = CHR ''.'' \<and> list_all is_upper_az (take (g - 1) (drop (Suc n) s))))
        \<and> word_boundary (Some (s ! (n + g - 1))) (char_at s (n + g)))"

definition ticker_at :: "char option \<Rightarrow> string \<Rightarrow> nat option" where
  "ticker_at before s =
     (if \<not> word_boundary before (char_at s 0) then None
      else map_option (\<lambda>(n, g). n + g)
        (find (ticker_choice s) (List.product [5, 4, 3, 2, 1] [3, 2, 0])))"

text \<open>\<open>findall\<close>: the search goes on behind a match, and one place further otherwise.\<close>

function find_tickers :: "char option \<Rightarrow> string \<Rightarrow> string list" where
  "find_tickers before [] = []"
| "find_tickers before (c # cs) =
     (case ticker_at before (c # cs) of
        None \<Rightarrow> find_tickers (Some c) cs
      | Some n \<Rightarrow> take n (c # cs) # find_tickers (Some ((c # cs) ! (n - 1))) (drop (n - 1) cs))"
  by pat_completeness auto
termination
  by (relation "measure (\<lambda>(before, s). length s)") auto

section \<open>Fields\<close>

definition MAX_SYMBOLS :: nat where "MAX_SYMBOLS = 10"
definition ANALYSIS_TYPES :: "string list" where
  "ANALYSIS_TYPES = [''comprehensive'', ''fundamental'', ''technical'']"

fun collect_symbols :: "string list \<Rightarrow> json list \<Rightarrow> string list" where
  "collect_symbols symbols [] = symbols"
| "collect_symbols symbols (v # vs) =
     (case v of
        JStr s \<Rightarrow>
          (if ticker_re s \<and> s \<notin> set symbols
           then (if length (symbols @ [s]) = MAX_SYMBOLS then symbols @ [s] else collect_symbols (symbols @ [s]) vs)
           else collect_symbols symbols vs)
      | _ \<Rightarrow> collect_symbols symbols vs)"

text \<open>\<open>list(dict.fromkeys(xs))\<close>\<close>

definition first_occurrences :: "'a list \<Rightarrow> 'a list" where
  "first_occurrences xs = rev (remdups (rev xs))"

definition loaded_or :: "(string \<Rightarrow> pyfloat) \<Rightarrow> string \<Rightarrow> json \<Rightarrow> json" where
  "loaded_or flt s default_value = (case json_parse (default_hooks flt) s of None \<Rightarrow> default_value | Some v \<Rightarrow> v)"

definition job_symbols :: "string \<Rightarrow> dict \<Rightarrow> string list" where
  "job_symbols task terms =
     (let listed = (case dict_get terms ''symbols'' of JList vs \<Rightarrow> collect_symbols [] vs | _ \<Rightarrow> [])
      in if listed = [] then take MAX_SYMBOLS (first_occurrences (find_tickers None task)) else listed)"

definition job_analysis_type :: "dict \<Rightarrow> string" where
  "job_analysis_type terms = (case dict_get terms ''analysis_type'' of
     JStr a \<Rightarrow> if a \<in> set ANALYSIS_TYPES then a else ''comprehensive'' | _ \<Rightarrow> ''comprehensive'')"

definition job_terms :: "(string \<Rightarrow> pyfloat) \<Rightarrow> json \<Rightarrow> dict" where
  "job_terms flt v = (case (case v of JStr t \<Rightarrow> loaded_or flt t (JDict []) | _ \<Rightarrow> v) of JDict d \<Rightarrow> d | _ \<Rightarrow> [])"

definition normalize_job_fields :: "(string \<Rightarrow> pyfloat) \<Rightarrow> json \<Rightarrow> string \<times> string list \<times> string" where
  "normalize_job_fields flt task_json =
     (case task_json of
        JStr text \<Rightarrow>
          (let whole = [(''task'', JStr text), (''terms'', JDict [])];
               parsed = (case loaded_or flt text (JDict whole) of JDict d \<Rightarrow> d | _ \<Rightarrow> whole);
               task = (case dict_get parsed ''task'' of JStr t \<Rightarrow> t | _ \<Rightarrow> []);
               terms = job_terms flt (dict_get parsed ''terms'')
           in (task, job_symbols task terms, job_analysis_type terms))
      | _ \<Rightarrow> ([], [], ''comprehensive''))"

definition normalize_context :: "json \<Rightarrow> json \<Rightarrow> holding list \<times> risk_profile option" where
  "normalize_context portfolio profile =
     ((case parse_portfolio (if portfolio = JNull then JList [] else portfolio) of None \<Rightarrow> [] | Some hs \<Rightarrow> hs),
      (if profile = JNull then None else parse_risk_profile profile))"

section \<open>The texts of the prompt\<close>

definition newline :: string where "newline = [chr 10]"

definition holding_line :: "(json \<Rightarrow> string) \<Rightarrow> holding \<Rightarrow> string" where
  "holding_line fixed2 h = ''  '' @ holding_symbol h @ '': '' @ py_str (shares h) @ '' shares @ '' @ currency h @ '' ''
     @ fixed2 (avg_cost h) @ '' avg cost''"

definition portfolio_block :: "(json \<Rightarrow> string) \<Rightarrow> holding list \<Rightarrow> string" where
  "portfolio_block fixed2 holdings =
     (if holdings = [] then []
      else py_join newline (''CLIENT PORTFOLIO (use for personalised P&L in client_position fields):''
        # map (holding_line fixed2) holdings))"

definition risk_block :: "risk_profile option \<Rightarrow> string" where
  "risk_block risk =
     (case risk of
        None \<Rightarrow> []
      | Some r \<Rightarrow> py_join newline
          ((''CLIENT RISK PROFILE: '' @ tolerance r @ '' tolerance, '' @ dec_of_int (horizon_months r) @ ''mo horizon'')
           # (if preferred_indicators r = [] then []
              else [''  Preferred indicators: '' @ py_join '', '' (preferred_indicators r)])))"

definition context_section :: "string \<Rightarrow> string \<Rightarrow> string" where
  "context_section portfolio_text risk_text =
     (let body = py_join newline (filter (\<lambda>t. t \<noteq> []) [portfolio_text, risk_text])
      in if body = [] then []
         else newline @ ''BEGIN CLIENT CONTEXT DATA'' @ newline @ body @ newline @ ''END CLIENT CONTEXT DATA'' @ newline)"

definition checklist_line :: "nat \<times> string \<Rightarrow> string" where
  "checklist_line item = ''  '' @ dec_of_nat (Suc (fst item)) @ ''. '' @ snd item
     @ '': get_stock_quote, get_technical_signals, get_options_sentiment, get_insider_activity, get_news_sentiment''"

record prompt_texts =
  symbol_list :: string
  symbol_count :: nat
  prompt_analysis_type :: string
  prompt_context :: string
  symbol_checklist :: string
  client_position_note :: string

definition build_prompt_texts ::
  "(json \<Rightarrow> string) \<Rightarrow> string list \<Rightarrow> string \<Rightarrow> holding list \<Rightarrow> risk_profile option \<Rightarrow> prompt_texts" where
  "build_prompt_texts fixed2 symbols analysis_type holdings risk =
     (let listed = (if symbols = [] then ''the requested stocks'' else py_join '', '' symbols)
      in \<lparr>symbol_list = listed, symbol_count = (if symbols = [] then 1 else length symbols),
           prompt_analysis_type = analysis_type,
           prompt_context = context_section (portfolio_block fixed2 holdings) (risk_block risk),
           symbol_checklist = (if symbols = [] then ''  1. '' @ listed @ '': all five tools''
             else py_join newline (map checklist_line (List.enumerate 0 symbols))),
           client_position_note =
             (if holdings = [] then ''  Set client_position to null for all symbols (no holdings provided).''
              else ''  Populate client_position for held symbols ('' @ py_join '', '' (map holding_symbol holdings)
                @ ''); set to null for non-held symbols.'')\<rparr>)"

definition build_stock_analysis_prompt ::
  "(prompt_texts \<Rightarrow> string) \<Rightarrow> (json \<Rightarrow> string) \<Rightarrow> (string \<Rightarrow> pyfloat) \<Rightarrow> json \<Rightarrow> json \<Rightarrow> json \<Rightarrow> string \<times> string list" where
  "build_stock_analysis_prompt template fixed2 flt task_json portfolio profile =
     (case normalize_job_fields flt task_json of (task, symbols, analysis_type) \<Rightarrow>
      case normalize_context portfolio profile of (holdings, risk) \<Rightarrow>
        (template (build_prompt_texts fixed2 symbols analysis_type holdings risk), symbols))"

end
