(* ===== verification/Prompt_Laws.thy ===== *)
theory Prompt_Laws
  imports Prompt_Fields Notify_Laws Job_Execution Json_Wire
begin

text \<open>What can reach the prompt of an analysis: tickers, fixed words, and the validated context.\<close>

section \<open>Tickers\<close>

lemma upper_front: "list_all is_upper_az a \<Longrightarrow> b = [] \<or> \<not> is_upper_az (hd b) \<Longrightarrow> takeWhile is_upper_az (a @ b) = a \<and> dropWhile is_upper_az (a @ b) = b"
  by (induction a) (auto, (cases b; simp)+)

lemma ticker_choice_re:
  assumes "ticker_choice s (n, g)" "(n, g) \<in> set (List.product [5, 4, 3, 2, 1] [3, 2, 0])"
  shows "ticker_re (take (n + g) s)" "1 \<le> n + g" "n + g \<le> length s"
proof -
  have ng: "1 \<le> n" "n \<le> 5" "g = 3 \<or> g = 2 \<or> g = 0" using assms(2) by auto
  have s: "n + g \<le> length s" "list_all is_upper_az (take n s)"
    "g = 0 \<or> (s ! n = CHR ''.'' \<and> list_all is_upper_az (take (g - 1) (drop (Suc n) s)))"
    using assms(1) by (simp_all add: ticker_choice_def)
  show "1 \<le> n + g" "n + g \<le> length s" using ng s by auto
  let ?b = "take g (drop n s)"
  have b: "?b = [] \<or> (hd ?b = CHR ''.'' \<and> tl ?b = take (g - 1) (drop (Suc n) s))"
  proof (cases "g = 0")
    case False
    then have "drop n s = s ! n # drop (Suc n) s" using s(1) by (simp add: Cons_nth_drop_Suc)
    then show ?thesis using False s(3) by (cases g) auto
  qed simp
  have "\<not> is_upper_az (CHR ''.'')" by code_simp
  then have "takeWhile is_upper_az (take n s @ ?b) = take n s \<and> dropWhile is_upper_az (take n s @ ?b) = ?b"
    using s(2) b by (intro upper_front) auto
  then have front: "takeWhile is_upper_az (take (n + g) s) = take n s" "dropWhile is_upper_az (take (n + g) s) = ?b"
    by (simp_all only: take_add)
  have len: "length (take n s) = n" "g \<noteq> 0 \<Longrightarrow> length (tl ?b) = g - 1" using s(1) by simp_all
  show "ticker_re (take (n + g) s)" unfolding ticker_re_def Let_def front len(1)
    using ng s b len(2) by (cases "g = 0") auto
qed

lemma ticker_at_re: "ticker_at before s = Some n \<Longrightarrow> ticker_re (take n s) \<and> 1 \<le> n"
  using ticker_choice_re by (fastforce simp: ticker_at_def find_Some_iff in_set_conv_nth split: if_splits)

lemma find_tickers_re: "t \<in> set (find_tickers before s) \<Longrightarrow> ticker_re t"
  by (induction before s rule: find_tickers.induct) (auto split: option.splits dest: ticker_at_re)

definition symbols_ok :: "string list \<Rightarrow> bool" where
  "symbols_ok ss \<longleftrightarrow> distinct ss \<and> length ss \<le> MAX_SYMBOLS \<and> list_all ticker_re ss"

lemma collect_symbols_ok:
  "symbols_ok ss \<Longrightarrow> length ss < MAX_SYMBOLS \<Longrightarrow> symbols_ok (collect_symbols ss vs)"
  by (induction ss vs rule: collect_symbols.induct) (auto simp: symbols_ok_def split: json.splits)

lemma collect_symbols_all:
  "symbols_ok (acc @ ss) \<Longrightarrow> length acc < MAX_SYMBOLS \<Longrightarrow> collect_symbols acc (map JStr ss) = acc @ ss"
proof (induction ss arbitrary: acc)
  case (Cons s ss)
  show ?case
  proof (cases "length (acc @ [s]) = MAX_SYMBOLS")
    case True
    then have "ss = []" using Cons.prems(1) by (cases ss) (auto simp: symbols_ok_def)
    then show ?thesis using Cons.prems True by (simp add: symbols_ok_def)
  next
    case False
    then show ?thesis using Cons.IH[of "acc @ [s]"] Cons.prems by (simp add: symbols_ok_def)
  qed
qed simp

lemma first_occurrences_ok: "symbols_ok (take MAX_SYMBOLS (first_occurrences (find_tickers None task)))"
  using find_tickers_re by (auto simp: symbols_ok_def first_occurrences_def list_all_iff dest!: in_set_takeD)

lemma no_symbols: "symbols_ok []" "length ([] :: string list) < MAX_SYMBOLS"
  by (simp_all add: symbols_ok_def MAX_SYMBOLS_def)

lemma job_symbols_ok: "symbols_ok (job_symbols task terms)"
  using collect_symbols_ok[OF no_symbols] first_occurrences_ok no_symbols
  by (cases "dict_get terms ''symbols''") (simp_all add: job_symbols_def Let_def)

lemma default_type: "''comprehensive'' \<in> set ANALYSIS_TYPES"
  by (simp add: ANALYSIS_TYPES_def)

lemma job_analysis_type_ok: "job_analysis_type terms \<in> set ANALYSIS_TYPES"
  using default_type by (cases "dict_get terms ''analysis_type''") (simp_all add: job_analysis_type_def)

lemma job_fields_ok:
  assumes "normalize_job_fields flt v = (task, symbols, analysis_type)"
  shows "symbols_ok symbols \<and> analysis_type \<in> set ANALYSIS_TYPES"
  using assms job_symbols_ok job_analysis_type_ok no_symbols(1) default_type
  by (cases v) (auto simp: normalize_job_fields_def Let_def)

lemma context_fields_ok:
  "normalize_context portfolio profile = (holdings, risk) \<Longrightarrow> length holdings \<le> 50 \<and> list_all holding_ok holdings
     \<and> (case risk of None \<Rightarrow> True | Some r \<Rightarrow> risk_profile_ok r)"
  using parse_portfolio_ok[of "if portfolio = JNull then JList [] else portfolio"] parse_risk_profile_ok[of profile]
  by (auto simp: normalize_context_def split: option.splits if_splits)

section \<open>The jobs of the service\<close>

text \<open>Symbols that are tickers are kept in their order; others are not, and parts of their names may take their place.\<close>

definition task_terms :: "string list \<Rightarrow> json \<Rightarrow> dict" where
  "task_terms ss analysis_type = [(''symbols'', JList (map JStr ss)),
     (''analysis_type'', JStr (py_str (py_or analysis_type (JStr ''comprehensive''))))]"

lemma service_symbols:
  "fst (snd (normalize_job_fields flt (JStr (task_json ss analysis_type))))
     = job_symbols (''Analyze '' @ py_join '', '' ss) (task_terms ss analysis_type)"
proof -
  let ?v = "JDict [(''task'', JStr (''Analyze '' @ py_join '', '' ss)), (''terms'', JDict (task_terms ss analysis_type))]"
  let ?opt = "\<lparr>ensure_ascii = True, item_separator = '', '', key_separator = '': '', sort_keys = False\<rparr>"
  have "wire_json ?v" by (simp add: list_all_iff task_terms_def)
  moreover have "wire_options ?opt" by (simp add: wire_options_def)
  ultimately have "json_parse (default_hooks flt) (json_dumps ?opt ?v) = Some (printed_json (sort_keys ?opt) ?v)"
    by (rule json_roundtrip)
  then have "json_parse (default_hooks flt) (task_json ss analysis_type) = Some ?v"
    unfolding task_json_def task_terms_def by (simp only: dumps_options.simps printed_json_False)
  moreover have "job_terms flt (JDict (task_terms ss analysis_type)) = task_terms ss analysis_type" by (simp add: job_terms_def)
  ultimately show ?thesis by (simp add: normalize_job_fields_def loaded_or_def Let_def)
qed

lemma service_symbols_kept:
  assumes "symbols_ok ss" "ss \<noteq> []"
  shows "fst (snd (normalize_job_fields flt (JStr (task_json ss analysis_type)))) = ss"
  unfolding service_symbols using collect_symbols_all[of "[]" ss] assms no_symbols(2)
  by (simp add: job_symbols_def task_terms_def)

lemma other_listings_replaced:
  "fst (snd (normalize_job_fields flt (JStr (task_json [''BRK-B''] JNull)))) = [''BRK'', ''B'']"
  "fst (snd (normalize_job_fields flt (JStr (task_json [''0700.HK''] JNull)))) = [''HK'']"
  unfolding service_symbols by code_simp+

end
