(* ===== verification/Report_Pipeline.thy ===== *)
theory Report_Pipeline
  imports X402_Effects
begin

text \<open>
  From the answer of the model to the delivered report (\<open>report_pipeline.py\<close>). The schema of a report with
  its pydantic validation (\<open>validate\<close>), the renderer (\<open>render\<close>), the model (\<open>call_runner\<close>) and the text
  of the correction, which has a character beyond Latin-1, are parameters. The nesting limit of the
  interpreter, beyond which \<open>raw_decode\<close> gives up a candidate, is not modelled.
\<close>

section \<open>Candidates\<close>

definition MAX_MODEL_RESPONSE_BYTES :: nat where "MAX_MODEL_RESPONSE_BYTES = 2097152"
definition MAX_JSON_CANDIDATES :: nat where "MAX_JSON_CANDIDATES = 64"

definition response_error_code :: "json \<Rightarrow> string option" where
  "response_error_code v =
     (case v of
        JStr s \<Rightarrow>
          (if length s > MAX_MODEL_RESPONSE_BYTES then Some ''response_too_large''
           else if length (utf8 s) > MAX_MODEL_RESPONSE_BYTES then Some ''response_too_large''
           else None)
      | _ \<Rightarrow> Some ''invalid_response_type'')"

text \<open>
  The places behind the matches of a code fence that opens, with or without the word json in any
  case and white space, before a brace. The word is always followed by a boundary there.
\<close>

definition fence_length :: "string \<Rightarrow> nat option" where
  "fence_length s =
     (if take 3 s \<noteq> replicate 3 (chr 96) then None
      else let rest = drop 3 s;
               worded = (py_lower (take 4 rest) = ''json'');
               body = (if worded then drop 4 rest else rest);
               spaces = takeWhile is_space body
           in if drop (length spaces) body \<noteq> [] \<and> hd (drop (length spaces) body) = CHR ''{''
              then Some (3 + (if worded then 4 else 0) + length spaces) else None)"

function fence_ends :: "nat \<Rightarrow> string \<Rightarrow> nat list" where
  "fence_ends offset [] = []"
| "fence_ends offset (c # cs) =
     (case fence_length (c # cs) of
        None \<Rightarrow> fence_ends (Suc offset) cs
      | Some n \<Rightarrow> (offset + n) # fence_ends (offset + n) (drop (n - 1) cs))"
  by pat_completeness auto
termination
  by (relation "measure (\<lambda>(offset, s). length s)") auto

definition brace_offsets :: "string \<Rightarrow> nat list" where
  "brace_offsets s = filter (\<lambda>i. s ! i = CHR ''{'') [0..<length s]"

definition raw_decode :: "json_hooks \<Rightarrow> string \<Rightarrow> nat \<Rightarrow> json option" where
  "raw_decode h s offset =
     (case json_value h (Suc (length s)) (drop offset s) of Inl e \<Rightarrow> None | Inr (v, r) \<Rightarrow> Some v)"

text \<open>The offsets that are tried: every one once, the fences first, up to the limit.\<close>

fun tried_offsets :: "nat list \<Rightarrow> nat list \<Rightarrow> nat list" where
  "tried_offsets seen [] = seen"
| "tried_offsets seen (i # is) =
     (if length seen \<ge> MAX_JSON_CANDIDATES then seen
      else tried_offsets (if i \<in> set seen then seen else seen @ [i]) is)"

definition json_candidates :: "json_hooks \<Rightarrow> string \<Rightarrow> dict list" where
  "json_candidates h s =
     concat (map (\<lambda>i. case raw_decode h s i of Some (JDict d) \<Rightarrow> [d] | _ \<Rightarrow> [])
       (tried_offsets [] (fence_ends 0 s @ brace_offsets s)))"

section \<open>Reports\<close>

definition SAFE_FAILURE_REPORT :: string where
  "SAFE_FAILURE_REPORT = ''# Report generation unavailable'' @ [chr 10, chr 10]
     @ ''The analysis engine could not produce a valid structured report. No unvalidated'' @ [chr 10]
     @ ''model output was delivered. Please retry with a new job.''"

fun first_valid :: "(dict \<Rightarrow> 'r option) \<Rightarrow> dict list \<Rightarrow> 'r option" where
  "first_valid validate [] = None"
| "first_valid validate (d # ds) = (case validate d of Some r \<Rightarrow> Some r | None \<Rightarrow> first_valid validate ds)"

definition parse_report :: "json_hooks \<Rightarrow> (dict \<Rightarrow> 'r option) \<Rightarrow> json \<Rightarrow> 'r option" where
  "parse_report h validate v =
     (if response_error_code v \<noteq> None then None
      else case v of JStr s \<Rightarrow> first_valid validate (json_candidates h s) | _ \<Rightarrow> None)"

text \<open>The warning about symbols without an analysis is dropped like all logging.\<close>

definition generate_validated_report ::
  "json_hooks \<Rightarrow> (dict \<Rightarrow> 'r option) \<Rightarrow> ('r \<Rightarrow> string) \<Rightarrow> (string \<Rightarrow> string \<Rightarrow> 'w \<Rightarrow> (exn + json) \<times> 'w)
     \<Rightarrow> string \<Rightarrow> string \<Rightarrow> string \<Rightarrow> 'w \<Rightarrow> (exn + string) \<times> 'w" where
  "generate_validated_report h validate render call_runner correction prompt session_id w =
     (case call_runner prompt session_id w of
        (Inl e, w1) \<Rightarrow> (Inl e, w1)
      | (Inr raw, w1) \<Rightarrow>
          (case parse_report h validate raw of
             Some report \<Rightarrow> (Inr (render report), w1)
           | None \<Rightarrow>
               (case call_runner correction session_id w1 of
                  (Inl e, w2) \<Rightarrow> (Inl e, w2)
                | (Inr again, w2) \<Rightarrow>
                    (Inr (case parse_report h validate again of
                       Some report \<Rightarrow> render report | None \<Rightarrow> SAFE_FAILURE_REPORT), w2))))"

section \<open>Only validated reports are delivered\<close>

lemma first_valid_Some: "first_valid validate ds = Some r \<Longrightarrow> \<exists>d\<in>set ds. validate d = Some r"
  by (induction ds) (auto split: option.splits)

lemma first_valid_None: "first_valid validate ds = None \<longleftrightarrow> (\<forall>d\<in>set ds. validate d = None)"
  by (induction ds) (auto split: option.splits)

lemma tried_offsets_ok:
  "distinct seen \<Longrightarrow> length seen \<le> MAX_JSON_CANDIDATES \<Longrightarrow>
   distinct (tried_offsets seen is) \<and> length (tried_offsets seen is) \<le> MAX_JSON_CANDIDATES
     \<and> set (tried_offsets seen is) \<subseteq> set seen \<union> set is"
proof (induction seen "is" rule: tried_offsets.induct)
  case (2 seen i "is")
  then show ?case by (cases "length seen \<ge> MAX_JSON_CANDIDATES"; cases "i \<in> set seen") auto
qed simp

text \<open>Every place that is tried holds a brace, so a candidate is an object that stands in the response.\<close>

lemma fence_end_brace:
  assumes "fence_length s = Some n"
  shows "1 \<le> n \<and> n < length s \<and> s ! n = CHR ''{''"
proof -
  let ?rest = "drop 3 s"
  let ?k = "if py_lower (take 4 ?rest) = ''json'' then 4 else (0 :: nat)"
  let ?body = "drop ?k ?rest"
  have n: "n = 3 + ?k + length (takeWhile is_space ?body)"
    and ne: "drop (length (takeWhile is_space ?body)) ?body \<noteq> []"
    and hd: "hd (drop (length (takeWhile is_space ?body)) ?body) = CHR ''{''"
    using assms by (auto simp: fence_length_def Let_def split: if_splits)
  have d: "drop (length (takeWhile is_space ?body)) ?body = drop n s" by (simp add: n add.commute add.left_commute)
  have "1 \<le> n" by (simp add: n)
  moreover have "drop n s \<noteq> []" "hd (drop n s) = CHR ''{''" using ne[unfolded d] hd[unfolded d] by blast+
  moreover from this(1) have "n < length s" by simp
  ultimately show ?thesis by (simp add: hd_drop_conv_nth)
qed

lemma fence_ends_brace: "i \<in> set (fence_ends offset s) \<Longrightarrow> offset \<le> i \<and> i - offset < length s \<and> s ! (i - offset) = CHR ''{''"
proof (induction offset s rule: fence_ends.induct)
  case (2 offset c cs)
  show ?case
  proof (cases "fence_length (c # cs)")
    case None
    then have "i \<in> set (fence_ends (Suc offset) cs)" using 2(3) by simp
    from 2(1)[OF None this] show ?thesis by (auto simp: Suc_diff_le nth_Cons' Suc_le_eq)
  next
    case (Some n)
    note brace = fence_end_brace[OF Some]
    show ?thesis
    proof (cases "i = offset + n")
      case True
      then show ?thesis using brace by simp
    next
      case False
      then have "i \<in> set (fence_ends (offset + n) (drop (n - 1) cs))" using 2(3) Some by simp
      from 2(2)[OF Some this] have i: "offset + n \<le> i" "i - (offset + n) < length (drop (n - 1) cs)"
        "drop (n - 1) cs ! (i - (offset + n)) = CHR ''{''" by auto
      have "drop (n - 1) cs = drop n (c # cs)" using brace by (cases n) auto
      then show ?thesis using i by (auto simp: algebra_simps)
    qed
  qed
qed simp

lemma candidate_stands:
  assumes "d \<in> set (json_candidates h s)"
  shows "\<exists>i<length s. s ! i = CHR ''{'' \<and> raw_decode h s i = Some (JDict d)"
proof -
  have "set (tried_offsets [] (fence_ends 0 s @ brace_offsets s)) \<subseteq> set (fence_ends 0 s @ brace_offsets s)"
    using tried_offsets_ok[of "[]" "fence_ends 0 s @ brace_offsets s"] by simp
  moreover obtain i where "i \<in> set (tried_offsets [] (fence_ends 0 s @ brace_offsets s))" "raw_decode h s i = Some (JDict d)"
    using assms by (auto simp: json_candidates_def split: option.splits json.splits)
  moreover have "i < length s \<and> s ! i = CHR ''{''" if "i \<in> set (fence_ends 0 s @ brace_offsets s)" for i
    using that fence_ends_brace[of i 0 s] by (auto simp: brace_offsets_def)
  ultimately show ?thesis by blast
qed

lemma candidates_bounded: "length (json_candidates h s) \<le> MAX_JSON_CANDIDATES"
proof -
  have "length (concat (map (\<lambda>i. case raw_decode h s i of Some (JDict d) \<Rightarrow> [d] | _ \<Rightarrow> []) is)) \<le> length is" for "is"
    by (induction "is") (auto split: option.splits json.splits)
  moreover have "length (tried_offsets [] (fence_ends 0 s @ brace_offsets s)) \<le> MAX_JSON_CANDIDATES"
    using tried_offsets_ok[of "[]" "fence_ends 0 s @ brace_offsets s"] by simp
  ultimately show ?thesis unfolding json_candidates_def using le_trans by blast
qed

lemma parse_report_sound:
  assumes "parse_report h validate v = Some r"
  shows "\<exists>s i d. v = JStr s \<and> length (utf8 s) \<le> MAX_MODEL_RESPONSE_BYTES \<and> i < length s \<and> s ! i = CHR ''{''
    \<and> raw_decode h s i = Some (JDict d) \<and> validate d = Some r"
proof -
  from assms obtain s where s: "v = JStr s" "length (utf8 s) \<le> MAX_MODEL_RESPONSE_BYTES"
    "first_valid validate (json_candidates h s) = Some r"
    by (auto simp: parse_report_def response_error_code_def split: json.splits if_splits)
  from first_valid_Some[OF s(3)] candidate_stands s(1,2) show ?thesis by blast
qed

text \<open>The model that also records what it is asked.\<close>

definition heard ::
  "(string \<Rightarrow> string \<Rightarrow> 'w \<Rightarrow> (exn + json) \<times> 'w) \<Rightarrow> string \<Rightarrow> string
     \<Rightarrow> 'w \<times> (string \<times> string) list \<Rightarrow> (exn + json) \<times> 'w \<times> (string \<times> string) list" where
  "heard run p session = (\<lambda>(w, l). map_prod id (\<lambda>w. (w, l @ [(p, session)])) (run p session w))"

lemma model_calls:
  "snd (snd (generate_validated_report h validate render (heard run) correction question session (w, [])))
     \<in> {[(question, session)], [(question, session), (correction, session)]}"
proof -
  obtain r1 w1 where r1: "run question session w = (r1, w1)" by fastforce
  obtain r2 w2 where r2: "run correction session w1 = (r2, w2)" by fastforce
  show ?thesis
    by (cases r1; cases r2; cases "parse_report h validate (projr r1)")
      (simp_all add: generate_validated_report_def heard_def r1 r2)
qed

lemma report_source:
  assumes "generate_validated_report h validate render run correction question session w = (Inr delivered, w')"
  shows "delivered = SAFE_FAILURE_REPORT \<or> (\<exists>asked v v' value r. (asked = question \<and> v = w \<or> asked = correction)
      \<and> run asked session v = (Inr value, v') \<and> parse_report h validate value = Some r \<and> delivered = render r)"
  using assms unfolding generate_validated_report_def
  by (auto split: prod.splits sum.splits option.splits) blast+

lemma report_sound:
  assumes "generate_validated_report h validate render run correction question session w = (Inr delivered, w')"
    "delivered \<noteq> SAFE_FAILURE_REPORT"
  obtains asked v v' s i d r where "asked = question \<and> v = w \<or> asked = correction"
    "run asked session v = (Inr (JStr s), v')" "length (utf8 s) \<le> 2097152"
    "i < length s" "s ! i = CHR ''{''" "raw_decode h s i = Some (JDict d)" "validate d = Some r" "delivered = render r"
proof -
  from report_source[OF assms(1)] assms(2) obtain asked v v' val r where
    a: "asked = question \<and> v = w \<or> asked = correction" "run asked session v = (Inr val, v')"
    and p: "parse_report h validate val = Some r" and r: "delivered = render r" by blast
  from parse_report_sound[OF p] obtain s i d where s: "val = JStr s" "length (utf8 s) \<le> MAX_MODEL_RESPONSE_BYTES"
    "i < length s" "s ! i = CHR ''{''" "raw_decode h s i = Some (JDict d)" "validate d = Some r" by blast
  show thesis by (rule that[OF a(1) a(2)[unfolded s(1)] s(2)[unfolded MAX_MODEL_RESPONSE_BYTES_def] s(3-6) r])
qed

end
