(* ===== verification/Spec2Isabelle.thy ===== *)
theory Spec2Isabelle
  imports Reference_World Gateway_World Handler_Answers Uomp_World Seller_World S3_Laws Reporting_Laws Prompt_Laws Report_Pipeline
begin

text \<open>
  \<^bold>\<open>The paid-analysis back end of the stock-analyst agent\<close>

  The program sells stock analyses for stablecoin payments over the x402 protocol. A client sends
  a signed payment authorization with an analysis request; the service validates the signature,
  admits the job against a per-wallet rate limit, settles the payment through the B402
  facilitator, runs the analysis in the background under a lease, and stores the report. All
  durable state is in an S3 bucket, written with conditional puts, so that several replicas can
  work on the same jobs.

  \<^bold>\<open>Theories and the code they model\<close> (paths under \<open>src/stockanalyst/app/agent/\<close>)

  \<^item> \<open>Py_Prelude\<close>, \<open>Py_Json\<close>: what the sources use of Python: strings, decimal and hexadecimal
    text, base64, UTF-8, \<open>json\<close> values with their equality, truth values, \<open>str\<close>, \<open>int\<close>,
    \<open>json.dumps\<close> and \<open>json.loads\<close>.
  \<^item> \<open>X402_Tokens\<close>: \<open>x402_tokens.py\<close>, \<open>x402_settlement.py\<close>: the token registry and settlement
    outcomes with the check of their constructor.
  \<^item> \<open>X402_Effects\<close>: the state of a replica as the world outside and the list of events so far,
    the operations that compose fallible actions (\<open>try\<close>, \<open>except\<close>, awaiting a call), and the
    triples \<open>obeys\<close> in which the components are specified. The locale \<open>attempt_loop\<close> is the
    contract of a bounded retry loop; it is interpreted on every such loop of the code.
  \<^item> \<open>Job_Store\<close>: \<open>x402_job_store.py\<close>: keys, encodings with their limits, conditional puts, and
    the create, read and replace operations on job records, wallet records, accounting markers
    and reports.
  \<^item> \<open>Versioned_Object\<close>: the locales \<open>guarded_object\<close> and \<open>monotone_object\<close>, which lift what one
    write keeps to all versions of a stored object.
  \<^item> \<open>Wallet_Rate_Limit\<close>: \<open>x402_wallet_rate_limit.py\<close>: reserve, confirm, commit and release with
    their retries, the specification of one write (\<open>apply_change\<close>) and of the sequence of writes of
    all replicas (\<open>wallet_run\<close>).
  \<^item> \<open>Payment_Proof\<close>, \<open>Permit2\<close>, \<open>Payment_Verify\<close>: \<open>x402_verify.py\<close>, \<open>x402_permit2.py\<close>: decoding
    of the payment header, requirements and challenges, the EIP-712 digests and every check of a
    proof in the order of the code, with the reason of its rejection.
  \<^item> \<open>Job_Identity\<close>, \<open>Job_Tasks\<close>, \<open>Job_Settlement\<close>, \<open>Job_Execution\<close>: \<open>x402_job_service.py\<close>:
    identities, requests and results; the in-process task table and competition accounting;
    creation and settlement of jobs; execution, leases, queries and resumption.
  \<^item> \<open>Job_Lifecycle\<close>, \<open>Job_Guarantee\<close>, \<open>Settle_Order\<close>, \<open>Service_Runs\<close>: the invariant of a job
    record, the changes a write may make, that every operation of the service stays within them,
    the order of durable writes and settlements, and runs of a replica as a step relation.
  \<^item> \<open>Json_Wire\<close>: the locale \<open>codec\<close> and its interpretations on base64, UTF-8 and JSON: what is
    printed is read back.
  \<^item> \<open>Store_Refinement\<close>: the job store as an abstract map with compare-and-swap, against an object
    store that honours its preconditions.
  \<^item> \<open>Py_Net\<close>: \<open>ipaddress.ip_address\<close> and \<open>urllib.parse.urlsplit\<close> as the checks use them (CPython 3.11).
  \<^item> \<open>X402_Envelope\<close>: \<open>x402_envelope.py\<close>; \<open>Gateway_Request\<close>, \<open>Gateway_Client\<close>: \<open>envelope.py\<close>,
    \<open>agentcore_client.py\<close>, \<open>oauth_client.py\<close> and \<open>handler.py\<close> of \<open>src/gateway/x402_lambda/src/\<close>;
    \<open>Gateway_Bridge\<close>: that the two programs agree on requests and responses; \<open>Gateway_World\<close>: the
    failures of the gateway and a concrete exchange.
  \<^item> \<open>B402_Client\<close>: \<open>b402_client.py\<close>; \<open>Facilitator\<close>: the settlement backends of \<open>x402_handler.py\<close>;
    \<open>X402_Handler\<close>: its routes and responses, over the job service and the settlement;
    \<open>Handler_Answers\<close>: what every route answers, emits and lets escape.
  \<^item> \<open>Py_Ip\<close>: the address classes of \<open>ipaddress\<close>; \<open>Notify_Security\<close>: \<open>notify_security.py\<close>;
    \<open>Notify_Laws\<close>: which addresses and which authorizations it lets through.
  \<^item> \<open>Signing\<close>: \<open>signing.py\<close>; \<open>Seller_Core\<close>: the stretches of \<open>seller_core.py\<close> between two awaits, as functions
    on its state; \<open>Seller_Steps\<close>: their interleavings, as a step relation; \<open>Seller_Laws\<close>: its invariant;
    \<open>Seller_Runs\<close>: authorized contexts, bounded threads and state, and the end of all work;
    \<open>Seller_World\<close>: a concrete run.
  \<^item> \<open>Uomp_Storage\<close>: \<open>uomp_storage.py\<close>; \<open>Uomp_Laws\<close>: what its sockets, connections, reads and payload URLs
    guarantee; \<open>Uomp_World\<close>: a concrete relay.
  \<^item> \<open>S3_Storage\<close>, \<open>S3_Laws\<close>: \<open>s3_storage.py\<close>; \<open>Reporting\<close>, \<open>Reporting_Laws\<close>: \<open>usage_reporting.py\<close> and
    \<open>competition_reporting.py\<close>; \<open>Prompt_Fields\<close>, \<open>Prompt_Laws\<close>: \<open>prompt_builder.py\<close> with its template as a
    parameter; \<open>Report_Pipeline\<close>: \<open>report_pipeline.py\<close> with schema and renderer as parameters.
  \<^item> \<open>Reference_World\<close>: one concrete set of services, payment and job on which the definitions
    are evaluated and the hypotheses of the theorems hold.

  \<^bold>\<open>How state and effects are modelled\<close>

  A method of the code is a function from the state of the replica to a result and a new state:
  \<open>Inr\<close> a value or \<open>Inl\<close> an exception of the datatype \<open>exn\<close>. Everything outside the sources is a
  field of the record \<open>services\<close> (or \<open>job_services\<close>, \<open>eth\<close>, \<open>verifier\<close>): the object store, the clock,
  random tokens, digests, the facilitator, the analysis stream, the Ethereum library, the parsing
  of float literals. They are arbitrary functions of the world, so a theorem about an operation
  holds whatever other replicas do between two of its calls. A conditional write leaves one
  event when it is sent and one when it is acknowledged; a settlement leaves one before the call.
  Retry loops recurse on the number of attempts that are left, so every operation terminates.

  \<^bold>\<open>What the theorems show\<close>

  C1 to C4 are about the job service as a whole: the contract of everything it emits, the order
  of durable writes and settlements, validity and monotonicity of all versions of a job record.
  C5 to C9 are about the on-chain seller over every interleaving: single delivery, authorized
  contexts, the end of all work, the hand-over of notified jobs, and what a verified job is; C30
  and C31 are about the gateways and authorizations it accepts, C36 about the bounds of its
  threads and state, C32 to C35 about the storage of a buyer's relay.
  C10 to C12 are about the limiter, C13 to C15 about
  payment proofs, C16 to C17 about identities and requests, C18 to C19 about single
  operations of the service, C20 to C22 about the store as a map, C23 to C25 about the
  gateway and its bridge to the agent, C26 and C27 about the HTTP endpoints behind the
  bridge, C28 and C29 about the settlement backends, C37 to C40
  about deliverables, reports, prompts and the reporters of events.

  \<^bold>\<open>Bounds and restrictions\<close>

  Characters are those below 256, so strings are Latin-1 text; integers are unbounded as in
  Python. Floats are kept as exact fractions with their text, and literals are converted by a
  parameter. The JSON parser recurses on the length of its input, which bounds its nesting. The
  durations passed to \<open>sleep\<close> are dropped. The heartbeat of a running job, a concurrent task in the
  code, is run to the number of beats the world chooses before the report arrives.

  \<^bold>\<open>Not modelled\<close>

  The market data and its analysis (calls of other services and floating-point
  indicators), the schema and the rendering of reports (pydantic, formatted floats), the model access, and
  the wiring of the server and of the a2a SDK are not modelled: they are calls of libraries with
  little state of their own. Logging is dropped throughout.
\<close>

text \<open>
  C1: Everything a replica of the job service ever emits, over any sequence of calls, background
  turns and outside changes, keeps its contract: a created job record is a valid initial record,
  every replacement of a record is a step of the life cycle, wallet records change only as the
  limiter's specification allows, and the facilitator is called only for a record that is in
  settlement, leased to this replica and bound to the digest of the proof that is sent.
\<close>

theorem service_run_guarantee:
  assumes "service_run E svc s"
  shows "list_all (service_guarantee (settle_permitted E svc)) (events s)"
  using assms by (rule run_guarantee)

theorem service_run_guarantee_witness:
  "list_all (service_guarantee (settle_permitted demo_services demo_service))
     (events (perform demo_services demo_service (CreateJob demo_header demo_request) demo_start))"
  by (rule service_run_guarantee) (rule demo_run)

text \<open>
  C2: In every reachable state of a replica, each settlement call comes after the store has
  acknowledged the very record under which it is made: no payment is settled for a job that was
  not durable first.
\<close>

theorem service_run_settle_order:
  assumes "service_run E svc s"
  shows "settle_ordered (events s)"
  using assms by (rule run_ordered)

theorem service_run_settle_order_witness:
  "settle_ordered
     (events (perform demo_services demo_service (CreateJob demo_header demo_request) demo_start))"
  by (rule service_run_settle_order) (rule demo_run)





text \<open>
  C5: Over every interleaving of notifications, scans, timeouts and background work, a job has at most
  one worker at a time and at most one of its submissions ever reaches the chain; a job that was
  delivered is handled, or its worker is about to mark it so, and a handled job is never worked on.
\<close>

theorem one_delivery_per_job:
  assumes "reachable c"
  shows "size (filter_mset (\<lambda>w. fst w = j) (workers c)) \<le> 1
    \<and> distinct (landed_jobs (seller_log c))
    \<and> set (landed_jobs (seller_log c)) \<subseteq> handled_jobs (seller_core c) \<union> fst ` set_mset (workers c)
    \<and> handled_jobs (seller_core c) \<inter> fst ` set_mset (workers c) = {}"
  using delivered_once[OF reachable_inv[OF assms]] .

theorem one_delivery_per_job_witness:
  "reachable (sale_seller (Ended (Delivered ''0xtx'' ''url''))
     [Replied (AcceptedJob 7), SubmitStarted 7 True (Some sale_context) (Some sale_spec) ''report'',
      Landed 7 True (Some sale_context) (Some sale_spec)])
   \<and> size (filter_mset (\<lambda>w. fst w = 7) (workers (sale_seller (Ended (Delivered ''0xtx'' ''url''))
     [Replied (AcceptedJob 7), SubmitStarted 7 True (Some sale_context) (Some sale_spec) ''report'',
      Landed 7 True (Some sale_context) (Some sale_spec)]))) = 1"
  using sale_landed one_delivery_per_job[OF sale_landed, of 7] by (simp add: sale_seller_def)



text \<open>
  C7: Whatever the chain, the model and the gateways answer, the work under way ends: without new
  notifications no run goes on for ever, and a run can stop only where nothing is under way and the
  seller no longer reports that it is busy.
\<close>

theorem background_work_ends:
  "wfP (\<lambda>c' c. task_step c c') \<and>
   ((\<exists>c'. task_step c c') \<or> workers c = {#} \<and> sweeps c = 0 \<and> notifications c = {#} \<and> seller_busy c = False)"
proof
  show "wfP (\<lambda>c' c. task_step c c')" by (rule task_steps_end)
  show "(\<exists>c'. task_step c c') \<or> workers c = {#} \<and> sweeps c = 0 \<and> notifications c = {#} \<and> seller_busy c = False"
    using busy_moves[of c] by (cases "sweeps c") (auto simp: seller_busy_def)
qed

text \<open>
  C8: An accepted notification is not lost: its job is handled, or it has a verified worker, or it
  waits behind the worker of a scan. When that worker ends without a terminal result and the context
  is still there, a verified worker takes over with the same context.
\<close>

theorem accepted_jobs_persist:
  assumes "reachable c"
  shows "(let c' = notify_accepts j c in
      j \<in> handled_jobs (seller_core c') \<or> j \<in> late_submit_successes (seller_core c')
      \<or> (\<exists>v p. (j, v, p) \<in># workers c' \<and> (v \<or> j \<in> pending_verified_handoffs (seller_core c'))))
    \<and> (\<forall>r x s' ws es. (j, False, Ended r) \<in># workers c \<and> j \<in> pending_verified_handoffs (seller_core c)
        \<and> j \<notin> late_submit_successes (seller_core c) \<and> terminal_result r = False
        \<and> job_contexts (seller_core c) j = Some x \<and> worker_step (seller_core c) (j, False, Ended r) s' ws es
        \<longrightarrow> ws = [(j, True, Scheduled)] \<and> job_contexts s' j = Some x)"
  unfolding Let_def by (rule conjI[OF accepted_kept handoff_step]) (rule reachable_inv[OF assms])+

theorem accepted_jobs_persist_witness:
  "\<exists>v p. (7, v, p) \<in># workers (notify_accepts 7 (sale_seller Scheduled [Replied (AcceptedJob 7)]))"
  using accepted_jobs_persist[OF sale_accepted, of 7]
  by (auto simp: sale_seller_def notify_accepts_def spawn_job_def with_sweep_def spawn_sweep_def with_reply_def
      sale_state_def seller_init_def)



text \<open>
  C9: A job is taken for verified only if it is funded, assigned to this wallet, not expired, pays at
  least the agreed price, and carries a quote for this chain and contract that this wallet signed; a
  legacy quote must besides hash to its own content and be unexpired.
\<close>

theorem verified_job_sound:
  assumes "verify_signed_job_snapshot R job_id = Inr (Inr snapshot)"
  shows "\<exists>job wallet signer price. get_chain_job R job_id = Inr job \<and> wallet_address R = Inr wallet
    \<and> chain_status job = ''FUNDED'' \<and> py_lower (chain_provider job) = py_lower wallet
    \<and> (chain_expired_at job = 0 \<or> expiry_clock R < chain_expired_at job)
    \<and> active_client R = Inr (snapshot_chain_id snapshot, snapshot_contract snapshot)
    \<and> quote_signed_by R (chain_description job) (snapshot_chain_id snapshot) (snapshot_contract snapshot)
        (quote_clock R) signer
    \<and> py_lower signer = py_lower wallet
    \<and> parse_description R (chain_description job) = Inr (Some (snapshot_spec snapshot))
    \<and> py_int (spec_price (snapshot_spec snapshot)) = Inr price \<and> price \<le> chain_budget job
    \<and> snapshot_client snapshot = chain_client job"
  using snapshot_verified[OF assms] by (simp add: job_verified_def)

theorem verified_job_sound_witness:
  "verify_signed_job_snapshot sale_chain 7 = Inr (Inr sale_snapshot)
   \<and> (\<exists>price. py_int (spec_price sale_spec) = Inr price \<and> price \<le> 6)"
  using verified_job_sound[OF sale_verified] sale_verified by (auto simp: sale_chain_def sale_job_def)



text \<open>
  C11: Every write that reserve, commit or release sends, whatever the store and the clock answer and
  wherever the operation stops, changes the wallet record by at most one admission, commitment or
  release after dropping expired entries; confirm writes nothing.
\<close>

theorem limiter_writes:
  "emits wallet_guarantee (reserve E L wallet rid)
   \<and> emits wallet_guarantee (commit E L r)
   \<and> emits wallet_guarantee (release E L r)
   \<and> emits (\<lambda>_. False) (confirm E L r)"
  by (intro conjI obeys_reserve obeys_commit obeys_release obeys_confirm) simp_all

text \<open>
  C12: The number of seconds a rejected caller is told to wait is exact: after it the oldest
  reservation has left the window, and one second earlier every reservation is still in it.
\<close>

theorem retry_after_exact:
  assumes "es \<noteq> []" "list_all (\<lambda>e. entry_time e > now - WINDOW_MILLISECONDS) es"
  shows "\<exists>e\<in>set es. (\<forall>f\<in>set es. entry_time e \<le> entry_time f)
    \<and> e \<notin> set (active_entries es (now + 1000 * retry_after es now))
    \<and> active_entries es (now + 1000 * (retry_after es now - 1)) = es"
proof -
  from retry_after_oldest[OF assms] obtain e where e: "e \<in> set es"
    "entry_time e \<le> now + 1000 * retry_after es now - WINDOW_MILLISECONDS"
    "now + 1000 * (retry_after es now - 1) < entry_time e + WINDOW_MILLISECONDS"
    "\<forall>f\<in>set es. entry_time e \<le> entry_time f" by blast
  then show ?thesis
    by (intro bexI[of _ e]) (fastforce simp: active_entries_def filter_id_conv)+
qed

theorem retry_after_exact_witness:
  "\<exists>e\<in>set [new_entry ''x402_a'' 5, new_entry ''x402_b'' 7].
     (\<forall>f\<in>set [new_entry ''x402_a'' 5, new_entry ''x402_b'' 7]. entry_time e \<le> entry_time f)
     \<and> e \<notin> set (active_entries [new_entry ''x402_a'' 5, new_entry ''x402_b'' 7]
         (9 + 1000 * retry_after [new_entry ''x402_a'' 5, new_entry ''x402_b'' 7] 9))
     \<and> active_entries [new_entry ''x402_a'' 5, new_entry ''x402_b'' 7]
         (9 + 1000 * (retry_after [new_entry ''x402_a'' 5, new_entry ''x402_b'' 7] 9 - 1))
       = [new_entry ''x402_a'' 5, new_entry ''x402_b'' 7]"
  by (rule retry_after_exact) (simp_all add: WINDOW_MILLISECONDS_def)

text \<open>
  C13: A payment that validation accepts is one the payer signed: one of the supported tokens, for
  exactly the price, to the configured recipient, inside its validity interval of at most an hour
  (unless expiry was waived), and with a signature that recovers to the payer over exactly these
  fields.
\<close>

theorem accepted_payment_sound:
  assumes "validate_proof_object V proof expected now allow_expired = Inr (Some p, why)"
  shows "payment_ok V now allow_expired p"
  using assms by (rule proof_object_sound)

theorem accepted_payment_sound_witness:
  "\<exists>p why. validate_proof_object demo_verifier demo_proof None 1000 False = Inr (Some p, why)
     \<and> payment_ok demo_verifier 1000 False p"
proof -
  from demo_accepted obtain p why
    where v: "validate_proof_object demo_verifier demo_proof None 1000 False = Inr (Some p, why)"
    by (auto split: sum.splits prod.splits option.splits)
  with accepted_payment_sound[OF v] show ?thesis by blast
qed

text \<open>
  C14: The recovery mode waives the expiry check and nothing else: a payment it accepts is accepted
  identically without it until its deadline and is rejected as expired afterwards.
\<close>

theorem recovery_bypasses_only_expiry:
  assumes "validate_proof_object V proof expected now True = Inr (Some p, why)"
  shows "validate_proof_object V proof expected now False =
    (if now < valid_before p then Inr (Some p, why) else reject ''authorization expired'')"
  using assms by (rule proof_object_allow_expired)

theorem recovery_bypasses_only_expiry_witness:
  "validate_proof_object demo_verifier demo_proof None 3000 False = reject ''authorization expired''"
proof -
  from demo_recovered obtain p why
    where v: "validate_proof_object demo_verifier demo_proof None 3000 True = Inr (Some p, why)"
      and "valid_before p = 2000"
    by (auto split: sum.splits prod.splits option.splits)
  with recovery_bypasses_only_expiry[OF v] show ?thesis by simp
qed

text \<open>
  C15: A payment header that decodes is the canonical base64 text of its bytes, within the size limits,
  and its document is not nested too deeply: no second header carries the same proof bytes.
\<close>

theorem decoded_header_canonical:
  assumes "decode_payment_signature V value = Some proof"
  shows "\<exists>raw. value = b64encode raw \<and> length raw \<le> MAX_PAYMENT_PROOF_BYTES
    \<and> length value \<le> MAX_PAYMENT_SIGNATURE_CHARACTERS
    \<and> json_depth (JDict proof) \<le> MAX_PAYMENT_PROOF_NESTING"
  using assms
  by (auto simp: decode_payment_signature_def has_bounded_nesting_depth
      elim!: as_dict.elims split: if_splits option.splits)

theorem decoded_header_canonical_witness:
  "\<exists>raw. ''e30='' = b64encode raw \<and> length raw \<le> MAX_PAYMENT_PROOF_BYTES
    \<and> length ''e30='' \<le> MAX_PAYMENT_SIGNATURE_CHARACTERS
    \<and> json_depth (JDict []) \<le> MAX_PAYMENT_PROOF_NESTING"
proof (rule decoded_header_canonical)
  show "decode_payment_signature demo_verifier ''e30='' = Some []" by code_simp
qed

text \<open>
  C16: The text a job identity is hashed from determines the payer and the nonce, whether the token is
  the original one, and otherwise the token: two payments with the same text are the same payment.
\<close>

theorem payment_identity_injective:
  assumes "canonical_payment_parts p = Inr (a1, n1, s1)" "canonical_payment_parts q = Inr (a2, n2, s2)"
    and "identity_material (token_symbol p) (a1, n1, s1) = identity_material (token_symbol q) (a2, n2, s2)"
  shows "a1 = a2 \<and> n1 = n2 \<and> (token_symbol p = ''U'' \<longleftrightarrow> token_symbol q = ''U'')
    \<and> (token_symbol p \<noteq> ''U'' \<longrightarrow> s1 = s2)"
  using assms by (rule identity_material_inj)

theorem payment_identity_injective_witness:
  "\<exists>a n s. canonical_payment_parts demo_payment = Inr (a, n, s)
     \<and> (token_symbol demo_payment = ''U'' \<longleftrightarrow> token_symbol demo_payment_respelled = ''U'')"
proof -
  have "(case canonical_payment_parts demo_payment of Inr parts \<Rightarrow>
      canonical_payment_parts demo_payment_respelled = Inr parts | _ \<Rightarrow> False)"
    by code_simp
  then obtain a n s where c: "canonical_payment_parts demo_payment = Inr (a, n, s)"
      "canonical_payment_parts demo_payment_respelled = Inr (a, n, s)"
    by (auto split: sum.splits)
  have "token_symbol demo_payment_respelled = token_symbol demo_payment"
    by (simp add: demo_payment_respelled_def)
  with c show ?thesis using payment_identity_injective[OF c] by simp
qed

text \<open>
  C17: A request that is accepted has one to ten symbols of at most twenty permitted characters, a
  bounded analysis type and well-typed remaining fields; normalising its symbols again changes
  nothing.
\<close>

theorem normalized_request_valid:
  assumes "normalize_request request = Inr normalized"
  shows "\<exists>ss at pf rp. normalized = [(''symbols'', JList (map JStr ss)), (''analysisType'', JStr at),
      (''portfolio'', JList pf), (''riskProfile'', JDict rp)]
    \<and> 1 \<le> length ss \<and> length ss \<le> 10 \<and> list_all symbol_ok ss \<and> length at \<le> 64
    \<and> request_symbols (dict_get normalized ''symbols'') = ss"
  using normalize_request_ok[OF assms] renormalize_symbols by fastforce

theorem normalized_request_valid_witness:
  "\<exists>ss at pf rp. normalize_request demo_request = Inr [(''symbols'', JList (map JStr ss)),
      (''analysisType'', JStr at), (''portfolio'', JList pf), (''riskProfile'', JDict rp)]
    \<and> 1 \<le> length ss \<and> list_all symbol_ok ss"
proof -
  have "(case normalize_request demo_request of Inr n \<Rightarrow> True | _ \<Rightarrow> False)" by code_simp
  then obtain n where n: "normalize_request demo_request = Inr n" by (auto split: sum.splits)
  with normalized_request_valid[OF n] show ?thesis by auto
qed


lemma run_job_never_fails:
  "obeys (service_guarantee (\<lambda>_ _ _. False)) (run_job E svc job_id) (\<lambda>_. True) (\<lambda>e. e = Cancelled)"
  unfolding run_job_def run_claimed_job_def by (intro hoare_rule svc_rule) auto

text \<open>
  C19: Only job creation calls the facilitator: status queries, resumption, accounting and the background
  execution never do, and their writes keep the contract; the execution raises nothing but its own
  cancellation.
\<close>

theorem only_create_settles:
  "emits (service_guarantee (\<lambda>_ _ _. False)) (get_job E svc job_id token)
   \<and> emits (service_guarantee (\<lambda>_ _ _. False)) (resume_job E svc job_id token)
   \<and> emits (service_guarantee (\<lambda>_ _ _. False)) (run_accounting E svc job_id delayed)
   \<and> obeys (service_guarantee (\<lambda>_ _ _. False)) (run_job E svc job_id) (\<lambda>_. True) (\<lambda>e. e = Cancelled)"
  by (intro conjI obeys_get_job obeys_resume_job obeys_run_accounting run_job_never_fails) simp_all



text \<open>
  C21: Replacing a job is a compare-and-swap on that map: with the tag of the stored object it
  installs the new record under a new tag and leaves every other job alone; with any other tag it
  raises \<open>JobConflict\<close> and changes nothing.
\<close>

theorem store_replace_refines:
  assumes "honest_objects E objs" "encode_job record = Inr body" "wire_json (JDict record)"
    "job_key cfg (record_job_id record) = Inr key" "objs (world s) (bucket cfg, key) = Some (old, tag)"
  shows "\<exists>r s'. store_replace E cfg stored record s = (r, s')
    \<and> (if tag = job_etag stored
       then \<exists>tag'. r = Inr \<lparr>job_record = record, job_etag = tag'\<rparr>
         \<and> job_view E cfg (objs (world s')) =
             (job_view E cfg (objs (world s)))(record_job_id record \<mapsto> (stored_form record, tag'))
       else r = Inl JobConflict \<and> objs (world s') = objs (world s))"
proof (cases "tag = job_etag stored")
  case True
  with store_replace_current[OF assms(1-4), of s old stored] assms(5) show ?thesis by auto
next
  case False
  with store_replace_stale[OF assms(1,2,4,5), of stored] show ?thesis by auto
qed

theorem store_replace_refines_witness:
  "\<exists>s'. store_replace ref_services ref_config \<lparr>job_record = [], job_etag = ''0''\<rparr>
      [(''jobId'', JStr (''x402_'' @ replicate 32 (CHR ''a'')))]
      \<lparr>world = \<lparr>objects = [((''jobs'', ''x402-jobs/x402_'' @ replicate 32 (CHR ''a'') @ ''/job.json''), (''{}'', ''7''))],
         tag_counter = 8, now_ms = 1, tick = 5\<rparr>, events = []\<rparr> = (Inl JobConflict, s')"
proof -
  let ?r = "[(''jobId'', JStr (''x402_'' @ replicate 32 (CHR ''a'')))]"
  let ?k = "''x402-jobs/x402_'' @ replicate 32 (CHR ''a'') @ ''/job.json''"
  let ?s = "\<lparr>world = \<lparr>objects = [((''jobs'', ?k), (''{}'', ''7''))], tag_counter = 8, now_ms = 1, tick = 5\<rparr>,
    events = []\<rparr> :: ref_world sys"
  have "encode_job ?r = Inr (utf8 (json_dumps compact_sorted (JDict ?r)))" by code_simp
  moreover have "wire_json (JDict ?r)" by simp
  moreover have "job_key ref_config (record_job_id ?r) = Inr ?k" by code_simp
  moreover have "map_of (objects (world ?s)) (bucket ref_config, ?k) = Some (''{}'', ''7'')"
    by (simp add: ref_config_def)
  ultimately show ?thesis
    using store_replace_refines[OF ref_honest, of ?r _ ref_config ?k ?s "''{}''" "''7''"
        "\<lparr>job_record = [], job_etag = ''0''\<rparr>"] by auto
qed

text \<open>
  C22: The bytes a job record is encoded to are decoded to the same record with its keys in
  order, so every field of it reads as it was written.
\<close>

theorem stored_record_roundtrip:
  assumes "encode_job record = Inr body" "wire_json (JDict record)"
  shows "json_loads E body = Inr (JDict (stored_form record))
    \<and> (\<forall>k. dict_get (stored_form record) k = printed_json True (dict_get record k))
    \<and> length body \<le> MAX_JOB_BYTES"
  using json_loads_job[OF assms] assms encode_job_body[OF assms(1)] by (auto simp: stored_form_get)

theorem stored_record_roundtrip_witness:
  "json_loads (ref_services :: ref_world services) ''{\"a\":[],\"b\":null}'' = Inr (JDict [(''a'', JList []), (''b'', JNull)])"
proof -
  let ?r = "[(''b'', JNull), (''a'', JList [])]"
  have "encode_job ?r = Inr ''{\"a\":[],\"b\":null}''" by code_simp
  moreover have "stored_form ?r = [(''a'', JList []), (''b'', JNull)]" by code_simp
  ultimately show ?thesis
    using stored_record_roundtrip[of ?r "''{\"a\":[],\"b\":null}''" "ref_services :: ref_world services"] by simp
qed

text \<open>
  C23: Every envelope the gateway builds from a public request is accepted by the envelope
  check of the agent, which sees the same request id, method, path, body, headers, client address
  and public base; and the JSON text that carries it decodes to the same message.
\<close>

theorem gateway_request_accepted:
  assumes "build_envelope sha event base = Inr env" "\<forall>m. length (sha m) = 32"
    "public_base expected = public_base base"
  shows "(\<exists>request ip headers. validate_request (JDict env) (JStr expected) = Inr request
      \<and> dict_get env ''requestId'' = JStr (env_request_id request)
      \<and> validated_route event = Inr (env_method request, env_path request)
      \<and> decode_body event = Inr (env_body request)
      \<and> allowed_headers (py_or (dict_get event ''headers'') (JDict [])) (dict_get event ''multiValueHeaders'')
          = Inr headers \<and> env_headers request = plain_headers headers
      \<and> trusted_source_ip event = Inr ip \<and> env_source_ip request = Some ip
      \<and> public_base base = Some (env_public_base_url request))
    \<and> Option.bind (utf8_decode (utf8 (json_dumps compact (rpc_request request_id env)))) (json_parse h)
        = Some (rpc_request request_id env)"
  using bridge_request[OF assms] rpc_request_delivered[OF assms(1)] by (rule conjI)

theorem gateway_request_accepted_witness:
  "\<exists>request. validate_request (JDict demo_envelope) (JStr (demo_base @ ''/'')) = Inr request
     \<and> validated_route demo_event = Inr (env_method request, env_path request)"
proof -
  have "public_base (demo_base @ ''/'') = public_base demo_base" by code_simp
  from gateway_request_accepted[OF demo_build _ this] show ?thesis
    by (auto simp: demo_digest_def)
qed

text \<open>
  C24: What the agent encodes from the messages of the application, when its header values have
  no line breaks or zero bytes, is accepted unchanged by the client of the gateway, and the
  handler answers with the status, headers and joined body of those messages when the body is
  text.
\<close>

theorem gateway_response_accepted:
  assumes "validate_and_encode_response request_id sent = Inr response" "plain_start sent"
    "length raw \<le> MAX_AGENTCORE_RESPONSE_BYTES"
    "response_parts E raw request_id =
       Some (JList [JDict [(''kind'', JStr ''data''), (''data'', JDict response)]])"
  shows "extract_response E (Some \<lparr>resp_status = JInt 200, resp_body = Some raw\<rparr>) request_id = Inr response
    \<and> (\<exists>status headers body. dict_get response ''status'' = JInt status
      \<and> dict_get response ''headers'' = JDict headers
      \<and> join_bodies (filter (\<lambda>message. msg_type message = ''http.response.body'')
          (tl (dropWhile (\<lambda>message. \<not> is_start message) sent))) = Inr body
      \<and> gateway_success response = (case utf8_decode body of
          None \<Rightarrow> Inl InvalidAgentResponse
        | Some text \<Rightarrow> Inr [(''statusCode'', JInt status), (''headers'', JDict headers),
            (''isBase64Encoded'', JBool False), (''body'', JStr text)]))"
  using bridge_extract[OF assms] bridge_success[OF assms(1)] by (rule conjI)

theorem gateway_response_accepted_witness:
  "extract_response demo_gateway (Some \<lparr>resp_status = JInt 200, resp_body = Some demo_raw\<rparr>) demo_request_id
     = Inr demo_response"
  using gateway_response_accepted[OF demo_encoded demo_plain demo_raw_bound demo_parts] by (rule conjunct1)

text \<open>
  C25: The gateway answers with the response of the agent or with one of a fixed list of failures,
  whose body is its code alone; a failure is marked as retryable exactly when its status is 503,
  and it says that the settlement status is unknown exactly when the call of the agent timed out.
\<close>

theorem gateway_answers:
  "(\<exists>envelope header c1 w1 response. event_envelope E app event = Inr envelope
      \<and> authorization_header E c w = (Inr header, c1, w1)
      \<and> fst (invoke E (runtime_url app) envelope header w1) = Inr response
      \<and> gateway_success response = Inr (fst (gateway_handle E app event c w)))
   \<or> (\<exists>e. handle_fails E app event c w e \<and> (\<exists>(st, code, retry)\<in>set public_failures.
      fst (gateway_handle E app event c w) = safe_error st code retry \<and> (retry \<longleftrightarrow> st = 503)
      \<and> (code = ''settlement_status_unknown'' \<longleftrightarrow> e = AgentInvocationTimeout)))"
proof -
  have "\<exists>(st, code, retry)\<in>set public_failures. gateway_failure e = safe_error st code retry
      \<and> (retry \<longleftrightarrow> st = 503) \<and> (code = ''settlement_status_unknown'' \<longleftrightarrow> e = AgentInvocationTimeout)"
    if "handle_fails E app event c w e" for e
    using that by (rule handle_failure_public)
  with gateway_handle_outcome[of E app event c w] show ?thesis by fastforce
qed


text \<open>
  C27: A request without a payment header that is not for a stored job leaves no trace:
  no write, no settlement, no task, whatever its path and body are.
\<close>

theorem unpaid_requests_write_nothing:
  assumes "handled scope" "job_match (scope_path scope) = None"
    and "request_header scope ''payment-signature'' = None \<or> request_header scope ''payment-signature'' = Some []"
  shows "events (snd (x402_call E A scope messages s)) = events s"
proof -
  have "obeys (\<lambda>_. False) (x402_call E A scope messages) (\<lambda>_. True) (\<lambda>_. True)"
    using assms unfolding x402_call_def handled_def Let_def
    by (auto intro!: obeys_return obeys_weaken[OF obeys_price] obeys_weaken[OF obeys_tracked])
  from obeys_events[OF this prod.collapse[symmetric], of s] show ?thesis
    by (cases "x402_call E A scope messages s") (auto simp: list_all_iff)
qed

theorem unpaid_requests_write_nothing_witness:
  "\<forall>E A messages s. events (snd (x402_call E A \<lparr>scope_type = ''http'', scope_path = ''/x402/analyze/async'',
     scope_method = Some ''POST'', scope_scheme = None, scope_headers = [(''accept'', ''application/json'')],
     scope_public_base_url = None\<rparr> messages s)) = events s"
  by (intro allI unpaid_requests_write_nothing)
     (simp_all add: handled_def request_header_def starts_with_def job_match_def job_route_def bytes_lower_def
       is_upper_az_def)




text \<open>
  C30: A delivery gateway that is accepted over HTTPS has a name on the allow list and port 443, and
  every address its name resolved to, like every IPv4 address embedded in one, is an address of
  the public Internet. The only other accepted gateways are loopback ones, where those are enabled.
\<close>

theorem gateway_targets_public:
  assumes "validate_gateway_origin N allow_private url = Inr r"
  shows "origin_addresses r \<noteq> [] \<and>
    (origin_scheme r = ''https'' \<and> origin_port r = 443
       \<and> gateway_host_allowed (gateway_env N) (origin_hostname r) = Inr True
       \<and> (\<forall>t\<in>set (origin_addresses r). \<exists>a. ip_parse t = Some a \<and> internet_address a
            \<and> (\<forall>v\<in>set (embedded_ipv4 a). internet_address v))
     \<or> origin_scheme r = ''http'' \<and> private_gateways_allowed (gateway_env N) allow_private
       \<and> (\<forall>t\<in>set (origin_addresses r). \<exists>a. ip_parse t = Some a \<and> is_loopback a))"
  using assms by (rule gateway_origin_safe)

theorem gateway_targets_public_witness:
  "validate_gateway_origin relay_dns None relay_url = Inr relay_origin
   \<and> origin_addresses relay_origin \<noteq> []"
  using relay_validated gateway_targets_public[OF relay_validated] by blast

text \<open>
  C31: An accepted notification was signed by the client of the job: the signer recovered from the
  typed data of exactly this job, chain, contract, context, expiry and nonce is the expected one,
  the authorization is within its time window, and the context is the signed text, within its
  limits, with the digest of its bytes. What is put into the prompt reads back as what was signed.
\<close>

theorem notify_authorization_sound:
  assumes "verify_notify_authorization L authorization job_id client chain_id contract now = Inr ctx"
  shows "\<exists>m signature recovered signer d.
      authorization = JDict d \<and> dict_get d ''signature'' = JStr signature
      \<and> dict_get d ''context'' = JStr (msg_context m) \<and> dict_get d ''expires_at'' = JInt (msg_expires_at m)
      \<and> dict_get d ''nonce'' = JStr (msg_nonce m)
      \<and> job_id = JInt (msg_job_id m) \<and> chain_id = JInt (msg_chain_id m) \<and> checksum L contract = Inr (msg_contract m)
      \<and> now - 30 \<le> msg_expires_at m \<and> msg_expires_at m \<le> now + 600
      \<and> recover_typed L (notify_typed_data m) signature = Inr recovered
      \<and> checksum L recovered = Inr signer \<and> checksum L client = Inr signer
      \<and> (\<forall>m'. notify_typed_data m' = notify_typed_data m \<longleftrightarrow> m' = m)
      \<and> context_digest ctx = bytes_hex (notify_sha L (utf8 (msg_context m)))
      \<and> context_ok ctx \<and> parse_portfolio (portfolio_for_prompt ctx) = Some (context_portfolio ctx)"
proof -
  from authorization_sound[OF assms] obtain m signature recovered signer d where
    "authorization = JDict d" "dict_get d ''signature'' = JStr signature"
      "dict_get d ''context'' = JStr (msg_context m)" "dict_get d ''expires_at'' = JInt (msg_expires_at m)"
      "dict_get d ''nonce'' = JStr (msg_nonce m)"
      "job_id = JInt (msg_job_id m)" "chain_id = JInt (msg_chain_id m)" "checksum L contract = Inr (msg_contract m)"
      "now - 30 \<le> msg_expires_at m" "msg_expires_at m \<le> now + 600"
      "recover_typed L (notify_typed_data m) signature = Inr recovered"
      "checksum L recovered = Inr signer" "checksum L client = Inr signer"
    and parsed: "parse_signed_context (notify_sha L) (notify_float L) (msg_context m) = Inr ctx" by blast
  with parse_context_ok[OF parsed] prompt_portfolio_back[of ctx] typed_data_injective show ?thesis by metis
qed

theorem notify_authorization_sound_witness:
  "\<exists>ctx. verify_notify_authorization
     \<lparr>checksum = Inr, recover_typed = (\<lambda>typed signature. Inr ''0xclient''), notify_sha = (\<lambda>b. b), notify_float = (\<lambda>t. NaN)\<rparr>
     (JDict [(''context'', JStr ''{}''), (''expires_at'', JInt 1000), (''nonce'', JStr (''0x'' @ replicate 64 (CHR ''0''))),
        (''signature'', JStr (replicate 130 (CHR ''0'')))]) (JInt 7) ''0xclient'' (JInt 97) ''0xcontract'' 900 = Inr ctx
     \<and> context_ok ctx"
proof -
  let ?L = "\<lparr>checksum = Inr, recover_typed = (\<lambda>typed signature. Inr ''0xclient''), notify_sha = (\<lambda>b. b), notify_float = (\<lambda>t. NaN)\<rparr>"
  define ctx where "ctx = \<lparr>context_digest = ''7b7d'', gateway_url = None, gateway_token = None,
    context_portfolio = [], context_risk_profile = None\<rparr>"
  have "verify_notify_authorization ?L
     (JDict [(''context'', JStr ''{}''), (''expires_at'', JInt 1000), (''nonce'', JStr (''0x'' @ replicate 64 (CHR ''0''))),
        (''signature'', JStr (replicate 130 (CHR ''0'')))]) (JInt 7) ''0xclient'' (JInt 97) ''0xcontract'' 900 = Inr ctx"
    unfolding ctx_def by code_simp
  from this notify_authorization_sound[OF this] show ?thesis by blast
qed

text \<open>
  C32: A storage provider of a buyer's relay sends one upload request, and at most one request per
  read, which only goes to a payload path of its own origin; every connection it opens goes to an
  address that was validated for that origin: a public one on port 443, or a loopback one where
  that is enabled, whatever host the request names.
\<close>

theorem uomp_requests_confined:
  assumes "uomp_gateway_storage_provider N url token = Inr p"
  shows "snd (snd (uomp_upload (logged U) p data (w, []))) = [upload_request p data]
    \<and> (case snd (snd (uomp_download (logged U) p payload (w, []))) of
        [] \<Rightarrow> validate_payload_url p payload = None
      | q # qs \<Rightarrow> qs = [] \<and> (\<exists>path. payload_path_re path \<and> q = read_request p ''GET'' (origin (provider_validated p) @ path)))
    \<and> (case snd (snd (uomp_exists (logged U) p payload (w, []))) of
        [] \<Rightarrow> validate_payload_url p payload = None
      | q # qs \<Rightarrow> qs = [] \<and> (\<exists>path. payload_path_re path \<and> q = read_request p ''HEAD'' (origin (provider_validated p) @ path)))
    \<and> (\<forall>(t, port)\<in>set (snd (snd (pinned_connect (recorded P) (provider_validated p) host timeout deadline (w', [])))).
        \<exists>a. ip_parse t = Some a
          \<and> (internet_address a \<and> port = 443
             \<or> is_loopback a \<and> private_gateways_allowed (gateway_env N) None))"
proof -
  from provider_base_origin[OF assms] have r: "validate_gateway_origin N None url = Inr (provider_validated p)"
    and base: "provider_base p = origin (provider_validated p)" by simp_all
  let ?c = "pinned_connect (recorded P) (provider_validated p) host timeout deadline (w', [])"
  have "set (snd (snd ?c)) \<subseteq> (\<lambda>a. (a, origin_port (provider_validated p))) ` set (origin_addresses (provider_validated p))"
    using pinned_connections[of P "provider_validated p" host timeout deadline w'] by (metis prod.collapse)
  with gateway_origin_safe[OF r] have "\<forall>(t, port)\<in>set (snd (snd ?c)). \<exists>a. ip_parse t = Some a
      \<and> (internet_address a \<and> port = 443 \<or> is_loopback a \<and> private_gateways_allowed (gateway_env N) None)"
    by fastforce
  moreover note upload_request_only[of U p data w]
  moreover have "validate_payload_url p payload = Some t \<Longrightarrow> \<exists>path. payload_path_re path
      \<and> t = origin (provider_validated p) @ path" for t using payload_url_target[of p payload t] base by simp
  ultimately show ?thesis
    by (cases "validate_payload_url p payload") (auto simp: download_requests exists_requests)
qed

theorem uomp_requests_confined_witness:
  "\<exists>p. uomp_gateway_storage_provider relay_dns relay_url ''token'' = Inr p
     \<and> snd (snd (uomp_upload (logged relay_server) p [] (relay_response, []))) = [upload_request p []]"
proof -
  obtain p where p: "uomp_gateway_storage_provider relay_dns relay_url ''token'' = Inr p"
    using provider_made[OF relay_validated] by blast
  from p uomp_requests_confined[OF p, of relay_server "[]" relay_response "''x''" relay_network "''h''" 30 None "()"]
  show ?thesis by blast
qed

text \<open>
  C33: The URL that an upload answers is a payload URL of the provider's own origin, is accepted
  unchanged by the check of later reads, and is the very URL that the download then requests.
\<close>

theorem uploaded_payload_readable:
  assumes "uomp_gateway_storage_provider N url token = Inr p" "uomp_upload U p data w = (Inr stored_url, w')"
  shows "(\<exists>path. payload_path_re path \<and> stored_url = origin (provider_validated p) @ path)
    \<and> validate_payload_url p stored_url = Some stored_url
    \<and> snd (snd (uomp_download (logged V) p stored_url (v, []))) = [read_request p ''GET'' stored_url]"
proof -
  from assms(2) obtain result where "payload_url p result = Inr stored_url"
    by (auto simp: uomp_upload_def then_step_Inr)
  from payload_url_path[OF this] obtain path where path: "payload_path_re path" "stored_url = provider_base p @ path" by blast
  have "validate_payload_url p stored_url = Some stored_url" using payload_url_accepted[OF assms(1) path(1)] path(2) by simp
  with path provider_base_origin[OF assms(1)] show ?thesis by (auto simp: download_requests)
qed

theorem uploaded_payload_readable_witness:
  "\<exists>p u. uomp_gateway_storage_provider relay_dns relay_url ''token'' = Inr p
     \<and> uomp_upload relay_server p [] relay_response = (Inr u, []) \<and> validate_payload_url p u = Some u"
proof -
  obtain p where p: "uomp_gateway_storage_provider relay_dns relay_url ''token'' = Inr p"
    using provider_made[OF relay_validated] by blast
  from p relay_upload[of p "[]"] uploaded_payload_readable[OF p relay_upload, of relay_server "[]"] show ?thesis by blast
qed

text \<open>
  C34: However the relay answers, an upload takes at most 65537 bytes of the response in at most 65538
  reads and a download at most 2097153 bytes in 2097154 reads, and no response beyond the limit is
  parsed; the reads return at most what they are asked for.
\<close>

theorem payload_reads_bounded:
  assumes "reads_at_most U"
  shows "fst (snd (snd (uomp_upload (metered U) p data (w, 0, 0)))) \<le> 65537
    \<and> snd (snd (snd (uomp_upload (metered U) p data (w, 0, 0)))) \<le> 65538
    \<and> fst (snd (snd (uomp_download (metered U) p url (w, 0, 0)))) \<le> 2097153
    \<and> snd (snd (snd (uomp_download (metered U) p url (w, 0, 0)))) \<le> 2097154
    \<and> (\<forall>limit deadline v w'. read_bounded_json U deadline limit w = (Inr v, w') \<longrightarrow>
        (\<exists>body text. read_chunks U deadline limit [] w = (Inr body, w') \<and> length body \<le> limit
          \<and> json_text body = Some text \<and> json_parse (default_hooks (uomp_float U)) text = Some v))"
  using upload_metered[OF assms, of "(0, 0)" p data w] download_metered[OF assms, of "(0, 0)" p url w]
  by (auto simp: meter_within_def MAX_UPLOAD_RESPONSE_BYTES_def MAX_DOWNLOAD_RESPONSE_BYTES_def dest: bounded_json)

theorem payload_reads_bounded_witness:
  "\<exists>p. uomp_gateway_storage_provider relay_dns relay_url ''token'' = Inr p
     \<and> fst (snd (snd (uomp_upload (metered relay_server) p [] (relay_response, 0, 0)))) \<le> 65537"
proof -
  obtain p where p: "uomp_gateway_storage_provider relay_dns relay_url ''token'' = Inr p"
    using provider_made[OF relay_validated] by blast
  from p payload_reads_bounded[OF relay_reads, of p "[]" relay_response "''x''"] show ?thesis by blast
qed

text \<open>
  C35: Over every sequence of streams made and closed, transfers and closing, the socket below is closed
  at most once: as soon as a deadline has passed, or else exactly when the socket and all streams
  made from it are closed. A socket that is closed gives no more streams.
\<close>

theorem deadline_socket_closed:
  assumes "socket_run d ios late"
  shows "raw_closes d \<le> 1 \<and> (raw_closes d = 1 \<longleftrightarrow> late \<or> sock_closed d \<and> open_streams ios = 0)
    \<and> makefile_refs d = open_streams ios
    \<and> (late \<or> sock_closed d \<longrightarrow> acquire_makefile d = Inl OtherException)"
  using socket_run_inv[OF assms] by (auto simp: socket_inv_def acquire_makefile_def split: if_splits)

theorem deadline_socket_closed_witness:
  "socket_run finished_socket [closed_io] False \<and> raw_closes finished_socket \<le> 1"
  using finished_socket_run deadline_socket_closed[OF finished_socket_run] by simp

text \<open>
  C37: With a store that keeps its objects, a deliverable that is uploaded is downloaded unchanged
  (with sorted keys) from the URL that was answered, now and as long as the object is there; and
  whatever a download answers was read under a key of the configured prefix, is the canonical text
  of its value within two megabytes, and has the digest that the URL names.
\<close>

theorem deliverables_content_addressed:
  assumes "s3_config_from_env env = Inr cfg" "plain_base (s3_public_base cfg)" "honest_s3 S objs"
    "\<forall>bs. length (s3_sha S bs) = 32" "wire_json (JDict data)"
    "length (utf8 (json_dumps compact_sorted (JDict data))) \<le> MAX_DOWNLOAD_BYTES" "safe_stem filename = Inr stem"
  shows "(\<exists>url w'. s3_upload S cfg (JDict data) filename w = (Inr url, w')
      \<and> (\<forall>v. objs w' \<subseteq>\<^sub>m objs v \<longrightarrow> fst (s3_download S cfg url v) = Inr (stored_form data)))
    \<and> (\<forall>url v d v'. s3_download S cfg url v = (Inr d, v') \<longrightarrow>
      (\<exists>name digest declared reads. object_digest name = Some digest \<and> CHR ''/'' \<notin> set name
        \<and> s3_get S (s3_bucket cfg) (s3_prefix cfg @ ''/'' @ name) v = (Inr (declared, reads), v')
        \<and> reads (MAX_DOWNLOAD_BYTES + 1) = Inr (utf8 (json_dumps compact_sorted (JDict d)))
        \<and> length (utf8 (json_dumps compact_sorted (JDict d))) \<le> MAX_DOWNLOAD_BYTES
        \<and> bytes_hex (s3_sha S (utf8 (json_dumps compact_sorted (JDict d)))) = digest))"
  using upload_download[OF assms, of w] download_checked[of S cfg] by blast

theorem deliverables_content_addressed_witness:
  "s3_config_from_env shelf_env = Inr shelf_config
   \<and> (\<exists>url w'. s3_upload shelf shelf_config (JDict [(''report'', JStr ''ok'')]) None Map.empty = (Inr url, w')
      \<and> fst (s3_download shelf shelf_config url w') = Inr (stored_form [(''report'', JStr ''ok'')]))"
proof -
  have sha: "\<forall>bs. length (s3_sha shelf bs) = 32" by (simp add: shelf_def)
  have wire: "wire_json (JDict [(''report'', JStr ''ok'')])" by simp
  have "length (utf8 (json_dumps compact_sorted (JDict [(''report'', JStr ''ok'')]))) = 15" by code_simp
  then have len: "length (utf8 (json_dumps compact_sorted (JDict [(''report'', JStr ''ok'')]))) \<le> MAX_DOWNLOAD_BYTES"
    by (simp add: MAX_DOWNLOAD_BYTES_def del: json_dumps.simps)
  have stem: "safe_stem None = Inr ''manifest''" by code_simp
  from deliverables_content_addressed[OF shelf_configured shelf_plain shelf_honest sha wire len stem, of Map.empty]
  obtain url w' where "s3_upload shelf shelf_config (JDict [(''report'', JStr ''ok'')]) None Map.empty = (Inr url, w')"
    "\<forall>v. id w' \<subseteq>\<^sub>m id v \<longrightarrow> fst (s3_download shelf shelf_config url v) = Inr (stored_form [(''report'', JStr ''ok'')])"
    by blast
  then show ?thesis using shelf_configured by (metis map_le_refl)
qed

text \<open>
  C38: A report is the rendering of a validated object that stands in a bounded answer of the model, or the
  fixed failure report; the model is asked at most twice, and at most 64 candidates are tried.
\<close>

theorem delivered_reports_validated:
  assumes "generate_validated_report h validate render run correction question session w = (Inr delivered, w')"
  shows "(delivered = SAFE_FAILURE_REPORT \<or> (\<exists>asked v v' s i d r. (asked = question \<and> v = w \<or> asked = correction)
      \<and> run asked session v = (Inr (JStr s), v') \<and> length (utf8 s) \<le> 2097152
      \<and> i < length s \<and> s ! i = CHR ''{'' \<and> raw_decode h s i = Some (JDict d)
      \<and> validate d = Some r \<and> delivered = render r))
    \<and> snd (snd (generate_validated_report h validate render (heard run) correction question session (w, [])))
        \<in> {[(question, session)], [(question, session), (correction, session)]}
    \<and> length (json_candidates h text) \<le> 64"
proof (intro conjI model_calls)
  show "delivered = SAFE_FAILURE_REPORT \<or> (\<exists>asked v v' s i d r. (asked = question \<and> v = w \<or> asked = correction)
      \<and> run asked session v = (Inr (JStr s), v') \<and> length (utf8 s) \<le> 2097152
      \<and> i < length s \<and> s ! i = CHR ''{'' \<and> raw_decode h s i = Some (JDict d)
      \<and> validate d = Some r \<and> delivered = render r)"
    by (cases "delivered = SAFE_FAILURE_REPORT") (simp, rule report_sound[OF assms], assumption, metis)
  show "length (json_candidates h text) \<le> 64" using candidates_bounded by (simp add: MAX_JSON_CANDIDATES_def)
qed

theorem delivered_reports_validated_witness:
  "generate_validated_report (default_hooks (\<lambda>t. NaN)) Some (\<lambda>d. ''rendered'') (\<lambda>p s w. (Inr (JStr ''see {}''), w))
     ''again'' ''question'' ''session'' () = (Inr ''rendered'', ())
   \<and> ''rendered'' \<noteq> SAFE_FAILURE_REPORT
   \<and> length (json_candidates (default_hooks (\<lambda>t. NaN)) ''see {}'') \<le> 64"
proof -
  have run: "generate_validated_report (default_hooks (\<lambda>t. NaN)) Some (\<lambda>d. ''rendered'') (\<lambda>p s w. (Inr (JStr ''see {}''), w))
     ''again'' ''question'' ''session'' () = (Inr ''rendered'', ())" by code_simp
  have "''rendered'' \<noteq> SAFE_FAILURE_REPORT" by code_simp
  with run delivered_reports_validated[OF run] show ?thesis by blast
qed

text \<open>
  C39: The prompt of an analysis is the fixed template filled with at most ten distinct tickers, one of
  three analysis types, and the texts of validated holdings and of a validated risk profile: no other
  text of the client reaches it. The tickers of a request of the job service are kept in order.
\<close>

theorem prompt_fields_safe:
  assumes "build_stock_analysis_prompt template fixed2 flt job_text portfolio profile = (question, symbols)"
  shows "distinct symbols \<and> length symbols \<le> 10 \<and> list_all ticker_re symbols
    \<and> (\<exists>analysis_type holdings risk. question = template (build_prompt_texts fixed2 symbols analysis_type holdings risk)
        \<and> analysis_type \<in> set ANALYSIS_TYPES \<and> length holdings \<le> 50 \<and> list_all holding_ok holdings
        \<and> (case risk of None \<Rightarrow> True | Some r \<Rightarrow> risk_profile_ok r))
    \<and> (\<forall>ss kind. job_text = JStr (task_json ss kind) \<and> ss \<noteq> [] \<and> distinct ss \<and> length ss \<le> 10 \<and> list_all ticker_re ss
        \<longrightarrow> symbols = ss)"
proof -
  obtain task analysis_type holdings risk where f: "normalize_job_fields flt job_text = (task, symbols, analysis_type)"
    and c: "normalize_context portfolio profile = (holdings, risk)"
    and q: "question = template (build_prompt_texts fixed2 symbols analysis_type holdings risk)"
    using assms by (auto simp: build_stock_analysis_prompt_def split: prod.splits)
  have "symbols = ss" if "job_text = JStr (task_json ss kind)" "ss \<noteq> []" "symbols_ok ss" for ss kind
    using service_symbols_kept[OF that(3,2), of flt kind] f that(1) by simp
  with job_fields_ok[OF f] context_fields_ok[OF c] q show ?thesis by (auto simp: symbols_ok_def MAX_SYMBOLS_def)
qed

theorem prompt_fields_safe_witness:
  "\<exists>question. build_stock_analysis_prompt symbol_list (\<lambda>v. ''0.00'') (\<lambda>t. NaN) (JStr (task_json [''AAPL'', ''TSM''] JNull)) JNull JNull
     = (question, [''AAPL'', ''TSM''])"
proof -
  obtain question symbols where p: "build_stock_analysis_prompt symbol_list (\<lambda>v. ''0.00'') (\<lambda>t. NaN)
      (JStr (task_json [''AAPL'', ''TSM''] JNull)) JNull JNull = (question, symbols)" by fastforce
  have "list_all ticker_re [''AAPL'', ''TSM'']" by code_simp
  moreover have "[''AAPL'', ''TSM''] \<noteq> []" "distinct [''AAPL'', ''TSM'']" "length [''AAPL'', ''TSM''] \<le> 10" by simp_all
  ultimately have "symbols = [''AAPL'', ''TSM'']" using prompt_fields_safe[OF p] by blast
  with p show ?thesis by blast
qed

text \<open>
  C40: At most 32 usage events are being delivered at any time, each with only the five fields of a usage
  event; a delivery posts to the configured endpoint at most twice, as does the report of a competition
  call, which is accepted only after an answer of the 200s.
\<close>

theorem usage_reports_bounded:
  assumes "usage_run reporter" "event \<in> set (usage_tasks reporter)"
  shows "length (usage_tasks reporter) \<le> 32 \<and> usage_event_ok event
    \<and> (\<exists>k\<le>2. snd (snd (deliver_usage (noted P) (usage_config reporter) event (w, [])))
        = replicate k (usage_post (usage_config reporter) event))
    \<and> (\<exists>k\<le>2. \<exists>q. snd (snd (competition_report (noted P) checked cfg 2 event_id adr called_at (w, []))) = replicate k q
        \<and> post_url q = competition_url cfg \<and> post_token q = competition_token cfg)
    \<and> (\<forall>v v'. competition_report P checked cfg 2 event_id adr called_at v = (Inr True, v') \<longrightarrow>
        (\<exists>q v0 answer. post_url q = competition_url cfg \<and> send_post P q v0 = (Answered answer, v') \<and> http_success answer))"
proof -
  have inv: "length (usage_tasks reporter) \<le> 32" "usage_event_ok event"
    using usage_run_inv[OF assms(1)] assms(2) by (auto simp: usage_inv_def MAX_ACTIVE_TASKS_def list_all_iff)
  have "\<exists>k\<le>2. snd (snd (deliver_usage (noted P) (usage_config reporter) event (w, [])))
      = replicate k (usage_post (usage_config reporter) event)"
    using usage_posts[of 2 P "usage_post (usage_config reporter) event" w "[]"] by (simp add: deliver_usage_def MAX_ATTEMPTS_def)
  with inv competition_reports[of P checked cfg event_id adr called_at w] competition_accepted[of P checked cfg 2 event_id adr called_at]
  show ?thesis by blast
qed

theorem usage_reports_bounded_witness:
  "usage_run note_reporter \<and> (\<exists>k\<le>2. snd (snd (deliver_usage (noted note_server) (usage_config note_reporter) (hd (usage_tasks note_reporter)) ((), [])))
     = replicate k (usage_post (usage_config note_reporter) (hd (usage_tasks note_reporter))))"
proof -
  have "hd (usage_tasks note_reporter) \<in> set (usage_tasks note_reporter)" by (simp add: note_reporter_def)
  from note_reporter_run usage_reports_bounded[OF note_reporter_run this, of note_server "()" Inr undefined] show ?thesis by blast
qed

section \<open>Further facts\<close>

text \<open>With a digest of 32 bytes every derived job id has the form the store and the limiter accept.\<close>

lemma derived_job_id:
  assumes "\<forall>bs. length (sha256 E bs) = 32" "derive_identity E svc payment = Inr identity"
  shows "job_id_re (identity_job_id identity)
    \<and> job_key (svc_store svc) (identity_job_id identity)
      = Inr (key_prefix (svc_store svc) @ ''/'' @ identity_job_id identity @ ''/job.json'')"
  using identity_job_id_re[of E svc payment identity] assms by (simp add: job_key_def)

text \<open>Whatever the store agrees to write as a wallet record is well formed and bounded.\<close>

lemma wallet_encoding_checked:
  assumes "encode_wallet_rate_limit v = Inr body"
  shows "\<exists>record. v = JDict record \<and> entries_ok (wallet_entries record)
    \<and> length body \<le> MAX_WALLET_RATE_LIMIT_BYTES"
  using encode_wallet_dict[OF assms] encode_wallet_entries assms by blast

text \<open>
  When sleeping only returns or is cancelled, the limiter lets out nothing but its documented
  exceptions: exceeded (reserve only), unavailable, cancellation, and the ValueError for malformed
  arguments of reserve. A reservation that is returned carries the requested id.
\<close>

lemma limiter_errors:
  assumes "sleeps E"
  shows "obeys wallet_guarantee (reserve E L wallet rid) (\<lambda>r. reservation_id r = rid)
      (\<lambda>e. reserve_exn e \<or> e = ValueError)
    \<and> obeys wallet_guarantee (commit E L r) (\<lambda>_. True) limiter_exn
    \<and> obeys wallet_guarantee (release E L r) (\<lambda>_. True) limiter_exn
    \<and> obeys wallet_guarantee (confirm E L r) (\<lambda>st. st = ''active'' \<or> st = ''expired'') limiter_exn"
  using assms
  by (auto intro!: obeys_reserve obeys_commit obeys_release obeys_confirm simp: reservation_for_def)

text \<open>
  An access token is used from the cache, with no call but the clock, until thirty seconds before
  it expires by the clock read after it was fetched; from then on the client fetches a new one.
\<close>

lemma token_reuse:
  assumes "authorization_header E c w = (Inr header, c', w')" "monotonic E w' = (now, w1)"
  shows "(\<exists>token. header = ''Bearer '' @ token \<and> oauth_token c' = Some token
      \<and> (c' = c \<or> (\<exists>secret v v' t expires_in. fetch_token E secret v = (Inr (token, expires_in), v')
            \<and> monotonic E v' = (t, w') \<and> refresh_at c' = t + of_int (max 0 (expires_in - 30)))))
    \<and> (now < refresh_at c' \<longrightarrow> authorization_header E c' w' = (Inr header, c', w1))
    \<and> (\<not> now < refresh_at c' \<longrightarrow> (\<forall>header2 c2 w2. authorization_header E c' w' = (Inr header2, c2, w2) \<longrightarrow>
        (\<exists>secret v v' token expires_in. header2 = ''Bearer '' @ token
          \<and> fetch_token E secret v = (Inr (token, expires_in), v') \<and> snd (monotonic E v') = w2)))"
proof -
  from authorization_fresh[OF assms(1)] obtain token where t: "header = ''Bearer '' @ token"
    "oauth_token c' = Some token"
    "c' = c \<or> (\<exists>secret v v' t expires_in. fetch_token E secret v = (Inr (token, expires_in), v')
       \<and> monotonic E v' = (t, w') \<and> refresh_at c' = t + of_int (max 0 (expires_in - 30)))" by blast
  have "now < refresh_at c' \<longrightarrow> authorization_header E c' w' = (Inr header, c', w1)"
    using authorization_cached[OF t(2) assms(2)] t(1) by simp
  moreover have "\<exists>secret v v' token expires_in. header2 = ''Bearer '' @ token
      \<and> fetch_token E secret v = (Inr (token, expires_in), v') \<and> snd (monotonic E v') = w2"
    if "\<not> now < refresh_at c'" "authorization_header E c' w' = (Inr header2, c2, w2)" for header2 c2 w2
    using authorization_fresh[OF that(2)] that(1) assms(2) by (metis Pair_inject snd_conv)
  ultimately show ?thesis using t by blast
qed

text \<open>
  The iterative nesting check of payment proofs agrees with the recursive definition of depth, in
  whatever order it visits the document.
\<close>

lemma nesting_check_exact:
  "has_bounded_json_nesting v \<longleftrightarrow> json_depth v \<le> MAX_PAYMENT_PROOF_NESTING"
  by (rule has_bounded_nesting_depth)

text \<open>
  The body that is read is the concatenation of the chunks up to the first message that is the
  last of the request, with other messages skipped, and it is read exactly when the client stays
  until then and the whole body has at most 262144 bytes.
\<close>

lemma request_body_exact:
  "read_body ASYNC_BODY_MAX_BYTES [] messages = BodyRead b \<longleftrightarrow>
     (\<exists>pre c post. messages = pre @ RequestMessage c False # post \<and> list_all continues pre
        \<and> b = concat (map chunk_of pre) @ chunk_of (RequestMessage c False)) \<and> length b \<le> 262144"
  by (simp add: read_body_exact whole_body_def ASYNC_BODY_MAX_BYTES_def)

end
